(* ===== verification/Prelude.thy ===== *)
theory Prelude
  imports Main "HOL-Library.Sublist"
begin

text \<open>
  Shared by every component of the development: Go errors as values, the outcome of a Go
  function (a value, a non-nil error, a panic), the state-passing computations the
  controllers are written in, and the calculus that lifts a reflexive and transitive
  relation on states over these computations. The collections \<open>const_defs\<close> (the string
  constants of the API), \<open>go_run\<close> (what one computation does to one state) and
  \<open>go_ok\<close> (how a computation came to succeed) carry the proofs of the components.
\<close>

named_theorems const_defs \<open>definitions of the string constants of the API\<close>
named_theorems go_run \<open>running one computation from one state\<close>
named_theorems go_eval \<open>evaluating a computation on a concrete state\<close>
named_theorems go_ok \<open>how a computation came to succeed\<close>

section \<open>Go errors\<close>

text \<open>
  The controllers tell errors apart only by the tests \<^verbatim>\<open>apierrors.IsNotFound\<close>,
  the conflict test of the retry helper, \<^verbatim>\<open>errors.Is(err, errNothingToDoHere)\<close> and
  \<^verbatim>\<open>err == io.EOF\<close>: the kind of an error is kept by \<^verbatim>\<open>%w\<close> wrapping.
\<close>

datatype err_kind = NotFound | Conflict | NothingToDoHere | EOF | OtherErr

datatype go_error = Error (ekind: err_kind) (emsg: string)

definition IsNotFound :: "go_error \<Rightarrow> bool" where
  "IsNotFound e \<longleftrightarrow> ekind e = NotFound"

definition IsConflict :: "go_error \<Rightarrow> bool" where
  "IsConflict e \<longleftrightarrow> ekind e = Conflict"

text \<open>
  \<open>msgtxt\<close> marks the text of a message. It is the identity; its congruence rule keeps the
  simplifier from walking through the characters of the text.
\<close>

definition msgtxt :: "string \<Rightarrow> string" where
  "msgtxt s = s"

lemma msgtxt_cong [cong]: "msgtxt s = msgtxt s"
  by (rule refl)

definition errorf :: "string \<Rightarrow> go_error" where
  "errorf msg = Error OtherErr msg"

definition errorf_w :: "string \<Rightarrow> go_error \<Rightarrow> go_error" where
  "errorf_w pre e = Error (ekind e) (pre @ '': '' @ emsg e)"

lemma ekind_errorf_w [simp]: "ekind (errorf_w pre e) = ekind e"
  by (simp add: errorf_w_def)

lemma IsNotFound_errorf_w [simp]: "IsNotFound (errorf_w pre e) = IsNotFound e"
  by (simp add: IsNotFound_def)

section \<open>Computations\<close>

datatype 'a outcome = Ok 'a | Err go_error | Panic string

type_synonym ('s, 'a) go = "'s \<Rightarrow> 'a outcome \<times> 's"

definition ret :: "'a \<Rightarrow> ('s, 'a) go" where
  "ret x = (\<lambda>s. (Ok x, s))"

definition fail :: "go_error \<Rightarrow> ('s, 'a) go" where
  "fail e = (\<lambda>s. (Err e, s))"

definition panic :: "string \<Rightarrow> ('s, 'a) go" where
  "panic p = (\<lambda>s. (Panic p, s))"

definition gets :: "('s \<Rightarrow> 'a) \<Rightarrow> ('s, 'a) go" where
  "gets f = (\<lambda>s. (Ok (f s), s))"

definition modify :: "('s \<Rightarrow> 's) \<Rightarrow> ('s, unit) go" where
  "modify f = (\<lambda>s. (Ok (), f s))"

text \<open>
  \<open>onErr m h k\<close> is the Go statement \<^verbatim>\<open>x, err := m; if err != nil { h }; k\<close>:
  an error goes to \<open>h\<close>, a value to \<open>k\<close>, a panic unwinds through both.
\<close>

definition onErr :: "('s, 'a) go \<Rightarrow> (go_error \<Rightarrow> ('s, 'b) go) \<Rightarrow> ('a \<Rightarrow> ('s, 'b) go) \<Rightarrow> ('s, 'b) go" where
  "onErr m h k = (\<lambda>s. case m s of
      (Ok x, s') \<Rightarrow> k x s'
    | (Err e, s') \<Rightarrow> h e s'
    | (Panic p, s') \<Rightarrow> (Panic p, s'))"

text \<open>\<open>bindE m k\<close> returns the error of \<open>m\<close> as it is; \<open>andThen\<close> drops the value.\<close>

definition bindE :: "('s, 'a) go \<Rightarrow> ('a \<Rightarrow> ('s, 'b) go) \<Rightarrow> ('s, 'b) go" where
  "bindE m k = onErr m fail k"

definition andThen :: "('s, 'a) go \<Rightarrow> ('s, 'b) go \<Rightarrow> ('s, 'b) go" where
  "andThen m k = bindE m (\<lambda>_. k)"

text \<open>\<open>wrapE pre m\<close>: the error of \<open>m\<close> wrapped by \<^verbatim>\<open>fmt.Errorf("pre: %w", err)\<close>.\<close>

definition wrapE :: "string \<Rightarrow> ('s, 'a) go \<Rightarrow> ('s, 'a) go" where
  "wrapE pre m = onErr m (\<lambda>e. fail (errorf_w pre e)) ret"

text \<open>\<open>attempt m\<close> hands the error of \<open>m\<close> on as a value, for code that inspects it later.\<close>

definition attempt :: "('s, 'a) go \<Rightarrow> ('s, go_error + 'a) go" where
  "attempt m = onErr m (\<lambda>e. ret (Inl e)) (\<lambda>x. ret (Inr x))"

text \<open>
  \<open>deferred m d\<close>: \<open>d\<close> runs when \<open>m\<close> has returned, failed or panicked; a panic of
  \<open>d\<close> replaces the outcome of \<open>m\<close>.
\<close>

definition deferred :: "('s, 'a) go \<Rightarrow> ('s, unit) go \<Rightarrow> ('s, 'a) go" where
  "deferred m d = (\<lambda>s. case m s of (r, s') \<Rightarrow>
    (case d s' of
       (Panic p, s'') \<Rightarrow> (Panic p, s'')
     | (Ok _, s'') \<Rightarrow> (r, s'')
     | (Err _, s'') \<Rightarrow> (r, s'')))"

text \<open>
  \<open>retryOnConflict n m\<close> is \<^verbatim>\<open>retry.RetryOnConflict\<close> with at most \<open>n\<close> attempts
  after the first: a conflict starts the function again, everything else is returned.
\<close>

fun retryOnConflict :: "nat \<Rightarrow> ('s, 'a) go \<Rightarrow> ('s, 'a) go" where
  "retryOnConflict 0 m = m"
| "retryOnConflict (Suc n) m =
    onErr m (\<lambda>e. if IsConflict e then retryOnConflict n m else fail e) ret"

fun forE :: "'a list \<Rightarrow> ('a \<Rightarrow> ('s, unit) go) \<Rightarrow> ('s, unit) go" where
  "forE [] f = ret ()"
| "forE (x # xs) f = andThen (f x) (forE xs f)"

text \<open>Running a computation, step by step.\<close>

lemma run_basic [go_run]:
  "ret x s = (Ok x, s)" "fail e s = (Err e, s)" "panic p s = (Panic p, s)"
  "gets f s = (Ok (f s), s)" "modify g s = (Ok (), g s)"
  by (simp_all add: ret_def fail_def panic_def gets_def modify_def)

lemma run_onErr [go_run]:
  "m s = (Ok x, s') \<Longrightarrow> onErr m h k s = k x s'"
  "m s = (Err e, s') \<Longrightarrow> onErr m h k s = h e s'"
  "m s = (Panic p, s') \<Longrightarrow> onErr m h k s = (Panic p, s')"
  by (simp_all add: onErr_def)

lemma run_bindE [go_run]:
  "m s = (Ok x, s') \<Longrightarrow> bindE m k s = k x s'"
  "m s = (Err e, s') \<Longrightarrow> bindE m k s = (Err e, s')"
  "m s = (Panic p, s') \<Longrightarrow> bindE m k s = (Panic p, s')"
  by (simp_all add: bindE_def run_onErr run_basic)

lemma run_andThen [go_run]:
  "m s = (Ok x, s') \<Longrightarrow> andThen m k s = k s'"
  "m s = (Err e, s') \<Longrightarrow> andThen m k s = (Err e, s')"
  "m s = (Panic p, s') \<Longrightarrow> andThen m k s = (Panic p, s')"
  by (simp_all add: andThen_def run_bindE)

lemma run_wrapE [go_run]:
  "m s = (Ok x, s') \<Longrightarrow> wrapE pre m s = (Ok x, s')"
  "m s = (Err e, s') \<Longrightarrow> wrapE pre m s = (Err (errorf_w pre e), s')"
  "m s = (Panic p, s') \<Longrightarrow> wrapE pre m s = (Panic p, s')"
  by (simp_all add: wrapE_def run_onErr run_basic)

lemma run_attempt [go_run]:
  "m s = (Ok x, s') \<Longrightarrow> attempt m s = (Ok (Inr x), s')"
  "m s = (Err e, s') \<Longrightarrow> attempt m s = (Ok (Inl e), s')"
  "m s = (Panic p, s') \<Longrightarrow> attempt m s = (Panic p, s')"
  by (simp_all add: attempt_def run_onErr run_basic)

lemma run_deferred [go_run]:
  "m s = (r, s') \<Longrightarrow> d s' = (Ok (), s'') \<Longrightarrow> deferred m d s = (r, s'')"
  "m s = (r, s') \<Longrightarrow> d s' = (Panic p, s'') \<Longrightarrow> deferred m d s = (Panic p, s'')"
  by (simp_all add: deferred_def)

text \<open>Evaluation on a concrete state, one case distinction per step.\<close>

lemma eval_onErr [go_eval]:
  "onErr m h k s = (case m s of (r, t) \<Rightarrow>
    (case r of Ok x \<Rightarrow> k x t | Err e \<Rightarrow> h e t | Panic p \<Rightarrow> (Panic p, t)))"
  by (auto simp: onErr_def split: prod.splits outcome.splits)

lemma eval_bindE [go_eval]:
  "bindE m k s = (case m s of (r, t) \<Rightarrow>
    (case r of Ok x \<Rightarrow> k x t | Err e \<Rightarrow> (Err e, t) | Panic p \<Rightarrow> (Panic p, t)))"
  by (auto simp: bindE_def eval_onErr run_basic split: prod.splits outcome.splits)

lemma eval_andThen [go_eval]:
  "andThen m k s = (case m s of (r, t) \<Rightarrow>
    (case r of Ok x \<Rightarrow> k t | Err e \<Rightarrow> (Err e, t) | Panic p \<Rightarrow> (Panic p, t)))"
  by (auto simp: andThen_def eval_bindE split: prod.splits outcome.splits)

lemma eval_wrapE [go_eval]:
  "wrapE pre m s = (case m s of (r, t) \<Rightarrow>
    (case r of Ok x \<Rightarrow> (Ok x, t) | Err e \<Rightarrow> (Err (errorf_w pre e), t) | Panic p \<Rightarrow> (Panic p, t)))"
  by (auto simp: wrapE_def eval_onErr run_basic split: prod.splits outcome.splits)

lemma eval_deferred [go_eval]:
  "deferred m d s = (case m s of (r, t) \<Rightarrow> (case d t of (q, u) \<Rightarrow>
    (case q of Ok x \<Rightarrow> (r, u) | Err e \<Rightarrow> (r, u) | Panic p \<Rightarrow> (Panic p, u))))"
  by (auto simp: deferred_def split: prod.splits outcome.splits)

lemmas eval_basic [go_eval] = run_basic retryOnConflict.simps(1)

text \<open>How a computation came to succeed.\<close>

lemma ok_basic [go_ok]:
  "ret x s = (Ok y, s') \<longleftrightarrow> y = x \<and> s' = s"
  "fail e s = (Ok y, s') \<longleftrightarrow> False"
  "panic p s = (Ok y, s') \<longleftrightarrow> False"
  "gets f s = (Ok z, s') \<longleftrightarrow> z = f s \<and> s' = s"
  by (auto simp: run_basic)

lemma ok_onErr:
  "onErr m h k s = (Ok y, s') \<longleftrightarrow>
    (\<exists>x t. m s = (Ok x, t) \<and> k x t = (Ok y, s')) \<or> (\<exists>e t. m s = (Err e, t) \<and> h e t = (Ok y, s'))"
  by (auto simp: onErr_def split: prod.splits outcome.splits)

lemma ok_bindE [go_ok]:
  "bindE m k s = (Ok y, s') \<longleftrightarrow> (\<exists>x t. m s = (Ok x, t) \<and> k x t = (Ok y, s'))"
  by (simp add: bindE_def ok_onErr ok_basic)

lemma ok_andThen [go_ok]:
  "andThen m k s = (Ok y, s') \<longleftrightarrow> (\<exists>x t. m s = (Ok x, t) \<and> k t = (Ok y, s'))"
  by (simp add: andThen_def ok_bindE)

lemma ok_wrapE [go_ok]: "wrapE pre m s = (Ok y, s') \<longleftrightarrow> m s = (Ok y, s')"
  by (auto simp: wrapE_def ok_onErr ok_basic)

text \<open>A retried computation succeeds as its last attempt does.\<close>

lemma ok_retryOnConflict: "retryOnConflict n m s = (Ok x, s') \<Longrightarrow> \<exists>t. m t = (Ok x, s')"
proof (induction n arbitrary: s)
  case (Suc n)
  then consider t where "m s = (Ok x, t)" "ret x t = (Ok x, s')" | e t where "m s = (Err e, t)"
      "(if IsConflict e then retryOnConflict n m else fail e) t = (Ok x, s')"
    unfolding retryOnConflict.simps ok_onErr ok_basic by blast
  then show ?case
  proof cases
    case 1
    then show ?thesis by (auto simp: ok_basic)
  next
    case 2
    then show ?thesis using Suc.IH by (cases "IsConflict e") (auto simp: ok_basic)
  qed
qed auto

section \<open>Relations kept by every step\<close>

text \<open>
  \<open>steps R m\<close>: whatever the outcome of \<open>m\<close>, the states before and after are related
  by \<open>R\<close>. For a preorder \<open>R\<close> this is compositional; the two uses are "only calls of
  this kind were added to the history" and "this part of the state is unchanged".
\<close>

definition steps :: "('s \<Rightarrow> 's \<Rightarrow> bool) \<Rightarrow> ('s, 'a) go \<Rightarrow> bool" where
  "steps R m \<longleftrightarrow> (\<forall>s. R s (snd (m s)))"

lemma stepsI: "(\<And>s. R s (snd (m s))) \<Longrightarrow> steps R m"
  by (simp add: steps_def)

lemma stepsD: "steps R m \<Longrightarrow> m s = (r, s') \<Longrightarrow> R s s'"
  by (metis snd_conv steps_def)

lemma steps_mono: "steps R m \<Longrightarrow> (\<And>s s'. R s s' \<Longrightarrow> R' s s') \<Longrightarrow> steps R' m"
  by (simp add: steps_def)

locale preorder_steps =
  fixes R :: "'s \<Rightarrow> 's \<Rightarrow> bool"
  assumes R_refl: "R s s"
    and R_trans: "R s t \<Longrightarrow> R t u \<Longrightarrow> R s u"
begin

lemma basic: "steps R (ret x)" "steps R (fail e)" "steps R (panic p)" "steps R (gets f)"
  by (simp_all add: steps_def run_basic R_refl)

lemma modify: "(\<And>s. R s (f s)) \<Longrightarrow> steps R (modify f)"
  by (simp add: steps_def run_basic)

lemma onErr:
  assumes "steps R m" and "\<And>e. steps R (h e)" and "\<And>x. steps R (k x)"
  shows "steps R (onErr m h k)"
proof (rule stepsI)
  fix s
  obtain r t where mt: "m s = (r, t)" by (cases "m s")
  have st: "R s t" using assms(1) mt by (rule stepsD)
  show "R s (snd (onErr m h k s))"
  proof (cases r)
    case (Ok x)
    have "R t (snd (k x t))" using assms(3) by (simp add: steps_def)
    with st Ok mt show ?thesis by (auto simp: go_run intro: R_trans)
  next
    case (Err e)
    have "R t (snd (h e t))" using assms(2) by (simp add: steps_def)
    with st Err mt show ?thesis by (auto simp: go_run intro: R_trans)
  next
    case (Panic p)
    with st mt show ?thesis by (simp add: go_run)
  qed
qed

lemma bindE: "steps R m \<Longrightarrow> (\<And>x. steps R (k x)) \<Longrightarrow> steps R (bindE m k)"
  by (simp add: bindE_def onErr basic)

text \<open>With what is known of the values \<open>m\<close> can return.\<close>

lemma bindE_value:
  assumes "steps R m" and "\<And>x s s'. m s = (Ok x, s') \<Longrightarrow> steps R (k x)"
  shows "steps R (bindE m k)"
proof (rule stepsI)
  fix s
  obtain r t where mt: "m s = (r, t)" by (cases "m s")
  have st: "R s t" using assms(1) mt by (rule stepsD)
  show "R s (snd (bindE m k s))"
  proof (cases r)
    case (Ok x)
    then have "R t (snd (k x t))" using assms(2) mt by (simp add: steps_def)
    with st Ok mt show ?thesis by (auto simp: go_run intro: R_trans)
  qed (use st mt in \<open>simp_all add: go_run\<close>)
qed

lemma andThen: "steps R m \<Longrightarrow> steps R k \<Longrightarrow> steps R (andThen m k)"
  by (simp add: andThen_def bindE)

lemma wrapE: "steps R m \<Longrightarrow> steps R (wrapE pre m)"
  by (simp add: wrapE_def onErr basic)

lemma attempt: "steps R m \<Longrightarrow> steps R (attempt m)"
  by (simp add: attempt_def onErr basic)

lemma deferred:
  assumes "steps R m" and "steps R d"
  shows "steps R (deferred m d)"
proof (rule stepsI)
  fix s
  obtain r t where m: "m s = (r, t)" by (cases "m s")
  obtain q u where d: "d t = (q, u)" by (cases "d t")
  have "R s u" using stepsD [OF assms(1) m] stepsD [OF assms(2) d] by (rule R_trans)
  with m d show "R s (snd (deferred m d s))"
    by (cases q) (simp_all add: deferred_def)
qed

lemma retryOnConflict: "steps R m \<Longrightarrow> steps R (retryOnConflict n m)"
  by (induction n) (auto intro: onErr simp: basic)

lemma forE: "(\<And>x. x \<in> set xs \<Longrightarrow> steps R (f x)) \<Longrightarrow> steps R (forE xs f)"
  by (induction xs) (auto intro: andThen simp: basic)

lemma if_step: "(b \<Longrightarrow> steps R m) \<Longrightarrow> (\<not> b \<Longrightarrow> steps R n) \<Longrightarrow> steps R (if b then m else n)"
  by simp

lemma option_step:
  "(x = None \<Longrightarrow> steps R m) \<Longrightarrow> (\<And>y. x = Some y \<Longrightarrow> steps R (f y)) \<Longrightarrow>
   steps R (case x of None \<Rightarrow> m | Some y \<Rightarrow> f y)"
  by (cases x) simp_all

lemma sum_step:
  "(\<And>a. x = Inl a \<Longrightarrow> steps R (f a)) \<Longrightarrow> (\<And>b. x = Inr b \<Longrightarrow> steps R (g b)) \<Longrightarrow>
   steps R (case x of Inl a \<Rightarrow> f a | Inr b \<Rightarrow> g b)"
  by (cases x) simp_all

lemma prod_step: "(\<And>a b. x = (a, b) \<Longrightarrow> steps R (f a b)) \<Longrightarrow> steps R (case x of (a, b) \<Rightarrow> f a b)"
  by (cases x) simp

lemma list_step:
  "(x = [] \<Longrightarrow> steps R m) \<Longrightarrow> (\<And>y ys. x = y # ys \<Longrightarrow> steps R (f y ys)) \<Longrightarrow>
   steps R (case x of [] \<Rightarrow> m | y # ys \<Rightarrow> f y ys)"
  by (cases x) simp_all

lemma let_step: "steps R (f x) \<Longrightarrow> steps R (let y = x in f y)"
  by simp

lemmas structural = basic onErr bindE andThen wrapE attempt deferred retryOnConflict if_step option_step sum_step
  prod_step list_step let_step

end

section \<open>Lists\<close>

text \<open>The first element a predicate holds of, as the early returns of a loop find it.\<close>

lemma find_None_all: "find P xs = None \<longleftrightarrow> (\<forall>x\<in>set xs. \<not> P x)"
  by (auto simp: find_None_iff)

lemma list_ex_split: "list_ex P xs \<Longrightarrow> \<exists>us x vs. xs = us @ x # vs \<and> P x"
  by (metis list_ex_iff split_list)

lemma find_Some_split:
  "find P xs = Some x \<Longrightarrow> \<exists>ys zs. xs = ys @ x # zs \<and> P x \<and> (\<forall>y\<in>set ys. \<not> P y)"
proof (induction xs)
  case (Cons y ys)
  show ?case
  proof (cases "P y")
    case True
    with Cons.prems show ?thesis by (intro exI [of _ "[]"] exI [of _ ys]) auto
  next
    case False
    with Cons obtain us zs where "ys = us @ x # zs" "P x" "\<forall>u\<in>set us. \<not> P u" by auto
    with False show ?thesis by (intro exI [of _ "y # us"] exI [of _ zs]) auto
  qed
qed simp

end
