(* ===== verification/Constants.thy ===== *)
theory Constants
  imports Prelude
begin

text \<open>
  The string constants of \<^verbatim>\<open>api/v1alpha1/constants\<close>, one definition each under the
  name the code gives it and with its value; a constant the code builds from another is
  built the same way. The definitions are in the collection \<open>const_defs\<close>.
\<close>

section \<open>Operation reasons shared by nodes and clusters\<close>

definition OperationReasonInitialized :: string where [const_defs]:
  "OperationReasonInitialized = ''Initialized''"

definition OperationReasonAutomaticallyTriggered :: string where [const_defs]:
  "OperationReasonAutomaticallyTriggered = ''AutomaticallyTriggered''"

definition OperationReasonStarted :: string where [const_defs]:
  "OperationReasonStarted = ''Started''"

definition OperationReasonCompleted :: string where [const_defs]:
  "OperationReasonCompleted = ''Completed''"

definition OperationReasonConflict :: string where [const_defs]:
  "OperationReasonConflict = ''Conflict''"

definition OperationReasonTimedOut :: string where [const_defs]:
  "OperationReasonTimedOut = ''TimedOut''"

definition OperationReasonTimeoutValidationFailed :: string where [const_defs]:
  "OperationReasonTimeoutValidationFailed = ''TimeoutValidationFailed''"

section \<open>Annotations\<close>

definition NodeAnnotationFQDNOverride :: string where [const_defs]:
  "NodeAnnotationFQDNOverride = ''talos.rtl.de/fqdn-override''"

definition NodeAnnotationConnectHostOverride :: string where [const_defs]:
  "NodeAnnotationConnectHostOverride = ''talos.rtl.de/connect-host-override''"

definition NodeK8sAnnotationNextMaintenanceWindow :: string where [const_defs]:
  "NodeK8sAnnotationNextMaintenanceWindow = ''talos.rtl.de/next-maintenance-window''"

section \<open>Roles, reset modes, finalizer\<close>

definition NodeRoleControlplane :: string where [const_defs]:
  "NodeRoleControlplane = ''controlplane''"

definition NodeRoleWorker :: string where [const_defs]:
  "NodeRoleWorker = ''worker''"

definition NodeResetModeAll :: string where [const_defs]:
  "NodeResetModeAll = ''all''"

definition NodeResetModeSystemDisk :: string where [const_defs]:
  "NodeResetModeSystemDisk = ''system-disk''"

definition NodeResetModeUserDisks :: string where [const_defs]:
  "NodeResetModeUserDisks = ''user-disks''"

definition NodeFinalizer :: string where [const_defs]:
  "NodeFinalizer = ''talos.rtl.de/finalizer''"

section \<open>Node operation types, phases and reasons\<close>

definition NodeOperationTypeProvision :: string where [const_defs]:
  "NodeOperationTypeProvision = ''Provision''"

definition NodeOperationTypeBootstrap :: string where [const_defs]:
  "NodeOperationTypeBootstrap = ''Bootstrap''"

definition NodeOperationTypeApply :: string where [const_defs]:
  "NodeOperationTypeApply = ''Apply''"

definition NodeOperationTypeKubernetesComponentUpgrade :: string where [const_defs]:
  "NodeOperationTypeKubernetesComponentUpgrade = ''KubernetesComponentUpgrade''"

definition NodeOperationTypeShutdown :: string where [const_defs]:
  "NodeOperationTypeShutdown = ''Shutdown''"

definition NodeOperationTypeReboot :: string where [const_defs]:
  "NodeOperationTypeReboot = ''Reboot''"

definition NodeOperationTypeReset :: string where [const_defs]:
  "NodeOperationTypeReset = ''Reset''"

definition NodeOperationPhasePending :: string where [const_defs]:
  "NodeOperationPhasePending = ''Pending''"

definition NodeOperationPhaseDraining :: string where [const_defs]:
  "NodeOperationPhaseDraining = ''Draining''"

definition NodeOperationPhaseApplying :: string where [const_defs]:
  "NodeOperationPhaseApplying = ''Applying''"

definition NodeOperationPhaseVerifying :: string where [const_defs]:
  "NodeOperationPhaseVerifying = ''Verifying''"

definition NodeOperationPhaseDone :: string where [const_defs]:
  "NodeOperationPhaseDone = ''Done''"

definition NodeOperationPhaseFailed :: string where [const_defs]:
  "NodeOperationPhaseFailed = ''Failed''"

definition NodeReasonConfigGenerationFailed :: string where [const_defs]:
  "NodeReasonConfigGenerationFailed = ''ConfigGenerationFailed''"

definition NodeReasonConfigSerializationFailed :: string where [const_defs]:
  "NodeReasonConfigSerializationFailed = ''ConfigSerializationFailed''"

definition NodeReasonNodeReachable :: string where [const_defs]:
  "NodeReasonNodeReachable = ''NodeReachable''"

definition NodeReasonNodeUnreachable :: string where [const_defs]:
  "NodeReasonNodeUnreachable = ''NodeUnreachable''"

definition NodeOperationReasonAlreadyProvisionedNode :: string where [const_defs]:
  "NodeOperationReasonAlreadyProvisionedNode = ''AlreadyProvisionedNode''"

definition NodeOperationReasonAlreadyProvisionedTarget :: string where [const_defs]:
  "NodeOperationReasonAlreadyProvisionedTarget = ''AlreadyProvisionedTarget''"

definition NodeOperationReasonConfigOutOfSync :: string where [const_defs]:
  "NodeOperationReasonConfigOutOfSync = ''ConfigOutOfSync''"

definition NodeOperationReasonFailedApply :: string where [const_defs]:
  "NodeOperationReasonFailedApply = ''FailedApply''"

definition NodeOperationReasonFailedBootstrap :: string where [const_defs]:
  "NodeOperationReasonFailedBootstrap = ''FailedBootstrap''"

definition NodeOperationReasonFailedDrain :: string where [const_defs]:
  "NodeOperationReasonFailedDrain = ''FailedDrain''"

definition NodeOperationReasonFailedImageValidation :: string where [const_defs]:
  "NodeOperationReasonFailedImageValidation = ''FailedImageValidation''"

definition NodeOperationReasonFailedPowerOperation :: string where [const_defs]:
  "NodeOperationReasonFailedPowerOperation = ''FailedPowerOperation''"

definition NodeOperationReasonFailedReboot :: string where [const_defs]:
  "NodeOperationReasonFailedReboot = ''FailedReboot''"

definition NodeOperationReasonFailedReset :: string where [const_defs]:
  "NodeOperationReasonFailedReset = ''FailedReset''"

definition NodeOperationReasonFailedUncordon :: string where [const_defs]:
  "NodeOperationReasonFailedUncordon = ''FailedUncordon''"

definition NodeOperationReasonFailedUpgrade :: string where [const_defs]:
  "NodeOperationReasonFailedUpgrade = ''FailedUpgrade''"

definition NodeOperationReasonInvalidArguments :: string where [const_defs]:
  "NodeOperationReasonInvalidArguments = ''InvalidArguments''"

definition NodeOperationReasonInvalidComponentForRole :: string where [const_defs]:
  "NodeOperationReasonInvalidComponentForRole = ''InvalidComponentForRole''"

definition NodeOperationReasonNodeDeletionCleanup :: string where [const_defs]:
  "NodeOperationReasonNodeDeletionCleanup = ''NodeDeletionCleanup''"

definition NodeOperationReasonRebootRequested :: string where [const_defs]:
  "NodeOperationReasonRebootRequested = ''RebootRequested''"

definition NodeOperationReasonRebootRequired :: string where [const_defs]:
  "NodeOperationReasonRebootRequired = ''RebootRequired''"

definition NodeOperationReasonSkippedConfigInSync :: string where [const_defs]:
  "NodeOperationReasonSkippedConfigInSync = ''SkippedConfigInSync''"

definition NodeOperationReasonSkippedDisabledComponent :: string where [const_defs]:
  "NodeOperationReasonSkippedDisabledComponent = ''SkippedDisabledComponent''"

definition NodeOperationReasonSkippedDrain :: string where [const_defs]:
  "NodeOperationReasonSkippedDrain = ''SkippedDrain''"

definition NodeOperationReasonSkippedProvisioning :: string where [const_defs]:
  "NodeOperationReasonSkippedProvisioning = ''SkippedProvisioning''"

definition NodeOperationReasonSkippedUpgrade :: string where [const_defs]:
  "NodeOperationReasonSkippedUpgrade = ''SkippedUpgrade''"

definition NodeOperationReasonSuccessfulApply :: string where [const_defs]:
  "NodeOperationReasonSuccessfulApply = ''SuccessfulApply''"

definition NodeOperationReasonSuccessfulDrain :: string where [const_defs]:
  "NodeOperationReasonSuccessfulDrain = ''SuccessfulDrain''"

definition NodeOperationReasonSuccessfulUpgrade :: string where [const_defs]:
  "NodeOperationReasonSuccessfulUpgrade = ''SuccessfulUpgrade''"

definition NodeOperationReasonTimedOutVerifyingApply :: string where [const_defs]:
  "NodeOperationReasonTimedOutVerifyingApply = OperationReasonTimedOut @ ''VerifyingApply''"

definition NodeOperationReasonTimedOutVerifyingProvision :: string where [const_defs]:
  "NodeOperationReasonTimedOutVerifyingProvision = OperationReasonTimedOut @ ''VerifyingProvision''"

definition NodeOperationReasonTimedOutVerifyingReboot :: string where [const_defs]:
  "NodeOperationReasonTimedOutVerifyingReboot = OperationReasonTimedOut @ ''VerifyingReboot''"

definition NodeOperationReasonTimedOutVerifyingUpgrade :: string where [const_defs]:
  "NodeOperationReasonTimedOutVerifyingUpgrade = OperationReasonTimedOut @ ''VerifyingUpgrade''"

definition NodeOperationReasonTimedOutStartingUpgrade :: string where [const_defs]:
  "NodeOperationReasonTimedOutStartingUpgrade = OperationReasonTimedOut @ ''StartingUpgrade''"

definition NodeOperationReasonUnknownComponent :: string where [const_defs]:
  "NodeOperationReasonUnknownComponent = ''UnknownComponent''"

definition NodeOperationReasonUpgradeRequired :: string where [const_defs]:
  "NodeOperationReasonUpgradeRequired = ''UpgradeRequired''"

definition NodeOperationReasonUpgradeNotRequired :: string where [const_defs]:
  "NodeOperationReasonUpgradeNotRequired = ''UpgradeNotRequired''"

definition NodeOperationReasonProgramError :: string where [const_defs]:
  "NodeOperationReasonProgramError = ''ProgramError''"

definition NodeOperationReasonKubernetesReady :: string where [const_defs]:
  "NodeOperationReasonKubernetesReady = ''KubernetesReady''"

definition NodeOperationReasonKubernetesNotReadySkippedDrain :: string where [const_defs]:
  "NodeOperationReasonKubernetesNotReadySkippedDrain = ''KubernetesNotReadySkippedDrain''"

section \<open>Phases of Apply\<close>

definition NodeOperationPhasePrefixApply :: string where [const_defs]:
  "NodeOperationPhasePrefixApply = ''Apply''"

definition NodeOperationPhaseApplyDrain :: string where [const_defs]:
  "NodeOperationPhaseApplyDrain = NodeOperationPhasePrefixApply @ ''Drain''"

definition NodeOperationPhaseApplyVerifying :: string where [const_defs]:
  "NodeOperationPhaseApplyVerifying = NodeOperationPhasePrefixApply @ ''Verifying''"

section \<open>Kubernetes component upgrades\<close>

definition NodeOperationPhaseKubeletReboot :: string where [const_defs]:
  "NodeOperationPhaseKubeletReboot = ''KubeletReboot''"

definition NodeOperationPhaseVerifyReboot :: string where [const_defs]:
  "NodeOperationPhaseVerifyReboot = ''VerifyReboot''"

definition NodeOperationReasonSuccessfulReboot :: string where [const_defs]:
  "NodeOperationReasonSuccessfulReboot = ''SuccessfulReboot''"

definition KubernetesComponentAPIServer :: string where [const_defs]:
  "KubernetesComponentAPIServer = ''apiserver''"

definition KubernetesComponentControllerManager :: string where [const_defs]:
  "KubernetesComponentControllerManager = ''controllerManager''"

definition KubernetesComponentScheduler :: string where [const_defs]:
  "KubernetesComponentScheduler = ''scheduler''"

definition KubernetesComponentKubelet :: string where [const_defs]:
  "KubernetesComponentKubelet = ''kubelet''"

section \<open>Phases of Provision\<close>

definition NodeOperationPhaseProvisioning :: string where [const_defs]:
  "NodeOperationPhaseProvisioning = ''Provisioning''"

definition NodeOperationPhaseProvisionVerifying :: string where [const_defs]:
  "NodeOperationPhaseProvisionVerifying = ''ProvisionVerifying''"

section \<open>Phases and reasons of Upgrade\<close>

definition NodeOperationTypeUpgrade :: string where [const_defs]:
  "NodeOperationTypeUpgrade = ''Upgrade''"

definition NodeOperationPhasePrefixUpgrade :: string where [const_defs]:
  "NodeOperationPhasePrefixUpgrade = ''Upgrade''"

definition NodeOperationPhaseUpgradeDrain :: string where [const_defs]:
  "NodeOperationPhaseUpgradeDrain = NodeOperationPhasePrefixUpgrade @ ''Drain''"

definition NodeOperationPhaseUpgradePreflight :: string where [const_defs]:
  "NodeOperationPhaseUpgradePreflight = NodeOperationPhasePrefixUpgrade @ ''Preflight''"

definition NodeOperationPhaseUpgradeVerifying :: string where [const_defs]:
  "NodeOperationPhaseUpgradeVerifying = NodeOperationPhasePrefixUpgrade @ ''Verifying''"

definition NodeOperationPhaseUpgradeUncordon :: string where [const_defs]:
  "NodeOperationPhaseUpgradeUncordon = NodeOperationPhasePrefixUpgrade @ ''Uncordon''"

definition NodeOperationPhaseUpgrade113ImagePull :: string where [const_defs]:
  "NodeOperationPhaseUpgrade113ImagePull = NodeOperationPhasePrefixUpgrade @ ''113ImagePull''"

definition NodeOperationPhaseUpgrade113Upgrade :: string where [const_defs]:
  "NodeOperationPhaseUpgrade113Upgrade = NodeOperationPhasePrefixUpgrade @ ''113Upgrade''"

definition NodeOperationPhaseUpgradeLegacyUpgrade :: string where [const_defs]:
  "NodeOperationPhaseUpgradeLegacyUpgrade = NodeOperationPhasePrefixUpgrade @ ''LegacyUpgrade''"

definition failedGRPCCall :: string where [const_defs]:
  "failedGRPCCall = ''FailedGRPCCall''"

definition NodeOperationReasonUpgradePathPost113 :: string where [const_defs]:
  "NodeOperationReasonUpgradePathPost113 = ''UpgradePathPost113''"

definition NodeOperationReasonUpgradePathPre113 :: string where [const_defs]:
  "NodeOperationReasonUpgradePathPre113 = ''UpgradePathPre113''"

definition NodeOperationReasonFailedGRPCCallImagePull :: string where [const_defs]:
  "NodeOperationReasonFailedGRPCCallImagePull = failedGRPCCall @ ''ImagePull''"

definition NodeOperationReasonFailedGRPCCallImagePullBadResult :: string where [const_defs]:
  "NodeOperationReasonFailedGRPCCallImagePullBadResult = failedGRPCCall @ ''ImagePullBadResult''"

definition NodeOperationReasonFailedGRPCCallLifecycleClientUpgrade :: string where [const_defs]:
  "NodeOperationReasonFailedGRPCCallLifecycleClientUpgrade = failedGRPCCall @ ''LifecycleClientUpgrade''"

definition NodeOperationReasonSuccessfulImagePull :: string where [const_defs]:
  "NodeOperationReasonSuccessfulImagePull = ''SuccessfulImagePull''"

definition NodeOperationReasonSuccessfulLegacyUpgradeRequest :: string where [const_defs]:
  "NodeOperationReasonSuccessfulLegacyUpgradeRequest = ''SuccessfulUpgradeRequest''"

definition NodeOperationReasonSuccessfulLifecycleClientUpgrade :: string where [const_defs]:
  "NodeOperationReasonSuccessfulLifecycleClientUpgrade = ''SuccessfulLifecycleClientUpgrade''"

section \<open>Node conditions and their reasons\<close>

definition NodeConditionReady :: string where [const_defs]:
  "NodeConditionReady = ''Ready''"

definition NodeConditionProvisioned :: string where [const_defs]:
  "NodeConditionProvisioned = ''Provisioned''"

definition NodeConditionConfigInSync :: string where [const_defs]:
  "NodeConditionConfigInSync = ''ConfigInSync''"

definition NodeConditionConfigDriftDetected :: string where [const_defs]:
  "NodeConditionConfigDriftDetected = ''ConfigDriftDetected''"

definition NodeConditionKubernetesInSync :: string where [const_defs]:
  "NodeConditionKubernetesInSync = ''KubernetesInSync''"

definition NodeConditionKubernetesReady :: string where [const_defs]:
  "NodeConditionKubernetesReady = ''KubernetesReady''"

definition NodeConditionKubernetesUnschedulable :: string where [const_defs]:
  "NodeConditionKubernetesUnschedulable = ''KubernetesUnschedulable''"

definition NodeConditionNeedsInitialUpdate :: string where [const_defs]:
  "NodeConditionNeedsInitialUpdate = ''NeedsInitialUpdate''"

definition NodeConditionReasonInvalidArguments :: string where [const_defs]:
  "NodeConditionReasonInvalidArguments = NodeOperationReasonInvalidArguments"

definition NodeConditionReasonSkippedProvisioning :: string where [const_defs]:
  "NodeConditionReasonSkippedProvisioning = NodeOperationReasonSkippedProvisioning"

definition NodeConditionReasonFailedApply :: string where [const_defs]:
  "NodeConditionReasonFailedApply = NodeOperationReasonFailedApply"

definition NodeConditionReasonSuccessfulApply :: string where [const_defs]:
  "NodeConditionReasonSuccessfulApply = NodeOperationReasonSuccessfulApply"

definition NodeConditionReasonNodeNotProvisioned :: string where [const_defs]:
  "NodeConditionReasonNodeNotProvisioned = ''NodeNotProvisioned''"

definition NodeConditionReasonNodeReachable :: string where [const_defs]:
  "NodeConditionReasonNodeReachable = NodeReasonNodeReachable"

definition NodeConditionReasonNodeUnreachable :: string where [const_defs]:
  "NodeConditionReasonNodeUnreachable = NodeReasonNodeUnreachable"

definition NodeConditionReasonWaitingForNode :: string where [const_defs]:
  "NodeConditionReasonWaitingForNode = ''WaitingForNode''"

definition NodeConditionReasonReset :: string where [const_defs]:
  "NodeConditionReasonReset = ''NodeReset''"

definition NodeConditionReasonFailedImageValidation :: string where [const_defs]:
  "NodeConditionReasonFailedImageValidation = NodeOperationReasonFailedImageValidation"

definition NodeConditionReasonConfigGenerationFailed :: string where [const_defs]:
  "NodeConditionReasonConfigGenerationFailed = NodeReasonConfigGenerationFailed"

definition NodeConditionReasonConfigSerializationFailed :: string where [const_defs]:
  "NodeConditionReasonConfigSerializationFailed = NodeReasonConfigSerializationFailed"

definition NodeConditionReasonNodeStatusFailed :: string where [const_defs]:
  "NodeConditionReasonNodeStatusFailed = ''NodeStatusFailed''"

definition NodeConditionReasonClusterNotFound :: string where [const_defs]:
  "NodeConditionReasonClusterNotFound = ''ClusterNotFound''"

definition NodeConditionReasonKubernetesNodeNotFound :: string where [const_defs]:
  "NodeConditionReasonKubernetesNodeNotFound = ''KubernetesNodeNotFound''"

definition NodeConditionReasonKubernetesNodeReady :: string where [const_defs]:
  "NodeConditionReasonKubernetesNodeReady = ''KubernetesNodeReady''"

definition NodeConditionReasonKubernetesNodeNotReady :: string where [const_defs]:
  "NodeConditionReasonKubernetesNodeNotReady = ''KubernetesNodeNotReady''"

definition NodeConditionReasonKubernetesNodeUnschedulable :: string where [const_defs]:
  "NodeConditionReasonKubernetesNodeUnschedulable = ''KubernetesNodeUnschedulable''"

definition NodeConditionReasonKubernetesNodeSchedulable :: string where [const_defs]:
  "NodeConditionReasonKubernetesNodeSchedulable = ''KubernetesNodeSchedulable''"

definition NodeConditionReasonNodeNeedsInitialUpdate :: string where [const_defs]:
  "NodeConditionReasonNodeNeedsInitialUpdate = ''NodeNeedsInitialUpdate''"

definition NodeConditionReasonConfigHasDrifted :: string where [const_defs]:
  "NodeConditionReasonConfigHasDrifted = ''ConfigHasDrifted''"

definition NodeConditionReasonConfigInSync :: string where [const_defs]:
  "NodeConditionReasonConfigInSync = ''ConfigInSync''"

definition NodeConditionReasonConfigOutOfSync :: string where [const_defs]:
  "NodeConditionReasonConfigOutOfSync = ''ConfigOutOfSync''"

definition NodeConditionReasonKubernetesUpgradeNeeded :: string where [const_defs]:
  "NodeConditionReasonKubernetesUpgradeNeeded = ''KubernetesUpgradeNeeded''"

definition NodeConditionReasonKubernetesUpToDate :: string where [const_defs]:
  "NodeConditionReasonKubernetesUpToDate = ''KubernetesUpToDate''"

section \<open>Cluster conditions and their reasons\<close>

definition ClusterConditionNodesInSync :: string where [const_defs]:
  "ClusterConditionNodesInSync = ''ClusterNodesInSync''"

definition ClusterConditionNodesKubernetesUpToDate :: string where [const_defs]:
  "ClusterConditionNodesKubernetesUpToDate = ''ClusterNodesKubernetesUpToDate''"

definition ClusterConditionBootstrapped :: string where [const_defs]:
  "ClusterConditionBootstrapped = ''Bootstrapped''"

definition ClusterConditionReasonNodesOutOfSync :: string where [const_defs]:
  "ClusterConditionReasonNodesOutOfSync = ''NodesOutOfSync''"

definition ClusterConditionReasonAllNodesInSync :: string where [const_defs]:
  "ClusterConditionReasonAllNodesInSync = ''AllNodesInSync''"

definition ClusterConditionReasonNodesK8sUpdateNeeded :: string where [const_defs]:
  "ClusterConditionReasonNodesK8sUpdateNeeded = ''NodesK8sUpdateNeeded''"

definition ClusterConditionReasonAllNodesK8sUpToDate :: string where [const_defs]:
  "ClusterConditionReasonAllNodesK8sUpToDate = ''AllNodesK8sUpToDate''"

definition ClusterConditionReasonBootstrapped :: string where [const_defs]:
  "ClusterConditionReasonBootstrapped = ''ClusterBootstrapped''"

definition ClusterConditionReasonNotBootstrapped :: string where [const_defs]:
  "ClusterConditionReasonNotBootstrapped = ''ClusterNotBootstrapped''"

section \<open>Cluster operation phases, types and reasons\<close>

definition ClusterOperationPhasePending :: string where [const_defs]:
  "ClusterOperationPhasePending = ''Pending''"

definition ClusterOperationPhasePreflight :: string where [const_defs]:
  "ClusterOperationPhasePreflight = ''Preflight''"

definition ClusterOperationPhaseInProgress :: string where [const_defs]:
  "ClusterOperationPhaseInProgress = ''InProgress''"

definition ClusterOperationPhasePostflight :: string where [const_defs]:
  "ClusterOperationPhasePostflight = ''Postflight''"

definition ClusterOperationPhaseDone :: string where [const_defs]:
  "ClusterOperationPhaseDone = ''Done''"

definition ClusterOperationPhaseFailed :: string where [const_defs]:
  "ClusterOperationPhaseFailed = ''Failed''"

definition ClusterOperationTypeRollingReboot :: string where [const_defs]:
  "ClusterOperationTypeRollingReboot = ''RollingReboot''"

definition ClusterOperationTypeRollingApply :: string where [const_defs]:
  "ClusterOperationTypeRollingApply = ''RollingApply''"

definition ClusterOperationTypeKubernetesUpgrade :: string where [const_defs]:
  "ClusterOperationTypeKubernetesUpgrade = ''KubernetesUpgrade''"

definition ClusterOperationTypeBootstrap :: string where [const_defs]:
  "ClusterOperationTypeBootstrap = ''Bootstrap''"

definition ClusterOperationReasonNodeNotReady :: string where [const_defs]:
  "ClusterOperationReasonNodeNotReady = ''NodeNotReady''"

definition ClusterOperationReasonNodeConfigDrift :: string where [const_defs]:
  "ClusterOperationReasonNodeConfigDrift = ''NodeConfigDrift''"

definition ClusterOperationReasonNodeConfigOutOfSync :: string where [const_defs]:
  "ClusterOperationReasonNodeConfigOutOfSync = ''NodeConfigOutOfSync''"

definition ClusterOperationReasonNoControlPlanes :: string where [const_defs]:
  "ClusterOperationReasonNoControlPlanes = ''NoControlPlanes''"

definition ClusterOperationReasonNodeGetFailed :: string where [const_defs]:
  "ClusterOperationReasonNodeGetFailed = ''NodeGetFailed''"

definition ClusterOperationReasonSubOperationFailed :: string where [const_defs]:
  "ClusterOperationReasonSubOperationFailed = ''SubOperationFailed''"

section \<open>Event reasons and actions\<close>

definition EventReasonStarted :: string where [const_defs]:
  "EventReasonStarted = OperationReasonStarted"

definition EventReasonCompleted :: string where [const_defs]:
  "EventReasonCompleted = OperationReasonCompleted"

definition EventReasonFailed :: string where [const_defs]:
  "EventReasonFailed = ''Failed''"

definition EventReasonSkipped :: string where [const_defs]:
  "EventReasonSkipped = ''Skipped''"

definition EventReasonCreated :: string where [const_defs]:
  "EventReasonCreated = ''Created''"

definition EventReasonUpdated :: string where [const_defs]:
  "EventReasonUpdated = ''Updated''"

definition EventReasonDeleted :: string where [const_defs]:
  "EventReasonDeleted = ''Deleted''"

definition EventReasonValidationError :: string where [const_defs]:
  "EventReasonValidationError = ''ValidationError''"

definition EventActionSecretReconcile :: string where [const_defs]:
  "EventActionSecretReconcile = ''SecretReconcile''"

definition EventActionStatusReconcile :: string where [const_defs]:
  "EventActionStatusReconcile = ''StatusReconcile''"

definition EventActionRunningOperation :: string where [const_defs]:
  "EventActionRunningOperation = ''RunningOperation''"

definition EventActionClusterReconcile :: string where [const_defs]:
  "EventActionClusterReconcile = ''ClusterReconcile''"

definition EventActionBootstrap :: string where [const_defs]:
  "EventActionBootstrap = ''Bootstrap''"

definition EventActionApply :: string where [const_defs]:
  "EventActionApply = ''Apply''"

definition EventActionOSUpgrade :: string where [const_defs]:
  "EventActionOSUpgrade = ''OSUpgrade''"

definition EventActionRollingApply :: string where [const_defs]:
  "EventActionRollingApply = ''RollingApply''"

definition EventActionApplyDrain :: string where [const_defs]:
  "EventActionApplyDrain = ''ApplyDrain''"

definition EventActionDrain :: string where [const_defs]:
  "EventActionDrain = ''Drain''"

definition EventActionPowerOperation :: string where [const_defs]:
  "EventActionPowerOperation = ''PowerOperation''"

definition EventActionProvision :: string where [const_defs]:
  "EventActionProvision = ''Provision''"

definition EventActionReset :: string where [const_defs]:
  "EventActionReset = ''Reset''"

definition EventActionKubernetesComponentUpgrade :: string where [const_defs]:
  "EventActionKubernetesComponentUpgrade = ''KubernetesComponentUpgrade''"

definition EventActionKubernetesUpgrade :: string where [const_defs]:
  "EventActionKubernetesUpgrade = ''KubernetesUpgrade''"

definition EventActionKubernetesApply :: string where [const_defs]:
  "EventActionKubernetesApply = ''KubernetesApply''"

section \<open>The constants a switch tells apart\<close>

text \<open>
  The phases, types, roles, modes, components and condition types are pairwise different
  strings and none of them is empty: a switch over them takes one branch.
\<close>

lemma node_phases_distinct [simp]:
  "NodeOperationPhasePending \<noteq> NodeOperationPhaseDraining"
  "NodeOperationPhasePending \<noteq> NodeOperationPhaseApplying"
  "NodeOperationPhasePending \<noteq> NodeOperationPhaseVerifying"
  "NodeOperationPhasePending \<noteq> NodeOperationPhaseDone"
  "NodeOperationPhasePending \<noteq> NodeOperationPhaseFailed"
  "NodeOperationPhasePending \<noteq> NodeOperationPhaseApplyDrain"
  "NodeOperationPhasePending \<noteq> NodeOperationPhaseApplyVerifying"
  "NodeOperationPhasePending \<noteq> NodeOperationPhaseKubeletReboot"
  "NodeOperationPhasePending \<noteq> NodeOperationPhaseVerifyReboot"
  "NodeOperationPhasePending \<noteq> NodeOperationPhaseProvisioning"
  "NodeOperationPhasePending \<noteq> NodeOperationPhaseProvisionVerifying"
  "NodeOperationPhasePending \<noteq> NodeOperationPhaseUpgradeDrain"
  "NodeOperationPhasePending \<noteq> NodeOperationPhaseUpgradePreflight"
  "NodeOperationPhasePending \<noteq> NodeOperationPhaseUpgradeVerifying"
  "NodeOperationPhasePending \<noteq> NodeOperationPhaseUpgradeUncordon"
  "NodeOperationPhasePending \<noteq> NodeOperationPhaseUpgrade113ImagePull"
  "NodeOperationPhasePending \<noteq> NodeOperationPhaseUpgrade113Upgrade"
  "NodeOperationPhasePending \<noteq> NodeOperationPhaseUpgradeLegacyUpgrade"
  "NodeOperationPhaseDraining \<noteq> NodeOperationPhasePending"
  "NodeOperationPhaseDraining \<noteq> NodeOperationPhaseApplying"
  "NodeOperationPhaseDraining \<noteq> NodeOperationPhaseVerifying"
  "NodeOperationPhaseDraining \<noteq> NodeOperationPhaseDone"
  "NodeOperationPhaseDraining \<noteq> NodeOperationPhaseFailed"
  "NodeOperationPhaseDraining \<noteq> NodeOperationPhaseApplyDrain"
  "NodeOperationPhaseDraining \<noteq> NodeOperationPhaseApplyVerifying"
  "NodeOperationPhaseDraining \<noteq> NodeOperationPhaseKubeletReboot"
  "NodeOperationPhaseDraining \<noteq> NodeOperationPhaseVerifyReboot"
  "NodeOperationPhaseDraining \<noteq> NodeOperationPhaseProvisioning"
  "NodeOperationPhaseDraining \<noteq> NodeOperationPhaseProvisionVerifying"
  "NodeOperationPhaseDraining \<noteq> NodeOperationPhaseUpgradeDrain"
  "NodeOperationPhaseDraining \<noteq> NodeOperationPhaseUpgradePreflight"
  "NodeOperationPhaseDraining \<noteq> NodeOperationPhaseUpgradeVerifying"
  "NodeOperationPhaseDraining \<noteq> NodeOperationPhaseUpgradeUncordon"
  "NodeOperationPhaseDraining \<noteq> NodeOperationPhaseUpgrade113ImagePull"
  "NodeOperationPhaseDraining \<noteq> NodeOperationPhaseUpgrade113Upgrade"
  "NodeOperationPhaseDraining \<noteq> NodeOperationPhaseUpgradeLegacyUpgrade"
  "NodeOperationPhaseApplying \<noteq> NodeOperationPhasePending"
  "NodeOperationPhaseApplying \<noteq> NodeOperationPhaseDraining"
  "NodeOperationPhaseApplying \<noteq> NodeOperationPhaseVerifying"
  "NodeOperationPhaseApplying \<noteq> NodeOperationPhaseDone"
  "NodeOperationPhaseApplying \<noteq> NodeOperationPhaseFailed"
  "NodeOperationPhaseApplying \<noteq> NodeOperationPhaseApplyDrain"
  "NodeOperationPhaseApplying \<noteq> NodeOperationPhaseApplyVerifying"
  "NodeOperationPhaseApplying \<noteq> NodeOperationPhaseKubeletReboot"
  "NodeOperationPhaseApplying \<noteq> NodeOperationPhaseVerifyReboot"
  "NodeOperationPhaseApplying \<noteq> NodeOperationPhaseProvisioning"
  "NodeOperationPhaseApplying \<noteq> NodeOperationPhaseProvisionVerifying"
  "NodeOperationPhaseApplying \<noteq> NodeOperationPhaseUpgradeDrain"
  "NodeOperationPhaseApplying \<noteq> NodeOperationPhaseUpgradePreflight"
  "NodeOperationPhaseApplying \<noteq> NodeOperationPhaseUpgradeVerifying"
  "NodeOperationPhaseApplying \<noteq> NodeOperationPhaseUpgradeUncordon"
  "NodeOperationPhaseApplying \<noteq> NodeOperationPhaseUpgrade113ImagePull"
  "NodeOperationPhaseApplying \<noteq> NodeOperationPhaseUpgrade113Upgrade"
  "NodeOperationPhaseApplying \<noteq> NodeOperationPhaseUpgradeLegacyUpgrade"
  "NodeOperationPhaseVerifying \<noteq> NodeOperationPhasePending"
  "NodeOperationPhaseVerifying \<noteq> NodeOperationPhaseDraining"
  "NodeOperationPhaseVerifying \<noteq> NodeOperationPhaseApplying"
  "NodeOperationPhaseVerifying \<noteq> NodeOperationPhaseDone"
  "NodeOperationPhaseVerifying \<noteq> NodeOperationPhaseFailed"
  "NodeOperationPhaseVerifying \<noteq> NodeOperationPhaseApplyDrain"
  "NodeOperationPhaseVerifying \<noteq> NodeOperationPhaseApplyVerifying"
  "NodeOperationPhaseVerifying \<noteq> NodeOperationPhaseKubeletReboot"
  "NodeOperationPhaseVerifying \<noteq> NodeOperationPhaseVerifyReboot"
  "NodeOperationPhaseVerifying \<noteq> NodeOperationPhaseProvisioning"
  "NodeOperationPhaseVerifying \<noteq> NodeOperationPhaseProvisionVerifying"
  "NodeOperationPhaseVerifying \<noteq> NodeOperationPhaseUpgradeDrain"
  "NodeOperationPhaseVerifying \<noteq> NodeOperationPhaseUpgradePreflight"
  "NodeOperationPhaseVerifying \<noteq> NodeOperationPhaseUpgradeVerifying"
  "NodeOperationPhaseVerifying \<noteq> NodeOperationPhaseUpgradeUncordon"
  "NodeOperationPhaseVerifying \<noteq> NodeOperationPhaseUpgrade113ImagePull"
  "NodeOperationPhaseVerifying \<noteq> NodeOperationPhaseUpgrade113Upgrade"
  "NodeOperationPhaseVerifying \<noteq> NodeOperationPhaseUpgradeLegacyUpgrade"
  "NodeOperationPhaseDone \<noteq> NodeOperationPhasePending"
  "NodeOperationPhaseDone \<noteq> NodeOperationPhaseDraining"
  "NodeOperationPhaseDone \<noteq> NodeOperationPhaseApplying"
  "NodeOperationPhaseDone \<noteq> NodeOperationPhaseVerifying"
  "NodeOperationPhaseDone \<noteq> NodeOperationPhaseFailed"
  "NodeOperationPhaseDone \<noteq> NodeOperationPhaseApplyDrain"
  "NodeOperationPhaseDone \<noteq> NodeOperationPhaseApplyVerifying"
  "NodeOperationPhaseDone \<noteq> NodeOperationPhaseKubeletReboot"
  "NodeOperationPhaseDone \<noteq> NodeOperationPhaseVerifyReboot"
  "NodeOperationPhaseDone \<noteq> NodeOperationPhaseProvisioning"
  "NodeOperationPhaseDone \<noteq> NodeOperationPhaseProvisionVerifying"
  "NodeOperationPhaseDone \<noteq> NodeOperationPhaseUpgradeDrain"
  "NodeOperationPhaseDone \<noteq> NodeOperationPhaseUpgradePreflight"
  "NodeOperationPhaseDone \<noteq> NodeOperationPhaseUpgradeVerifying"
  "NodeOperationPhaseDone \<noteq> NodeOperationPhaseUpgradeUncordon"
  "NodeOperationPhaseDone \<noteq> NodeOperationPhaseUpgrade113ImagePull"
  "NodeOperationPhaseDone \<noteq> NodeOperationPhaseUpgrade113Upgrade"
  "NodeOperationPhaseDone \<noteq> NodeOperationPhaseUpgradeLegacyUpgrade"
  "NodeOperationPhaseFailed \<noteq> NodeOperationPhasePending"
  "NodeOperationPhaseFailed \<noteq> NodeOperationPhaseDraining"
  "NodeOperationPhaseFailed \<noteq> NodeOperationPhaseApplying"
  "NodeOperationPhaseFailed \<noteq> NodeOperationPhaseVerifying"
  "NodeOperationPhaseFailed \<noteq> NodeOperationPhaseDone"
  "NodeOperationPhaseFailed \<noteq> NodeOperationPhaseApplyDrain"
  "NodeOperationPhaseFailed \<noteq> NodeOperationPhaseApplyVerifying"
  "NodeOperationPhaseFailed \<noteq> NodeOperationPhaseKubeletReboot"
  "NodeOperationPhaseFailed \<noteq> NodeOperationPhaseVerifyReboot"
  "NodeOperationPhaseFailed \<noteq> NodeOperationPhaseProvisioning"
  "NodeOperationPhaseFailed \<noteq> NodeOperationPhaseProvisionVerifying"
  "NodeOperationPhaseFailed \<noteq> NodeOperationPhaseUpgradeDrain"
  "NodeOperationPhaseFailed \<noteq> NodeOperationPhaseUpgradePreflight"
  "NodeOperationPhaseFailed \<noteq> NodeOperationPhaseUpgradeVerifying"
  "NodeOperationPhaseFailed \<noteq> NodeOperationPhaseUpgradeUncordon"
  "NodeOperationPhaseFailed \<noteq> NodeOperationPhaseUpgrade113ImagePull"
  "NodeOperationPhaseFailed \<noteq> NodeOperationPhaseUpgrade113Upgrade"
  "NodeOperationPhaseFailed \<noteq> NodeOperationPhaseUpgradeLegacyUpgrade"
  "NodeOperationPhaseApplyDrain \<noteq> NodeOperationPhasePending"
  "NodeOperationPhaseApplyDrain \<noteq> NodeOperationPhaseDraining"
  "NodeOperationPhaseApplyDrain \<noteq> NodeOperationPhaseApplying"
  "NodeOperationPhaseApplyDrain \<noteq> NodeOperationPhaseVerifying"
  "NodeOperationPhaseApplyDrain \<noteq> NodeOperationPhaseDone"
  "NodeOperationPhaseApplyDrain \<noteq> NodeOperationPhaseFailed"
  "NodeOperationPhaseApplyDrain \<noteq> NodeOperationPhaseApplyVerifying"
  "NodeOperationPhaseApplyDrain \<noteq> NodeOperationPhaseKubeletReboot"
  "NodeOperationPhaseApplyDrain \<noteq> NodeOperationPhaseVerifyReboot"
  "NodeOperationPhaseApplyDrain \<noteq> NodeOperationPhaseProvisioning"
  "NodeOperationPhaseApplyDrain \<noteq> NodeOperationPhaseProvisionVerifying"
  "NodeOperationPhaseApplyDrain \<noteq> NodeOperationPhaseUpgradeDrain"
  "NodeOperationPhaseApplyDrain \<noteq> NodeOperationPhaseUpgradePreflight"
  "NodeOperationPhaseApplyDrain \<noteq> NodeOperationPhaseUpgradeVerifying"
  "NodeOperationPhaseApplyDrain \<noteq> NodeOperationPhaseUpgradeUncordon"
  "NodeOperationPhaseApplyDrain \<noteq> NodeOperationPhaseUpgrade113ImagePull"
  "NodeOperationPhaseApplyDrain \<noteq> NodeOperationPhaseUpgrade113Upgrade"
  "NodeOperationPhaseApplyDrain \<noteq> NodeOperationPhaseUpgradeLegacyUpgrade"
  "NodeOperationPhaseApplyVerifying \<noteq> NodeOperationPhasePending"
  "NodeOperationPhaseApplyVerifying \<noteq> NodeOperationPhaseDraining"
  "NodeOperationPhaseApplyVerifying \<noteq> NodeOperationPhaseApplying"
  "NodeOperationPhaseApplyVerifying \<noteq> NodeOperationPhaseVerifying"
  "NodeOperationPhaseApplyVerifying \<noteq> NodeOperationPhaseDone"
  "NodeOperationPhaseApplyVerifying \<noteq> NodeOperationPhaseFailed"
  "NodeOperationPhaseApplyVerifying \<noteq> NodeOperationPhaseApplyDrain"
  "NodeOperationPhaseApplyVerifying \<noteq> NodeOperationPhaseKubeletReboot"
  "NodeOperationPhaseApplyVerifying \<noteq> NodeOperationPhaseVerifyReboot"
  "NodeOperationPhaseApplyVerifying \<noteq> NodeOperationPhaseProvisioning"
  "NodeOperationPhaseApplyVerifying \<noteq> NodeOperationPhaseProvisionVerifying"
  "NodeOperationPhaseApplyVerifying \<noteq> NodeOperationPhaseUpgradeDrain"
  "NodeOperationPhaseApplyVerifying \<noteq> NodeOperationPhaseUpgradePreflight"
  "NodeOperationPhaseApplyVerifying \<noteq> NodeOperationPhaseUpgradeVerifying"
  "NodeOperationPhaseApplyVerifying \<noteq> NodeOperationPhaseUpgradeUncordon"
  "NodeOperationPhaseApplyVerifying \<noteq> NodeOperationPhaseUpgrade113ImagePull"
  "NodeOperationPhaseApplyVerifying \<noteq> NodeOperationPhaseUpgrade113Upgrade"
  "NodeOperationPhaseApplyVerifying \<noteq> NodeOperationPhaseUpgradeLegacyUpgrade"
  "NodeOperationPhaseKubeletReboot \<noteq> NodeOperationPhasePending"
  "NodeOperationPhaseKubeletReboot \<noteq> NodeOperationPhaseDraining"
  "NodeOperationPhaseKubeletReboot \<noteq> NodeOperationPhaseApplying"
  "NodeOperationPhaseKubeletReboot \<noteq> NodeOperationPhaseVerifying"
  "NodeOperationPhaseKubeletReboot \<noteq> NodeOperationPhaseDone"
  "NodeOperationPhaseKubeletReboot \<noteq> NodeOperationPhaseFailed"
  "NodeOperationPhaseKubeletReboot \<noteq> NodeOperationPhaseApplyDrain"
  "NodeOperationPhaseKubeletReboot \<noteq> NodeOperationPhaseApplyVerifying"
  "NodeOperationPhaseKubeletReboot \<noteq> NodeOperationPhaseVerifyReboot"
  "NodeOperationPhaseKubeletReboot \<noteq> NodeOperationPhaseProvisioning"
  "NodeOperationPhaseKubeletReboot \<noteq> NodeOperationPhaseProvisionVerifying"
  "NodeOperationPhaseKubeletReboot \<noteq> NodeOperationPhaseUpgradeDrain"
  "NodeOperationPhaseKubeletReboot \<noteq> NodeOperationPhaseUpgradePreflight"
  "NodeOperationPhaseKubeletReboot \<noteq> NodeOperationPhaseUpgradeVerifying"
  "NodeOperationPhaseKubeletReboot \<noteq> NodeOperationPhaseUpgradeUncordon"
  "NodeOperationPhaseKubeletReboot \<noteq> NodeOperationPhaseUpgrade113ImagePull"
  "NodeOperationPhaseKubeletReboot \<noteq> NodeOperationPhaseUpgrade113Upgrade"
  "NodeOperationPhaseKubeletReboot \<noteq> NodeOperationPhaseUpgradeLegacyUpgrade"
  "NodeOperationPhaseVerifyReboot \<noteq> NodeOperationPhasePending"
  "NodeOperationPhaseVerifyReboot \<noteq> NodeOperationPhaseDraining"
  "NodeOperationPhaseVerifyReboot \<noteq> NodeOperationPhaseApplying"
  "NodeOperationPhaseVerifyReboot \<noteq> NodeOperationPhaseVerifying"
  "NodeOperationPhaseVerifyReboot \<noteq> NodeOperationPhaseDone"
  "NodeOperationPhaseVerifyReboot \<noteq> NodeOperationPhaseFailed"
  "NodeOperationPhaseVerifyReboot \<noteq> NodeOperationPhaseApplyDrain"
  "NodeOperationPhaseVerifyReboot \<noteq> NodeOperationPhaseApplyVerifying"
  "NodeOperationPhaseVerifyReboot \<noteq> NodeOperationPhaseKubeletReboot"
  "NodeOperationPhaseVerifyReboot \<noteq> NodeOperationPhaseProvisioning"
  "NodeOperationPhaseVerifyReboot \<noteq> NodeOperationPhaseProvisionVerifying"
  "NodeOperationPhaseVerifyReboot \<noteq> NodeOperationPhaseUpgradeDrain"
  "NodeOperationPhaseVerifyReboot \<noteq> NodeOperationPhaseUpgradePreflight"
  "NodeOperationPhaseVerifyReboot \<noteq> NodeOperationPhaseUpgradeVerifying"
  "NodeOperationPhaseVerifyReboot \<noteq> NodeOperationPhaseUpgradeUncordon"
  "NodeOperationPhaseVerifyReboot \<noteq> NodeOperationPhaseUpgrade113ImagePull"
  "NodeOperationPhaseVerifyReboot \<noteq> NodeOperationPhaseUpgrade113Upgrade"
  "NodeOperationPhaseVerifyReboot \<noteq> NodeOperationPhaseUpgradeLegacyUpgrade"
  "NodeOperationPhaseProvisioning \<noteq> NodeOperationPhasePending"
  "NodeOperationPhaseProvisioning \<noteq> NodeOperationPhaseDraining"
  "NodeOperationPhaseProvisioning \<noteq> NodeOperationPhaseApplying"
  "NodeOperationPhaseProvisioning \<noteq> NodeOperationPhaseVerifying"
  "NodeOperationPhaseProvisioning \<noteq> NodeOperationPhaseDone"
  "NodeOperationPhaseProvisioning \<noteq> NodeOperationPhaseFailed"
  "NodeOperationPhaseProvisioning \<noteq> NodeOperationPhaseApplyDrain"
  "NodeOperationPhaseProvisioning \<noteq> NodeOperationPhaseApplyVerifying"
  "NodeOperationPhaseProvisioning \<noteq> NodeOperationPhaseKubeletReboot"
  "NodeOperationPhaseProvisioning \<noteq> NodeOperationPhaseVerifyReboot"
  "NodeOperationPhaseProvisioning \<noteq> NodeOperationPhaseProvisionVerifying"
  "NodeOperationPhaseProvisioning \<noteq> NodeOperationPhaseUpgradeDrain"
  "NodeOperationPhaseProvisioning \<noteq> NodeOperationPhaseUpgradePreflight"
  "NodeOperationPhaseProvisioning \<noteq> NodeOperationPhaseUpgradeVerifying"
  "NodeOperationPhaseProvisioning \<noteq> NodeOperationPhaseUpgradeUncordon"
  "NodeOperationPhaseProvisioning \<noteq> NodeOperationPhaseUpgrade113ImagePull"
  "NodeOperationPhaseProvisioning \<noteq> NodeOperationPhaseUpgrade113Upgrade"
  "NodeOperationPhaseProvisioning \<noteq> NodeOperationPhaseUpgradeLegacyUpgrade"
  "NodeOperationPhaseProvisionVerifying \<noteq> NodeOperationPhasePending"
  "NodeOperationPhaseProvisionVerifying \<noteq> NodeOperationPhaseDraining"
  "NodeOperationPhaseProvisionVerifying \<noteq> NodeOperationPhaseApplying"
  "NodeOperationPhaseProvisionVerifying \<noteq> NodeOperationPhaseVerifying"
  "NodeOperationPhaseProvisionVerifying \<noteq> NodeOperationPhaseDone"
  "NodeOperationPhaseProvisionVerifying \<noteq> NodeOperationPhaseFailed"
  "NodeOperationPhaseProvisionVerifying \<noteq> NodeOperationPhaseApplyDrain"
  "NodeOperationPhaseProvisionVerifying \<noteq> NodeOperationPhaseApplyVerifying"
  "NodeOperationPhaseProvisionVerifying \<noteq> NodeOperationPhaseKubeletReboot"
  "NodeOperationPhaseProvisionVerifying \<noteq> NodeOperationPhaseVerifyReboot"
  "NodeOperationPhaseProvisionVerifying \<noteq> NodeOperationPhaseProvisioning"
  "NodeOperationPhaseProvisionVerifying \<noteq> NodeOperationPhaseUpgradeDrain"
  "NodeOperationPhaseProvisionVerifying \<noteq> NodeOperationPhaseUpgradePreflight"
  "NodeOperationPhaseProvisionVerifying \<noteq> NodeOperationPhaseUpgradeVerifying"
  "NodeOperationPhaseProvisionVerifying \<noteq> NodeOperationPhaseUpgradeUncordon"
  "NodeOperationPhaseProvisionVerifying \<noteq> NodeOperationPhaseUpgrade113ImagePull"
  "NodeOperationPhaseProvisionVerifying \<noteq> NodeOperationPhaseUpgrade113Upgrade"
  "NodeOperationPhaseProvisionVerifying \<noteq> NodeOperationPhaseUpgradeLegacyUpgrade"
  "NodeOperationPhaseUpgradeDrain \<noteq> NodeOperationPhasePending"
  "NodeOperationPhaseUpgradeDrain \<noteq> NodeOperationPhaseDraining"
  "NodeOperationPhaseUpgradeDrain \<noteq> NodeOperationPhaseApplying"
  "NodeOperationPhaseUpgradeDrain \<noteq> NodeOperationPhaseVerifying"
  "NodeOperationPhaseUpgradeDrain \<noteq> NodeOperationPhaseDone"
  "NodeOperationPhaseUpgradeDrain \<noteq> NodeOperationPhaseFailed"
  "NodeOperationPhaseUpgradeDrain \<noteq> NodeOperationPhaseApplyDrain"
  "NodeOperationPhaseUpgradeDrain \<noteq> NodeOperationPhaseApplyVerifying"
  "NodeOperationPhaseUpgradeDrain \<noteq> NodeOperationPhaseKubeletReboot"
  "NodeOperationPhaseUpgradeDrain \<noteq> NodeOperationPhaseVerifyReboot"
  "NodeOperationPhaseUpgradeDrain \<noteq> NodeOperationPhaseProvisioning"
  "NodeOperationPhaseUpgradeDrain \<noteq> NodeOperationPhaseProvisionVerifying"
  "NodeOperationPhaseUpgradeDrain \<noteq> NodeOperationPhaseUpgradePreflight"
  "NodeOperationPhaseUpgradeDrain \<noteq> NodeOperationPhaseUpgradeVerifying"
  "NodeOperationPhaseUpgradeDrain \<noteq> NodeOperationPhaseUpgradeUncordon"
  "NodeOperationPhaseUpgradeDrain \<noteq> NodeOperationPhaseUpgrade113ImagePull"
  "NodeOperationPhaseUpgradeDrain \<noteq> NodeOperationPhaseUpgrade113Upgrade"
  "NodeOperationPhaseUpgradeDrain \<noteq> NodeOperationPhaseUpgradeLegacyUpgrade"
  "NodeOperationPhaseUpgradePreflight \<noteq> NodeOperationPhasePending"
  "NodeOperationPhaseUpgradePreflight \<noteq> NodeOperationPhaseDraining"
  "NodeOperationPhaseUpgradePreflight \<noteq> NodeOperationPhaseApplying"
  "NodeOperationPhaseUpgradePreflight \<noteq> NodeOperationPhaseVerifying"
  "NodeOperationPhaseUpgradePreflight \<noteq> NodeOperationPhaseDone"
  "NodeOperationPhaseUpgradePreflight \<noteq> NodeOperationPhaseFailed"
  "NodeOperationPhaseUpgradePreflight \<noteq> NodeOperationPhaseApplyDrain"
  "NodeOperationPhaseUpgradePreflight \<noteq> NodeOperationPhaseApplyVerifying"
  "NodeOperationPhaseUpgradePreflight \<noteq> NodeOperationPhaseKubeletReboot"
  "NodeOperationPhaseUpgradePreflight \<noteq> NodeOperationPhaseVerifyReboot"
  "NodeOperationPhaseUpgradePreflight \<noteq> NodeOperationPhaseProvisioning"
  "NodeOperationPhaseUpgradePreflight \<noteq> NodeOperationPhaseProvisionVerifying"
  "NodeOperationPhaseUpgradePreflight \<noteq> NodeOperationPhaseUpgradeDrain"
  "NodeOperationPhaseUpgradePreflight \<noteq> NodeOperationPhaseUpgradeVerifying"
  "NodeOperationPhaseUpgradePreflight \<noteq> NodeOperationPhaseUpgradeUncordon"
  "NodeOperationPhaseUpgradePreflight \<noteq> NodeOperationPhaseUpgrade113ImagePull"
  "NodeOperationPhaseUpgradePreflight \<noteq> NodeOperationPhaseUpgrade113Upgrade"
  "NodeOperationPhaseUpgradePreflight \<noteq> NodeOperationPhaseUpgradeLegacyUpgrade"
  "NodeOperationPhaseUpgradeVerifying \<noteq> NodeOperationPhasePending"
  "NodeOperationPhaseUpgradeVerifying \<noteq> NodeOperationPhaseDraining"
  "NodeOperationPhaseUpgradeVerifying \<noteq> NodeOperationPhaseApplying"
  "NodeOperationPhaseUpgradeVerifying \<noteq> NodeOperationPhaseVerifying"
  "NodeOperationPhaseUpgradeVerifying \<noteq> NodeOperationPhaseDone"
  "NodeOperationPhaseUpgradeVerifying \<noteq> NodeOperationPhaseFailed"
  "NodeOperationPhaseUpgradeVerifying \<noteq> NodeOperationPhaseApplyDrain"
  "NodeOperationPhaseUpgradeVerifying \<noteq> NodeOperationPhaseApplyVerifying"
  "NodeOperationPhaseUpgradeVerifying \<noteq> NodeOperationPhaseKubeletReboot"
  "NodeOperationPhaseUpgradeVerifying \<noteq> NodeOperationPhaseVerifyReboot"
  "NodeOperationPhaseUpgradeVerifying \<noteq> NodeOperationPhaseProvisioning"
  "NodeOperationPhaseUpgradeVerifying \<noteq> NodeOperationPhaseProvisionVerifying"
  "NodeOperationPhaseUpgradeVerifying \<noteq> NodeOperationPhaseUpgradeDrain"
  "NodeOperationPhaseUpgradeVerifying \<noteq> NodeOperationPhaseUpgradePreflight"
  "NodeOperationPhaseUpgradeVerifying \<noteq> NodeOperationPhaseUpgradeUncordon"
  "NodeOperationPhaseUpgradeVerifying \<noteq> NodeOperationPhaseUpgrade113ImagePull"
  "NodeOperationPhaseUpgradeVerifying \<noteq> NodeOperationPhaseUpgrade113Upgrade"
  "NodeOperationPhaseUpgradeVerifying \<noteq> NodeOperationPhaseUpgradeLegacyUpgrade"
  "NodeOperationPhaseUpgradeUncordon \<noteq> NodeOperationPhasePending"
  "NodeOperationPhaseUpgradeUncordon \<noteq> NodeOperationPhaseDraining"
  "NodeOperationPhaseUpgradeUncordon \<noteq> NodeOperationPhaseApplying"
  "NodeOperationPhaseUpgradeUncordon \<noteq> NodeOperationPhaseVerifying"
  "NodeOperationPhaseUpgradeUncordon \<noteq> NodeOperationPhaseDone"
  "NodeOperationPhaseUpgradeUncordon \<noteq> NodeOperationPhaseFailed"
  "NodeOperationPhaseUpgradeUncordon \<noteq> NodeOperationPhaseApplyDrain"
  "NodeOperationPhaseUpgradeUncordon \<noteq> NodeOperationPhaseApplyVerifying"
  "NodeOperationPhaseUpgradeUncordon \<noteq> NodeOperationPhaseKubeletReboot"
  "NodeOperationPhaseUpgradeUncordon \<noteq> NodeOperationPhaseVerifyReboot"
  "NodeOperationPhaseUpgradeUncordon \<noteq> NodeOperationPhaseProvisioning"
  "NodeOperationPhaseUpgradeUncordon \<noteq> NodeOperationPhaseProvisionVerifying"
  "NodeOperationPhaseUpgradeUncordon \<noteq> NodeOperationPhaseUpgradeDrain"
  "NodeOperationPhaseUpgradeUncordon \<noteq> NodeOperationPhaseUpgradePreflight"
  "NodeOperationPhaseUpgradeUncordon \<noteq> NodeOperationPhaseUpgradeVerifying"
  "NodeOperationPhaseUpgradeUncordon \<noteq> NodeOperationPhaseUpgrade113ImagePull"
  "NodeOperationPhaseUpgradeUncordon \<noteq> NodeOperationPhaseUpgrade113Upgrade"
  "NodeOperationPhaseUpgradeUncordon \<noteq> NodeOperationPhaseUpgradeLegacyUpgrade"
  "NodeOperationPhaseUpgrade113ImagePull \<noteq> NodeOperationPhasePending"
  "NodeOperationPhaseUpgrade113ImagePull \<noteq> NodeOperationPhaseDraining"
  "NodeOperationPhaseUpgrade113ImagePull \<noteq> NodeOperationPhaseApplying"
  "NodeOperationPhaseUpgrade113ImagePull \<noteq> NodeOperationPhaseVerifying"
  "NodeOperationPhaseUpgrade113ImagePull \<noteq> NodeOperationPhaseDone"
  "NodeOperationPhaseUpgrade113ImagePull \<noteq> NodeOperationPhaseFailed"
  "NodeOperationPhaseUpgrade113ImagePull \<noteq> NodeOperationPhaseApplyDrain"
  "NodeOperationPhaseUpgrade113ImagePull \<noteq> NodeOperationPhaseApplyVerifying"
  "NodeOperationPhaseUpgrade113ImagePull \<noteq> NodeOperationPhaseKubeletReboot"
  "NodeOperationPhaseUpgrade113ImagePull \<noteq> NodeOperationPhaseVerifyReboot"
  "NodeOperationPhaseUpgrade113ImagePull \<noteq> NodeOperationPhaseProvisioning"
  "NodeOperationPhaseUpgrade113ImagePull \<noteq> NodeOperationPhaseProvisionVerifying"
  "NodeOperationPhaseUpgrade113ImagePull \<noteq> NodeOperationPhaseUpgradeDrain"
  "NodeOperationPhaseUpgrade113ImagePull \<noteq> NodeOperationPhaseUpgradePreflight"
  "NodeOperationPhaseUpgrade113ImagePull \<noteq> NodeOperationPhaseUpgradeVerifying"
  "NodeOperationPhaseUpgrade113ImagePull \<noteq> NodeOperationPhaseUpgradeUncordon"
  "NodeOperationPhaseUpgrade113ImagePull \<noteq> NodeOperationPhaseUpgrade113Upgrade"
  "NodeOperationPhaseUpgrade113ImagePull \<noteq> NodeOperationPhaseUpgradeLegacyUpgrade"
  "NodeOperationPhaseUpgrade113Upgrade \<noteq> NodeOperationPhasePending"
  "NodeOperationPhaseUpgrade113Upgrade \<noteq> NodeOperationPhaseDraining"
  "NodeOperationPhaseUpgrade113Upgrade \<noteq> NodeOperationPhaseApplying"
  "NodeOperationPhaseUpgrade113Upgrade \<noteq> NodeOperationPhaseVerifying"
  "NodeOperationPhaseUpgrade113Upgrade \<noteq> NodeOperationPhaseDone"
  "NodeOperationPhaseUpgrade113Upgrade \<noteq> NodeOperationPhaseFailed"
  "NodeOperationPhaseUpgrade113Upgrade \<noteq> NodeOperationPhaseApplyDrain"
  "NodeOperationPhaseUpgrade113Upgrade \<noteq> NodeOperationPhaseApplyVerifying"
  "NodeOperationPhaseUpgrade113Upgrade \<noteq> NodeOperationPhaseKubeletReboot"
  "NodeOperationPhaseUpgrade113Upgrade \<noteq> NodeOperationPhaseVerifyReboot"
  "NodeOperationPhaseUpgrade113Upgrade \<noteq> NodeOperationPhaseProvisioning"
  "NodeOperationPhaseUpgrade113Upgrade \<noteq> NodeOperationPhaseProvisionVerifying"
  "NodeOperationPhaseUpgrade113Upgrade \<noteq> NodeOperationPhaseUpgradeDrain"
  "NodeOperationPhaseUpgrade113Upgrade \<noteq> NodeOperationPhaseUpgradePreflight"
  "NodeOperationPhaseUpgrade113Upgrade \<noteq> NodeOperationPhaseUpgradeVerifying"
  "NodeOperationPhaseUpgrade113Upgrade \<noteq> NodeOperationPhaseUpgradeUncordon"
  "NodeOperationPhaseUpgrade113Upgrade \<noteq> NodeOperationPhaseUpgrade113ImagePull"
  "NodeOperationPhaseUpgrade113Upgrade \<noteq> NodeOperationPhaseUpgradeLegacyUpgrade"
  "NodeOperationPhaseUpgradeLegacyUpgrade \<noteq> NodeOperationPhasePending"
  "NodeOperationPhaseUpgradeLegacyUpgrade \<noteq> NodeOperationPhaseDraining"
  "NodeOperationPhaseUpgradeLegacyUpgrade \<noteq> NodeOperationPhaseApplying"
  "NodeOperationPhaseUpgradeLegacyUpgrade \<noteq> NodeOperationPhaseVerifying"
  "NodeOperationPhaseUpgradeLegacyUpgrade \<noteq> NodeOperationPhaseDone"
  "NodeOperationPhaseUpgradeLegacyUpgrade \<noteq> NodeOperationPhaseFailed"
  "NodeOperationPhaseUpgradeLegacyUpgrade \<noteq> NodeOperationPhaseApplyDrain"
  "NodeOperationPhaseUpgradeLegacyUpgrade \<noteq> NodeOperationPhaseApplyVerifying"
  "NodeOperationPhaseUpgradeLegacyUpgrade \<noteq> NodeOperationPhaseKubeletReboot"
  "NodeOperationPhaseUpgradeLegacyUpgrade \<noteq> NodeOperationPhaseVerifyReboot"
  "NodeOperationPhaseUpgradeLegacyUpgrade \<noteq> NodeOperationPhaseProvisioning"
  "NodeOperationPhaseUpgradeLegacyUpgrade \<noteq> NodeOperationPhaseProvisionVerifying"
  "NodeOperationPhaseUpgradeLegacyUpgrade \<noteq> NodeOperationPhaseUpgradeDrain"
  "NodeOperationPhaseUpgradeLegacyUpgrade \<noteq> NodeOperationPhaseUpgradePreflight"
  "NodeOperationPhaseUpgradeLegacyUpgrade \<noteq> NodeOperationPhaseUpgradeVerifying"
  "NodeOperationPhaseUpgradeLegacyUpgrade \<noteq> NodeOperationPhaseUpgradeUncordon"
  "NodeOperationPhaseUpgradeLegacyUpgrade \<noteq> NodeOperationPhaseUpgrade113ImagePull"
  "NodeOperationPhaseUpgradeLegacyUpgrade \<noteq> NodeOperationPhaseUpgrade113Upgrade"
  by (simp_all add: const_defs)

lemma node_phases_nonempty [simp]:
  "NodeOperationPhasePending \<noteq> []" "[] \<noteq> NodeOperationPhasePending"
  "NodeOperationPhaseDraining \<noteq> []" "[] \<noteq> NodeOperationPhaseDraining"
  "NodeOperationPhaseApplying \<noteq> []" "[] \<noteq> NodeOperationPhaseApplying"
  "NodeOperationPhaseVerifying \<noteq> []" "[] \<noteq> NodeOperationPhaseVerifying"
  "NodeOperationPhaseDone \<noteq> []" "[] \<noteq> NodeOperationPhaseDone"
  "NodeOperationPhaseFailed \<noteq> []" "[] \<noteq> NodeOperationPhaseFailed"
  "NodeOperationPhaseApplyDrain \<noteq> []" "[] \<noteq> NodeOperationPhaseApplyDrain"
  "NodeOperationPhaseApplyVerifying \<noteq> []" "[] \<noteq> NodeOperationPhaseApplyVerifying"
  "NodeOperationPhaseKubeletReboot \<noteq> []" "[] \<noteq> NodeOperationPhaseKubeletReboot"
  "NodeOperationPhaseVerifyReboot \<noteq> []" "[] \<noteq> NodeOperationPhaseVerifyReboot"
  "NodeOperationPhaseProvisioning \<noteq> []" "[] \<noteq> NodeOperationPhaseProvisioning"
  "NodeOperationPhaseProvisionVerifying \<noteq> []" "[] \<noteq> NodeOperationPhaseProvisionVerifying"
  "NodeOperationPhaseUpgradeDrain \<noteq> []" "[] \<noteq> NodeOperationPhaseUpgradeDrain"
  "NodeOperationPhaseUpgradePreflight \<noteq> []" "[] \<noteq> NodeOperationPhaseUpgradePreflight"
  "NodeOperationPhaseUpgradeVerifying \<noteq> []" "[] \<noteq> NodeOperationPhaseUpgradeVerifying"
  "NodeOperationPhaseUpgradeUncordon \<noteq> []" "[] \<noteq> NodeOperationPhaseUpgradeUncordon"
  "NodeOperationPhaseUpgrade113ImagePull \<noteq> []" "[] \<noteq> NodeOperationPhaseUpgrade113ImagePull"
  "NodeOperationPhaseUpgrade113Upgrade \<noteq> []" "[] \<noteq> NodeOperationPhaseUpgrade113Upgrade"
  "NodeOperationPhaseUpgradeLegacyUpgrade \<noteq> []" "[] \<noteq> NodeOperationPhaseUpgradeLegacyUpgrade"
  by (simp_all add: const_defs)

lemma node_op_types_distinct [simp]:
  "NodeOperationTypeProvision \<noteq> NodeOperationTypeBootstrap"
  "NodeOperationTypeProvision \<noteq> NodeOperationTypeApply"
  "NodeOperationTypeProvision \<noteq> NodeOperationTypeKubernetesComponentUpgrade"
  "NodeOperationTypeProvision \<noteq> NodeOperationTypeShutdown"
  "NodeOperationTypeProvision \<noteq> NodeOperationTypeReboot"
  "NodeOperationTypeProvision \<noteq> NodeOperationTypeReset"
  "NodeOperationTypeProvision \<noteq> NodeOperationTypeUpgrade"
  "NodeOperationTypeBootstrap \<noteq> NodeOperationTypeProvision"
  "NodeOperationTypeBootstrap \<noteq> NodeOperationTypeApply"
  "NodeOperationTypeBootstrap \<noteq> NodeOperationTypeKubernetesComponentUpgrade"
  "NodeOperationTypeBootstrap \<noteq> NodeOperationTypeShutdown"
  "NodeOperationTypeBootstrap \<noteq> NodeOperationTypeReboot"
  "NodeOperationTypeBootstrap \<noteq> NodeOperationTypeReset"
  "NodeOperationTypeBootstrap \<noteq> NodeOperationTypeUpgrade"
  "NodeOperationTypeApply \<noteq> NodeOperationTypeProvision"
  "NodeOperationTypeApply \<noteq> NodeOperationTypeBootstrap"
  "NodeOperationTypeApply \<noteq> NodeOperationTypeKubernetesComponentUpgrade"
  "NodeOperationTypeApply \<noteq> NodeOperationTypeShutdown"
  "NodeOperationTypeApply \<noteq> NodeOperationTypeReboot"
  "NodeOperationTypeApply \<noteq> NodeOperationTypeReset"
  "NodeOperationTypeApply \<noteq> NodeOperationTypeUpgrade"
  "NodeOperationTypeKubernetesComponentUpgrade \<noteq> NodeOperationTypeProvision"
  "NodeOperationTypeKubernetesComponentUpgrade \<noteq> NodeOperationTypeBootstrap"
  "NodeOperationTypeKubernetesComponentUpgrade \<noteq> NodeOperationTypeApply"
  "NodeOperationTypeKubernetesComponentUpgrade \<noteq> NodeOperationTypeShutdown"
  "NodeOperationTypeKubernetesComponentUpgrade \<noteq> NodeOperationTypeReboot"
  "NodeOperationTypeKubernetesComponentUpgrade \<noteq> NodeOperationTypeReset"
  "NodeOperationTypeKubernetesComponentUpgrade \<noteq> NodeOperationTypeUpgrade"
  "NodeOperationTypeShutdown \<noteq> NodeOperationTypeProvision"
  "NodeOperationTypeShutdown \<noteq> NodeOperationTypeBootstrap"
  "NodeOperationTypeShutdown \<noteq> NodeOperationTypeApply"
  "NodeOperationTypeShutdown \<noteq> NodeOperationTypeKubernetesComponentUpgrade"
  "NodeOperationTypeShutdown \<noteq> NodeOperationTypeReboot"
  "NodeOperationTypeShutdown \<noteq> NodeOperationTypeReset"
  "NodeOperationTypeShutdown \<noteq> NodeOperationTypeUpgrade"
  "NodeOperationTypeReboot \<noteq> NodeOperationTypeProvision"
  "NodeOperationTypeReboot \<noteq> NodeOperationTypeBootstrap"
  "NodeOperationTypeReboot \<noteq> NodeOperationTypeApply"
  "NodeOperationTypeReboot \<noteq> NodeOperationTypeKubernetesComponentUpgrade"
  "NodeOperationTypeReboot \<noteq> NodeOperationTypeShutdown"
  "NodeOperationTypeReboot \<noteq> NodeOperationTypeReset"
  "NodeOperationTypeReboot \<noteq> NodeOperationTypeUpgrade"
  "NodeOperationTypeReset \<noteq> NodeOperationTypeProvision"
  "NodeOperationTypeReset \<noteq> NodeOperationTypeBootstrap"
  "NodeOperationTypeReset \<noteq> NodeOperationTypeApply"
  "NodeOperationTypeReset \<noteq> NodeOperationTypeKubernetesComponentUpgrade"
  "NodeOperationTypeReset \<noteq> NodeOperationTypeShutdown"
  "NodeOperationTypeReset \<noteq> NodeOperationTypeReboot"
  "NodeOperationTypeReset \<noteq> NodeOperationTypeUpgrade"
  "NodeOperationTypeUpgrade \<noteq> NodeOperationTypeProvision"
  "NodeOperationTypeUpgrade \<noteq> NodeOperationTypeBootstrap"
  "NodeOperationTypeUpgrade \<noteq> NodeOperationTypeApply"
  "NodeOperationTypeUpgrade \<noteq> NodeOperationTypeKubernetesComponentUpgrade"
  "NodeOperationTypeUpgrade \<noteq> NodeOperationTypeShutdown"
  "NodeOperationTypeUpgrade \<noteq> NodeOperationTypeReboot"
  "NodeOperationTypeUpgrade \<noteq> NodeOperationTypeReset"
  by (simp_all add: const_defs)

lemma node_op_types_nonempty [simp]:
  "NodeOperationTypeProvision \<noteq> []" "[] \<noteq> NodeOperationTypeProvision"
  "NodeOperationTypeBootstrap \<noteq> []" "[] \<noteq> NodeOperationTypeBootstrap"
  "NodeOperationTypeApply \<noteq> []" "[] \<noteq> NodeOperationTypeApply"
  "NodeOperationTypeKubernetesComponentUpgrade \<noteq> []" "[] \<noteq> NodeOperationTypeKubernetesComponentUpgrade"
  "NodeOperationTypeShutdown \<noteq> []" "[] \<noteq> NodeOperationTypeShutdown"
  "NodeOperationTypeReboot \<noteq> []" "[] \<noteq> NodeOperationTypeReboot"
  "NodeOperationTypeReset \<noteq> []" "[] \<noteq> NodeOperationTypeReset"
  "NodeOperationTypeUpgrade \<noteq> []" "[] \<noteq> NodeOperationTypeUpgrade"
  by (simp_all add: const_defs)

lemma cluster_phases_distinct [simp]:
  "ClusterOperationPhasePending \<noteq> ClusterOperationPhasePreflight"
  "ClusterOperationPhasePending \<noteq> ClusterOperationPhaseInProgress"
  "ClusterOperationPhasePending \<noteq> ClusterOperationPhasePostflight"
  "ClusterOperationPhasePending \<noteq> ClusterOperationPhaseDone"
  "ClusterOperationPhasePending \<noteq> ClusterOperationPhaseFailed"
  "ClusterOperationPhasePreflight \<noteq> ClusterOperationPhasePending"
  "ClusterOperationPhasePreflight \<noteq> ClusterOperationPhaseInProgress"
  "ClusterOperationPhasePreflight \<noteq> ClusterOperationPhasePostflight"
  "ClusterOperationPhasePreflight \<noteq> ClusterOperationPhaseDone"
  "ClusterOperationPhasePreflight \<noteq> ClusterOperationPhaseFailed"
  "ClusterOperationPhaseInProgress \<noteq> ClusterOperationPhasePending"
  "ClusterOperationPhaseInProgress \<noteq> ClusterOperationPhasePreflight"
  "ClusterOperationPhaseInProgress \<noteq> ClusterOperationPhasePostflight"
  "ClusterOperationPhaseInProgress \<noteq> ClusterOperationPhaseDone"
  "ClusterOperationPhaseInProgress \<noteq> ClusterOperationPhaseFailed"
  "ClusterOperationPhasePostflight \<noteq> ClusterOperationPhasePending"
  "ClusterOperationPhasePostflight \<noteq> ClusterOperationPhasePreflight"
  "ClusterOperationPhasePostflight \<noteq> ClusterOperationPhaseInProgress"
  "ClusterOperationPhasePostflight \<noteq> ClusterOperationPhaseDone"
  "ClusterOperationPhasePostflight \<noteq> ClusterOperationPhaseFailed"
  "ClusterOperationPhaseDone \<noteq> ClusterOperationPhasePending"
  "ClusterOperationPhaseDone \<noteq> ClusterOperationPhasePreflight"
  "ClusterOperationPhaseDone \<noteq> ClusterOperationPhaseInProgress"
  "ClusterOperationPhaseDone \<noteq> ClusterOperationPhasePostflight"
  "ClusterOperationPhaseDone \<noteq> ClusterOperationPhaseFailed"
  "ClusterOperationPhaseFailed \<noteq> ClusterOperationPhasePending"
  "ClusterOperationPhaseFailed \<noteq> ClusterOperationPhasePreflight"
  "ClusterOperationPhaseFailed \<noteq> ClusterOperationPhaseInProgress"
  "ClusterOperationPhaseFailed \<noteq> ClusterOperationPhasePostflight"
  "ClusterOperationPhaseFailed \<noteq> ClusterOperationPhaseDone"
  by (simp_all add: const_defs)

lemma cluster_phases_nonempty [simp]:
  "ClusterOperationPhasePending \<noteq> []" "[] \<noteq> ClusterOperationPhasePending"
  "ClusterOperationPhasePreflight \<noteq> []" "[] \<noteq> ClusterOperationPhasePreflight"
  "ClusterOperationPhaseInProgress \<noteq> []" "[] \<noteq> ClusterOperationPhaseInProgress"
  "ClusterOperationPhasePostflight \<noteq> []" "[] \<noteq> ClusterOperationPhasePostflight"
  "ClusterOperationPhaseDone \<noteq> []" "[] \<noteq> ClusterOperationPhaseDone"
  "ClusterOperationPhaseFailed \<noteq> []" "[] \<noteq> ClusterOperationPhaseFailed"
  by (simp_all add: const_defs)

lemma cluster_op_types_distinct [simp]:
  "ClusterOperationTypeRollingReboot \<noteq> ClusterOperationTypeRollingApply"
  "ClusterOperationTypeRollingReboot \<noteq> ClusterOperationTypeKubernetesUpgrade"
  "ClusterOperationTypeRollingReboot \<noteq> ClusterOperationTypeBootstrap"
  "ClusterOperationTypeRollingApply \<noteq> ClusterOperationTypeRollingReboot"
  "ClusterOperationTypeRollingApply \<noteq> ClusterOperationTypeKubernetesUpgrade"
  "ClusterOperationTypeRollingApply \<noteq> ClusterOperationTypeBootstrap"
  "ClusterOperationTypeKubernetesUpgrade \<noteq> ClusterOperationTypeRollingReboot"
  "ClusterOperationTypeKubernetesUpgrade \<noteq> ClusterOperationTypeRollingApply"
  "ClusterOperationTypeKubernetesUpgrade \<noteq> ClusterOperationTypeBootstrap"
  "ClusterOperationTypeBootstrap \<noteq> ClusterOperationTypeRollingReboot"
  "ClusterOperationTypeBootstrap \<noteq> ClusterOperationTypeRollingApply"
  "ClusterOperationTypeBootstrap \<noteq> ClusterOperationTypeKubernetesUpgrade"
  by (simp_all add: const_defs)

lemma cluster_op_types_nonempty [simp]:
  "ClusterOperationTypeRollingReboot \<noteq> []" "[] \<noteq> ClusterOperationTypeRollingReboot"
  "ClusterOperationTypeRollingApply \<noteq> []" "[] \<noteq> ClusterOperationTypeRollingApply"
  "ClusterOperationTypeKubernetesUpgrade \<noteq> []" "[] \<noteq> ClusterOperationTypeKubernetesUpgrade"
  "ClusterOperationTypeBootstrap \<noteq> []" "[] \<noteq> ClusterOperationTypeBootstrap"
  by (simp_all add: const_defs)

lemma roles_distinct [simp]:
  "NodeRoleControlplane \<noteq> NodeRoleWorker"
  "NodeRoleWorker \<noteq> NodeRoleControlplane"
  by (simp_all add: const_defs)

lemma roles_nonempty [simp]:
  "NodeRoleControlplane \<noteq> []" "[] \<noteq> NodeRoleControlplane"
  "NodeRoleWorker \<noteq> []" "[] \<noteq> NodeRoleWorker"
  by (simp_all add: const_defs)

lemma reset_modes_distinct [simp]:
  "NodeResetModeAll \<noteq> NodeResetModeSystemDisk"
  "NodeResetModeAll \<noteq> NodeResetModeUserDisks"
  "NodeResetModeSystemDisk \<noteq> NodeResetModeAll"
  "NodeResetModeSystemDisk \<noteq> NodeResetModeUserDisks"
  "NodeResetModeUserDisks \<noteq> NodeResetModeAll"
  "NodeResetModeUserDisks \<noteq> NodeResetModeSystemDisk"
  by (simp_all add: const_defs)

lemma reset_modes_nonempty [simp]:
  "NodeResetModeAll \<noteq> []" "[] \<noteq> NodeResetModeAll"
  "NodeResetModeSystemDisk \<noteq> []" "[] \<noteq> NodeResetModeSystemDisk"
  "NodeResetModeUserDisks \<noteq> []" "[] \<noteq> NodeResetModeUserDisks"
  by (simp_all add: const_defs)

lemma k8s_components_distinct [simp]:
  "KubernetesComponentAPIServer \<noteq> KubernetesComponentControllerManager"
  "KubernetesComponentAPIServer \<noteq> KubernetesComponentScheduler"
  "KubernetesComponentAPIServer \<noteq> KubernetesComponentKubelet"
  "KubernetesComponentControllerManager \<noteq> KubernetesComponentAPIServer"
  "KubernetesComponentControllerManager \<noteq> KubernetesComponentScheduler"
  "KubernetesComponentControllerManager \<noteq> KubernetesComponentKubelet"
  "KubernetesComponentScheduler \<noteq> KubernetesComponentAPIServer"
  "KubernetesComponentScheduler \<noteq> KubernetesComponentControllerManager"
  "KubernetesComponentScheduler \<noteq> KubernetesComponentKubelet"
  "KubernetesComponentKubelet \<noteq> KubernetesComponentAPIServer"
  "KubernetesComponentKubelet \<noteq> KubernetesComponentControllerManager"
  "KubernetesComponentKubelet \<noteq> KubernetesComponentScheduler"
  by (simp_all add: const_defs)

lemma k8s_components_nonempty [simp]:
  "KubernetesComponentAPIServer \<noteq> []" "[] \<noteq> KubernetesComponentAPIServer"
  "KubernetesComponentControllerManager \<noteq> []" "[] \<noteq> KubernetesComponentControllerManager"
  "KubernetesComponentScheduler \<noteq> []" "[] \<noteq> KubernetesComponentScheduler"
  "KubernetesComponentKubelet \<noteq> []" "[] \<noteq> KubernetesComponentKubelet"
  by (simp_all add: const_defs)

lemma node_condition_types_distinct [simp]:
  "NodeConditionReady \<noteq> NodeConditionProvisioned"
  "NodeConditionReady \<noteq> NodeConditionConfigInSync"
  "NodeConditionReady \<noteq> NodeConditionConfigDriftDetected"
  "NodeConditionReady \<noteq> NodeConditionKubernetesInSync"
  "NodeConditionReady \<noteq> NodeConditionKubernetesReady"
  "NodeConditionReady \<noteq> NodeConditionKubernetesUnschedulable"
  "NodeConditionReady \<noteq> NodeConditionNeedsInitialUpdate"
  "NodeConditionProvisioned \<noteq> NodeConditionReady"
  "NodeConditionProvisioned \<noteq> NodeConditionConfigInSync"
  "NodeConditionProvisioned \<noteq> NodeConditionConfigDriftDetected"
  "NodeConditionProvisioned \<noteq> NodeConditionKubernetesInSync"
  "NodeConditionProvisioned \<noteq> NodeConditionKubernetesReady"
  "NodeConditionProvisioned \<noteq> NodeConditionKubernetesUnschedulable"
  "NodeConditionProvisioned \<noteq> NodeConditionNeedsInitialUpdate"
  "NodeConditionConfigInSync \<noteq> NodeConditionReady"
  "NodeConditionConfigInSync \<noteq> NodeConditionProvisioned"
  "NodeConditionConfigInSync \<noteq> NodeConditionConfigDriftDetected"
  "NodeConditionConfigInSync \<noteq> NodeConditionKubernetesInSync"
  "NodeConditionConfigInSync \<noteq> NodeConditionKubernetesReady"
  "NodeConditionConfigInSync \<noteq> NodeConditionKubernetesUnschedulable"
  "NodeConditionConfigInSync \<noteq> NodeConditionNeedsInitialUpdate"
  "NodeConditionConfigDriftDetected \<noteq> NodeConditionReady"
  "NodeConditionConfigDriftDetected \<noteq> NodeConditionProvisioned"
  "NodeConditionConfigDriftDetected \<noteq> NodeConditionConfigInSync"
  "NodeConditionConfigDriftDetected \<noteq> NodeConditionKubernetesInSync"
  "NodeConditionConfigDriftDetected \<noteq> NodeConditionKubernetesReady"
  "NodeConditionConfigDriftDetected \<noteq> NodeConditionKubernetesUnschedulable"
  "NodeConditionConfigDriftDetected \<noteq> NodeConditionNeedsInitialUpdate"
  "NodeConditionKubernetesInSync \<noteq> NodeConditionReady"
  "NodeConditionKubernetesInSync \<noteq> NodeConditionProvisioned"
  "NodeConditionKubernetesInSync \<noteq> NodeConditionConfigInSync"
  "NodeConditionKubernetesInSync \<noteq> NodeConditionConfigDriftDetected"
  "NodeConditionKubernetesInSync \<noteq> NodeConditionKubernetesReady"
  "NodeConditionKubernetesInSync \<noteq> NodeConditionKubernetesUnschedulable"
  "NodeConditionKubernetesInSync \<noteq> NodeConditionNeedsInitialUpdate"
  "NodeConditionKubernetesReady \<noteq> NodeConditionReady"
  "NodeConditionKubernetesReady \<noteq> NodeConditionProvisioned"
  "NodeConditionKubernetesReady \<noteq> NodeConditionConfigInSync"
  "NodeConditionKubernetesReady \<noteq> NodeConditionConfigDriftDetected"
  "NodeConditionKubernetesReady \<noteq> NodeConditionKubernetesInSync"
  "NodeConditionKubernetesReady \<noteq> NodeConditionKubernetesUnschedulable"
  "NodeConditionKubernetesReady \<noteq> NodeConditionNeedsInitialUpdate"
  "NodeConditionKubernetesUnschedulable \<noteq> NodeConditionReady"
  "NodeConditionKubernetesUnschedulable \<noteq> NodeConditionProvisioned"
  "NodeConditionKubernetesUnschedulable \<noteq> NodeConditionConfigInSync"
  "NodeConditionKubernetesUnschedulable \<noteq> NodeConditionConfigDriftDetected"
  "NodeConditionKubernetesUnschedulable \<noteq> NodeConditionKubernetesInSync"
  "NodeConditionKubernetesUnschedulable \<noteq> NodeConditionKubernetesReady"
  "NodeConditionKubernetesUnschedulable \<noteq> NodeConditionNeedsInitialUpdate"
  "NodeConditionNeedsInitialUpdate \<noteq> NodeConditionReady"
  "NodeConditionNeedsInitialUpdate \<noteq> NodeConditionProvisioned"
  "NodeConditionNeedsInitialUpdate \<noteq> NodeConditionConfigInSync"
  "NodeConditionNeedsInitialUpdate \<noteq> NodeConditionConfigDriftDetected"
  "NodeConditionNeedsInitialUpdate \<noteq> NodeConditionKubernetesInSync"
  "NodeConditionNeedsInitialUpdate \<noteq> NodeConditionKubernetesReady"
  "NodeConditionNeedsInitialUpdate \<noteq> NodeConditionKubernetesUnschedulable"
  by (simp_all add: const_defs)

lemma node_condition_types_nonempty [simp]:
  "NodeConditionReady \<noteq> []" "[] \<noteq> NodeConditionReady"
  "NodeConditionProvisioned \<noteq> []" "[] \<noteq> NodeConditionProvisioned"
  "NodeConditionConfigInSync \<noteq> []" "[] \<noteq> NodeConditionConfigInSync"
  "NodeConditionConfigDriftDetected \<noteq> []" "[] \<noteq> NodeConditionConfigDriftDetected"
  "NodeConditionKubernetesInSync \<noteq> []" "[] \<noteq> NodeConditionKubernetesInSync"
  "NodeConditionKubernetesReady \<noteq> []" "[] \<noteq> NodeConditionKubernetesReady"
  "NodeConditionKubernetesUnschedulable \<noteq> []" "[] \<noteq> NodeConditionKubernetesUnschedulable"
  "NodeConditionNeedsInitialUpdate \<noteq> []" "[] \<noteq> NodeConditionNeedsInitialUpdate"
  by (simp_all add: const_defs)

end
