(* ===== verification/GoStd.thy ===== *)
theory GoStd
  imports Prelude "HOL-Library.Multiset"
begin

text \<open>
  What the program uses of Go's standard library: \<^verbatim>\<open>strings\<close> and \<^verbatim>\<open>path\<close> on
  byte strings, \<^verbatim>\<open>strconv\<close>-style printing of integers, the order of strings,
  \<^verbatim>\<open>slices.SortFunc\<close>, maps with string keys, and \<^verbatim>\<open>time.Duration\<close> as an int64
  number of nanoseconds with \<^verbatim>\<open>time.ParseDuration\<close>.
\<close>

section \<open>strings\<close>

definition HasPrefix :: "string \<Rightarrow> string \<Rightarrow> bool" where
  "HasPrefix s p \<longleftrightarrow> take (length p) s = p"

definition TrimPrefix :: "string \<Rightarrow> string \<Rightarrow> string" where
  "TrimPrefix s p = (if HasPrefix s p then drop (length p) s else s)"

definition HasSuffix :: "string \<Rightarrow> string \<Rightarrow> bool" where
  "HasSuffix s p \<longleftrightarrow> HasPrefix (rev s) (rev p)"

text \<open>
  \<^verbatim>\<open>strings.Cut\<close> with a one-byte separator: the parts before and after its first
  occurrence and whether there is one.
\<close>

fun Cut :: "string \<Rightarrow> char \<Rightarrow> string \<times> string \<times> bool" where
  "Cut [] sep = ([], [], False)"
| "Cut (c # s) sep =
    (if c = sep then ([], s, True)
     else (case Cut s sep of (before, after, found) \<Rightarrow> (c # before, after, found)))"

text \<open>\<^verbatim>\<open>strings.Split\<close> with a one-byte separator.\<close>

fun Split :: "string \<Rightarrow> char \<Rightarrow> string list" where
  "Split [] sep = [[]]"
| "Split (c # s) sep =
    (if c = sep then [] # Split s sep
     else (case Split s sep of [] \<Rightarrow> [[c]] | w # ws \<Rightarrow> (c # w) # ws))"

text \<open>\<^verbatim>\<open>strings.LastIndex\<close> with a one-byte substring; \<open>None\<close> is the result -1.\<close>

fun LastIndex :: "string \<Rightarrow> char \<Rightarrow> nat option" where
  "LastIndex [] sep = None"
| "LastIndex (c # s) sep =
    (case LastIndex s sep of
       Some i \<Rightarrow> Some (Suc i)
     | None \<Rightarrow> if c = sep then Some 0 else None)"

text \<open>\<^verbatim>\<open>strings.Trim\<close> with a one-byte cutset.\<close>

definition Trim :: "string \<Rightarrow> char \<Rightarrow> string" where
  "Trim s c = rev (dropWhile ((=) c) (rev (dropWhile ((=) c) s)))"

text \<open>
  \<^verbatim>\<open>strings.TrimSpace\<close>: the characters of \<^verbatim>\<open>unicode.IsSpace\<close> in their UTF-8
  encoding.
\<close>

definition byte :: "nat \<Rightarrow> char" where
  "byte n = char_of n"

definition spaces :: "string list" where
  "spaces =
    [[CHR 0x09], [CHR 0x0A], [CHR 0x0B], [CHR 0x0C], [CHR 0x0D], [CHR 0x20],
     [CHR 0xC2, CHR 0x85], [CHR 0xC2, CHR 0xA0],
     [CHR 0xE1, CHR 0x9A, CHR 0x80]]
    @ map (\<lambda>i. [CHR 0xE2, CHR 0x80, byte i]) [0x80 ..< 0x8B]
    @ [[CHR 0xE2, CHR 0x80, CHR 0xA8], [CHR 0xE2, CHR 0x80, CHR 0xA9],
       [CHR 0xE2, CHR 0x80, CHR 0xAF], [CHR 0xE2, CHR 0x81, CHR 0x9F],
       [CHR 0xE3, CHR 0x80, CHR 0x80]]"

lemma spaces_nonempty: "w \<in> set spaces \<Longrightarrow> w \<noteq> []"
  by (auto simp: spaces_def)

text \<open>One round of the trimming removes one space from the front, if there is one.\<close>

function trimLeftAny :: "string list \<Rightarrow> string \<Rightarrow> string" where
  "trimLeftAny ws s =
    (case find (\<lambda>w. w \<noteq> [] \<and> HasPrefix s w) ws of
       None \<Rightarrow> s
     | Some w \<Rightarrow> trimLeftAny ws (drop (length w) s))"
  by pat_completeness auto

termination trimLeftAny
proof (relation "measure (\<lambda>(ws, s). length s)")
  fix ws :: "string list" and s w :: string
  assume "find (\<lambda>w. w \<noteq> [] \<and> HasPrefix s w) ws = Some w"
  then have "w \<noteq> []" "take (length w) s = w"
    by (auto simp: find_Some_iff HasPrefix_def)
  then have "s \<noteq> []" by auto
  with \<open>w \<noteq> []\<close> show "((ws, drop (length w) s), ws, s) \<in> measure (\<lambda>(ws, s). length s)"
    by simp
qed simp

declare trimLeftAny.simps [simp del]

definition TrimSpace :: "string \<Rightarrow> string" where
  "TrimSpace s = rev (trimLeftAny (map rev spaces) (rev (trimLeftAny spaces s)))"

text \<open>\<^verbatim>\<open>strings.Contains\<close>.\<close>

fun Contains :: "string \<Rightarrow> string \<Rightarrow> bool" where
  "Contains [] p \<longleftrightarrow> p = []"
| "Contains (c # s) p \<longleftrightarrow> HasPrefix (c # s) p \<or> Contains s p"

text \<open>\<^verbatim>\<open>path.Base\<close>: the last element of a slash-separated path.\<close>

definition path_Base :: "string \<Rightarrow> string" where
  "path_Base p =
    (if p = [] then ''.''
     else let q = rev (dropWhile ((=) CHR ''/'') (rev p)) in
       if q = [] then ''/''
       else (case LastIndex q CHR ''/'' of None \<Rightarrow> q | Some i \<Rightarrow> drop (Suc i) q))"

text \<open>Go's order on strings: bytewise and lexicographic.\<close>

fun str_less :: "string \<Rightarrow> string \<Rightarrow> bool" where
  "str_less xs [] \<longleftrightarrow> False"
| "str_less [] (y # ys) \<longleftrightarrow> True"
| "str_less (x # xs) (y # ys) \<longleftrightarrow>
    (of_char x :: nat) < of_char y \<or> x = y \<and> str_less xs ys"

text \<open>Decimal printing, as by \<^verbatim>\<open>%d\<close>.\<close>

function itoa_nat :: "nat \<Rightarrow> string" where
  "itoa_nat n = (if n < 10 then [byte (48 + n)] else itoa_nat (n div 10) @ [byte (48 + n mod 10)])"
  by pat_completeness auto
termination itoa_nat
  by (relation "measure id") auto

declare itoa_nat.simps [simp del]

definition itoa :: "int \<Rightarrow> string" where
  "itoa i = (if i < 0 then CHR ''-'' # itoa_nat (nat (- i)) else itoa_nat (nat i))"

section \<open>Maps with string keys\<close>

text \<open>
  A Go map with string keys as an association list with each key at most once; assignment
  replaces the value of a present key and appends a new one.
\<close>

type_synonym 'v strmap = "(string \<times> 'v) list"

fun map_set :: "'v strmap \<Rightarrow> string \<Rightarrow> 'v \<Rightarrow> 'v strmap" where
  "map_set [] k v = [(k, v)]"
| "map_set ((k', v') # m) k v = (if k' = k then (k, v) # m else (k', v') # map_set m k v)"

definition map_delete :: "'v strmap \<Rightarrow> string \<Rightarrow> 'v strmap" where
  "map_delete m k = filter (\<lambda>(k', _). k' \<noteq> k) m"

section \<open>slices.SortFunc\<close>

text \<open>
  \<open>sort_func before xs\<close> inserts every element after the elements it is not strictly
  before. The result of \<^verbatim>\<open>slices.SortFunc\<close> is fixed by the comparison up to the
  order of elements it calls equal, which this definition keeps as they came.
\<close>

fun sort_insert :: "('a \<Rightarrow> 'a \<Rightarrow> bool) \<Rightarrow> 'a \<Rightarrow> 'a list \<Rightarrow> 'a list" where
  "sort_insert before x [] = [x]"
| "sort_insert before x (y # ys) =
    (if before y x then y # sort_insert before x ys else x # y # ys)"

fun sort_func :: "('a \<Rightarrow> 'a \<Rightarrow> bool) \<Rightarrow> 'a list \<Rightarrow> 'a list" where
  "sort_func before [] = []"
| "sort_func before (x # xs) = sort_insert before x (sort_func before xs)"

section \<open>time.Duration\<close>

definition wrap64 :: "int \<Rightarrow> int" where
  "wrap64 i = (i + 2 ^ 63) mod 2 ^ 64 - 2 ^ 63"

definition clamp64 :: "int \<Rightarrow> int" where
  "clamp64 i = max (- (2 ^ 63)) (min (2 ^ 63 - 1) i)"

definition Nanosecond :: int where "Nanosecond = 1"
definition Microsecond :: int where "Microsecond = 1000"
definition Millisecond :: int where "Millisecond = 1000000"
definition Second :: int where "Second = 1000000000"
definition Minute :: int where "Minute = 60000000000"
definition Hour :: int where "Hour = 3600000000000"

text \<open>
  An instant is a number of nanoseconds after Go's zero time; \<open>0\<close> is the zero time
  itself. \<^verbatim>\<open>t.Sub(u)\<close> saturates at the bounds of a Duration.
\<close>

definition time_Sub :: "int \<Rightarrow> int \<Rightarrow> int" where
  "time_Sub t u = clamp64 (t - u)"

definition IsZero :: "int \<Rightarrow> bool" where
  "IsZero t \<longleftrightarrow> t = 0"

definition is_digit :: "char \<Rightarrow> bool" where
  "is_digit c \<longleftrightarrow> 48 \<le> (of_char c :: nat) \<and> (of_char c :: nat) \<le> 57"

definition digit_val :: "char \<Rightarrow> nat" where
  "digit_val c = of_char c - 48"

text \<open>\<open>leadingInt\<close> and \<open>leadingFraction\<close> of Go's \<^verbatim>\<open>time/format.go\<close>.\<close>

fun leadingInt :: "nat \<Rightarrow> string \<Rightarrow> (nat \<times> string) option" where
  "leadingInt x [] = Some (x, [])"
| "leadingInt x (c # s) =
    (if \<not> is_digit c then Some (x, c # s)
     else if 2 ^ 63 div 10 < x then None
     else let x' = x * 10 + digit_val c in
       if 2 ^ 63 < x' then None else leadingInt x' s)"

fun leadingFraction :: "bool \<Rightarrow> nat \<Rightarrow> nat \<Rightarrow> string \<Rightarrow> nat \<times> nat \<times> string" where
  "leadingFraction overflow x scale [] = (x, scale, [])"
| "leadingFraction overflow x scale (c # s) =
    (if \<not> is_digit c then (x, scale, c # s)
     else if overflow then leadingFraction overflow x scale s
     else if (2 ^ 63 - 1) div 10 < x then leadingFraction True x scale s
     else let y = x * 10 + digit_val c in
       if 2 ^ 63 < y then leadingFraction True x scale s
       else leadingFraction False y (scale * 10) s)"

definition unitMap :: "string \<Rightarrow> nat option" where
  "unitMap u =
    (if u = ''ns'' then Some 1
     else if u = ''us'' then Some 1000
     else if u = [CHR 0xC2, CHR 0xB5, CHR ''s''] then Some 1000
     else if u = [CHR 0xCE, CHR 0xBC, CHR ''s''] then Some 1000
     else if u = ''ms'' then Some 1000000
     else if u = ''s'' then Some 1000000000
     else if u = ''m'' then Some 60000000000
     else if u = ''h'' then Some 3600000000000
     else None)"

definition is_num :: "char \<Rightarrow> bool" where
  "is_num c \<longleftrightarrow> c = CHR ''.'' \<or> is_digit c"

text \<open>
  One element of a duration, a number and its unit: its value in nanoseconds and the rest
  of the string. The fraction is scaled exactly where Go uses float64 arithmetic.
\<close>

definition duration_elem :: "string \<Rightarrow> (nat \<times> string) option" where
  "duration_elem s =
    (case leadingInt 0 s of
       None \<Rightarrow> None
     | Some (v, s1) \<Rightarrow>
         let pre = length s \<noteq> length s1;
             (f, scale, s2, post) =
               (case s1 of
                  c # s1' \<Rightarrow>
                    if c = CHR ''.'' then
                      (case leadingFraction False 0 1 s1' of
                         (f, scale, s2) \<Rightarrow> (f, scale, s2, length s1' \<noteq> length s2))
                    else (0, 1, s1, False)
                | [] \<Rightarrow> (0, 1, s1, False))
         in if \<not> pre \<and> \<not> post then None
            else let u = takeWhile (\<lambda>c. \<not> is_num c) s2;
                     s3 = dropWhile (\<lambda>c. \<not> is_num c) s2
                 in if u = [] then None
                    else (case unitMap u of
                        None \<Rightarrow> None
                      | Some unit \<Rightarrow>
                          if 2 ^ 63 div unit < v then None
                          else let v1 = v * unit + f * unit div scale in
                            if 0 < f \<and> 2 ^ 63 < v1 then None else Some (v1, s3)))"

text \<open>
  The loop of \<^verbatim>\<open>time.ParseDuration\<close>. Every round removes a unit, so the length of
  the string is enough fuel (\<open>duration_elem_shorter\<close>).
\<close>

fun duration_loop :: "nat \<Rightarrow> nat \<Rightarrow> string \<Rightarrow> nat option" where
  "duration_loop fuel d [] = Some d"
| "duration_loop 0 d (c # s) = None"
| "duration_loop (Suc fuel) d (c # s) =
    (if \<not> is_num c then None
     else (case duration_elem (c # s) of
         None \<Rightarrow> None
       | Some (v, s') \<Rightarrow>
           let d' = (d + v) mod 2 ^ 64 in
           if 2 ^ 63 < d' then None else duration_loop fuel d' s'))"

definition ParseDuration :: "string \<Rightarrow> int option" where
  "ParseDuration orig =
    (let (neg, s) = (case orig of
                       c # s' \<Rightarrow> if c = CHR ''-'' then (True, s')
                                 else if c = CHR ''+'' then (False, s') else (False, orig)
                     | [] \<Rightarrow> (False, orig))
     in if s = ''0'' then Some 0
        else if s = [] then None
        else (case duration_loop (length s) 0 s of
            None \<Rightarrow> None
          | Some d \<Rightarrow>
              if neg then Some (wrap64 (- int d))
              else if 2 ^ 63 - 1 < d then None
              else Some (int d)))"


section \<open>Laws of these functions\<close>

lemma HasPrefix_append [simp]: "HasPrefix (p @ s) p"
  by (simp add: HasPrefix_def)

lemma HasPrefix_iff: "HasPrefix s p \<longleftrightarrow> (\<exists>t. s = p @ t)"
  by (metis HasPrefix_append HasPrefix_def append_take_drop_id)

lemma HasPrefix_Nil [simp]: "HasPrefix s []"
  by (simp add: HasPrefix_def)

lemma HasSuffix_iff: "HasSuffix s p \<longleftrightarrow> (\<exists>t. s = t @ p)"
proof
  assume "HasSuffix s p"
  then obtain t where "rev s = rev p @ t" by (auto simp: HasSuffix_def HasPrefix_iff)
  then have "s = rev t @ p" by (metis rev_append rev_rev_ident)
  then show "\<exists>t. s = t @ p" ..
qed (auto simp: HasSuffix_def)

text \<open>\<^verbatim>\<open>Cut\<close> splits at the first separator.\<close>

lemma Cut_found: "Cut s sep = (a, b, True) \<longleftrightarrow> s = a @ sep # b \<and> sep \<notin> set a"
proof (induction s arbitrary: a)
  case (Cons c s)
  show ?case
    using Cons.IH [of "tl a"] by (cases a; cases "Cut s sep") auto
qed simp

lemma Cut_absent: "Cut s sep = (a, b, False) \<longleftrightarrow> a = s \<and> b = [] \<and> sep \<notin> set s"
proof (induction s arbitrary: a)
  case (Cons c s)
  show ?case
    using Cons.IH [of "tl a"] by (cases a; cases "Cut s sep") auto
qed auto

lemma Cut_append [simp]: "sep \<notin> set a \<Longrightarrow> Cut (a @ sep # b) sep = (a, b, True)"
  by (simp add: Cut_found)

text \<open>\<^verbatim>\<open>Split\<close> never yields an empty list and loses nothing but the separators.\<close>

lemma Split_nonempty [simp]: "Split s sep \<noteq> []"
  by (cases s) (auto split: list.splits)

fun join_with :: "char \<Rightarrow> string list \<Rightarrow> string" where
  "join_with sep [] = []"
| "join_with sep [w] = w"
| "join_with sep (w # v # ws) = w @ sep # join_with sep (v # ws)"

lemma join_with_Cons: "ws \<noteq> [] \<Longrightarrow> join_with sep (w # ws) = w @ sep # join_with sep ws"
  by (cases ws) auto

lemma join_with_Cons_char: "join_with sep ((c # w) # ws) = c # join_with sep (w # ws)"
  by (cases ws) auto

lemma join_Split: "join_with sep (Split s sep) = s"
proof (induction s)
  case (Cons c s)
  then show ?case
    by (cases "Split s sep") (auto simp: join_with_Cons join_with_Cons_char)
qed simp

lemma Split_no_sep: "w \<in> set (Split s sep) \<Longrightarrow> sep \<notin> set w"
proof (induction s arbitrary: w)
  case (Cons c s)
  then show ?case
    by (cases "Split s sep") (auto split: if_splits)
qed simp

lemma Split_single: "sep \<notin> set w \<Longrightarrow> Split w sep = [w]"
  by (induction w) auto

lemma Split_append: "sep \<notin> set w \<Longrightarrow> Split (w @ sep # s) sep = w # Split s sep"
  by (induction w) auto

lemma Split_join:
  "ws \<noteq> [] \<Longrightarrow> (\<And>w. w \<in> set ws \<Longrightarrow> sep \<notin> set w) \<Longrightarrow> Split (join_with sep ws) sep = ws"
proof (induction sep ws rule: join_with.induct)
  case (2 sep w)
  then show ?case by (simp add: Split_single)
next
  case (3 sep w v ws)
  then show ?case by (simp add: Split_append)
qed simp

text \<open>\<^verbatim>\<open>LastIndex\<close> finds the last separator.\<close>

lemma LastIndex_None: "LastIndex s sep = None \<longleftrightarrow> sep \<notin> set s"
  by (induction s) (auto split: option.splits)

lemma LastIndex_Some:
  "LastIndex s sep = Some i \<longleftrightarrow> i < length s \<and> s ! i = sep \<and> sep \<notin> set (drop (Suc i) s)"
proof (induction s arbitrary: i)
  case (Cons c s)
  show ?case
  proof (cases "LastIndex s sep")
    case None
    then have "sep \<notin> set s" by (simp add: LastIndex_None)
    then show ?thesis using None
      by (cases i) (auto dest: nth_mem)
  next
    case (Some j)
    then have j: "j < length s" "s ! j = sep" "sep \<notin> set (drop (Suc j) s)" using Cons.IH by auto
    then have "sep \<in> set s" by (metis nth_mem)
    then show ?thesis
    proof (cases i)
      case (Suc k)
      then show ?thesis using Some Cons.IH [of k] by simp
    qed (use Some in auto)
  qed
qed simp

lemma LastIndex_append: "sep \<notin> set b \<Longrightarrow> LastIndex (a @ sep # b) sep = Some (length a)"
  by (simp add: LastIndex_Some nth_append)

text \<open>\<^verbatim>\<open>Trim\<close> leaves a string with no cut character at either end.\<close>

lemma Trim_ends: "Trim s c = [] \<or> hd (Trim s c) \<noteq> c \<and> last (Trim s c) \<noteq> c"
proof (cases "Trim s c = []")
  case False
  define t where "t = dropWhile ((=) c) s"
  define u where "u = dropWhile ((=) c) (rev t)"
  have T: "Trim s c = rev u" by (simp add: Trim_def t_def u_def)
  with False have u: "u \<noteq> []" by simp
  then have "hd u \<noteq> c" unfolding u_def by (metis hd_dropWhile)
  with T u have l: "last (Trim s c) \<noteq> c" by (simp add: last_rev)
  obtain v where v: "rev t = v @ u"
    unfolding u_def by (metis takeWhile_dropWhile_id)
  then have t: "t = rev u @ rev v" by (metis rev_append rev_rev_ident)
  with u have "t \<noteq> []" by simp
  then have "hd t \<noteq> c" unfolding t_def by (metis hd_dropWhile)
  with t u have "hd (rev u) \<noteq> c" by simp
  with T l show ?thesis by simp
qed simp

text \<open>\<^verbatim>\<open>path.Base\<close> of a path whose last element is not empty.\<close>

lemma path_Base_append:
  assumes "b \<noteq> []" and "CHR ''/'' \<notin> set b"
  shows "path_Base (a @ CHR ''/'' # b) = b"
proof -
  have "dropWhile ((=) CHR ''/'') (rev b @ CHR ''/'' # rev a) = rev b @ CHR ''/'' # rev a"
    using assms by (cases "rev b") (auto simp: rev_eq_Cons_iff)
  then show ?thesis
    using assms by (simp add: path_Base_def Let_def LastIndex_append)
qed

lemma path_Base_plain:
  assumes "b \<noteq> []" and "CHR ''/'' \<notin> set b"
  shows "path_Base b = b"
proof -
  have "dropWhile ((=) CHR ''/'') (rev b) = rev b"
    using assms by (cases "rev b") (auto simp: rev_eq_Cons_iff)
  then show ?thesis
    using assms by (simp add: path_Base_def Let_def LastIndex_None[THEN iffD2])
qed

text \<open>The order of strings is a strict linear order.\<close>

lemma str_less_irrefl [simp]: "\<not> str_less s s"
  by (induction s) auto

lemma str_less_trans: "str_less s t \<Longrightarrow> str_less t u \<Longrightarrow> str_less s u"
proof (induction s t arbitrary: u rule: str_less.induct)
  case (3 x xs y ys)
  then show ?case by (cases u) auto
next
  case (2 y ys)
  then show ?case by (cases u) auto
qed simp

lemma str_less_linear: "str_less s t \<or> s = t \<or> str_less t s"
proof (induction s t rule: str_less.induct)
  case (1 xs)
  then show ?case by (cases xs) auto
next
  case (3 x xs y ys)
  then show ?case by (metis linorder_neqE_nat of_char_eq_iff str_less.simps(3))
qed simp

lemma str_less_asym: "str_less s t \<Longrightarrow> \<not> str_less t s"
  using str_less_irrefl str_less_trans by blast

text \<open>Assignment to a map.\<close>

lemma map_of_map_set [simp]: "map_of (map_set m k v) = (map_of m)(k \<mapsto> v)"
  by (induction m k v rule: map_set.induct) auto

lemma map_of_map_delete [simp]: "map_of (map_delete m k) = (map_of m)(k := None)"
  unfolding map_delete_def
  by (induction m) auto

lemma fst_map_set: "fst ` set (map_set m k v) = insert k (fst ` set m)"
  by (induction m k v rule: map_set.induct) auto

lemma distinct_map_set: "distinct (map fst m) \<Longrightarrow> distinct (map fst (map_set m k v))"
proof (induction m k v rule: map_set.induct)
  case (2 k' v' m k v)
  then show ?case using fst_map_set [of m k v] by (auto simp: image_iff)
qed simp

text \<open>Sorting.\<close>

lemma mset_sort_insert [simp]: "mset (sort_insert before x xs) = add_mset x (mset xs)"
  by (induction xs) auto

lemma mset_sort_func [simp]: "mset (sort_func before xs) = mset xs"
  by (induction xs) auto

lemma set_sort_func [simp]: "set (sort_func before xs) = set xs"
  by (metis mset_sort_func set_mset_mset)

lemma length_sort_func [simp]: "length (sort_func before xs) = length xs"
  by (metis mset_sort_func size_mset)

text \<open>The comparison function of a sort, as the strict weak order it has to be.\<close>

locale sort_order =
  fixes before :: "'a \<Rightarrow> 'a \<Rightarrow> bool"
  assumes before_asym: "before x y \<Longrightarrow> \<not> before y x"
    and not_before_trans: "\<not> before y x \<Longrightarrow> \<not> before z y \<Longrightarrow> \<not> before z x"
begin

lemma sort_insert_sorted:
  "sorted_wrt (\<lambda>a b. \<not> before b a) ys \<Longrightarrow> sorted_wrt (\<lambda>a b. \<not> before b a) (sort_insert before x ys)"
proof (induction ys)
  case (Cons y ys)
  have "set (sort_insert before x ys) = insert x (set ys)"
    by (metis mset_sort_insert set_mset_add_mset_insert set_mset_mset)
  with Cons show ?case
    by (auto dest: before_asym) (metis not_before_trans)
qed simp

lemma sort_func_sorted: "sorted_wrt (\<lambda>a b. \<not> before b a) (sort_func before xs)"
  by (induction xs) (auto intro: sort_insert_sorted)

end

text \<open>Durations stay within int64.\<close>

lemma wrap64_range: "- (2 ^ 63) \<le> wrap64 i" "wrap64 i < 2 ^ 63"
  by (simp_all add: wrap64_def)

lemma wrap64_id: "- (2 ^ 63) \<le> i \<Longrightarrow> i < 2 ^ 63 \<Longrightarrow> wrap64 i = i"
  by (simp add: wrap64_def)

lemma clamp64_range: "- (2 ^ 63) \<le> clamp64 i" "clamp64 i < 2 ^ 63"
  by (simp_all add: clamp64_def)

lemma clamp64_id: "- (2 ^ 63) \<le> i \<Longrightarrow> i < 2 ^ 63 \<Longrightarrow> clamp64 i = i"
  by (simp add: clamp64_def)

lemma leadingInt_length: "leadingInt x s = Some (v, s') \<Longrightarrow> length s' \<le> length s"
  by (induction x s rule: leadingInt.induct) (auto simp: Let_def split: if_splits)

lemma leadingFraction_length: "leadingFraction b x sc s = (f, sc', s') \<Longrightarrow> length s' \<le> length s"
  by (induction b x sc s rule: leadingFraction.induct) (force simp: Let_def split: if_splits)+

lemma duration_elem_shorter: "duration_elem s = Some (v, s') \<Longrightarrow> length s' < length s"
proof -
  assume el: "duration_elem s = Some (v, s')"
  then obtain v0 s1 where li: "leadingInt 0 s = Some (v0, s1)"
    by (auto simp: duration_elem_def split: option.splits)
  define q where "q = (case s1 of
                  c # s1' \<Rightarrow>
                    if c = CHR ''.'' then
                      (case leadingFraction False 0 1 s1' of
                         (f, scale, s2) \<Rightarrow> (f, scale, s2, length s1' \<noteq> length s2))
                    else (0, 1, s1, False)
                | [] \<Rightarrow> (0, 1, s1, False))"
  obtain f scale s2 post where q: "q = (f, scale, s2, post)" by (cases q)
  have "length s2 \<le> length s1"
    using q leadingFraction_length unfolding q_def
    by (fastforce split: list.splits if_splits prod.splits)
  moreover have "length s1 \<le> length s" using li by (rule leadingInt_length)
  moreover have "takeWhile (\<lambda>c. \<not> is_num c) s2 \<noteq> []" "s' = dropWhile (\<lambda>c. \<not> is_num c) s2"
    using el q unfolding duration_elem_def li q_def
    by (auto simp: Let_def split: if_splits option.splits prod.splits)
  moreover have "length (takeWhile (\<lambda>c. \<not> is_num c) s2) + length (dropWhile (\<lambda>c. \<not> is_num c) s2) = length s2"
    by (metis length_append takeWhile_dropWhile_id)
  ultimately show ?thesis by (cases "takeWhile (\<lambda>c. \<not> is_num c) s2") auto
qed

text \<open>More fuel than the length of the string changes nothing.\<close>

lemma duration_loop_fuel:
  "length s \<le> fuel \<Longrightarrow> duration_loop fuel d s = duration_loop (length s) d s"
proof (induction "length s" arbitrary: fuel d s rule: less_induct)
  case less
  show ?case
  proof (cases s)
    case (Cons c t)
    with less.prems obtain n where n: "fuel = Suc n" "length t \<le> n" by (cases fuel) auto
    have "duration_loop n d' s' = duration_loop (length t) d' s'"
      if "duration_elem (c # t) = Some (v, s')" for d' v s'
    proof -
      have "length s' \<le> length t" using duration_elem_shorter [OF that] by simp
      moreover have "length s' < length s" using Cons \<open>length s' \<le> length t\<close> by simp
      ultimately show ?thesis using less.hyps n(2) by (metis le_trans)
    qed
    then show ?thesis using Cons n by (simp split: option.splits prod.splits add: Let_def)
  qed simp
qed

lemma duration_loop_le: "d \<le> 2 ^ 63 \<Longrightarrow> duration_loop fuel d s = Some r \<Longrightarrow> r \<le> 2 ^ 63"
  by (induction fuel d s rule: duration_loop.induct)
    (auto simp: Let_def split: if_splits option.splits)

lemma ParseDuration_range:
  assumes "ParseDuration s = Some d"
  shows "- (2 ^ 63) \<le> d \<and> d < 2 ^ 63"
proof -
  from assms show ?thesis
    unfolding ParseDuration_def
    by (auto simp: Let_def wrap64_range [simplified] split: if_splits option.splits prod.splits)
qed

end
