(* ===== verification/Api_Types.thy ===== *)
theory Api_Types
  imports Constants GoStd
begin

text \<open>
  The objects of \<^verbatim>\<open>api/v1alpha1\<close>: Node and Cluster with their specs, operations and
  statuses, and the methods the package declares on them. A Go struct is a record with a
  prefix per struct, a pointer an option, a slice a list, an embedded struct a field, a
  time the nanoseconds of \<open>GoStd\<close>. Of ObjectMeta the records keep what the program
  reads or writes; \<open>n_rv\<close> and \<open>c_rv\<close> stand for the resource version.
\<close>

section \<open>Conditions\<close>

datatype cond_status = CTrue | CFalse | CUnknown

record condition =
  cd_type :: string
  cd_status :: cond_status
  cd_reason :: string
  cd_message :: string
  cd_since :: int

section \<open>Patches\<close>

record PatchRef =
  pr_Name :: string
  pr_Key :: string
  pr_Namespace :: string

record PatchHierarchyElement =
  phe_PatchRef :: PatchRef
  phe_Source :: string
  phe_Synthetic :: bool
  phe_SyntheticExplanation :: string

type_synonym PatchHierarchy = "PatchHierarchyElement list"

section \<open>Node operations\<close>

record NodeOperationOptions =
  noo_Unsafe :: bool

record ProvisionOperationOptions =
  poo_Address :: string
  poo_Skip :: bool

record ResetOperationOptions =
  roo_Mode :: string
  roo_Reboot :: bool
  roo_Graceful :: "bool option"
  roo_SystemLabelsToWipe :: "string list"
  roo_UserDisksToWipe :: "string list"

record KubernetesComponentUpgradeOptions =
  kcu_ComponentName :: string

record NodeOperation =
  no_Type :: string
  no_Options :: NodeOperationOptions
  no_Provision :: ProvisionOperationOptions
  no_Reset :: ResetOperationOptions
  no_KubernetesComponentUpgrade :: KubernetesComponentUpgradeOptions

record NodeOperationStatus =
  nos_op :: NodeOperation
  nos_Phase :: string
  nos_Reason :: string
  nos_Message :: string
  nos_LastTransitionTime :: int

text \<open>The zero values of Go.\<close>

definition NodeOperationOptions_zero :: NodeOperationOptions where
  "NodeOperationOptions_zero = \<lparr>noo_Unsafe = False\<rparr>"

definition ProvisionOperationOptions_zero :: ProvisionOperationOptions where
  "ProvisionOperationOptions_zero = \<lparr>poo_Address = [], poo_Skip = False\<rparr>"

definition ResetOperationOptions_zero :: ResetOperationOptions where
  "ResetOperationOptions_zero =
    \<lparr>roo_Mode = [], roo_Reboot = False, roo_Graceful = None,
     roo_SystemLabelsToWipe = [], roo_UserDisksToWipe = []\<rparr>"

definition NodeOperation_zero :: NodeOperation where
  "NodeOperation_zero =
    \<lparr>no_Type = [], no_Options = NodeOperationOptions_zero,
     no_Provision = ProvisionOperationOptions_zero, no_Reset = ResetOperationOptions_zero,
     no_KubernetesComponentUpgrade = \<lparr>kcu_ComponentName = []\<rparr>\<rparr>"

abbreviation nos_Type :: "NodeOperationStatus \<Rightarrow> string" where
  "nos_Type os \<equiv> no_Type (nos_op os)"

abbreviation nos_Unsafe :: "NodeOperationStatus \<Rightarrow> bool" where
  "nos_Unsafe os \<equiv> noo_Unsafe (no_Options (nos_op os))"

section \<open>Kubernetes versions\<close>

record KubernetesVersions =
  kv_APIServer :: string
  kv_ControllerManager :: string
  kv_Scheduler :: string
  kv_Kubelet :: string

definition KubernetesVersions_zero :: KubernetesVersions where
  "KubernetesVersions_zero =
    \<lparr>kv_APIServer = [], kv_ControllerManager = [], kv_Scheduler = [], kv_Kubelet = []\<rparr>"

text \<open>The panic of the default case is \<open>None\<close>.\<close>

definition GetComponentVersion :: "KubernetesVersions \<Rightarrow> string \<Rightarrow> string option" where
  "GetComponentVersion kv component =
    (if component = KubernetesComponentAPIServer then Some (kv_APIServer kv)
     else if component = KubernetesComponentControllerManager then Some (kv_ControllerManager kv)
     else if component = KubernetesComponentScheduler then Some (kv_Scheduler kv)
     else if component = KubernetesComponentKubelet then Some (kv_Kubelet kv)
     else None)"

definition SetComponentVersion ::
    "KubernetesVersions \<Rightarrow> string \<Rightarrow> string \<Rightarrow> KubernetesVersions option" where
  "SetComponentVersion kv component version =
    (if component = KubernetesComponentAPIServer then Some (kv\<lparr>kv_APIServer := version\<rparr>)
     else if component = KubernetesComponentControllerManager
       then Some (kv\<lparr>kv_ControllerManager := version\<rparr>)
     else if component = KubernetesComponentScheduler then Some (kv\<lparr>kv_Scheduler := version\<rparr>)
     else if component = KubernetesComponentKubelet then Some (kv\<lparr>kv_Kubelet := version\<rparr>)
     else None)"

section \<open>Node\<close>

record NodeSpec =
  ns_ClusterRef :: string
  ns_Role :: string
  ns_Patches :: "string list"
  ns_PatchRefs :: "PatchRef list"

record NodeStatus =
  nst_Conditions :: "condition list"
  nst_Operation :: "NodeOperationStatus option"
  nst_BootID :: string
  nst_AppliedConfigHash :: string
  nst_TalosVersion :: string
  nst_TalosSchematicID :: string
  nst_KubernetesVersions :: "KubernetesVersions option"
  nst_EffectiveConfig :: string
  nst_PatchHierarchy :: PatchHierarchy

record Node =
  n_Namespace :: string
  n_Name :: string
  n_rv :: string
  n_Annotations :: "string strmap"
  n_Finalizers :: "string list"
  n_DeletionTimestamp :: "int option"
  n_Spec :: NodeSpec
  n_Operation :: "NodeOperation option"
  n_Status :: NodeStatus

abbreviation n_Role :: "Node \<Rightarrow> string" where
  "n_Role n \<equiv> ns_Role (n_Spec n)"

abbreviation n_Conditions :: "Node \<Rightarrow> condition list" where
  "n_Conditions n \<equiv> nst_Conditions (n_Status n)"

abbreviation n_OpStatus :: "Node \<Rightarrow> NodeOperationStatus option" where
  "n_OpStatus n \<equiv> nst_Operation (n_Status n)"

abbreviation upd_status :: "(NodeStatus \<Rightarrow> NodeStatus) \<Rightarrow> Node \<Rightarrow> Node" where
  "upd_status f n \<equiv> n\<lparr>n_Status := f (n_Status n)\<rparr>"

section \<open>Cluster\<close>

record ClusterMaintenanceWindow =
  mw_Enabled :: "bool option"
  mw_AnnotationsEnabled :: "bool option"
  mw_Cron :: string
  mw_Duration :: string
  mw_Timezone :: string

record ClusterArgoCDSecret =
  argo_Enabled :: "bool option"
  argo_Namespace :: string
  argo_ClusterNameOverride :: string
  argo_ExtraLabels :: "string strmap"

record ClusterOptions =
  co_MaintenanceWindow :: ClusterMaintenanceWindow
  co_ArgoCDSecret :: ClusterArgoCDSecret
  co_PhaseTimeout :: string
  co_DrainTimeout :: string
  co_AutoBootstrap :: "bool option"

record ClusterSpec =
  cs_KubernetesVersion :: string
  cs_TalosVersionContract :: string
  cs_Domain :: string
  cs_SecretsRef :: string
  cs_Patches :: "string list"
  cs_ControlPlanePatches :: "string list"
  cs_WorkerPatches :: "string list"
  cs_PatchRefs :: "PatchRef list"
  cs_ControlPlanePatchRefs :: "PatchRef list"
  cs_WorkerPatchRefs :: "PatchRef list"
  cs_Options :: ClusterOptions

record ClusterManagedNodeOperationStatus =
  sub_op :: NodeOperationStatus
  sub_NodeName :: string

record ClusterOperation =
  cop_Type :: string

record ClusterOperationStatus =
  cos_op :: ClusterOperation
  cos_Phase :: string
  cos_Reason :: string
  cos_Message :: string
  cos_LastTransitionTime :: int
  cos_SubOperations :: "ClusterManagedNodeOperationStatus list"

record ClusterStatus =
  cst_Conditions :: "condition list"
  cst_Operation :: "ClusterOperationStatus option"
  cst_NextMaintenanceWindow :: int

record Cluster =
  c_Namespace :: string
  c_Name :: string
  c_UID :: string
  c_rv :: string
  c_Spec :: ClusterSpec
  c_Status :: ClusterStatus
  c_Operation :: "ClusterOperation option"

section \<open>Methods of Node\<close>

definition getFQDNOverride :: "Node \<Rightarrow> string option" where
  "getFQDNOverride n =
    (case map_of (n_Annotations n) NodeAnnotationFQDNOverride of
       Some fqdn \<Rightarrow> if fqdn \<noteq> [] then Some fqdn else None
     | None \<Rightarrow> None)"

definition GetFQDN :: "Node \<Rightarrow> Cluster \<Rightarrow> string" where
  "GetFQDN n c =
    (case getFQDNOverride n of
       Some fqdn \<Rightarrow> fqdn
     | None \<Rightarrow> n_Name n @ ''.'' @ cs_Domain (c_Spec c))"

definition GetConnectHost :: "Node \<Rightarrow> Cluster \<Rightarrow> string" where
  "GetConnectHost n c =
    (case map_of (n_Annotations n) NodeAnnotationConnectHostOverride of
       Some host \<Rightarrow> if host \<noteq> [] then host else GetFQDN n c
     | None \<Rightarrow> GetFQDN n c)"

definition GetShortName :: "Node \<Rightarrow> string" where
  "GetShortName n =
    (case getFQDNOverride n of
       Some fqdn \<Rightarrow> fst (Cut fqdn CHR ''.'')
     | None \<Rightarrow> n_Name n)"

section \<open>Methods of the cluster options\<close>

text \<open>The duration to use, and whether the configured one could not be parsed.\<close>

definition GetPhaseTimeout :: "ClusterOptions \<Rightarrow> int \<times> bool" where
  "GetPhaseTimeout o' =
    (case ParseDuration (if co_PhaseTimeout o' = [] then ''10m'' else co_PhaseTimeout o') of
       Some d \<Rightarrow> (d, False)
     | None \<Rightarrow> (10 * Minute, True))"

definition GetDrainTimeout :: "ClusterOptions \<Rightarrow> int \<times> bool" where
  "GetDrainTimeout o' =
    (case ParseDuration (if co_DrainTimeout o' = [] then ''20m'' else co_DrainTimeout o') of
       Some d \<Rightarrow> (d, False)
     | None \<Rightarrow> (20 * Minute, True))"

definition IsEnabled :: "ClusterMaintenanceWindow \<Rightarrow> bool" where
  "IsEnabled mw \<longleftrightarrow> mw_Enabled mw = None \<or> mw_Enabled mw = Some True"

definition IsAnnotationsEnabled :: "ClusterMaintenanceWindow \<Rightarrow> bool" where
  "IsAnnotationsEnabled mw \<longleftrightarrow>
    mw_AnnotationsEnabled mw = None \<or> mw_AnnotationsEnabled mw = Some True"

section \<open>Helpers of the controllers on these types\<close>

text \<open>\<^verbatim>\<open>helpers.go\<close>.\<close>

definition makeDefaultKubernetesVersions :: "Node \<Rightarrow> Cluster \<Rightarrow> KubernetesVersions" where
  "makeDefaultKubernetesVersions node cluster =
    (let v = cs_KubernetesVersion (c_Spec cluster);
         versions = KubernetesVersions_zero\<lparr>kv_Kubelet := v\<rparr>
     in if n_Role node = NodeRoleControlplane
        then versions\<lparr>kv_APIServer := v, kv_ControllerManager := v, kv_Scheduler := v\<rparr>
        else versions)"

section \<open>Laws\<close>

definition known_component :: "string \<Rightarrow> bool" where
  "known_component c \<longleftrightarrow>
    c \<in> {KubernetesComponentAPIServer, KubernetesComponentControllerManager,
         KubernetesComponentScheduler, KubernetesComponentKubelet}"

lemma GetComponentVersion_known: "GetComponentVersion kv c = None \<longleftrightarrow> \<not> known_component c"
  by (auto simp: GetComponentVersion_def known_component_def)

lemma SetComponentVersion_known: "SetComponentVersion kv c v = None \<longleftrightarrow> \<not> known_component c"
  by (auto simp: SetComponentVersion_def known_component_def)

lemma SetComponentVersion_Get:
  "SetComponentVersion kv c v = Some kv' \<Longrightarrow>
   GetComponentVersion kv' d = (if d = c then Some v else GetComponentVersion kv d)"
  by (auto simp: SetComponentVersion_def GetComponentVersion_def split: if_splits)

lemma getFQDNOverride_nonempty: "getFQDNOverride n = Some f \<Longrightarrow> f \<noteq> []"
  by (auto simp: getFQDNOverride_def split: option.splits if_splits)

lemma GetShortName_no_dot:
  assumes "CHR ''.'' \<notin> set (n_Name n)"
  shows "CHR ''.'' \<notin> set (GetShortName n)"
proof (cases "getFQDNOverride n")
  case (Some f)
  obtain a b found where c: "Cut f CHR ''.'' = (a, b, found)" by (cases "Cut f CHR ''.''")
  then have "CHR ''.'' \<notin> set a"
    by (cases found) (auto simp: Cut_found Cut_absent)
  with Some c show ?thesis by (simp add: GetShortName_def)
qed (use assms in \<open>simp add: GetShortName_def\<close>)

lemma GetShortName_GetFQDN:
  assumes "CHR ''.'' \<notin> set (n_Name n)"
  shows "fst (Cut (GetFQDN n c) CHR ''.'') = GetShortName n"
  using assms by (auto simp: GetFQDN_def GetShortName_def split: option.splits)

lemma GetPhaseTimeout_range: "- (2 ^ 63) \<le> fst (GetPhaseTimeout o')" "fst (GetPhaseTimeout o') < 2 ^ 63"
  using ParseDuration_range by (auto simp: GetPhaseTimeout_def Minute_def split: option.split)

lemma GetDrainTimeout_range: "- (2 ^ 63) \<le> fst (GetDrainTimeout o')" "fst (GetDrainTimeout o') < 2 ^ 63"
  using ParseDuration_range by (auto simp: GetDrainTimeout_def Minute_def split: option.split)

end
