(* ===== verification/KeyedMutex.thy ===== *)
theory KeyedMutex
  imports GoStd
begin

text \<open>
  \<^verbatim>\<open>internal/keyedmutex/mutex.go\<close>: one mutex per key, created on first use. The map
  holds for every key it knows the address of a mutex; the store says which addresses are
  locked. The controllers only use \<^verbatim>\<open>For(key).TryLock()\<close> and
  \<^verbatim>\<open>For(key).Unlock()\<close>.
\<close>

record MutexMap =
  mutexes :: "nat strmap"
  next_addr :: nat
  locked :: "nat list"

definition NewMutexMap :: MutexMap where
  "NewMutexMap = \<lparr>mutexes = [], next_addr = 0, locked = []\<rparr>"

text \<open>\<open>For\<close> returns the mutex of the key, creating it when it does not exist.\<close>

definition For :: "MutexMap \<Rightarrow> string \<Rightarrow> nat \<times> MutexMap" where
  "For km key =
    (case map_of (mutexes km) key of
       Some m \<Rightarrow> (m, km)
     | None \<Rightarrow> (next_addr km,
                 km\<lparr>mutexes := map_set (mutexes km) key (next_addr km),
                    next_addr := Suc (next_addr km)\<rparr>))"

text \<open>\<^verbatim>\<open>sync.Mutex\<close>: unlocking a mutex that is not locked is a fatal error (\<open>None\<close>).\<close>

definition mutex_TryLock :: "nat \<Rightarrow> MutexMap \<Rightarrow> bool \<times> MutexMap" where
  "mutex_TryLock m km =
    (if m \<in> set (locked km) then (False, km) else (True, km\<lparr>locked := m # locked km\<rparr>))"

definition mutex_Unlock :: "nat \<Rightarrow> MutexMap \<Rightarrow> MutexMap option" where
  "mutex_Unlock m km =
    (if m \<in> set (locked km) then Some (km\<lparr>locked := removeAll m (locked km)\<rparr>) else None)"

definition TryLock :: "MutexMap \<Rightarrow> string \<Rightarrow> bool \<times> MutexMap" where
  "TryLock km key = (case For km key of (m, km') \<Rightarrow> mutex_TryLock m km')"

definition Unlock :: "MutexMap \<Rightarrow> string \<Rightarrow> MutexMap option" where
  "Unlock km key = (case For km key of (m, km') \<Rightarrow> mutex_Unlock m km')"

text \<open>The keys a map holds locked.\<close>

definition holds :: "MutexMap \<Rightarrow> string \<Rightarrow> bool" where
  "holds km key \<longleftrightarrow> (case map_of (mutexes km) key of None \<Rightarrow> False | Some m \<Rightarrow> m \<in> set (locked km))"

text \<open>
  Addresses are allocated in order and shared by no two keys, and only allocated mutexes
  are locked.
\<close>

definition wf :: "MutexMap \<Rightarrow> bool" where
  "wf km \<longleftrightarrow>
    distinct (map snd (mutexes km)) \<and> distinct (map fst (mutexes km)) \<and>
    (\<forall>k m. (k, m) \<in> set (mutexes km) \<longrightarrow> m < next_addr km) \<and>
    (\<forall>m\<in>set (locked km). m < next_addr km)"

section \<open>Sequences of attempts and releases\<close>

datatype lock_op = TryLockOp string | UnlockOp string

text \<open>One step, with the answer to an attempt; \<open>None\<close> is the fatal error.\<close>

fun lock_step :: "('m \<Rightarrow> string \<Rightarrow> bool \<times> 'm) \<Rightarrow> ('m \<Rightarrow> string \<Rightarrow> 'm option) \<Rightarrow> 'm \<Rightarrow> lock_op \<Rightarrow> (bool list \<times> 'm) option" where
  "lock_step trylock unlock m (TryLockOp k) = (case trylock m k of (b, m') \<Rightarrow> Some ([b], m'))"
| "lock_step trylock unlock m (UnlockOp k) = (case unlock m k of None \<Rightarrow> None | Some m' \<Rightarrow> Some ([], m'))"

fun lock_run :: "('m \<Rightarrow> string \<Rightarrow> bool \<times> 'm) \<Rightarrow> ('m \<Rightarrow> string \<Rightarrow> 'm option) \<Rightarrow> 'm \<Rightarrow> lock_op list \<Rightarrow> (bool list \<times> 'm) option" where
  "lock_run trylock unlock m [] = Some ([], m)"
| "lock_run trylock unlock m (op # ops) =
    (case lock_step trylock unlock m op of
       None \<Rightarrow> None
     | Some (bs, m') \<Rightarrow> map_option (\<lambda>(cs, m''). (bs @ cs, m'')) (lock_run trylock unlock m' ops))"

text \<open>The reference: the set of the locked keys.\<close>

definition set_trylock :: "string set \<Rightarrow> string \<Rightarrow> bool \<times> string set" where
  "set_trylock H k = (k \<notin> H, insert k H)"

definition set_unlock :: "string set \<Rightarrow> string \<Rightarrow> string set option" where
  "set_unlock H k = (if k \<in> H then Some (H - {k}) else None)"

section \<open>What a client of keyed locks relies on\<close>

locale keyed_locks =
  fixes invar :: "'m \<Rightarrow> bool"
    and new :: 'm
    and trylock :: "'m \<Rightarrow> string \<Rightarrow> bool \<times> 'm"
    and unlock :: "'m \<Rightarrow> string \<Rightarrow> 'm option"
    and held :: "'m \<Rightarrow> string \<Rightarrow> bool"
  assumes new_invar: "invar new"
    and new_free: "\<not> held new k"
    and trylock_invar: "invar m \<Longrightarrow> trylock m k = (b, m') \<Longrightarrow> invar m'"
    and trylock_result: "invar m \<Longrightarrow> fst (trylock m k) = (\<not> held m k)"
    and trylock_held: "invar m \<Longrightarrow> held (snd (trylock m k)) j \<longleftrightarrow> j = k \<or> held m j"
    and unlock_invar: "invar m \<Longrightarrow> unlock m k = Some m' \<Longrightarrow> invar m'"
    and unlock_defined: "invar m \<Longrightarrow> (unlock m k = None) = (\<not> held m k)"
    and unlock_held: "invar m \<Longrightarrow> unlock m k = Some m' \<Longrightarrow> held m' j \<longleftrightarrow> j \<noteq> k \<and> held m j"
begin

text \<open>A lock that was taken excludes every further attempt on its key, and no other key.\<close>

lemma exclusive:
  assumes "invar m" and "trylock m k = (True, m')"
  shows "fst (trylock m' k) = False" and "j \<noteq> k \<Longrightarrow> fst (trylock m' j) = fst (trylock m j)"
  using assms trylock_invar [OF assms] trylock_result trylock_held [OF assms(1), of k]
  by auto

text \<open>Taking a lock and releasing it restores what is held.\<close>

lemma lock_unlock:
  assumes "invar m" and "trylock m k = (True, m')"
  shows "\<exists>m''. unlock m' k = Some m'' \<and> invar m'' \<and> (\<forall>j. held m'' j = held m j)"
proof -
  have i: "invar m'" using assms by (rule trylock_invar)
  have h: "held m' j \<longleftrightarrow> j = k \<or> held m j" for j
    using trylock_held [OF assms(1), of k j] assms(2) by simp
  have nk: "\<not> held m k" using trylock_result [OF assms(1), of k] assms(2) by simp
  from h i obtain m'' where u: "unlock m' k = Some m''"
    using unlock_defined [OF i, of k] by (cases "unlock m' k") auto
  then have "held m'' j = held m j" for j using unlock_held [OF i u] h nk by auto
  with u unlock_invar [OF i u] show ?thesis by blast
qed

text \<open>A failed attempt changes nothing that is held.\<close>

lemma trylock_fail:
  assumes "invar m" and "trylock m k = (False, m')"
  shows "held m' j = held m j"
  using assms trylock_result [OF assms(1), of k] trylock_held [OF assms(1), of k j] by auto

text \<open>Whatever is done, the answers and the fatal errors are those of a set of keys.\<close>

lemma step_refines:
  assumes "invar m"
  shows "map_option (\<lambda>(bs, m'). (bs, {k. held m' k})) (lock_step trylock unlock m op) =
      lock_step set_trylock set_unlock {k. held m k} op \<and>
    pred_option (\<lambda>(bs, m'). invar m') (lock_step trylock unlock m op)"
proof (cases op)
  case (TryLockOp k)
  obtain b m' where t: "trylock m k = (b, m')" by (cases "trylock m k")
  have "{j. held m' j} = insert k {j. held m j}" "b = (\<not> held m k)" "invar m'"
    using trylock_held [OF assms, of k] trylock_result [OF assms, of k] trylock_invar [OF assms t] t by auto
  with TryLockOp t show ?thesis by (simp add: set_trylock_def)
next
  case (UnlockOp k)
  show ?thesis
  proof (cases "unlock m k")
    case None
    with UnlockOp unlock_defined [OF assms, of k] show ?thesis by (simp add: set_unlock_def)
  next
    case (Some m')
    have "{j. held m' j} = {j. held m j} - {k}" "held m k" "invar m'"
      using unlock_held [OF assms Some] unlock_defined [OF assms, of k] unlock_invar [OF assms Some] Some by auto
    with UnlockOp Some show ?thesis by (simp add: set_unlock_def)
  qed
qed

lemma run_refines:
  assumes "invar m"
  shows "map_option (\<lambda>(bs, m'). (bs, {k. held m' k})) (lock_run trylock unlock m ops) =
      lock_run set_trylock set_unlock {k. held m k} ops \<and>
    pred_option (\<lambda>(bs, m'). invar m') (lock_run trylock unlock m ops)"
  using assms
proof (induction ops arbitrary: m)
  case (Cons op ops)
  show ?case
  proof (cases "lock_step trylock unlock m op")
    case None
    with step_refines [OF Cons.prems, of op] show ?thesis by simp
  next
    case (Some x)
    obtain bs m' where x: "x = (bs, m')" by (cases x)
    have s: "lock_step set_trylock set_unlock {k. held m k} op = Some (bs, {k. held m' k})" "invar m'"
      using step_refines [OF Cons.prems, of op] Some x by simp_all
    note IH = Cons.IH [OF s(2), THEN conjunct1, symmetric] Cons.IH [OF s(2), THEN conjunct2]
    from IH(2) s(1) Some x show ?thesis
      by (cases "lock_run trylock unlock m' ops") (auto simp: IH(1))
  qed
qed simp

end

section \<open>The map of mutexes is such an implementation\<close>

lemma wf_fresh: "wf km \<Longrightarrow> map_of (mutexes km) j = Some m \<Longrightarrow> m < next_addr km"
  by (auto simp: wf_def dest!: map_of_SomeD)

lemma map_set_fresh: "map_of m k = None \<Longrightarrow> map_set m k v = m @ [(k, v)]"
  by (induction m k v rule: map_set.induct) (auto split: if_splits)

lemma wf_For: "wf km \<Longrightarrow> For km key = (m, km') \<Longrightarrow> wf km'"
  by (fastforce simp: For_def wf_def map_set_fresh less_Suc_eq map_of_eq_None_iff split: option.splits)

lemma For_lookup: "For km key = (m, km') \<Longrightarrow> map_of (mutexes km') key = Some m"
  by (auto simp: For_def split: option.splits)

lemma For_holds: "wf km \<Longrightarrow> For km key = (m, km') \<Longrightarrow> holds km' j = holds km j"
proof (cases "map_of (mutexes km) key")
  case None
  assume "wf km" and F: "For km key = (m, km')"
  then have "next_addr km \<notin> set (locked km)" by (auto simp: wf_def)
  with None F show ?thesis 
    by (cases "j = key") (auto simp: For_def holds_def split: option.split)
qed (simp add: For_def)

lemma wf_inj:
  assumes "wf km" and "map_of (mutexes km) j = Some m" and "map_of (mutexes km) k = Some m"
  shows "j = k"
proof -
  have "(j, m) \<in> set (mutexes km)" "(k, m) \<in> set (mutexes km)"
    using assms(2,3) by (auto dest: map_of_SomeD)
  moreover have "inj_on snd (set (mutexes km))" using assms(1) by (simp add: wf_def distinct_map)
  ultimately show ?thesis by (metis inj_on_contraD fst_conv snd_conv)
qed

lemma For_less: "wf km \<Longrightarrow> For km key = (m, km') \<Longrightarrow> m < next_addr km'"
  by (metis For_lookup wf_For wf_fresh)

lemma holds_For: "For km key = (m, km') \<Longrightarrow> holds km' key \<longleftrightarrow> m \<in> set (locked km')"
  by (simp add: For_lookup holds_def)

lemma For_eq: "wf km \<Longrightarrow> For km key = (m, km') \<Longrightarrow> map_of (mutexes km') j = Some m \<longleftrightarrow> j = key"
  by (metis For_lookup wf_For wf_inj)

interpretation mutex_map: keyed_locks wf NewMutexMap TryLock Unlock holds
proof
  fix km km' :: MutexMap and k j :: string and b :: bool
  show "wf NewMutexMap" "\<not> holds NewMutexMap k"
    by (simp_all add: wf_def NewMutexMap_def holds_def)
  assume w: "wf km"
  obtain m km1 where F: "For km k = (m, km1)" by (cases "For km k")
  note f = wf_For [OF w F] For_holds [OF w F] For_less [OF w F] holds_For [OF F] For_eq [OF w F]
  show "TryLock km k = (b, km') \<Longrightarrow> wf km'"
    using f(1,3) F by (auto simp: TryLock_def mutex_TryLock_def wf_def split: if_splits)
  show "fst (TryLock km k) = (\<not> holds km k)"
    using f(2) [of k] f(4) F by (simp add: TryLock_def mutex_TryLock_def)
  show "holds (snd (TryLock km k)) j \<longleftrightarrow> j = k \<or> holds km j"
    using f(2) [of j] f(4) f(5) [of j] F
    by (auto simp: TryLock_def mutex_TryLock_def holds_def split: option.splits)
  show "Unlock km k = Some km' \<Longrightarrow> wf km'"
    using f(1) F by (auto simp: Unlock_def mutex_Unlock_def wf_def split: if_splits)
  show "(Unlock km k = None) = (\<not> holds km k)"
    using f(2) [of k] f(4) F by (simp add: Unlock_def mutex_Unlock_def)
  show "Unlock km k = Some km' \<Longrightarrow> holds km' j \<longleftrightarrow> j \<noteq> k \<and> holds km j"
    using f(2) [of j] f(4) f(5) [of j] F
    by (auto simp: Unlock_def mutex_Unlock_def holds_def split: option.splits if_splits)
qed

text \<open>
  C26. The map of mutexes is a set of locked keys: whatever attempts and releases are made,
  starting with a new map, the answers of the attempts are those of the set (an attempt
  succeeds exactly if its key is not locked, whatever other keys are), a release is a fatal
  error exactly if its key is not locked, and at the end the keys held are those of the set
  and no two keys share a mutex.
\<close>

theorem MutexMap_is_set:
  "map_option (\<lambda>(answers, km). (answers, {k. holds km k})) (lock_run TryLock Unlock NewMutexMap ops) =
      lock_run set_trylock set_unlock {} ops \<and>
    pred_option (\<lambda>(answers, km). wf km) (lock_run TryLock Unlock NewMutexMap ops)"
  using mutex_map.run_refines [OF mutex_map.new_invar, of ops] by (simp add: mutex_map.new_free)

end
