(* ===== verification/Effects.thy ===== *)
theory Effects
  imports Api_Types KeyedMutex
begin

text \<open>
  The world the controllers act on. Every call that leaves the process (the API server of
  the operator, the Talos API of a machine, the Kubernetes API of the managed cluster, the
  clock, the network, the image registry) is a value of \<open>call\<close>; \<open>env\<close> answers it
  as a function of the calls made before, so it stands for every behaviour of the world,
  other writers and failures included. Third-party functions that compute (the status
  condition helpers, semver, the Talos config generator and patcher, cron, YAML) are the
  fields of \<open>lib\<close>. \<open>st\<close> is what a controller itself holds: the calls made so far,
  the objects its context points to, the map of mutexes and the client caches.
\<close>

section \<open>Objects of the outside world\<close>

text \<open>\<^verbatim>\<open>corev1.Node\<close> and \<^verbatim>\<open>corev1.Pod\<close>, as far as the controllers look at them.\<close>

record KNode =
  kn_Name :: string
  kn_Unschedulable :: bool
  kn_Conditions :: "(string \<times> cond_status) list"
  kn_Taints :: "string list"
  kn_Annotations :: "string strmap"
  kn_KubeletVersion :: string

record Pod =
  pod_Name :: string
  pod_Images :: "string list"
  pod_Conditions :: "(string \<times> cond_status) list"

record Secret =
  sec_Namespace :: string
  sec_Name :: string
  sec_Labels :: "string strmap"
  sec_Annotations :: "string strmap"
  sec_OwnerReferences :: "string list"
  sec_Immutable :: bool
  sec_Data :: "string strmap"

text \<open>The options of a drain (\<^verbatim>\<open>drain.Helper\<close>).\<close>

record DrainHelper =
  dh_IgnoreAllDaemonSets :: bool
  dh_DeleteEmptyDirData :: bool
  dh_Force :: bool
  dh_GracePeriodSeconds :: int

text \<open>A Kubernetes manifest of Talos: whether it has content, its group/version/kind, its name.\<close>

record Manifest =
  mf_empty :: bool
  mf_gvk :: string
  mf_Namespace :: string
  mf_Name :: string

text \<open>The extensions file of a machine (\<^verbatim>\<open>internal/utils/talos.go\<close>).\<close>

record ExtensionCompatibility =
  ec_Version :: string

record ExtensionMetadata =
  em_Name :: string
  em_Version :: string
  em_Author :: string
  em_Description :: string
  em_Compatibility :: "ExtensionCompatibility strmap"
  em_ExtraInfo :: string

record ExtensionLayer =
  el_Image :: string
  el_Metadata :: ExtensionMetadata

record Extensions =
  ext_Layers :: "ExtensionLayer list"

text \<open>\<^verbatim>\<open>semver.Version\<close>.\<close>

record Version =
  v_Major :: nat
  v_Minor :: nat
  v_Patch :: nat
  v_Pre :: "string list"
  v_Build :: "string list"

text \<open>
  A Talos client: the node its context addresses, the endpoints of its config, and, when
  the connect host is overridden, the endpoint and the TLS server name put in their place.
  An insecure client has no certificate.
\<close>

record TalosClient =
  tc_node :: string
  tc_endpoints :: "string list"
  tc_override :: "(string \<times> string) option"
  tc_secure :: bool

text \<open>
  A kubeconfig file as \<^verbatim>\<open>clientcmd\<close> loads it: the current context, the cluster and user of
  each context, the server and CA of each cluster, the certificate and key of each user.
\<close>

record KubeConfigFile =
  kc_CurrentContext :: string
  kc_Contexts :: "(string \<times> string) strmap"
  kc_Clusters :: "(string \<times> string) strmap"
  kc_AuthInfos :: "(string \<times> string) strmap"

text \<open>Opaque values of third-party types.\<close>

type_synonym Provider = string
type_synonym Bundle = string
type_synonym Kubeconfig = string
type_synonym Clientset = string
type_synonym VersionContract = string
type_synonym MachineType = string

datatype apply_mode = ModeAuto | ModeReboot | ModeNoReboot | ModeStaged | ModeTry

datatype reset_mode = ResetAll | ResetSystemDisk | ResetUserDisks

record ResetRequest =
  rr_Mode :: reset_mode
  rr_SystemPartitionsToWipe :: "string list"
  rr_UserDisksToWipe :: "string list"
  rr_Graceful :: bool
  rr_Reboot :: bool

datatype pull_msg = PullProgress | PullName string

datatype upgrade_msg = ProgressNil | ProgressMessage string | ProgressExitCode int

section \<open>Calls\<close>

text \<open>
  The API server. \<open>StatusUpdateNode base new\<close> writes the status of \<open>new\<close>, which was
  made from \<open>base\<close>, the object read (the one the resource version names);
  \<open>UpdateNode\<close> writes everything but the status.
\<close>

datatype api_call =
    GetNode string string
  | ReadNode string string
  | ListNodes "string option" "string option" "string option"
  | StatusUpdateNode Node Node
  | UpdateNode Node Node
  | PatchClearOperation Node
  | GetCluster string string
  | ReadCluster string string
  | StatusUpdateCluster Cluster Cluster
  | UpdateCluster Cluster Cluster
  | GetSecret string string
  | CreateSecret Secret
  | UpdateSecret Secret
  | GetConfigMap string string

datatype talos_call =
    TNewClient
  | TRead string
  | TReadAll string
  | TApplyConfiguration bool string
  | TReboot "string list"
  | TShutdown
  | TReset ResetRequest
  | TUpgradeLegacy string
  | TImagePull string
  | TLifecycleUpgrade string
  | TBootstrap
  | TVersion
  | TDisks
  | TKubeconfig
  | TResolveMachineConfig
  | TGetMachineConfig string
  | TListEtcd
  | TListManifests

datatype k8s_call =
    KServerVersion
  | KListNodes
  | KGetNode string
  | KCordon string bool
  | KCheckEviction
  | KPodsForDeletion DrainHelper string
  | KEvictPod Pod
  | KDeletePod Pod
  | KDeleteNode string
  | KGetPod string string
  | KGetCSIDriver string
  | KUpdateNode KNode KNode
  | KRESTMapping string
  | KApplyManifest Manifest bool

datatype sys_call =
    Now
  | CtxErr
  | Jitter
  | TCPDial string
  | CtxDone
  | GenClientCertificate Bundle
  | BuildTLSConfig string
  | NewRESTConfig string
  | NewClientset Kubeconfig
  | NewCRClient Kubeconfig
  | NewDynamicClient Kubeconfig
  | NewSecretsBundle
  | ParseReference string
  | RegistryHead string

datatype event_type = EventTypeNormal | EventTypeWarning

text \<open>An event: its type, reason and action. Its text is not kept.\<close>

datatype call =
    Api api_call
  | Talos TalosClient talos_call
  | K8s Clientset k8s_call
  | Sys sys_call
  | Event event_type string string

section \<open>Third-party functions\<close>

record lib =
  \<comment> \<open>\<^verbatim>\<open>k8s.io/apimachinery/pkg/api/meta\<close>; the first argument is the clock\<close>
  lib_SetStatusCondition :: "int \<Rightarrow> condition list \<Rightarrow> condition \<Rightarrow> condition list"
  lib_RemoveStatusCondition :: "condition list \<Rightarrow> string \<Rightarrow> condition list"
  lib_FindStatusCondition :: "condition list \<Rightarrow> string \<Rightarrow> condition option"
  lib_IsStatusConditionTrue :: "condition list \<Rightarrow> string \<Rightarrow> bool"
  lib_IsStatusConditionFalse :: "condition list \<Rightarrow> string \<Rightarrow> bool"
  \<comment> \<open>\<^verbatim>\<open>blang/semver\<close>\<close>
  lib_ParseTolerant :: "string \<Rightarrow> go_error + Version"
  lib_version_EQ :: "Version \<Rightarrow> Version \<Rightarrow> bool"
  lib_version_GTE :: "Version \<Rightarrow> Version \<Rightarrow> bool"
  lib_version_String :: "Version \<Rightarrow> string"
  \<comment> \<open>YAML and JSON\<close>
  lib_yaml_extensions :: "string \<Rightarrow> go_error + Extensions"
  lib_yaml_bundle :: "string \<Rightarrow> go_error + Bundle"
  lib_yaml_marshal :: "string \<Rightarrow> go_error + string"
  lib_yaml_decode :: "string \<Rightarrow> string list \<times> go_error"
  lib_yaml_encode :: "string \<Rightarrow> go_error + string"
  lib_yaml_close :: "string list \<Rightarrow> go_error + string"
  \<comment> \<open>time zones, cron and calendar times\<close>
  lib_LoadLocation :: "string \<Rightarrow> bool"
  lib_cron_Parse :: "string \<Rightarrow> bool"
  lib_cron_Next :: "string \<Rightarrow> string \<Rightarrow> int \<Rightarrow> int"
  lib_format_RFC3339 :: "string \<Rightarrow> int \<Rightarrow> string"
  lib_parse_RFC3339 :: "string \<Rightarrow> int option"
  lib_sha256Sum :: "string \<Rightarrow> string"
  \<comment> \<open>\<^verbatim>\<open>samber/lo\<close>\<close>
  lib_Uniq :: "string list \<Rightarrow> string list"
  lib_IsEmpty :: "ClusterMaintenanceWindow \<Rightarrow> bool"
  lib_CoalesceOrEmpty :: "string \<Rightarrow> string \<Rightarrow> string"

record clib =
  \<comment> \<open>\<^verbatim>\<open>siderolabs/talos/pkg/machinery/config\<close>\<close>
  lib_ParseContract :: "string \<Rightarrow> go_error + VersionContract"
  lib_contract_String :: "VersionContract \<Rightarrow> string"
  lib_default_contract :: VersionContract
  lib_default_kubernetes :: string
  lib_demo_bundle :: Bundle
  lib_bundle_Validate :: "Bundle \<Rightarrow> go_error option"
  lib_NewInput :: "string \<Rightarrow> string \<Rightarrow> string \<Rightarrow> string list \<Rightarrow> VersionContract \<Rightarrow> Bundle \<Rightarrow> go_error + string"
  lib_ParseType :: "string \<Rightarrow> go_error + MachineType"
  lib_input_Config :: "string \<Rightarrow> MachineType \<Rightarrow> go_error + Provider"
  lib_LoadPatch :: "string \<Rightarrow> go_error + string"
  lib_ApplyPatch :: "Provider \<Rightarrow> string \<Rightarrow> go_error + string"
  lib_patched_Config :: "string \<Rightarrow> go_error + Provider"
  lib_EncodeBytes :: "Provider \<Rightarrow> go_error + string"
  lib_Bytes :: "Provider \<Rightarrow> go_error + string"
  lib_UnattendedInstallerImage :: "Provider \<Rightarrow> string option"
  lib_MachineInstallImage :: "Provider \<Rightarrow> string option"
  lib_ComponentEnabled :: "Provider \<Rightarrow> string \<Rightarrow> bool"
  lib_ComponentImage :: "Provider \<Rightarrow> string \<Rightarrow> string"
  \<comment> \<open>what the v1alpha1 document of a config has: kubelet, apiServer, controllerManager, scheduler, proxy, node labels or kubelet options, hostname\<close>
  lib_has_legacy :: "Provider \<Rightarrow> string \<Rightarrow> bool"
  \<comment> \<open>documents of \<^verbatim>\<open>config/types/k8s\<close> and patches in YAML\<close>
  lib_doc_image :: "string \<Rightarrow> string \<Rightarrow> go_error + string"
  lib_doc_label :: "string \<Rightarrow> string \<Rightarrow> go_error + string"
  lib_map_yaml :: "(string list \<times> string) list \<Rightarrow> string"
  \<comment> \<open>\<^verbatim>\<open>clientcmd.Load\<close>, the JSON of the Argo CD configuration, the kind of an object\<close>
  lib_clientcmd_Load :: "string \<Rightarrow> go_error + KubeConfigFile"
  lib_json_argo :: "string \<Rightarrow> string \<Rightarrow> string \<Rightarrow> go_error + string"
  lib_GroupVersionKind :: "Cluster \<Rightarrow> string \<times> string \<times> string"
  lib_talosconfig_Bytes :: "string \<Rightarrow> string list \<Rightarrow> string \<Rightarrow> go_error + string"

section \<open>The environment\<close>

record env =
  e_lib :: lib
  e_clib :: clib
  e_retries :: nat
  e_backoff_retries :: nat
  e_rtl_label :: bool
  e_cross_namespace :: bool
  e_now :: "call list \<Rightarrow> int"
  e_jitter :: "call list \<Rightarrow> int"
  e_ctx_err :: "call list \<Rightarrow> bool"
  e_unit :: "call list \<Rightarrow> call \<Rightarrow> go_error option"
  e_node :: "call list \<Rightarrow> call \<Rightarrow> go_error + Node"
  e_nodes :: "call list \<Rightarrow> call \<Rightarrow> go_error + Node list"
  e_cluster :: "call list \<Rightarrow> call \<Rightarrow> go_error + Cluster"
  e_secret :: "call list \<Rightarrow> call \<Rightarrow> go_error + Secret"
  e_data :: "call list \<Rightarrow> call \<Rightarrow> go_error + string strmap"
  e_text :: "call list \<Rightarrow> call \<Rightarrow> go_error + string"
  e_option :: "call list \<Rightarrow> call \<Rightarrow> go_error + string option"
  e_modes :: "call list \<Rightarrow> call \<Rightarrow> go_error + apply_mode list"
  e_knode :: "call list \<Rightarrow> call \<Rightarrow> go_error + KNode"
  e_pod :: "call list \<Rightarrow> call \<Rightarrow> go_error + Pod"
  e_pods :: "call list \<Rightarrow> call \<Rightarrow> go_error + Pod list"
  e_pull :: "call list \<Rightarrow> call \<Rightarrow> go_error + (pull_msg list \<times> go_error)"
  e_upgrade :: "call list \<Rightarrow> call \<Rightarrow> go_error + (upgrade_msg list \<times> go_error)"
  e_files :: "call list \<Rightarrow> call \<Rightarrow> go_error + (string option list \<times> go_error)"
  e_manifests :: "call list \<Rightarrow> call \<Rightarrow> go_error + Manifest list"
  e_scope :: "call list \<Rightarrow> call \<Rightarrow> go_error + bool"

section \<open>The state of a controller\<close>

text \<open>
  \<open>st_hist\<close> is the calls made so far, the newest first; \<open>st_node\<close> and
  \<open>st_cluster\<close> the objects the context of the reconciler points to.
\<close>

record st =
  st_hist :: "call list"
  st_node :: Node
  st_cluster :: Cluster
  st_mutex :: MutexMap
  st_clientsets :: "Clientset strmap"
  st_crclients :: "Clientset strmap"

type_synonym 'a ctl = "(st, 'a) go"

definition ask :: "(call list \<Rightarrow> call \<Rightarrow> go_error + 'a) \<Rightarrow> call \<Rightarrow> 'a ctl" where
  "ask f c = (\<lambda>s. (case f (st_hist s) c of Inl e \<Rightarrow> Err e | Inr x \<Rightarrow> Ok x,
                   s\<lparr>st_hist := c # st_hist s\<rparr>))"

definition act :: "env \<Rightarrow> call \<Rightarrow> unit ctl" where
  "act E c = ask (\<lambda>h c. case e_unit E h c of None \<Rightarrow> Inr () | Some e \<Rightarrow> Inl e) c"

definition now :: "env \<Rightarrow> int ctl" where
  "now E = ask (\<lambda>h c. Inr (e_now E h)) (Sys Now)"

definition ctx_err :: "env \<Rightarrow> bool ctl" where
  "ctx_err E = ask (\<lambda>h c. Inr (e_ctx_err E h)) (Sys CtxErr)"

definition jitter :: "env \<Rightarrow> int ctl" where
  "jitter E = ask (\<lambda>h c. Inr (e_jitter E h)) (Sys Jitter)"

definition event :: "event_type \<Rightarrow> string \<Rightarrow> string \<Rightarrow> unit ctl" where
  "event t reason action = modify (\<lambda>s. s\<lparr>st_hist := Event t reason action # st_hist s\<rparr>)"

text \<open>The error of a third-party function that computes.\<close>

definition lift :: "go_error + 'a \<Rightarrow> 'a ctl" where
  "lift r = (case r of Inl e \<Rightarrow> fail e | Inr x \<Rightarrow> ret x)"

definition set_node :: "Node \<Rightarrow> unit ctl" where
  "set_node n = modify (\<lambda>s. s\<lparr>st_node := n\<rparr>)"

definition set_cluster :: "Cluster \<Rightarrow> unit ctl" where
  "set_cluster c = modify (\<lambda>s. s\<lparr>st_cluster := c\<rparr>)"

definition time_Since :: "env \<Rightarrow> int \<Rightarrow> int ctl" where
  "time_Since E t = bindE (now E) (\<lambda>n. ret (time_Sub n t))"

abbreviation IsTrue :: "env \<Rightarrow> condition list \<Rightarrow> string \<Rightarrow> bool" where
  "IsTrue E \<equiv> lib_IsStatusConditionTrue (e_lib E)"

abbreviation IsFalse :: "env \<Rightarrow> condition list \<Rightarrow> string \<Rightarrow> bool" where
  "IsFalse E \<equiv> lib_IsStatusConditionFalse (e_lib E)"

text \<open>\<^verbatim>\<open>meta.SetStatusCondition\<close> reads the clock for the time of a transition.\<close>

definition SetStatusCondition ::
    "env \<Rightarrow> condition list \<Rightarrow> string \<Rightarrow> cond_status \<Rightarrow> string \<Rightarrow> string \<Rightarrow> condition list ctl" where
  "SetStatusCondition E conds type status reason message =
    bindE (now E) (\<lambda>t. ret (lib_SetStatusCondition (e_lib E) t conds
      \<lparr>cd_type = type, cd_status = status, cd_reason = reason, cd_message = message, cd_since = 0\<rparr>))"

text \<open>The same on the conditions of a node.\<close>

definition set_cond ::
    "env \<Rightarrow> string \<Rightarrow> cond_status \<Rightarrow> string \<Rightarrow> string \<Rightarrow> Node \<Rightarrow> Node ctl" where
  "set_cond E type status reason message n =
    bindE (SetStatusCondition E (n_Conditions n) type status reason message) (\<lambda>cs.
      ret (upd_status (\<lambda>st. st\<lparr>nst_Conditions := cs\<rparr>) n))"

definition map_OpStatus :: "(NodeOperationStatus \<Rightarrow> NodeOperationStatus) \<Rightarrow> Node \<Rightarrow> Node" where
  "map_OpStatus f n = upd_status (\<lambda>st. st\<lparr>nst_Operation := map_option f (nst_Operation st)\<rparr>) n"

text \<open>The requeue intervals of the node controller.\<close>

definition RequeueImmediate :: int where "RequeueImmediate = 1 * Second"
definition RequeueShortDelay :: int where "RequeueShortDelay = 5 * Second"
definition RequeueStandardDelay :: int where "RequeueStandardDelay = 10 * Second"

text \<open>\<^verbatim>\<open>defaultRefreshInterval\<close>: 60 s and up to two seconds of jitter.\<close>

definition defaultRefreshInterval :: "env \<Rightarrow> int ctl" where
  "defaultRefreshInterval E = bindE (jitter E) (\<lambda>j. ret (60 * Second + j))"

section \<open>Which calls a computation makes\<close>

definition grows :: "(call \<Rightarrow> bool) \<Rightarrow> st \<Rightarrow> st \<Rightarrow> bool" where
  "grows A s s' \<longleftrightarrow> (\<exists>cs. st_hist s' = cs @ st_hist s \<and> (\<forall>c\<in>set cs. A c))"

definition same :: "(st \<Rightarrow> 'b) \<Rightarrow> st \<Rightarrow> st \<Rightarrow> bool" where
  "same f s s' \<longleftrightarrow> f s' = f s"

text \<open>
  \<open>emits A m\<close>: whatever happens, every call of \<open>m\<close> satisfies \<open>A\<close>.
  \<open>keeps f m\<close>: whatever happens, \<open>f\<close> of the state is as before.
\<close>

abbreviation emits :: "(call \<Rightarrow> bool) \<Rightarrow> 'a ctl \<Rightarrow> bool" where
  "emits A \<equiv> steps (grows A)"

abbreviation keeps :: "(st \<Rightarrow> 'b) \<Rightarrow> 'a ctl \<Rightarrow> bool" where
  "keeps f \<equiv> steps (same f)"

lemma grows_refl: "grows A s s"
  by (simp add: grows_def)

lemma grows_trans: "grows A s t \<Longrightarrow> grows A t u \<Longrightarrow> grows A s u"
  by (fastforce simp: grows_def)

interpretation em: preorder_steps "grows A" for A
  by unfold_locales (rule grows_refl, rule grows_trans)

interpretation kp: preorder_steps "same f" for f
  by unfold_locales (simp_all add: same_def)

lemma emits_mono: "emits A m \<Longrightarrow> (\<And>c. A c \<Longrightarrow> B c) \<Longrightarrow> emits B m"
  by (erule steps_mono) (auto simp: grows_def)

lemma emitsD:
  assumes "emits A m" and "m s = (r, s')"
  obtains cs where "st_hist s' = cs @ st_hist s" and "\<And>c. c \<in> set cs \<Longrightarrow> A c"
  using stepsD [OF assms] by (auto simp: grows_def)

lemma keepsD: "keeps f m \<Longrightarrow> m s = (r, s') \<Longrightarrow> f s' = f s"
  by (drule stepsD) (simp_all add: same_def)

lemma emits_ask: "A c \<Longrightarrow> emits A (ask f c)"
  by (rule stepsI) (auto simp: ask_def grows_def intro!: exI [of _ "[c]"])

lemma emits_act: "A c \<Longrightarrow> emits A (act E c)"
  by (simp add: act_def emits_ask)

lemma emits_now: "A (Sys Now) \<Longrightarrow> emits A (now E)"
  by (simp add: now_def emits_ask)

lemma emits_ctx_err: "A (Sys CtxErr) \<Longrightarrow> emits A (ctx_err E)"
  by (simp add: ctx_err_def emits_ask)

lemma emits_jitter: "A (Sys Jitter) \<Longrightarrow> emits A (jitter E)"
  by (simp add: jitter_def emits_ask)

lemma emits_event: "A (Event t reason action) \<Longrightarrow> emits A (event t reason action)"
  by (rule stepsI)
    (auto simp: event_def run_basic grows_def intro!: exI [of _ "[Event t reason action]"])

lemma emits_lift: "emits A (lift r)"
  by (cases r) (simp_all add: lift_def em.basic)

lemma emits_set_node: "emits A (set_node n)"
  by (rule stepsI) (simp add: set_node_def run_basic grows_def)

lemma emits_set_cluster: "emits A (set_cluster c)"
  by (rule stepsI) (simp add: set_cluster_def run_basic grows_def)

lemma emits_time_Since: "A (Sys Now) \<Longrightarrow> emits A (time_Since E t)"
  by (simp add: time_Since_def em.bindE emits_now em.basic)

lemma emits_SetStatusCondition:
  "A (Sys Now) \<Longrightarrow> emits A (SetStatusCondition E cs t st r m)"
  by (simp add: SetStatusCondition_def em.bindE emits_now em.basic)

lemma emits_set_cond: "A (Sys Now) \<Longrightarrow> emits A (set_cond E t st r m n)"
  by (simp add: set_cond_def em.bindE emits_SetStatusCondition em.basic)

lemma emits_defaultRefreshInterval: "A (Sys Jitter) \<Longrightarrow> emits A (defaultRefreshInterval E)"
  by (simp add: defaultRefreshInterval_def em.bindE emits_jitter em.basic)

lemmas emits_prims = emits_ask emits_act emits_now emits_ctx_err emits_jitter emits_event
  emits_lift emits_set_node emits_set_cluster emits_time_Since emits_SetStatusCondition
  emits_set_cond emits_defaultRefreshInterval

text \<open>Only the history of the state is touched by the calls themselves.\<close>

definition hist_free :: "(st \<Rightarrow> 'b) \<Rightarrow> bool" where
  "hist_free f \<longleftrightarrow> (\<forall>s h. f (s\<lparr>st_hist := h\<rparr>) = f s)"

lemma hist_free_fields [simp]:
  "hist_free st_node" "hist_free st_cluster" "hist_free st_mutex"
  "hist_free st_clientsets" "hist_free st_crclients"
  by (simp_all add: hist_free_def)

lemma keeps_ask: "hist_free f \<Longrightarrow> keeps f (ask g c)"
  by (rule stepsI) (simp add: ask_def same_def hist_free_def)

lemma keeps_event: "hist_free f \<Longrightarrow> keeps f (event t reason action)"
  by (rule stepsI) (simp add: event_def run_basic same_def hist_free_def)

lemma keeps_lift: "keeps f (lift r)"
  by (cases r) (simp_all add: lift_def kp.basic)

lemma keeps_set_node [simp]:
  "keeps st_cluster (set_node n)" "keeps st_mutex (set_node n)"
  "keeps st_clientsets (set_node n)" "keeps st_crclients (set_node n)"
  by (auto intro!: stepsI simp: set_node_def run_basic same_def)

lemma keeps_set_cluster [simp]:
  "keeps st_node (set_cluster c)" "keeps st_mutex (set_cluster c)"
  "keeps st_clientsets (set_cluster c)" "keeps st_crclients (set_cluster c)"
  by (auto intro!: stepsI simp: set_cluster_def run_basic same_def)

lemma keeps_act: "hist_free f \<Longrightarrow> keeps f (act E c)"
  by (simp add: act_def keeps_ask)

lemma keeps_clock:
  "hist_free f \<Longrightarrow> keeps f (now E)" "hist_free f \<Longrightarrow> keeps f (ctx_err E)"
  "hist_free f \<Longrightarrow> keeps f (jitter E)"
  by (simp_all add: now_def ctx_err_def jitter_def keeps_ask)

lemma keeps_derived:
  "hist_free f \<Longrightarrow> keeps f (time_Since E t)"
  "hist_free f \<Longrightarrow> keeps f (SetStatusCondition E cs ty stt r m)"
  "hist_free f \<Longrightarrow> keeps f (set_cond E ty stt r m n)"
  "hist_free f \<Longrightarrow> keeps f (defaultRefreshInterval E)"
  by (simp_all add: time_Since_def SetStatusCondition_def set_cond_def defaultRefreshInterval_def
      kp.bindE keeps_clock kp.basic)

lemmas keeps_prims = keeps_ask keeps_event keeps_lift keeps_set_node keeps_set_cluster keeps_act
  keeps_clock keeps_derived

text \<open>Running the primitive calls.\<close>

lemma run_ask [go_run]:
  "f (st_hist s) c = Inr x \<Longrightarrow> ask f c s = (Ok x, s\<lparr>st_hist := c # st_hist s\<rparr>)"
  "f (st_hist s) c = Inl e \<Longrightarrow> ask f c s = (Err e, s\<lparr>st_hist := c # st_hist s\<rparr>)"
  by (simp_all add: ask_def)

lemma run_act [go_run]:
  "e_unit E (st_hist s) c = None \<Longrightarrow> act E c s = (Ok (), s\<lparr>st_hist := c # st_hist s\<rparr>)"
  "e_unit E (st_hist s) c = Some e \<Longrightarrow> act E c s = (Err e, s\<lparr>st_hist := c # st_hist s\<rparr>)"
  by (simp_all add: act_def ask_def)

lemma run_now [go_run]: "now E s = (Ok (e_now E (st_hist s)), s\<lparr>st_hist := Sys Now # st_hist s\<rparr>)"
  by (simp add: now_def ask_def)

lemma run_ctx_err [go_run]:
  "ctx_err E s = (Ok (e_ctx_err E (st_hist s)), s\<lparr>st_hist := Sys CtxErr # st_hist s\<rparr>)"
  by (simp add: ctx_err_def ask_def)

lemma run_event [go_run]:
  "event t r a s = (Ok (), s\<lparr>st_hist := Event t r a # st_hist s\<rparr>)"
  by (simp add: event_def run_basic)

lemma run_lift [go_run]:
  "lift (Inr x) s = (Ok x, s)" "lift (Inl e) s = (Err e, s)"
  by (simp_all add: lift_def run_basic)

lemma run_set_node [go_run]: "set_node n s = (Ok (), s\<lparr>st_node := n\<rparr>)"
  by (simp add: set_node_def run_basic)

lemma run_set_cluster [go_run]: "set_cluster c s = (Ok (), s\<lparr>st_cluster := c\<rparr>)"
  by (simp add: set_cluster_def run_basic)

lemmas eval_calls [go_eval] = run_now run_ctx_err run_event run_lift run_set_node run_set_cluster

lemma eval_ask [go_eval]:
  "ask f c s = (case f (st_hist s) c of Inl e \<Rightarrow> (Err e, s\<lparr>st_hist := c # st_hist s\<rparr>)
    | Inr x \<Rightarrow> (Ok x, s\<lparr>st_hist := c # st_hist s\<rparr>))"
  by (auto simp: ask_def split: sum.splits)

lemma eval_act [go_eval]:
  "act E c s = (case e_unit E (st_hist s) c of Some e \<Rightarrow> (Err e, s\<lparr>st_hist := c # st_hist s\<rparr>)
    | None \<Rightarrow> (Ok (), s\<lparr>st_hist := c # st_hist s\<rparr>))"
  by (auto simp: act_def ask_def split: option.splits)

lemma ok_ask [go_ok]:
  "ask f c s = (Ok x, s') \<longleftrightarrow> f (st_hist s) c = Inr x \<and> s' = s\<lparr>st_hist := c # st_hist s\<rparr>"
  by (auto simp: ask_def split: sum.splits)

lemma ok_lift [go_ok]: "lift r s = (Ok x, s') \<longleftrightarrow> r = Inr x \<and> s' = s"
  by (auto simp: lift_def run_basic split: sum.splits)

section \<open>Kinds of calls\<close>

text \<open>
  The calls that change a machine or the workloads of the managed cluster. A dry run of
  an apply changes nothing.
\<close>

fun mutates_machine :: "talos_call \<Rightarrow> bool" where
  "mutates_machine (TApplyConfiguration dryRun data) = (\<not> dryRun)"
| "mutates_machine (TReboot opts) = True"
| "mutates_machine TShutdown = True"
| "mutates_machine (TReset req) = True"
| "mutates_machine (TUpgradeLegacy img) = True"
| "mutates_machine (TImagePull img) = True"
| "mutates_machine (TLifecycleUpgrade img) = True"
| "mutates_machine TBootstrap = True"
| "mutates_machine c = False"

fun mutates_workload :: "k8s_call \<Rightarrow> bool" where
  "mutates_workload (KCordon name desired) = True"
| "mutates_workload (KEvictPod pod) = True"
| "mutates_workload (KDeletePod pod) = True"
| "mutates_workload (KDeleteNode name) = True"
| "mutates_workload (KApplyManifest m namespaced) = True"
| "mutates_workload c = False"

fun disruptive :: "call \<Rightarrow> bool" where
  "disruptive (Talos c t) = mutates_machine t"
| "disruptive (K8s c k) = mutates_workload k"
| "disruptive (Api a) = False"
| "disruptive (Sys c) = False"
| "disruptive (Event t r a) = False"

text \<open>Writes to the API server of the operator.\<close>

fun api_write :: "api_call \<Rightarrow> bool" where
  "api_write (StatusUpdateNode b n) = True"
| "api_write (UpdateNode b n) = True"
| "api_write (PatchClearOperation n) = True"
| "api_write (StatusUpdateCluster b c) = True"
| "api_write (UpdateCluster b c) = True"
| "api_write (CreateSecret s) = True"
| "api_write (UpdateSecret s) = True"
| "api_write c = False"

fun is_read :: "call \<Rightarrow> bool" where
  "is_read (Api a) = (\<not> api_write a)"
| "is_read (Talos c t) = (\<not> mutates_machine t)"
| "is_read (K8s c k) = (\<not> mutates_workload k \<and> (\<forall>a b. k \<noteq> KUpdateNode a b))"
| "is_read (Sys c) = True"
| "is_read (Event t r a) = False"

lemma is_read_not_disruptive: "is_read c \<Longrightarrow> \<not> disruptive c"
  by (cases c) auto

text \<open>The status writes of a node or a cluster.\<close>

fun node_status_write :: "call \<Rightarrow> (Node \<times> Node) option" where
  "node_status_write (Api (StatusUpdateNode b n)) = Some (b, n)"
| "node_status_write c = None"

fun cluster_status_write :: "call \<Rightarrow> (Cluster \<times> Cluster) option" where
  "cluster_status_write (Api (StatusUpdateCluster b n)) = Some (b, n)"
| "cluster_status_write c = None"

lemma is_read_no_write [simp]:
  "is_read c \<Longrightarrow> node_status_write c = None" "is_read c \<Longrightarrow> cluster_status_write c = None"
  by (cases c rule: node_status_write.cases; simp) (cases c rule: cluster_status_write.cases; simp)

end
