(* ===== verification/Demo.thy ===== *)
theory Demo
  imports Effects
begin

text \<open>
  A concrete environment in which hypotheses about the outside world are seen to hold:
  simple versions of the third-party functions and a world in which every call succeeds
  with an empty answer. Examples override the answers they are about.
\<close>

definition demo_set_condition :: "int \<Rightarrow> condition list \<Rightarrow> condition \<Rightarrow> condition list" where
  "demo_set_condition t cs c =
    (let c' = c\<lparr>cd_since := t\<rparr> in
     if find (\<lambda>d. cd_type d = cd_type c) cs = None then cs @ [c']
     else map (\<lambda>d. if cd_type d = cd_type c then c' else d) cs)"

definition demo_find_condition :: "condition list \<Rightarrow> string \<Rightarrow> condition option" where
  "demo_find_condition cs t = find (\<lambda>d. cd_type d = t) cs"

definition demo_is_status :: "cond_status \<Rightarrow> condition list \<Rightarrow> string \<Rightarrow> bool" where
  "demo_is_status v cs t = (case demo_find_condition cs t of None \<Rightarrow> False | Some c \<Rightarrow> cd_status c = v)"

definition demo_nat :: "string \<Rightarrow> nat" where
  "demo_nat s = foldl (\<lambda>n c. n * 10 + digit_val c) 0 s"

text \<open>A version is digits and dots after an optional \<^verbatim>\<open>v\<close>.\<close>

definition demo_ParseTolerant :: "string \<Rightarrow> go_error + Version" where
  "demo_ParseTolerant s =
    (case map demo_nat (Split (TrimPrefix s ''v'') CHR ''.'') of
       [a, b, c] \<Rightarrow> Inr \<lparr>v_Major = a, v_Minor = b, v_Patch = c, v_Pre = [], v_Build = []\<rparr>
     | [a, b] \<Rightarrow> Inr \<lparr>v_Major = a, v_Minor = b, v_Patch = 0, v_Pre = [], v_Build = []\<rparr>
     | _ \<Rightarrow> Inl (errorf ''not a version''))"

definition demo_GTE :: "Version \<Rightarrow> Version \<Rightarrow> bool" where
  "demo_GTE v w \<longleftrightarrow>
    v_Major w < v_Major v \<or> v_Major v = v_Major w \<and>
    (v_Minor w < v_Minor v \<or> v_Minor v = v_Minor w \<and> v_Patch w \<le> v_Patch v)"

definition demo_lib :: lib where
  "demo_lib =
    \<lparr>lib_SetStatusCondition = demo_set_condition,
     lib_RemoveStatusCondition = (\<lambda>cs t. filter (\<lambda>d. cd_type d \<noteq> t) cs),
     lib_FindStatusCondition = demo_find_condition,
     lib_IsStatusConditionTrue = demo_is_status CTrue,
     lib_IsStatusConditionFalse = demo_is_status CFalse,
     lib_ParseTolerant = demo_ParseTolerant,
     lib_version_EQ = (=),
     lib_version_GTE = demo_GTE,
     lib_version_String = (\<lambda>v. itoa_nat (v_Major v)),
     lib_yaml_extensions = (\<lambda>s. Inr \<lparr>ext_Layers = []\<rparr>),
     lib_yaml_bundle = Inr,
     lib_yaml_marshal = Inr,
     lib_yaml_decode = (\<lambda>s. ([s], Error EOF ''EOF'')),
     lib_yaml_encode = Inr,
     lib_yaml_close = (\<lambda>ds. Inr (concat ds)),
     lib_LoadLocation = (\<lambda>tz. True),
     lib_cron_Parse = (\<lambda>c. c \<noteq> []),
     lib_cron_Next = (\<lambda>c tz t. t - t mod Hour + Hour),
     lib_format_RFC3339 = (\<lambda>tz t. itoa t),
     lib_parse_RFC3339 = (\<lambda>s. Some (int (demo_nat s))),
     lib_sha256Sum = id,
     lib_Uniq = (\<lambda>xs. rev (remdups (rev xs))),
     lib_IsEmpty = (\<lambda>mw. mw_Enabled mw = None \<and> mw_AnnotationsEnabled mw = None \<and> mw_Cron mw = [] \<and>
       mw_Duration mw = [] \<and> mw_Timezone mw = []),
     lib_CoalesceOrEmpty = (\<lambda>a b. if a \<noteq> [] then a else b)\<rparr>"

definition demo_clib :: clib where
  "demo_clib =
    \<lparr>lib_ParseContract = Inr,
     lib_contract_String = id,
     lib_default_contract = ''v1.14'',
     lib_default_kubernetes = ''1.36.0'',
     lib_demo_bundle = ''demo'',
     lib_bundle_Validate = (\<lambda>b. None),
     lib_NewInput = (\<lambda>n u k sans c b. Inr n),
     lib_ParseType = Inr,
     lib_input_Config = (\<lambda>i t. Inr i),
     lib_LoadPatch = Inr,
     lib_ApplyPatch = (\<lambda>c p. Inr (c @ p)),
     lib_patched_Config = Inr,
     lib_EncodeBytes = Inr,
     lib_Bytes = Inr,
     lib_UnattendedInstallerImage = (\<lambda>c. None),
     lib_MachineInstallImage = (\<lambda>c. Some ''factory.talos.dev/installer:v1.13.0''),
     lib_ComponentEnabled = (\<lambda>c n. True),
     lib_ComponentImage = (\<lambda>c n. ''registry.k8s.io/component:v1.36.0''),
     lib_has_legacy = (\<lambda>c n. False),
     lib_doc_image = (\<lambda>k i. Inr i),
     lib_doc_label = (\<lambda>k v. Inr v),
     lib_map_yaml = (\<lambda>m. concat (map snd m)),
     lib_clientcmd_Load = (\<lambda>k. Inr \<lparr>kc_CurrentContext = ''ctx'', kc_Contexts = [(''ctx'', ''cl'', ''us'')],
       kc_Clusters = [(''cl'', ''server'', ''ca'')], kc_AuthInfos = [(''us'', ''cert'', ''key'')]\<rparr>),
     lib_json_argo = (\<lambda>ca cert key. Inr ca),
     lib_GroupVersionKind = (\<lambda>c. ([], [], [])),
     lib_talosconfig_Bytes = (\<lambda>n es c. Inr n)\<rparr>"

definition demo_secret :: Secret where
  "demo_secret =
    \<lparr>sec_Namespace = [], sec_Name = [], sec_Labels = [], sec_Annotations = [],
     sec_OwnerReferences = [], sec_Immutable = True, sec_Data = [(''secrets.yaml'', ''bundle'')]\<rparr>"

definition demo_status :: NodeStatus where
  "demo_status =
    \<lparr>nst_Conditions = [], nst_Operation = None, nst_BootID = [], nst_AppliedConfigHash = [],
     nst_TalosVersion = [], nst_TalosSchematicID = [], nst_KubernetesVersions = None,
     nst_EffectiveConfig = [], nst_PatchHierarchy = []\<rparr>"

definition demo_node :: "string \<Rightarrow> string \<Rightarrow> Node" where
  "demo_node name role =
    \<lparr>n_Namespace = ''talos'', n_Name = name, n_rv = ''1'', n_Annotations = [], n_Finalizers = [],
     n_DeletionTimestamp = None,
     n_Spec = \<lparr>ns_ClusterRef = ''c1'', ns_Role = role, ns_Patches = [], ns_PatchRefs = []\<rparr>,
     n_Operation = None, n_Status = demo_status\<rparr>"

definition demo_cluster :: Cluster where
  "demo_cluster =
    \<lparr>c_Namespace = ''talos'', c_Name = ''c1'', c_UID = ''u1'', c_rv = ''1'',
     c_Spec = \<lparr>cs_KubernetesVersion = ''v1.36.0'', cs_TalosVersionContract = ''v1.14'',
               cs_Domain = ''example.org'', cs_SecretsRef = ''c1-secrets'', cs_Patches = [],
               cs_ControlPlanePatches = [], cs_WorkerPatches = [], cs_PatchRefs = [],
               cs_ControlPlanePatchRefs = [], cs_WorkerPatchRefs = [],
               cs_Options = \<lparr>co_MaintenanceWindow =
                               \<lparr>mw_Enabled = None, mw_AnnotationsEnabled = None, mw_Cron = [],
                                mw_Duration = [], mw_Timezone = []\<rparr>,
                             co_ArgoCDSecret =
                               \<lparr>argo_Enabled = None, argo_Namespace = [],
                                argo_ClusterNameOverride = [], argo_ExtraLabels = []\<rparr>,
                             co_PhaseTimeout = ''10m'', co_DrainTimeout = ''20m'',
                             co_AutoBootstrap = None\<rparr>\<rparr>,
     c_Status = \<lparr>cst_Conditions = [], cst_Operation = None, cst_NextMaintenanceWindow = 0\<rparr>,
     c_Operation = None\<rparr>"

definition demo_knode :: KNode where
  "demo_knode =
    \<lparr>kn_Name = ''n1'', kn_Unschedulable = False, kn_Conditions = [(''Ready'', CTrue)],
     kn_Taints = [], kn_Annotations = [], kn_KubeletVersion = ''v1.36.0''\<rparr>"

definition demo_pod :: Pod where
  "demo_pod = \<lparr>pod_Name = ''p1'', pod_Images = [], pod_Conditions = []\<rparr>"

definition demo_node_answer :: "call list \<Rightarrow> call \<Rightarrow> go_error + Node" where
  "demo_node_answer h c =
    (case node_status_write c of
       Some (b, n) \<Rightarrow> Inr n
     | None \<Rightarrow> Inr (demo_node ''n1'' NodeRoleControlplane))"

definition demo_cluster_answer :: "call list \<Rightarrow> call \<Rightarrow> go_error + Cluster" where
  "demo_cluster_answer h c =
    (case cluster_status_write c of Some (b, n) \<Rightarrow> Inr n | None \<Rightarrow> Inr demo_cluster)"

definition demo_env :: env where
  "demo_env =
    \<lparr>e_lib = demo_lib, e_clib = demo_clib, e_retries = 0, e_backoff_retries = 0,
     e_rtl_label = False, e_cross_namespace = False,
     e_now = (\<lambda>h. 1000 * Hour), e_jitter = (\<lambda>h. 0), e_ctx_err = (\<lambda>h. False),
     e_unit = (\<lambda>h c. None),
     e_node = demo_node_answer,
     e_nodes = (\<lambda>h c. Inr []),
     e_cluster = demo_cluster_answer,
     e_secret = (\<lambda>h c. Inr demo_secret),
     e_data = (\<lambda>h c. Inr []),
     e_text = (\<lambda>h c. Inr ''VERSION_ID=v1.13.0''),
     e_option = (\<lambda>h c. Inr (Some [])),
     e_modes = (\<lambda>h c. Inr [ModeAuto]),
     e_knode = (\<lambda>h c. Inr demo_knode),
     e_pod = (\<lambda>h c. Inr demo_pod),
     e_pods = (\<lambda>h c. Inr []),
     e_pull = (\<lambda>h c. Inr ([PullName ''img''], Error EOF ''EOF'')),
     e_upgrade = (\<lambda>h c. Inr ([ProgressExitCode 0], Error EOF ''EOF'')),
     e_files = (\<lambda>h c. Inr ([], Error EOF ''EOF'')),
     e_manifests = (\<lambda>h c. Inr []),
     e_scope = (\<lambda>h c. Inr True)\<rparr>"

definition demo_st :: st where
  "demo_st =
    \<lparr>st_hist = [], st_node = demo_node ''n1'' NodeRoleControlplane, st_cluster = demo_cluster,
     st_mutex = NewMutexMap, st_clientsets = [(''talos/c1'', ''cs'')],
     st_crclients = [(''talos/c1'', ''cr'')]\<rparr>"

text \<open>A node with an operation, and a world that has it.\<close>

definition demo_op :: "string \<Rightarrow> string \<Rightarrow> NodeOperationStatus" where
  "demo_op type phase =
    \<lparr>nos_op = NodeOperation_zero\<lparr>no_Type := type\<rparr>, nos_Phase = phase, nos_Reason = [],
     nos_Message = [], nos_LastTransitionTime = 1000 * Hour\<rparr>"

definition demo_op_node :: "NodeOperationStatus \<Rightarrow> Node" where
  "demo_op_node os =
    (demo_node ''n1'' NodeRoleControlplane)\<lparr>n_Status := demo_status\<lparr>nst_Operation := Some os\<rparr>\<rparr>"

definition demo_op_env :: "NodeOperationStatus \<Rightarrow> env" where
  "demo_op_env os = demo_env\<lparr>e_node := \<lambda>h c.
    (case node_status_write c of Some (b, n) \<Rightarrow> Inr n | None \<Rightarrow> Inr (demo_op_node os))\<rparr>"

definition demo_op_st :: "NodeOperationStatus \<Rightarrow> st" where
  "demo_op_st os = demo_st\<lparr>st_node := demo_op_node os\<rparr>"

lemmas demo_defs = demo_op_def demo_op_node_def demo_op_env_def demo_op_st_def demo_env_def demo_lib_def demo_clib_def demo_st_def demo_node_def
  demo_cluster_def demo_status_def demo_secret_def demo_knode_def demo_pod_def
  demo_node_answer_def demo_cluster_answer_def demo_set_condition_def demo_find_condition_def
  demo_is_status_def demo_ParseTolerant_def demo_nat_def demo_GTE_def

end
