(* ===== verification/TalosUtils.thy ===== *)
theory TalosUtils
  imports Demo
begin

text \<open>
  \<^verbatim>\<open>internal/utils/talos.go\<close> and \<^verbatim>\<open>internal/controller/helpers_talos.go\<close>: the
  parser of \<^verbatim>\<open>/etc/os-release\<close>, the schematic of an installation, how a Talos client
  is set up for a node, what is read from a machine, and how an install image is taken
  apart. \<open>getSecrets\<close> is from \<^verbatim>\<open>helpers_talos_config.go\<close>.
\<close>

section \<open>utils/talos.go\<close>

definition osrelease_line :: "string strmap \<Rightarrow> string \<Rightarrow> string strmap" where
  "osrelease_line result line =
    (if length (TrimSpace line) = 0 \<or> HasPrefix line ''#'' then result
     else (case Cut line CHR ''='' of
         (key, val, ok) \<Rightarrow> if \<not> ok then result else map_set result key (Trim val CHR 0x22)))"

definition ParseOSRelease :: "string \<Rightarrow> string strmap" where
  "ParseOSRelease data = foldl osrelease_line [] (Split data CHR 0x0A)"

definition GetSchematicID :: "Extensions \<Rightarrow> string" where
  "GetSchematicID e =
    (if length (ext_Layers e) = 0 then []
     else let lastLayer = ext_Layers e ! (length (ext_Layers e) - 1) in
       if em_Name (el_Metadata lastLayer) \<noteq> ''schematic'' then []
       else em_Version (el_Metadata lastLayer))"

definition ParseExtensions :: "env \<Rightarrow> string \<Rightarrow> go_error + Extensions" where
  "ParseExtensions E data = lib_yaml_extensions (e_lib E) data"

section \<open>Talos clients\<close>

text \<open>\<^verbatim>\<open>getSecrets\<close>: the secrets bundle of a cluster.\<close>

definition getSecrets :: "env \<Rightarrow> Cluster \<Rightarrow> Bundle ctl" where
  "getSecrets E cluster =
    bindE (wrapE (msgtxt ''failed to get secrets secret'')
      (ask (e_secret E) (Api (GetSecret (c_Namespace cluster) (cs_SecretsRef (c_Spec cluster))))))
    (\<lambda>secret. case map_of (sec_Data secret) ''secrets.yaml'' of
        None \<Rightarrow> fail (errorf (msgtxt ''secrets secret is missing 'secrets.yaml' key''))
      | Some data \<Rightarrow>
          bindE (wrapE (msgtxt ''failed to unmarshal secrets bundle'')
            (lift (lib_yaml_bundle (e_lib E) data))) (\<lambda>bundle.
          case lib_bundle_Validate (e_clib E) bundle of
            Some e \<Rightarrow> fail (errorf_w (msgtxt ''invalid secrets bundle'') e)
          | None \<Rightarrow> ret bundle))"

text \<open>A client configuration: context name, endpoints and client certificate.\<close>

record TalosConfig =
  tcf_Context :: string
  tcf_Endpoints :: "string list"
  tcf_Cert :: string

definition getTalosClientConfig :: "env \<Rightarrow> Node \<Rightarrow> Cluster \<Rightarrow> TalosConfig ctl" where
  "getTalosClientConfig E node cluster =
    bindE (wrapE (msgtxt ''failed to get secrets bundle'') (getSecrets E cluster)) (\<lambda>bundle.
    bindE (wrapE (msgtxt ''failed to generate Talos API client certificate'')
      (ask (e_text E) (Sys (GenClientCertificate bundle)))) (\<lambda>cert.
    ret \<lparr>tcf_Context = c_Name cluster, tcf_Endpoints = [GetFQDN node cluster], tcf_Cert = cert\<rparr>))"

definition getTalosClient :: "env \<Rightarrow> Node \<Rightarrow> Cluster \<Rightarrow> TalosClient ctl" where
  "getTalosClient E node cluster =
    bindE (getTalosClientConfig E node cluster) (\<lambda>cfg.
      let connectHost = GetConnectHost node cluster;
          nodeFQDN = GetFQDN node cluster
      in bindE
          (if connectHost \<noteq> nodeFQDN
           then andThen (act E (Sys (BuildTLSConfig nodeFQDN))) (ret (Some (connectHost, nodeFQDN)))
           else ret None)
          (\<lambda>override.
            let c = \<lparr>tc_node = connectHost, tc_endpoints = tcf_Endpoints cfg,
                     tc_override = override, tc_secure = True\<rparr>
            in andThen (wrapE (msgtxt ''failed to create Talos client'') (act E (Talos c TNewClient)))
                 (ret c)))"

section \<open>What is read from a machine\<close>

definition getNodeTalosRelease :: "env \<Rightarrow> TalosClient \<Rightarrow> (Version \<times> string) ctl" where
  "getNodeTalosRelease E c =
    andThen (wrapE (msgtxt ''failed to read /etc/os-release'')
      (act E (Talos c (TRead ''/etc/os-release'')))) (
    bindE (wrapE (msgtxt ''failed to parse /etc/os-release'')
      (ask (e_text E) (Talos c (TReadAll ''/etc/os-release'')))) (\<lambda>data.
    case map_of (ParseOSRelease data) ''VERSION_ID'' of
      None \<Rightarrow> fail (errorf (msgtxt ''VERSION_ID not found in /etc/os-release''))
    | Some talosVersionStr \<Rightarrow>
        bindE (wrapE (msgtxt ''failed to parse Talos version'')
          (lift (lib_ParseTolerant (e_lib E) talosVersionStr))) (\<lambda>talosVersion.
        andThen (wrapE (msgtxt ''failed to read /etc/extensions.yaml'')
          (act E (Talos c (TRead ''/etc/extensions.yaml'')))) (
        bindE (wrapE (msgtxt ''failed to parse /etc/extensions.yaml'')
          (bindE (ask (e_text E) (Talos c (TReadAll ''/etc/extensions.yaml'')))
            (\<lambda>data. lift (ParseExtensions E data)))) (\<lambda>extensions.
        ret (talosVersion, GetSchematicID extensions))))))"

definition getNodeBootID :: "env \<Rightarrow> TalosClient \<Rightarrow> string ctl" where
  "getNodeBootID E c =
    andThen (wrapE (msgtxt ''failed to read boot ID'')
      (act E (Talos c (TRead ''/proc/sys/kernel/random/boot_id'')))) (
    bindE (wrapE (msgtxt ''failed to read boot ID bytes'')
      (ask (e_text E) (Talos c (TReadAll ''/proc/sys/kernel/random/boot_id'')))) (\<lambda>bytes.
    ret (TrimSpace bytes)))"

definition parseImageTalosRelease :: "env \<Rightarrow> string \<Rightarrow> go_error + (Version \<times> string)" where
  "parseImageTalosRelease E img =
    (case LastIndex img CHR '':'' of
       None \<Rightarrow> Inl (errorf (msgtxt ''invalid image format: '' @ img))
     | Some idx \<Rightarrow>
         let imageRepo = take idx img;
             imageTag = drop (idx + 1) img;
             schematicID = path_Base imageRepo;
             schematicID = (if length schematicID \<noteq> 64 then [] else schematicID)
         in case lib_ParseTolerant (e_lib E) imageTag of
              Inl e \<Rightarrow> Inl (errorf_w (msgtxt ''failed to parse image tag as semver'') e)
            | Inr version \<Rightarrow> Inr (version, schematicID))"

section \<open>Effects\<close>

text \<open>
  Setting up clients and reading machines are reads: besides asking for the secret, a
  certificate and the machine itself nothing is called.
\<close>

fun setup_read :: "call \<Rightarrow> bool" where
  "setup_read (Api (GetSecret ns n)) = True"
| "setup_read (Sys (GenClientCertificate b)) = True"
| "setup_read (Sys (BuildTLSConfig s)) = True"
| "setup_read (Talos c TNewClient) = True"
| "setup_read (Talos c (TRead p)) = True"
| "setup_read (Talos c (TReadAll p)) = True"
| "setup_read c = False"

lemma setup_read_is_read: "setup_read c \<Longrightarrow> is_read c"
  by (cases c rule: setup_read.cases) auto

lemma emits_getSecrets: "emits setup_read (getSecrets E cluster)"
  unfolding getSecrets_def by (intro em.structural emits_prims) simp_all

lemma emits_getTalosClientConfig: "emits setup_read (getTalosClientConfig E node cluster)"
  unfolding getTalosClientConfig_def
  by (intro em.structural emits_prims emits_getSecrets) simp_all

lemma emits_getTalosClient: "emits setup_read (getTalosClient E node cluster)"
  unfolding getTalosClient_def
  by (intro em.structural emits_prims emits_getTalosClientConfig) simp_all

lemma emits_getNodeTalosRelease: "emits setup_read (getNodeTalosRelease E c)"
  unfolding getNodeTalosRelease_def by (intro em.structural emits_prims) simp_all

lemma emits_getNodeBootID: "emits setup_read (getNodeBootID E c)"
  unfolding getNodeBootID_def by (intro em.structural emits_prims) simp_all

lemma keeps_getSecrets: "hist_free f \<Longrightarrow> keeps f (getSecrets E cluster)"
  unfolding getSecrets_def by (intro kp.structural keeps_prims)

lemma keeps_getTalosClientConfig: "hist_free f \<Longrightarrow> keeps f (getTalosClientConfig E node cluster)"
  unfolding getTalosClientConfig_def by (intro kp.structural keeps_prims keeps_getSecrets)

lemma keeps_getTalosClient: "hist_free f \<Longrightarrow> keeps f (getTalosClient E node cluster)"
  unfolding getTalosClient_def by (intro kp.structural keeps_prims keeps_getTalosClientConfig)

lemma keeps_getNodeTalosRelease: "hist_free f \<Longrightarrow> keeps f (getNodeTalosRelease E c)"
  unfolding getNodeTalosRelease_def by (intro kp.structural keeps_prims)

lemma keeps_getNodeBootID: "hist_free f \<Longrightarrow> keeps f (getNodeBootID E c)"
  unfolding getNodeBootID_def by (intro kp.structural keeps_prims)

section \<open>Correctness\<close>

text \<open>What one line of \<^verbatim>\<open>/etc/os-release\<close> says: nothing, or a key and its unquoted value.\<close>

definition osrelease_entry :: "string \<Rightarrow> (string \<times> string) option" where
  "osrelease_entry line =
    (if length (TrimSpace line) = 0 \<or> HasPrefix line ''#'' then None
     else (case Cut line CHR ''='' of
         (key, val, ok) \<Rightarrow> if ok then Some (key, Trim val CHR 0x22) else None))"

lemma osrelease_line_entry:
  "osrelease_line m line = (case osrelease_entry line of None \<Rightarrow> m | Some (k, v) \<Rightarrow> map_set m k v)"
  by (auto simp: osrelease_line_def osrelease_entry_def split: prod.splits)

lemma foldl_osrelease_line:
  "map_of (foldl osrelease_line m lines) =
   map_of m ++ map_of (rev (List.map_filter osrelease_entry lines))"
proof (induction lines arbitrary: m)
  case (Cons line lines)
  show ?case
    by (cases "osrelease_entry line")
      (auto simp: Cons.IH osrelease_line_entry [of m line] List.map_filter_simps map_add_def
        fun_eq_iff split: option.splits)
qed (simp add: List.map_filter_simps)

lemma distinct_osrelease:
  "distinct (map fst m) \<Longrightarrow> distinct (map fst (foldl osrelease_line m lines))"
  by (induction lines arbitrary: m)
    (auto simp: osrelease_line_entry distinct_map_set split: option.splits)

text \<open>
  The parser of os-release files is functional: the value of a key is the one of the
  last line that assigns it, comments and blank lines assign nothing, surrounding quotes
  are removed, and every key occurs once.
\<close>

lemma ParseOSRelease_last_assignment:
  "map_of (ParseOSRelease data) k =
     map_of (rev (List.map_filter osrelease_entry (Split data CHR 0x0A))) k
   \<and> distinct (map fst (ParseOSRelease data))"
  by (simp add: ParseOSRelease_def foldl_osrelease_line distinct_osrelease)

text \<open>Trimming spaces never loses a character that is part of no space.\<close>

lemma trimLeftAny_mem:
  "c \<in> set s \<Longrightarrow> (\<And>w. w \<in> set ws \<Longrightarrow> c \<notin> set w) \<Longrightarrow> c \<in> set (trimLeftAny ws s)"
proof (induction ws s rule: trimLeftAny.induct)
  case (1 ws s)
  show ?case
  proof (cases "find (\<lambda>w. w \<noteq> [] \<and> HasPrefix s w) ws")
    case None
    then show ?thesis using 1 by (subst trimLeftAny.simps) simp
  next
    case (Some w)
    then have "w \<in> set ws" "HasPrefix s w" by (auto simp: find_Some_iff)
    then obtain t where t: "s = w @ t" and "c \<notin> set w" using 1 by (auto simp: HasPrefix_iff)
    then have "c \<in> set (drop (length w) s)" using 1 by auto
    then have "c \<in> set (trimLeftAny ws (drop (length w) s))" using 1 Some by blast
    then show ?thesis using Some by (subst trimLeftAny.simps) simp
  qed
qed

lemma TrimSpace_mem:
  assumes "c \<in> set s" and "\<And>w. w \<in> set spaces \<Longrightarrow> c \<notin> set w"
  shows "c \<in> set (TrimSpace s)"
  using assms by (auto simp: TrimSpace_def intro!: trimLeftAny_mem)

lemma eq_no_space: "w \<in> set spaces \<Longrightarrow> CHR ''='' \<notin> set w"
  by (auto simp: spaces_def byte_def char_of_def)

text \<open>A file of assignments, one per line and quoted.\<close>

definition render_osrelease :: "string strmap \<Rightarrow> string" where
  "render_osrelease m =
    join_with CHR 0x0A (map (\<lambda>(k, v). k @ CHR ''='' # CHR 0x22 # v @ [CHR 0x22]) m)"

definition plain_entry :: "string \<times> string \<Rightarrow> bool" where
  "plain_entry e \<longleftrightarrow> (case e of (k, v) \<Rightarrow>
     CHR ''='' \<notin> set k \<and> CHR 0x0A \<notin> set k \<and> \<not> HasPrefix k ''#'' \<and> CHR 0x0A \<notin> set v \<and>
     (v = [] \<or> hd v \<noteq> CHR 0x22 \<and> last v \<noteq> CHR 0x22))"

lemma Trim_quoted:
  assumes "v = [] \<or> hd v \<noteq> c \<and> last v \<noteq> c"
  shows "Trim (c # v @ [c]) c = v"
proof (cases v)
  case (Cons x xs)
  with assms have h: "x \<noteq> c" and l: "last v \<noteq> c" by auto
  then have "dropWhile ((=) c) (c # v @ [c]) = v @ [c]" using Cons by simp
  moreover have "dropWhile ((=) c) (rev v) = rev v"
    using l by (auto simp: dropWhile_eq_self_iff hd_rev)
  ultimately show ?thesis by (simp add: Trim_def)
qed (simp add: Trim_def)

lemma osrelease_entry_render:
  assumes "plain_entry (k, v)"
  shows "osrelease_entry (k @ CHR ''='' # CHR 0x22 # v @ [CHR 0x22]) = Some (k, v)"
proof -
  let ?l = "k @ CHR ''='' # CHR 0x22 # v @ [CHR 0x22]"
  have "CHR ''='' \<in> set (TrimSpace ?l)" using eq_no_space by (intro TrimSpace_mem) auto
  then have "TrimSpace ?l \<noteq> []" by auto
  moreover have "\<not> HasPrefix ?l ''#''"
    using assms by (cases k) (auto simp: plain_entry_def HasPrefix_def)
  moreover have "Cut ?l CHR ''='' = (k, CHR 0x22 # v @ [CHR 0x22], True)"
    using assms by (simp add: plain_entry_def)
  moreover have "Trim (CHR 0x22 # v @ [CHR 0x22]) CHR 0x22 = v"
    using assms by (intro Trim_quoted) (auto simp: plain_entry_def)
  ultimately show ?thesis by (simp add: osrelease_entry_def)
qed

lemma foldl_map_set_fresh:
  "distinct (map fst (m @ es)) \<Longrightarrow> foldl (\<lambda>m (k, v). map_set m k v) m es = m @ es"
proof (induction es arbitrary: m)
  case (Cons e es)
  obtain k v where e: "e = (k, v)" by (cases e)
  then have "map_of m k = None" using Cons.prems by (auto simp: map_of_eq_None_iff)
  then have "map_set m k v = m @ [(k, v)]" by (induction m k v rule: map_set.induct) (auto split: if_splits)
  with e Cons show ?case by simp
qed simp

text \<open>
  C37. Round trip: an os-release file written with quoted values, one assignment per line,
  is parsed back to exactly the assignments it was written from, in their order.
\<close>

theorem ParseOSRelease_render:
  assumes "m \<noteq> []" and "distinct (map fst m)" and "\<forall>e\<in>set m. plain_entry e"
  shows "ParseOSRelease (render_osrelease m) = m"
proof -
  let ?f = "\<lambda>(k, v). k @ CHR ''='' # CHR 0x22 # v @ [CHR 0x22 :: char]"
  have "Split (render_osrelease m) CHR 0x0A = map ?f m"
    unfolding render_osrelease_def using assms(1,3)
    by (intro Split_join) (auto simp: plain_entry_def)
  moreover have "foldl osrelease_line acc (map ?f es) = foldl (\<lambda>m (k, v). map_set m k v) acc es"
    if "\<forall>e\<in>set es. plain_entry e" for acc es
    using that
    by (induction es arbitrary: acc)
      (auto simp: osrelease_line_entry osrelease_entry_render)
  ultimately show ?thesis
    using assms(2,3) foldl_map_set_fresh [of "[]" m] by (simp add: ParseOSRelease_def)
qed

theorem ParseOSRelease_render_witness:
  "ParseOSRelease (render_osrelease [(''ID'', ''talos''), (''VERSION_ID'', ''v1.13.0'')])
     = [(''ID'', ''talos''), (''VERSION_ID'', ''v1.13.0'')]"
  by (rule ParseOSRelease_render) (simp_all add: plain_entry_def HasPrefix_def)

text \<open>
  The release of an install image is split at its last colon: with a registry port in
  the repository part, the tag and the schematic are still the ones of the image, and the
  schematic is kept only when it has the 64 characters of a factory schematic.
\<close>

theorem parseImageTalosRelease_last_colon:
  assumes "CHR '':'' \<notin> set tag" and "CHR ''/'' \<notin> set base" and "base \<noteq> []"
    and "lib_ParseTolerant (e_lib E) tag = Inr v"
  shows "parseImageTalosRelease E (registry @ ''/'' @ base @ '':'' @ tag) =
           Inr (v, if length base = 64 then base else [])"
proof -
  have "LastIndex ((registry @ ''/'' @ base) @ CHR '':'' # tag) CHR '':'' =
      Some (length (registry @ ''/'' @ base))"
    using assms(1) by (rule LastIndex_append)
  moreover have "path_Base (registry @ CHR ''/'' # base) = base"
    using assms(2,3) by (intro path_Base_append) auto
  ultimately show ?thesis
    using assms(4) by (simp add: parseImageTalosRelease_def Let_def)
qed

theorem parseImageTalosRelease_last_colon_witness:
  "parseImageTalosRelease demo_env (''registry.local:5000/x'' @ ''/'' @ ''installer'' @ '':'' @ ''v1.13.0'') =
     Inr (\<lparr>v_Major = 1, v_Minor = 13, v_Patch = 0, v_Pre = [], v_Build = []\<rparr>,
          if length ''installer'' = 64 then ''installer'' else [])"
  by (rule parseImageTalosRelease_last_colon)
    (simp_all add: demo_defs TrimPrefix_def HasPrefix_def digit_val_def)

end
