(* ===== verification/MachineConfig.thy ===== *)
theory MachineConfig
  imports TalosUtils
begin

text \<open>
  \<^verbatim>\<open>internal/controller/helpers_talos_config.go\<close>: how the machine configuration of a
  node is assembled from the generated base, the patches of the cluster, of its role and
  of the node, and the operator's own patches; how it is encoded and redacted; and the
  install image it names.
\<close>

section \<open>Patches\<close>

text \<open>Every referenced ConfigMap is read in turn; the first failure ends the loop.\<close>

fun fetchPatchRefs :: "env \<Rightarrow> string \<Rightarrow> bool \<Rightarrow> PatchRef list \<Rightarrow> string list ctl" where
  "fetchPatchRefs E namespace withoutCrossNamespacePatchRefs [] = ret []"
| "fetchPatchRefs E namespace withoutCrossNamespacePatchRefs (patchRef # patchRefs) =
    (if withoutCrossNamespacePatchRefs \<and> pr_Namespace patchRef \<noteq> []
     then fail (errorf (msgtxt ''cross-namespace patch references are disabled: patch reference ''
            @ pr_Name patchRef @ msgtxt '' specifies namespace '' @ pr_Namespace patchRef))
     else
       let ns = (if pr_Namespace patchRef \<noteq> [] then pr_Namespace patchRef else namespace) in
       bindE (ask (e_data E) (Api (GetConfigMap ns (pr_Name patchRef)))) (\<lambda>data.
         let patchKey = (if pr_Key patchRef = [] then ''patch.yaml'' else pr_Key patchRef) in
         case map_of data patchKey of
           None \<Rightarrow> fail (errorf (msgtxt ''patch key '' @ patchKey @ msgtxt '' not found in ConfigMap ''
                     @ ns @ ''/'' @ pr_Name patchRef))
         | Some patchData \<Rightarrow>
             bindE (fetchPatchRefs E namespace withoutCrossNamespacePatchRefs patchRefs) (\<lambda>patches.
               ret (patchData # patches))))"

text \<open>The patch a message quotes, cut after 200 characters.\<close>

definition truncated :: "string \<Rightarrow> string" where
  "truncated p = (if 200 < length p then take 200 p @ msgtxt ''... (truncated)'' else p)"

definition patch_error :: "string \<Rightarrow> string \<Rightarrow> go_error \<Rightarrow> go_error" where
  "patch_error pre p e = Error (ekind e) (pre @ emsg e @ msgtxt '' (patch: '' @ truncated p @ '')'')"

definition addPatchToProvider :: "env \<Rightarrow> Provider \<Rightarrow> string \<Rightarrow> go_error + Provider" where
  "addPatchToProvider E cfg patchData =
    (case lib_LoadPatch (e_clib E) patchData of
       Inl e \<Rightarrow> Inl (patch_error (msgtxt ''failed to load patch: '') patchData e)
     | Inr patch \<Rightarrow>
         (case lib_ApplyPatch (e_clib E) cfg patch of
            Inl e \<Rightarrow> Inl (patch_error (msgtxt ''failed to apply patch: '') patchData e)
          | Inr patcherOut \<Rightarrow>
              (case lib_patched_Config (e_clib E) patcherOut of
                 Inl e \<Rightarrow> Inl (errorf_w (msgtxt ''failed to get config after applying patch'') e)
               | Inr cfg' \<Rightarrow> Inr cfg')))"

fun addPatchesFrom :: "env \<Rightarrow> string \<Rightarrow> nat \<Rightarrow> Provider \<Rightarrow> string list \<Rightarrow> go_error + Provider" where
  "addPatchesFrom E src n cfg [] = Inr cfg"
| "addPatchesFrom E src n cfg (patchData # patches) =
    (case addPatchToProvider E cfg patchData of
       Inl e \<Rightarrow> Inl (errorf_w (msgtxt ''failed to apply '' @ src @ msgtxt '' patch #'' @ itoa (int n)) e)
     | Inr cfg' \<Rightarrow> addPatchesFrom E src (Suc n) cfg' patches)"

definition addPatchesToProvider :: "env \<Rightarrow> string \<Rightarrow> Provider \<Rightarrow> string list \<Rightarrow> go_error + Provider" where
  "addPatchesToProvider E src cfg patches = addPatchesFrom E src 0 cfg patches"

section \<open>Options\<close>

record GenerateMachineConfigOptions =
  WithoutSecrets :: bool
  WithoutRTLLabel :: bool
  WithoutCrossNamespacePatchRefs :: bool

definition NewGenerateMachineConfigOptions :: "env \<Rightarrow> GenerateMachineConfigOptions" where
  "NewGenerateMachineConfigOptions E =
    \<lparr>WithoutSecrets = False, WithoutRTLLabel = \<not> e_rtl_label E,
     WithoutCrossNamespacePatchRefs = \<not> e_cross_namespace E\<rparr>"

section \<open>Patch hierarchy\<close>

definition no_ref :: PatchRef where
  "no_ref = \<lparr>pr_Name = [], pr_Key = [], pr_Namespace = []\<rparr>"

definition ref_elements :: "string \<Rightarrow> PatchRef list \<Rightarrow> PatchHierarchy" where
  "ref_elements src refs =
    map (\<lambda>(i, r). \<lparr>phe_PatchRef = r, phe_Source = src @ '':'' @ itoa (int i),
                   phe_Synthetic = False, phe_SyntheticExplanation = []\<rparr>)
      (enumerate 0 refs)"

definition inline_elements :: "string \<Rightarrow> string list \<Rightarrow> PatchHierarchy" where
  "inline_elements src patches =
    map (\<lambda>(i, p). \<lparr>phe_PatchRef = no_ref, phe_Source = src @ '':'' @ itoa (int i),
                   phe_Synthetic = False, phe_SyntheticExplanation = []\<rparr>)
      (enumerate 0 patches)"

definition synthetic :: "string \<Rightarrow> string \<Rightarrow> PatchHierarchyElement" where
  "synthetic src why =
    \<lparr>phe_PatchRef = no_ref, phe_Source = src, phe_Synthetic = True, phe_SyntheticExplanation = why\<rparr>"

section \<open>GenerateMachineConfig\<close>

text \<open>The base configuration (lines 209 to 293): version contract, secrets, generator.\<close>

definition base_config ::
    "env \<Rightarrow> Node \<Rightarrow> GenerateMachineConfigOptions \<Rightarrow> Cluster \<Rightarrow> (Provider \<times> PatchHierarchyElement) ctl" where
  "base_config E node opts cluster =
    (let versionContractStr = cs_TalosVersionContract (c_Spec cluster);
         clusterFQDN = c_Name cluster @ ''.'' @ cs_Domain (c_Spec cluster)
     in bindE (if versionContractStr \<noteq> []
               then wrapE (msgtxt ''failed to parse version contract from TalosVersionContract '' @ versionContractStr)
                      (lift (lib_ParseContract (e_clib E) versionContractStr))
               else ret (lib_default_contract (e_clib E))) (\<lambda>versionContract.
        bindE (if \<not> WithoutSecrets opts
               then wrapE (msgtxt ''failed to get secrets bundle'') (getSecrets E cluster)
               else ret (lib_demo_bundle (e_clib E))) (\<lambda>secretsBundle.
        bindE (wrapE (msgtxt ''failed to create generator input'')
                (lift (lib_NewInput (e_clib E) (c_Name cluster)
                  (''https://'' @ clusterFQDN @ '':6443'')
                  (TrimPrefix (cs_KubernetesVersion (c_Spec cluster)) ''v'')
                  [clusterFQDN] versionContract secretsBundle))) (\<lambda>input.
        bindE (wrapE (msgtxt ''failed to parse machine type from node role '' @ n_Role node)
                (lift (lib_ParseType (e_clib E) (n_Role node)))) (\<lambda>machineType.
        bindE (wrapE (msgtxt ''failed to create the base config'')
                (lift (lib_input_Config (e_clib E) input machineType))) (\<lambda>configProvider.
        ret (configProvider,
             synthetic (msgtxt ''operator:github.com/siderolabs/talos/pkg/machinery/config/generate'')
               (msgtxt ''the base config generated by the Talos API equivalent to `talosctl gen config --talos-version=''
                @ lib_contract_String (e_clib E) versionContract @ msgtxt ''` (version from ''
                @ (if versionContractStr = [] then msgtxt ''operator defaults''
                   else msgtxt ''cluster.spec.talosVersionContract'') @ '')''))))))))"

text \<open>References and inline patches of one level (lines 295 to 330, 332 to 423, 425 to 459).\<close>

definition patch_level ::
    "env \<Rightarrow> string \<Rightarrow> bool \<Rightarrow> string \<times> string \<Rightarrow> string \<times> string \<Rightarrow> PatchRef list \<Rightarrow> string list
      \<Rightarrow> Provider \<times> PatchHierarchy \<Rightarrow> (Provider \<times> PatchHierarchy) ctl" where
  "patch_level E namespace noCross srcs names refs inlines ch =
    (case ch of (cfg, hierarchy) \<Rightarrow>
      bindE (fetchPatchRefs E namespace noCross refs) (\<lambda>referenced.
      bindE (lift (addPatchesToProvider E (fst srcs) cfg referenced)) (\<lambda>cfg1.
      bindE (lift (addPatchesToProvider E (snd srcs) cfg1 inlines)) (\<lambda>cfg2.
      ret (cfg2, hierarchy @ ref_elements (fst names) refs @ inline_elements (snd names) inlines)))))"

definition role_level ::
    "env \<Rightarrow> Node \<Rightarrow> Cluster \<Rightarrow> bool \<Rightarrow> Provider \<times> PatchHierarchy \<Rightarrow> (Provider \<times> PatchHierarchy) ctl" where
  "role_level E node cluster noCross ch =
    (if n_Role node = NodeRoleControlplane then
       patch_level E (c_Namespace cluster) noCross
         (''clusterControlPlaneRefs'', ''clusterControlPlane'')
         (''cluster.spec.controlPlanePatchRefs'', ''cluster.spec.controlPlanePatches'')
         (cs_ControlPlanePatchRefs (c_Spec cluster)) (cs_ControlPlanePatches (c_Spec cluster)) ch
     else if n_Role node = NodeRoleWorker then
       patch_level E (c_Namespace cluster) noCross
         (''clusterWorkerRefs'', ''clusterWorker'')
         (''cluster.spec.workerPatchRefs'', ''cluster.spec.workerPatches'')
         (cs_WorkerPatchRefs (c_Spec cluster)) (cs_WorkerPatches (c_Spec cluster)) ch
     else ret ch)"

text \<open>
  The patch of one Kubernetes component (lines 496 to 610): in the new document style when
  the v1alpha1 document has no entry for it, in the old style otherwise.
\<close>

definition component_patch ::
    "env \<Rightarrow> Provider \<Rightarrow> string \<Rightarrow> string list \<Rightarrow> string \<Rightarrow> string \<Rightarrow> go_error + string" where
  "component_patch E v1a1Cfg kind path img errtext =
    (if \<not> lib_has_legacy (e_clib E) v1a1Cfg kind
     then (case lib_doc_image (e_clib E) kind img of
             Inl e \<Rightarrow> Inl (errorf_w errtext e)
           | Inr doc \<Rightarrow> Inr (doc @ [CHR 0x0A] @ ''---'' @ [CHR 0x0A]))
     else Inr (lib_map_yaml (e_clib E) [([''version''], ''v1alpha1''), (path @ [''image''], img)]
                 @ [CHR 0x0A] @ ''---'' @ [CHR 0x0A]))"

definition kube_patch :: "env \<Rightarrow> Node \<Rightarrow> Provider \<Rightarrow> KubernetesVersions \<Rightarrow> go_error + string" where
  "kube_patch E node v1a1Cfg k8sVersions =
    (case component_patch E v1a1Cfg ''kubelet'' [''machine'', ''kubelet'']
            (''ghcr.io/siderolabs/kubelet:'' @ kv_Kubelet k8sVersions)
            (msgtxt ''failed to marshal kubelet config'') of
       Inl e \<Rightarrow> Inl e
     | Inr p1 \<Rightarrow>
         if n_Role node \<noteq> NodeRoleControlplane then Inr p1
         else (case component_patch E v1a1Cfg ''apiServer'' [''cluster'', ''apiServer'']
                   (''registry.k8s.io/kube-apiserver:'' @ kv_APIServer k8sVersions)
                   (msgtxt ''failed to marshal api server config'') of
             Inl e \<Rightarrow> Inl e
           | Inr p2 \<Rightarrow>
         (case component_patch E v1a1Cfg ''controllerManager'' [''cluster'', ''controllerManager'']
                   (''registry.k8s.io/kube-controller-manager:'' @ kv_ControllerManager k8sVersions)
                   (msgtxt ''failed to marshal controller manager config'') of
             Inl e \<Rightarrow> Inl e
           | Inr p3 \<Rightarrow>
         (case component_patch E v1a1Cfg ''scheduler'' [''cluster'', ''scheduler'']
                   (''registry.k8s.io/kube-scheduler:'' @ kv_Scheduler k8sVersions)
                   (msgtxt ''failed to marshal scheduler config'') of
             Inl e \<Rightarrow> Inl e
           | Inr p4 \<Rightarrow>
         (case component_patch E v1a1Cfg ''proxy'' [''cluster'', ''proxy'']
                   (''registry.k8s.io/kube-proxy:'' @ kv_Kubelet k8sVersions)
                   (msgtxt ''failed to marshal kube-proxy config'') of
             Inl e \<Rightarrow> Inl e
           | Inr p5 \<Rightarrow> Inr (p1 @ p2 @ p3 @ p4 @ p5))))))"

definition role_patch :: "env \<Rightarrow> Node \<Rightarrow> string" where
  "role_patch E node =
    lib_map_yaml (e_clib E) [([''version''], ''v1alpha1''), ([''machine'', ''type''], n_Role node)]"

text \<open>The cluster-name label (lines 624 to 673).\<close>

definition label_patch :: "env \<Rightarrow> Node \<Rightarrow> Provider \<Rightarrow> go_error + string" where
  "label_patch E node v1a1Cfg =
    (if lib_has_legacy (e_clib E) v1a1Cfg ''node'' \<or> lib_has_legacy (e_clib E) v1a1Cfg ''kubeletOptions''
     then Inr (lib_map_yaml (e_clib E) [([''version''], ''v1alpha1''),
            ([''machine'', ''nodeLabels'', ''rtl.de/cluster-name''], ns_ClusterRef (n_Spec node))])
     else (case lib_doc_label (e_clib E) ''rtl.de/cluster-name'' (ns_ClusterRef (n_Spec node)) of
             Inl e \<Rightarrow> Inl (errorf_w (msgtxt ''failed to marshal node label patch'') e)
           | Inr data \<Rightarrow> Inr data))"

text \<open>The hostname (lines 675 to 695).\<close>

definition hostname_patch :: "env \<Rightarrow> Node \<Rightarrow> Cluster \<Rightarrow> Provider \<Rightarrow> string" where
  "hostname_patch E node cluster v1a1Cfg =
    (if lib_has_legacy (e_clib E) v1a1Cfg ''hostname''
     then lib_map_yaml (e_clib E) [([''version''], ''v1alpha1''),
            ([''machine'', ''network'', ''hostname''], GetFQDN node cluster)]
     else lib_map_yaml (e_clib E) [([''apiVersion''], ''v1alpha1''), ([''kind''], ''HostnameConfig''),
            ([''auto''], ''off''), ([''hostname''], GetFQDN node cluster)])"

text \<open>The operator's own patches, after everything the user wrote (lines 461 to 704).\<close>

definition operator_level ::
    "env \<Rightarrow> Node \<Rightarrow> Cluster \<Rightarrow> GenerateMachineConfigOptions \<Rightarrow> Provider \<times> PatchHierarchy
      \<Rightarrow> (Provider \<times> PatchHierarchy) ctl" where
  "operator_level E node cluster opts ch =
    (case ch of (cfg, hierarchy) \<Rightarrow>
      bindE (wrapE (msgtxt ''failed to add machine role patch'')
        (lift (addPatchToProvider E cfg (role_patch E node)))) (\<lambda>cfg1.
      let k8sVersions = (case nst_KubernetesVersions (n_Status node) of
                           Some kv \<Rightarrow> kv
                         | None \<Rightarrow> makeDefaultKubernetesVersions node cluster)
      in bindE (lift (kube_patch E node cfg1 k8sVersions)) (\<lambda>kubePatchData.
      bindE (wrapE (msgtxt ''failed to add kube patch data'')
        (lift (addPatchToProvider E cfg1 kubePatchData))) (\<lambda>cfg2.
      bindE (if \<not> WithoutRTLLabel opts
             then bindE (lift (label_patch E node cfg1)) (\<lambda>labelPatchData.
                    wrapE (msgtxt ''failed to add node label patch'')
                      (lift (addPatchToProvider E cfg2 labelPatchData)))
             else ret cfg2) (\<lambda>cfg3.
      bindE (wrapE (msgtxt ''failed to add hostname patch'')
        (lift (addPatchToProvider E cfg3 (hostname_patch E node cluster cfg1)))) (\<lambda>cfg4.
      ret (cfg4,
           hierarchy
           @ [synthetic ''operator:node-role'' (msgtxt ''a patch defining the machine type''),
              synthetic ''node.status.kubernetesVersions''
                (msgtxt ''a patch defining all kubernetes components and their versions, sourced from node.status.kubernetesVersions, defaulted from cluster.spec.kubernetesVersion'')]
           @ (if \<not> WithoutRTLLabel opts
              then [synthetic ''operator:cluster-name-label''
                      (msgtxt ''a patch adding the rtl.de/cluster-name label to the node'')]
              else [])
           @ [synthetic ''operator:hostname'' (msgtxt ''a patch defining the machine hostname'')])))))))"

definition GenerateMachineConfig ::
    "env \<Rightarrow> Node \<Rightarrow> GenerateMachineConfigOptions \<Rightarrow> (Provider \<times> PatchHierarchy) ctl" where
  "GenerateMachineConfig E node opts =
    bindE (ask (e_cluster E) (Api (GetCluster (n_Namespace node) (ns_ClusterRef (n_Spec node))))) (\<lambda>cluster.
    bindE (base_config E node opts cluster) (\<lambda>(configProvider, element).
    let noCross = WithoutCrossNamespacePatchRefs opts in
    bindE (patch_level E (c_Namespace cluster) noCross (''clusterRefs'', ''cluster'')
            (''cluster.spec.patchRefs'', ''cluster.spec.patches'')
            (cs_PatchRefs (c_Spec cluster)) (cs_Patches (c_Spec cluster)) (configProvider, [element])) (\<lambda>ch1.
    bindE (role_level E node cluster noCross ch1) (\<lambda>ch2.
    bindE (patch_level E (n_Namespace node) noCross (''nodeRefs'', ''node'')
            (''node.spec.patchRefs'', ''node.spec.patches'')
            (ns_PatchRefs (n_Spec node)) (ns_Patches (n_Spec node)) ch2) (\<lambda>ch3.
    operator_level E node cluster opts ch3)))))"

section \<open>Encoding and the install image\<close>

text \<open>The pretty form decodes the documents up to the end of the text and encodes them again.\<close>

fun encode_documents :: "env \<Rightarrow> string list \<Rightarrow> go_error + string list" where
  "encode_documents E [] = Inr []"
| "encode_documents E (doc # docs) =
    (case lib_yaml_encode (e_lib E) doc of
       Inl e \<Rightarrow> Inl (errorf_w (msgtxt ''failed to re-encode final config document'') e)
     | Inr t \<Rightarrow> (case encode_documents E docs of Inl e \<Rightarrow> Inl e | Inr ts \<Rightarrow> Inr (t # ts)))"

definition EncodeMachineConfig :: "env \<Rightarrow> Provider \<Rightarrow> bool \<Rightarrow> go_error + string" where
  "EncodeMachineConfig E cfg pretty =
    (case lib_EncodeBytes (e_clib E) cfg of
       Inl e \<Rightarrow> Inl (errorf_w (msgtxt ''failed to serialize final config'') e)
     | Inr configBytes \<Rightarrow>
         if \<not> pretty then Inr configBytes
         else (case lib_yaml_decode (e_lib E) configBytes of (documents, err) \<Rightarrow>
             if ekind err \<noteq> EOF
             then Inl (errorf_w (msgtxt ''failed to decode final config into YAML documents'') err)
             else (case encode_documents E documents of
                 Inl e \<Rightarrow> Inl e
               | Inr ts \<Rightarrow>
                   (case lib_yaml_close (e_lib E) ts of
                      Inl e \<Rightarrow> Inl (errorf_w (msgtxt ''failed to finalize re-encoding of final config'') e)
                    | Inr out \<Rightarrow> Inr out))))"

definition GetInstallImage :: "env \<Rightarrow> Provider \<Rightarrow> go_error + string" where
  "GetInstallImage E cfg =
    (case lib_UnattendedInstallerImage (e_clib E) cfg of
       Some img \<Rightarrow>
         if img \<noteq> [] then Inr img
         else (case lib_MachineInstallImage (e_clib E) cfg of
             Some img \<Rightarrow> if img \<noteq> [] then Inr img else Inl (errorf (msgtxt ''no install image found''))
           | None \<Rightarrow> Inl (errorf (msgtxt ''no install image found'')))
     | None \<Rightarrow>
         (case lib_MachineInstallImage (e_clib E) cfg of
            Some img \<Rightarrow> if img \<noteq> [] then Inr img else Inl (errorf (msgtxt ''no install image found''))
          | None \<Rightarrow> Inl (errorf (msgtxt ''no install image found''))))"

section \<open>Redaction\<close>

text \<open>
  \<^verbatim>\<open>ReplaceAllString\<close> with one of the four patterns of the file: at the first place
  where the pattern matches, its replacement is written and the search goes on behind the
  match. \<open>match\<close> gives the replacement and the rest of the text behind the match.
\<close>

function replaceAll :: "(string \<Rightarrow> (string \<times> string) option) \<Rightarrow> string \<Rightarrow> string" where
  "replaceAll match [] = []"
| "replaceAll match (c # s) =
    (case match (c # s) of
       Some (rep, rest) \<Rightarrow>
         if length rest \<le> length s then rep @ replaceAll match rest else c # replaceAll match s
     | None \<Rightarrow> c # replaceAll match s)"
  by pat_completeness auto
termination
  by (relation "measure (\<lambda>(m, s). length s)") auto

definition is_base64 :: "char \<Rightarrow> bool" where
  "is_base64 c \<longleftrightarrow>
    is_digit c \<or> 65 \<le> (of_char c :: nat) \<and> (of_char c :: nat) \<le> 90
    \<or> 97 \<le> (of_char c :: nat) \<and> (of_char c :: nat) \<le> 122 \<or> c = CHR ''+'' \<or> c = CHR ''/''"

definition is_token_char :: "char \<Rightarrow> bool" where
  "is_token_char c \<longleftrightarrow> is_digit c \<or> 97 \<le> (of_char c :: nat) \<and> (of_char c :: nat) \<le> 122"

text \<open>Up to two padding characters.\<close>

definition drop_padding :: "string \<Rightarrow> string" where
  "drop_padding s =
    (case s of
       a # b # t \<Rightarrow> if a = CHR ''='' then (if b = CHR ''='' then t else b # t) else s
     | [a] \<Rightarrow> if a = CHR ''='' then [] else s
     | [] \<Rightarrow> [])"

definition match_base64 :: "string \<Rightarrow> (string \<times> string) option" where
  "match_base64 s =
    (if HasPrefix s '': '' then
       let body = drop 2 s in
       if 43 \<le> length (takeWhile is_base64 body)
       then Some ('': <redacted>'', drop_padding (dropWhile is_base64 body)) else None
     else None)"

definition match_passphrase :: "string \<Rightarrow> (string \<times> string) option" where
  "match_passphrase s =
    (if HasPrefix s ''passphrase: '' then
       let body = drop (length ''passphrase: '') s;
           line = takeWhile (\<lambda>c. c \<noteq> CHR 0x0A) body
       in if line \<noteq> [] then Some (''passphrase: <redacted>'', dropWhile (\<lambda>c. c \<noteq> CHR 0x0A) body)
          else None
     else None)"

definition match_token :: "string \<Rightarrow> (string \<times> string) option" where
  "match_token s =
    (if HasPrefix s ''token: '' then
       let body = drop (length ''token: '') s;
           rest = dropWhile is_token_char body
       in if takeWhile is_token_char body \<noteq> [] \<and> HasPrefix rest ''.''
             \<and> takeWhile is_token_char (tl rest) \<noteq> []
          then Some (''token: <redacted>'', dropWhile is_token_char (tl rest)) else None
     else None)"

definition skip_spaces :: "string \<Rightarrow> string" where
  "skip_spaces s = dropWhile (\<lambda>c. c = CHR '' '') s"

text \<open>A line of base64 text in a PEM block: the rest behind its newline.\<close>

definition pem_line :: "string \<Rightarrow> string option" where
  "pem_line s =
    (let body = skip_spaces s;
         rest = drop_padding (dropWhile is_base64 body)
     in if takeWhile is_base64 body \<noteq> [] \<and> HasPrefix rest [CHR 0x0A] then Some (tl rest) else None)"

lemma drop_padding_length: "length (drop_padding s) \<le> length s"
  by (auto simp: drop_padding_def split: list.splits)

lemma pem_line_shorter: "pem_line s = Some t \<Longrightarrow> length t < length s"
proof -
  assume p: "pem_line s = Some t"
  define body where "body = skip_spaces s"
  define rest where "rest = drop_padding (dropWhile is_base64 body)"
  have t: "t = tl rest" and "takeWhile is_base64 body \<noteq> []"
    using p by (auto simp: pem_line_def Let_def body_def rest_def split: if_splits)
  moreover have "length rest \<le> length (dropWhile is_base64 body)"
    by (simp add: rest_def drop_padding_length)
  moreover have "length (takeWhile is_base64 body) + length (dropWhile is_base64 body) = length body"
    by (metis length_append takeWhile_dropWhile_id)
  moreover have "length body \<le> length s"
    by (simp add: body_def skip_spaces_def length_dropWhile_le)
  ultimately show ?thesis by (cases "takeWhile is_base64 body") auto
qed

function pem_lines :: "string \<Rightarrow> string" where
  "pem_lines s = (case pem_line s of None \<Rightarrow> s | Some t \<Rightarrow> pem_lines t)"
  by pat_completeness auto
termination
  by (relation "measure length") (auto dest: pem_line_shorter)

declare pem_lines.simps [simp del]

definition match_pem :: "string \<Rightarrow> (string \<times> string) option" where
  "match_pem s =
    (if HasPrefix s ''-----BEGIN'' then
       (case dropWhile (\<lambda>c. c \<noteq> CHR 0x0A) s of
          [] \<Rightarrow> None
        | nl # body \<Rightarrow>
            (case pem_line body of
               None \<Rightarrow> None
             | Some t \<Rightarrow>
                 let rest = skip_spaces (pem_lines t) in
                 if HasPrefix rest ''-----END''
                 then Some (''<redacted>'', dropWhile (\<lambda>c. c \<noteq> CHR 0x0A) rest) else None))
     else None)"

definition RedactMachineConfig :: "string \<Rightarrow> string" where
  "RedactMachineConfig cfg =
    replaceAll match_base64 (replaceAll match_passphrase (replaceAll match_token (replaceAll match_pem cfg)))"

section \<open>Effects\<close>

fun config_read :: "call \<Rightarrow> bool" where
  "config_read (Api (GetCluster ns n)) = True"
| "config_read (Api (GetConfigMap ns n)) = True"
| "config_read (Api (GetSecret ns n)) = True"
| "config_read c = False"

lemma config_read_is_read: "config_read c \<Longrightarrow> is_read c"
  by (cases c rule: config_read.cases) auto

lemma emits_getSecrets_config: "emits config_read (getSecrets E cluster)"
  unfolding getSecrets_def by (intro em.structural emits_prims) simp_all

lemma emits_fetchPatchRefs: "emits config_read (fetchPatchRefs E ns b refs)"
  by (induction refs) (auto intro!: em.structural emits_prims simp: Let_def)

lemma emits_patch_level: "emits config_read (patch_level E ns b srcs names refs inl ch)"
  unfolding patch_level_def by (intro em.structural emits_prims emits_fetchPatchRefs)

lemma emits_GenerateMachineConfig: "emits config_read (GenerateMachineConfig E node opts)"
  unfolding GenerateMachineConfig_def base_config_def role_level_def operator_level_def
  by (intro em.structural emits_prims emits_patch_level emits_getSecrets_config) simp_all

lemma keeps_fetchPatchRefs: "hist_free f \<Longrightarrow> keeps f (fetchPatchRefs E ns b refs)"
  by (induction refs) (auto intro!: kp.structural keeps_prims simp: Let_def)

lemma keeps_patch_level: "hist_free f \<Longrightarrow> keeps f (patch_level E ns b srcs names refs inl ch)"
  unfolding patch_level_def by (intro kp.structural keeps_prims keeps_fetchPatchRefs)

lemma keeps_GenerateMachineConfig: "hist_free f \<Longrightarrow> keeps f (GenerateMachineConfig E node opts)"
  unfolding GenerateMachineConfig_def base_config_def role_level_def operator_level_def
  by (intro kp.structural keeps_prims keeps_patch_level keeps_getSecrets)

section \<open>Correctness\<close>

text \<open>Patches applied one after the other, the first one first.\<close>

fun apply_all :: "env \<Rightarrow> Provider \<Rightarrow> string list \<Rightarrow> Provider option" where
  "apply_all E cfg [] = Some cfg"
| "apply_all E cfg (p # ps) =
    (case addPatchToProvider E cfg p of Inl e \<Rightarrow> None | Inr cfg' \<Rightarrow> apply_all E cfg' ps)"

lemma apply_all_append:
  "apply_all E cfg (ps @ qs) = (case apply_all E cfg ps of None \<Rightarrow> None | Some c \<Rightarrow> apply_all E c qs)"
  by (induction ps arbitrary: cfg) (auto split: sum.splits)

lemma apply_all_Some: "apply_all E cfg ps = Some c \<Longrightarrow> apply_all E cfg (ps @ qs) = apply_all E c qs"
  by (simp add: apply_all_append)

lemma addPatchesFrom_apply_all: "addPatchesFrom E src n cfg ps = Inr c \<longleftrightarrow> apply_all E cfg ps = Some c"
  by (induction E src n cfg ps rule: addPatchesFrom.induct) (auto split: sum.splits)

lemma addPatchesToProvider_apply_all: "addPatchesToProvider E src cfg ps = Inr c \<longleftrightarrow> apply_all E cfg ps = Some c"
  by (simp add: addPatchesToProvider_def addPatchesFrom_apply_all)

lemma fetchPatchRefs_length:
  "fetchPatchRefs E ns b refs s = (Ok ps, s') \<Longrightarrow> length ps = length refs"
  by (induction refs arbitrary: ps s s')
    (auto simp: go_ok Let_def split: if_splits option.splits)

lemma patch_level_ok:
  assumes "patch_level E ns b srcs names refs inl (cfg, h) s = (Ok (cfg', h'), s')"
  shows "\<exists>ps. length ps = length refs \<and> apply_all E cfg (ps @ inl) = Some cfg' \<and>
    length h' = length h + length (ps @ inl)"
  using assms fetchPatchRefs_length
  by (fastforce simp: patch_level_def go_ok addPatchesToProvider_apply_all apply_all_append
      ref_elements_def inline_elements_def)

definition role_refs :: "Node \<Rightarrow> Cluster \<Rightarrow> PatchRef list" where
  "role_refs node cluster =
    (if n_Role node = NodeRoleControlplane then cs_ControlPlanePatchRefs (c_Spec cluster)
     else if n_Role node = NodeRoleWorker then cs_WorkerPatchRefs (c_Spec cluster) else [])"

definition role_inlines :: "Node \<Rightarrow> Cluster \<Rightarrow> string list" where
  "role_inlines node cluster =
    (if n_Role node = NodeRoleControlplane then cs_ControlPlanePatches (c_Spec cluster)
     else if n_Role node = NodeRoleWorker then cs_WorkerPatches (c_Spec cluster) else [])"

lemma role_level_ok:
  assumes "role_level E node cluster b (cfg, h) s = (Ok (cfg', h'), s')"
  shows "\<exists>ps. length ps = length (role_refs node cluster) \<and>
    apply_all E cfg (ps @ role_inlines node cluster) = Some cfg' \<and>
    length h' = length h + length (ps @ role_inlines node cluster)"
  using assms
  by (auto simp: role_level_def role_refs_def role_inlines_def go_ok split: if_splits
      dest!: patch_level_ok)

text \<open>The Kubernetes versions the configuration is generated for.\<close>

definition node_versions :: "Node \<Rightarrow> Cluster \<Rightarrow> KubernetesVersions" where
  "node_versions node cluster =
    (case nst_KubernetesVersions (n_Status node) of
       Some kv \<Rightarrow> kv | None \<Rightarrow> makeDefaultKubernetesVersions node cluster)"

lemma operator_level_ok:
  assumes "operator_level E node cluster opts (cfg, h) s = (Ok (cfg', h'), s')"
  shows "\<exists>k8s label cfg1. kube_patch E node cfg1 (node_versions node cluster) = Inr k8s \<and>
    length label = (if WithoutRTLLabel opts then 0 else 1) \<and>
    apply_all E cfg
      ([role_patch E node, k8s] @ label @ [hostname_patch E node cluster cfg1]) = Some cfg' \<and>
    length h' = length h + 3 + length label"
proof -
  from assms obtain cfg1 k8s cfg2 cfg3 where
    c1: "addPatchToProvider E cfg (role_patch E node) = Inr cfg1"
    and k: "kube_patch E node cfg1 (node_versions node cluster) = Inr k8s"
    and c2: "addPatchToProvider E cfg1 k8s = Inr cfg2"
    and c3: "WithoutRTLLabel opts \<and> cfg3 = cfg2 \<or>
      \<not> WithoutRTLLabel opts \<and> (\<exists>l. addPatchToProvider E cfg2 l = Inr cfg3)"
    and c4: "addPatchToProvider E cfg3 (hostname_patch E node cluster cfg1) = Inr cfg'"
    and h: "length h' = length h + (if WithoutRTLLabel opts then 3 else 4)"
  proof (cases "WithoutRTLLabel opts")
    case True
    with assms that show ?thesis by (auto simp: operator_level_def go_ok Let_def node_versions_def)
  next
    case False
    with assms that show ?thesis
      by (auto simp: operator_level_def go_ok Let_def node_versions_def) blast
  qed
  from c3 obtain label where "length label = (if WithoutRTLLabel opts then 0 else 1)"
    and "apply_all E cfg2 label = Some cfg3"
  proof
    assume "WithoutRTLLabel opts \<and> cfg3 = cfg2"
    then show ?thesis by (intro that [of "[]"]) auto
  next
    assume "\<not> WithoutRTLLabel opts \<and> (\<exists>l. addPatchToProvider E cfg2 l = Inr cfg3)"
    then obtain l where "\<not> WithoutRTLLabel opts" "addPatchToProvider E cfg2 l = Inr cfg3" by blast
    then show ?thesis by (intro that [of "[l]"]) auto
  qed
  with c1 k c2 c4 h show ?thesis
    by (intro exI [of _ k8s] exI [of _ label] exI [of _ cfg1]) (auto simp: apply_all_append)
qed


definition demo_config_run :: "(Provider \<times> PatchHierarchy) outcome" where
  "demo_config_run =
    fst (GenerateMachineConfig demo_env (demo_node ''n1'' NodeRoleWorker)
      (NewGenerateMachineConfigOptions demo_env) demo_st)"

lemma demo_config_run_ok: "\<exists>cfg h. demo_config_run = Ok (cfg, h)"
  by (simp add: demo_config_run_def GenerateMachineConfig_def demo_defs ask_def bindE_def onErr_def
      wrapE_def fail_def ret_def base_config_def NewGenerateMachineConfigOptions_def getSecrets_def
      lift_def patch_level_def role_level_def operator_level_def addPatchesToProvider_def
      addPatchToProvider_def kube_patch_def component_patch_def Let_def)


text \<open>ConfigMaps read from one namespace only.\<close>

fun configmap_in :: "string \<Rightarrow> call \<Rightarrow> bool" where
  "configmap_in ns (Api (GetConfigMap ns' n)) = (ns' = ns)"
| "configmap_in ns c = True"

lemma fetchPatchRefs_same_namespace: "emits (configmap_in ns) (fetchPatchRefs E ns True refs)"
  by (induction refs) (auto intro!: em.structural emits_prims simp: Let_def)

lemma fetchPatchRefs_cross_namespace:
  "r \<in> set refs \<Longrightarrow> pr_Namespace r \<noteq> [] \<Longrightarrow> fetchPatchRefs E ns True refs s \<noteq> (Ok ps, s')"
  by (induction refs arbitrary: s ps s') (auto simp: go_ok Let_def split: option.splits if_splits)

lemma patch_level_same_namespace: "emits (configmap_in ns) (patch_level E ns True srcs names refs inl ch)"
  unfolding patch_level_def by (intro em.structural emits_prims fetchPatchRefs_same_namespace)

lemma getSecrets_no_configmap: "emits (configmap_in ns) (getSecrets E cluster)"
  unfolding getSecrets_def by (intro em.structural emits_prims) simp_all

text \<open>
  C36. With cross-namespace patch references not enabled (the default), generating the
  configuration of a node reads ConfigMaps of the node's own namespace only, for the
  patches of the cluster and of the role as well, provided the API server returns the
  cluster that was asked for.
\<close>

theorem GenerateMachineConfig_same_namespace:
  assumes "\<not> e_cross_namespace E"
    and "\<And>h ns name c. e_cluster E h (Api (GetCluster ns name)) = Inr c \<Longrightarrow> c_Namespace c = ns"
  shows "emits (configmap_in (n_Namespace node))
    (GenerateMachineConfig E node (NewGenerateMachineConfigOptions E))"
proof -
  let ?o = "NewGenerateMachineConfigOptions E"
  have x: "WithoutCrossNamespacePatchRefs ?o = True" using assms(1) by (simp add: NewGenerateMachineConfigOptions_def)
  show ?thesis
    unfolding GenerateMachineConfig_def Let_def
  proof (rule em.bindE_value)
    fix cluster s s'
    assume "ask (e_cluster E) (Api (GetCluster (n_Namespace node) (ns_ClusterRef (n_Spec node)))) s = (Ok cluster, s')"
    then have ns: "c_Namespace cluster = n_Namespace node" using assms(2) by (auto simp: go_ok)
    show "emits (configmap_in (n_Namespace node)) (bindE (base_config E node ?o cluster)
      (\<lambda>(configProvider, element).
        bindE (patch_level E (c_Namespace cluster) (WithoutCrossNamespacePatchRefs ?o) (''clusterRefs'', ''cluster'')
            (''cluster.spec.patchRefs'', ''cluster.spec.patches'')
            (cs_PatchRefs (c_Spec cluster)) (cs_Patches (c_Spec cluster)) (configProvider, [element])) (\<lambda>ch1.
        bindE (role_level E node cluster (WithoutCrossNamespacePatchRefs ?o) ch1) (\<lambda>ch2.
        bindE (patch_level E (n_Namespace node) (WithoutCrossNamespacePatchRefs ?o) (''nodeRefs'', ''node'')
            (''node.spec.patchRefs'', ''node.spec.patches'')
            (ns_PatchRefs (n_Spec node)) (ns_Patches (n_Spec node)) ch2) (\<lambda>ch3.
        operator_level E node cluster ?o ch3)))))"
      unfolding base_config_def role_level_def operator_level_def ns x Let_def
      by (intro em.structural emits_prims patch_level_same_namespace getSecrets_no_configmap)
  qed (simp add: emits_ask)
qed

theorem GenerateMachineConfig_same_namespace_witness:
  "\<not> e_cross_namespace demo_env \<and>
   emits (configmap_in ''talos'') (GenerateMachineConfig
     (demo_env\<lparr>e_cluster := \<lambda>h c. case c of Api (GetCluster ns n) \<Rightarrow> Inr (demo_cluster\<lparr>c_Namespace := ns\<rparr>) | _ \<Rightarrow> Inl (errorf [])\<rparr>)
     (demo_node ''n1'' NodeRoleWorker)
     (NewGenerateMachineConfigOptions (demo_env\<lparr>e_cluster := \<lambda>h c. case c of Api (GetCluster ns n) \<Rightarrow> Inr (demo_cluster\<lparr>c_Namespace := ns\<rparr>) | _ \<Rightarrow> Inl (errorf [])\<rparr>)))"
proof -
  let ?E = "demo_env\<lparr>e_cluster := \<lambda>h c. case c of Api (GetCluster ns n) \<Rightarrow> Inr (demo_cluster\<lparr>c_Namespace := ns\<rparr>) | _ \<Rightarrow> Inl (errorf [])\<rparr>"
  have "emits (configmap_in (n_Namespace (demo_node ''n1'' NodeRoleWorker)))
      (GenerateMachineConfig ?E (demo_node ''n1'' NodeRoleWorker) (NewGenerateMachineConfigOptions ?E))"
    by (rule GenerateMachineConfig_same_namespace) (auto simp: demo_env_def)
  then show ?thesis by (simp add: demo_node_def demo_env_def)
qed

end
