(* ===== verification/Guards.thy ===== *)
theory Guards
  imports Effects
begin

text \<open>
  What has to have happened before a call. \<open>justified A s s'\<close> says that every call added
  between two states satisfies \<open>A\<close> together with the calls made before it, and
  \<open>under F A m\<close> that a computation started in a history with \<open>F\<close> adds only such calls.
  The rules collect, along the program text, which calls were answered and how.
\<close>

definition answered :: "(call list \<Rightarrow> call \<Rightarrow> go_error + 'a) \<Rightarrow> call \<Rightarrow> 'a \<Rightarrow> call list \<Rightarrow> bool" where
  "answered f c x h \<longleftrightarrow> (\<exists>later before. h = later @ c # before \<and> f before c = Inr x)"

text \<open>\<open>succeeded E h c\<close>: in the history \<open>h\<close> the call \<open>c\<close> was made and answered without an error.\<close>

definition succeeded :: "env \<Rightarrow> call list \<Rightarrow> call \<Rightarrow> bool" where
  "succeeded E h c \<longleftrightarrow> (\<exists>later before. h = later @ c # before \<and> e_unit E before c = None)"

lemma succeeded_append: "succeeded E h c \<Longrightarrow> succeeded E (new @ h) c"
  unfolding succeeded_def by (metis append.assoc)

lemma succeeded_Cons: "e_unit E h c = None \<Longrightarrow> succeeded E (c # h) c"
  by (auto simp: succeeded_def)

text \<open>Facts about the history that stay true as it grows.\<close>

definition persists :: "(call list \<Rightarrow> bool) \<Rightarrow> bool" where
  "persists F \<longleftrightarrow> (\<forall>h new. F h \<longrightarrow> F (new @ h))"

lemma persists_const [simp]: "persists (\<lambda>h. b)"
  by (simp add: persists_def)

lemma persists_conj [simp]: "persists F \<Longrightarrow> persists G \<Longrightarrow> persists (\<lambda>h. F h \<and> G h)"
  by (auto simp: persists_def)

lemma persists_ball [simp]: "(\<And>x. x \<in> S \<Longrightarrow> persists (F x)) \<Longrightarrow> persists (\<lambda>h. \<forall>x\<in>S. F x h)"
  by (auto simp: persists_def)

lemma persists_ex [simp]: "(\<And>x. persists (F x)) \<Longrightarrow> persists (\<lambda>h. \<exists>x. F x h)"
  by (auto simp: persists_def)

lemma persists_imp [simp]: "persists F \<Longrightarrow> persists (\<lambda>h. b \<longrightarrow> F h)"
  by (auto simp: persists_def)

lemma persists_answered [simp]: "persists (answered f c x)"
  unfolding persists_def answered_def by (metis append.assoc)

lemma persists_succeeded [simp]: "persists (\<lambda>h. succeeded E h c)"
  by (simp add: persists_def succeeded_append)

lemma answered_Cons: "f h c = Inr x \<Longrightarrow> answered f c x (c # h)"
  by (auto simp: answered_def)

section \<open>Justified calls\<close>

definition justified :: "(call list \<Rightarrow> call \<Rightarrow> bool) \<Rightarrow> st \<Rightarrow> st \<Rightarrow> bool" where
  "justified A s s' \<longleftrightarrow>
    (\<exists>cs. st_hist s' = cs @ st_hist s \<and> (\<forall>us c vs. cs = us @ c # vs \<longrightarrow> A (vs @ st_hist s) c))"

lemma justified_trans:
  assumes "justified A s t" and "justified A t u"
  shows "justified A s u"
proof -
  obtain cs ds where c: "st_hist t = cs @ st_hist s" "\<forall>us c vs. cs = us @ c # vs \<longrightarrow> A (vs @ st_hist s) c"
    and d: "st_hist u = ds @ st_hist t" "\<forall>us c vs. ds = us @ c # vs \<longrightarrow> A (vs @ st_hist t) c"
    using assms by (auto simp: justified_def)
  have "A (vs @ st_hist s) x" if "ds @ cs = us @ x # vs" for us x vs
    using that c d by (fastforce simp: append_eq_append_conv2 append_eq_Cons_conv Cons_eq_append_conv)
  with c d show ?thesis by (auto simp: justified_def)
qed

interpretation ju: preorder_steps "justified A" for A
  by unfold_locales (simp add: justified_def, rule justified_trans)

lemma justified_grows: "justified (\<lambda>h c. A c) s s' \<longleftrightarrow> grows A s s'"
  unfolding justified_def grows_def by (metis in_set_conv_decomp)

lemma justifiedD:
  assumes "justified A s s'" and "st_hist s' = us @ c # vs @ st_hist s"
  shows "A (vs @ st_hist s) c"
  using assms by (auto simp: justified_def)

lemma justified_memD:
  assumes "justified A s s'" and "st_hist s' = new @ st_hist s" and "c \<in> set new"
  shows "\<exists>us vs. new = us @ c # vs \<and> A (vs @ st_hist s) c"
  using assms unfolding justified_def by (metis append_same_eq split_list)

definition under :: "(call list \<Rightarrow> bool) \<Rightarrow> (call list \<Rightarrow> call \<Rightarrow> bool) \<Rightarrow> 'a ctl \<Rightarrow> bool" where
  "under F A m \<longleftrightarrow> (\<forall>s. F (st_hist s) \<longrightarrow> justified A s (snd (m s)))"

lemma underD: "under F A m \<Longrightarrow> m s = (r, s') \<Longrightarrow> F (st_hist s) \<Longrightarrow> justified A s s'"
  unfolding under_def by (metis snd_conv)

lemma under_weaken: "under F A m \<Longrightarrow> (\<And>h. G h \<Longrightarrow> F h) \<Longrightarrow> under G A m"
  by (simp add: under_def)

lemma justified_mono: "justified A s s' \<Longrightarrow> (\<And>h c. A h c \<Longrightarrow> B h c) \<Longrightarrow> justified B s s'"
  unfolding justified_def by blast

lemma under_mono: "under F A m \<Longrightarrow> (\<And>h c. A h c \<Longrightarrow> B h c) \<Longrightarrow> under F B m"
  unfolding under_def by (blast intro: justified_mono)

lemma justified_hist: "justified A s s' \<Longrightarrow> \<exists>cs. st_hist s' = cs @ st_hist s"
  by (auto simp: justified_def)

text \<open>Calls that need nothing.\<close>

lemma under_emits:
  assumes "emits B m" and "persists F" and "\<And>h c. F h \<Longrightarrow> B c \<Longrightarrow> A h c"
  shows "under F A m"
  unfolding under_def
proof (intro allI impI)
  fix s :: st
  assume F: "F (st_hist s)"
  have "grows B s (snd (m s))" using assms(1) by (simp add: steps_def)
  then obtain cs where "st_hist (snd (m s)) = cs @ st_hist s" "\<forall>c\<in>set cs. B c" by (auto simp: grows_def)
  with F assms(2,3) show "justified A s (snd (m s))" by (auto simp: justified_def persists_def)
qed

lemma under_basic: "under F A (ret x)" "under F A (fail e)" "under F A (panic p)" "under F A (gets f)"
  by (simp_all add: under_def run_basic justified_def)

text \<open>One statement after another; \<open>G\<close> is what the first is known to establish.\<close>

lemma under_onErr_value:
  assumes "persists F" and m: "under F A m" and "\<And>e. under F A (h e)"
    and est: "\<And>x s s'. m s = (Ok x, s') \<Longrightarrow> F (st_hist s) \<Longrightarrow> G x (st_hist s')"
    and "\<And>x. under (\<lambda>h. F h \<and> G x h) A (k x)"
  shows "under F A (onErr m h k)"
  unfolding under_def
proof (intro allI impI)
  fix s :: st
  assume F: "F (st_hist s)"
  obtain r t where mt: "m s = (r, t)" by (cases "m s")
  have st: "justified A s t" using underD [OF m mt F] .
  have Ft: "F (st_hist t)" using justified_hist [OF st] F assms(1) by (auto simp: persists_def)
  show "justified A s (snd (onErr m h k s))"
  proof (cases r)
    case (Ok x)
    have "justified A t (snd (k x t))"
      using assms(5) [of x] Ft est mt F Ok by (simp add: under_def)
    with st Ok mt show ?thesis by (auto simp: run_onErr intro: justified_trans)
  next
    case (Err e)
    have "justified A t (snd (h e t))" using assms(3) [of e] Ft by (simp add: under_def)
    with st Err mt show ?thesis by (auto simp: run_onErr intro: justified_trans)
  next
    case (Panic p)
    with st mt show ?thesis by (simp add: run_onErr)
  qed
qed

lemma under_onErr:
  assumes "persists F" and "under F A m" and "\<And>e. under F A (h e)" and "\<And>x. under F A (k x)"
  shows "under F A (onErr m h k)"
  by (rule under_onErr_value [where G = "\<lambda>_ _. True"]) (use assms in simp_all)

lemma under_bindE_value:
  assumes "persists F" and "under F A m"
    and "\<And>x s s'. m s = (Ok x, s') \<Longrightarrow> F (st_hist s) \<Longrightarrow> G x (st_hist s')"
    and "\<And>x. under (\<lambda>h. F h \<and> G x h) A (k x)"
  shows "under F A (bindE m k)"
  unfolding bindE_def by (rule under_onErr_value [where G = G]) (use assms in \<open>simp_all add: under_basic\<close>)

lemma under_bindE: "persists F \<Longrightarrow> under F A m \<Longrightarrow> (\<And>x. under F A (k x)) \<Longrightarrow> under F A (bindE m k)"
  unfolding bindE_def by (intro under_onErr under_basic)

lemma under_andThen: "persists F \<Longrightarrow> under F A m \<Longrightarrow> under F A k \<Longrightarrow> under F A (andThen m k)"
  unfolding andThen_def by (intro under_bindE)

lemma under_wrapE: "persists F \<Longrightarrow> under F A m \<Longrightarrow> under F A (wrapE pre m)"
  unfolding wrapE_def by (intro under_onErr under_basic)

lemma under_ask: "(\<And>h. F h \<Longrightarrow> A h c) \<Longrightarrow> under F A (ask f c)"
  by (auto simp: under_def ask_def justified_def Cons_eq_append_conv intro!: exI [of _ "[c]"])

lemma under_act: "(\<And>h. F h \<Longrightarrow> A h c) \<Longrightarrow> under F A (act E c)"
  unfolding act_def by (rule under_ask)

lemma under_event: "(\<And>h. F h \<Longrightarrow> A h (Event t r a)) \<Longrightarrow> under F A (event t r a)"
  by (auto simp: under_def event_def run_basic justified_def Cons_eq_append_conv
      intro!: exI [of _ "[Event t r a]"])

lemma under_now: "(\<And>h. F h \<Longrightarrow> A h (Sys Now)) \<Longrightarrow> under F A (now E)"
  unfolding now_def by (rule under_ask)

lemma under_time_Since: "persists F \<Longrightarrow> (\<And>h. F h \<Longrightarrow> A h (Sys Now)) \<Longrightarrow> under F A (time_Since E t)"
  unfolding time_Since_def by (intro under_bindE under_now under_basic)

lemma under_lift: "under F A (lift r)"
  by (cases r) (simp_all add: lift_def under_basic)

lemmas under_prims = under_ask under_act under_event under_now under_time_Since under_lift

text \<open>A call whose answer is used later.\<close>

lemma under_onErr_ask:
  assumes "persists F" and "\<And>h. F h \<Longrightarrow> A h c" and "\<And>e. under F A (h e)"
    and "\<And>x. under (\<lambda>h. F h \<and> answered f c x h) A (k x)"
  shows "under F A (onErr (ask f c) h k)"
  by (rule under_onErr_value [where G = "\<lambda>x h. answered f c x h"])
    (use assms in \<open>auto intro: under_ask simp: ok_ask answered_Cons\<close>)

lemma under_bindE_ask:
  assumes "persists F" and "\<And>h. F h \<Longrightarrow> A h c"
    and "\<And>x. under (\<lambda>h. F h \<and> answered f c x h) A (k x)"
  shows "under F A (bindE (wrapE pre (ask f c)) k)"
  by (rule under_bindE_value [where G = "\<lambda>x h. answered f c x h"])
    (use assms in \<open>auto intro: under_wrapE under_ask simp: go_ok answered_Cons\<close>)

lemma ok_act [go_ok]:
  "act E c s = (Ok x, s') \<longleftrightarrow> e_unit E (st_hist s) c = None \<and> s' = s\<lparr>st_hist := c # st_hist s\<rparr>"
  by (auto simp: act_def ok_ask split: option.splits)

lemma under_onErr_act:
  assumes "persists F" and "\<And>h. F h \<Longrightarrow> A h c" and "\<And>e. under F A (h e)"
    and "\<And>x. under (\<lambda>h. F h \<and> succeeded E h c) A (k x)"
  shows "under F A (onErr (act E c) h k)"
  by (rule under_onErr_value [where G = "\<lambda>x h. succeeded E h c"])
    (use assms in \<open>auto intro: under_act simp: ok_act succeeded_Cons\<close>)

lemma under_andThen_act:
  assumes "persists F" and "\<And>h. F h \<Longrightarrow> A h c"
    and "under (\<lambda>h. F h \<and> succeeded E h c) A k"
  shows "under F A (andThen (wrapE pre (act E c)) k)"
  unfolding andThen_def
  by (rule under_bindE_value [where G = "\<lambda>x h. succeeded E h c"])
    (use assms in \<open>auto intro: under_wrapE under_act simp: go_ok succeeded_Cons\<close>)

text \<open>Branches.\<close>

lemma under_if: "(b \<Longrightarrow> under F A m) \<Longrightarrow> (\<not> b \<Longrightarrow> under F A n) \<Longrightarrow> under F A (if b then m else n)"
  by simp

lemma under_option:
  "(x = None \<Longrightarrow> under F A m) \<Longrightarrow> (\<And>y. x = Some y \<Longrightarrow> under F A (f y)) \<Longrightarrow>
   under F A (case x of None \<Rightarrow> m | Some y \<Rightarrow> f y)"
  by (cases x) simp_all

lemma under_sum:
  "(\<And>a. x = Inl a \<Longrightarrow> under F A (f a)) \<Longrightarrow> (\<And>b. x = Inr b \<Longrightarrow> under F A (g b)) \<Longrightarrow>
   under F A (case x of Inl a \<Rightarrow> f a | Inr b \<Rightarrow> g b)"
  by (cases x) simp_all

lemma under_prod: "(\<And>a b. x = (a, b) \<Longrightarrow> under F A (f a b)) \<Longrightarrow> under F A (case x of (a, b) \<Rightarrow> f a b)"
  by (cases x) simp

lemma under_list:
  "(x = [] \<Longrightarrow> under F A m) \<Longrightarrow> (\<And>y ys. x = y # ys \<Longrightarrow> under F A (f y ys)) \<Longrightarrow>
   under F A (case x of [] \<Rightarrow> m | y # ys \<Rightarrow> f y ys)"
  by (cases x) simp_all

lemmas under_branches = under_if under_option under_sum under_prod under_list

lemmas under_structural = under_basic under_branches under_onErr under_bindE under_andThen under_wrapE

end
