(* ===== verification/NodeHelpers.thy ===== *)
theory NodeHelpers
  imports MachineConfig Guards
begin

text \<open>
  \<^verbatim>\<open>internal/controller/helpers_node_controller.go\<close>: how the node controller writes a
  node (always from a fresh copy, again on a conflict), when an operation is complete, and
  when another node of the cluster has one in progress; and the guard with which the
  operation handlers start, the check of the other nodes and the mutex of the cluster.
\<close>

section \<open>Writing a node\<close>

text \<open>
  The function given to a write may read the clock and may panic. The node the context
  points to is replaced by the fresh copy, by the changed one and by the server's answer,
  so changes made to it before are lost.
\<close>

definition refreshNode :: "env \<Rightarrow> Node ctl" where
  "refreshNode E =
    bindE (gets st_node) (\<lambda>node.
    bindE (ask (e_node E) (Api (GetNode (n_Namespace node) (n_Name node)))) (\<lambda>fresh.
    andThen (set_node fresh) (ret fresh)))"

definition updateNodeStatus :: "env \<Rightarrow> (Node \<Rightarrow> Node ctl) \<Rightarrow> unit ctl" where
  "updateNodeStatus E updateFn =
    retryOnConflict (e_retries E) (
      bindE (refreshNode E) (\<lambda>n.
      bindE (updateFn n) (\<lambda>n'.
      andThen (set_node n') (
      bindE (ask (e_node E) (Api (StatusUpdateNode n n'))) set_node))))"

definition updateNode :: "env \<Rightarrow> (Node \<Rightarrow> Node ctl) \<Rightarrow> unit ctl" where
  "updateNode E updateFn =
    retryOnConflict (e_retries E) (
      bindE (refreshNode E) (\<lambda>n.
      bindE (updateFn n) (\<lambda>n'.
      andThen (set_node n') (
      bindE (ask (e_node E) (Api (UpdateNode n n'))) set_node))))"

text \<open>The fields of the operation status; assigning through a nil pointer panics.\<close>

definition set_op_fields :: "env \<Rightarrow> string \<Rightarrow> string \<Rightarrow> string \<Rightarrow> Node \<Rightarrow> Node ctl" where
  "set_op_fields E phase reason message n =
    (case n_OpStatus n of
       None \<Rightarrow> panic (msgtxt ''nil pointer dereference: node.Status.Operation'')
     | Some _ \<Rightarrow> bindE (now E) (\<lambda>t.
         ret (map_OpStatus (\<lambda>os. os\<lparr>nos_Phase := phase, nos_LastTransitionTime := t,
                                    nos_Reason := reason, nos_Message := message\<rparr>) n)))"

definition updateOpStatus :: "env \<Rightarrow> string \<Rightarrow> string \<Rightarrow> string \<Rightarrow> unit ctl" where
  "updateOpStatus E phase reason message =
    wrapE (msgtxt ''failed to update operation status'')
      (updateNodeStatus E (set_op_fields E phase reason message))"

section \<open>Operations in progress\<close>

definition isOperationComplete :: "Node \<Rightarrow> bool" where
  "isOperationComplete node =
    (case n_OpStatus node of
       None \<Rightarrow> True
     | Some os \<Rightarrow> nos_Phase os = NodeOperationPhaseDone \<or> nos_Phase os = NodeOperationPhaseFailed)"

definition notInProgressPhases :: "string list" where
  "notInProgressPhases =
    [NodeOperationPhasePending, NodeOperationPhaseDone, NodeOperationPhaseFailed]"

fun other_in_progress :: "string \<Rightarrow> Node list \<Rightarrow> bool" where
  "other_in_progress name [] = False"
| "other_in_progress name (n # ns) =
    (if name = n_Name n then other_in_progress name ns
     else (case n_OpStatus n of
         Some os \<Rightarrow> if nos_Phase os \<notin> set notInProgressPhases then True else other_in_progress name ns
       | None \<Rightarrow> other_in_progress name ns))"

text \<open>On an error the caller gets the error and takes it as an operation in progress.\<close>

definition areOtherOperationsInProgress :: "env \<Rightarrow> Cluster \<Rightarrow> Node \<Rightarrow> bool ctl" where
  "areOtherOperationsInProgress E cluster node =
    bindE (ask (e_nodes E) (Api (ListNodes (Some (n_Namespace node)) (Some (c_Name cluster)) None)))
      (\<lambda>items. ret (other_in_progress (n_Name node) items))"

section \<open>The guard of the operation handlers\<close>

text \<open>A result of a handler: nil, or the time after which to come back.\<close>

type_synonym result = "int option"

definition mutexKey :: "Cluster \<Rightarrow> string" where
  "mutexKey cluster = c_Namespace cluster @ '':'' @ c_Name cluster"

definition tryLock :: "string \<Rightarrow> bool ctl" where
  "tryLock key = (\<lambda>s. case TryLock (st_mutex s) key of (b, km) \<Rightarrow> (Ok b, s\<lparr>st_mutex := km\<rparr>))"

definition unlock :: "string \<Rightarrow> unit ctl" where
  "unlock key = (\<lambda>s. case Unlock (st_mutex s) key of
      Some km \<Rightarrow> (Ok (), s\<lparr>st_mutex := km\<rparr>)
    | None \<Rightarrow> (Panic (msgtxt ''sync: unlock of unlocked mutex''), s))"

definition withMutex :: "Cluster \<Rightarrow> result ctl \<Rightarrow> result ctl" where
  "withMutex cluster body =
    bindE (tryLock (mutexKey cluster)) (\<lambda>hasMutex.
      if \<not> hasMutex then ret (Some RequeueShortDelay)
      else deferred body (unlock (mutexKey cluster)))"

text \<open>No operation on another node, and then the mutex of the cluster.\<close>

definition checkOthers :: "env \<Rightarrow> Cluster \<Rightarrow> Node \<Rightarrow> result ctl \<Rightarrow> result ctl" where
  "checkOthers E cluster node body =
    bindE (wrapE (msgtxt ''error checking for other operations in progress'')
      (areOtherOperationsInProgress E cluster node)) (\<lambda>otherOpsInProgress.
      if otherOpsInProgress then ret (Some RequeueShortDelay) else body)"

definition exclusively :: "env \<Rightarrow> Cluster \<Rightarrow> Node \<Rightarrow> result ctl \<Rightarrow> result ctl" where
  "exclusively E cluster node body = checkOthers E cluster node (withMutex cluster body)"

section \<open>Effects of the writes\<close>

lemma keeps_refreshNode: "keeps st_mutex (refreshNode E)"
  unfolding refreshNode_def by (intro kp.structural keeps_prims) simp_all

lemma keeps_updateNodeStatus: "(\<And>n. keeps st_mutex (fn n)) \<Longrightarrow> keeps st_mutex (updateNodeStatus E fn)"
  unfolding updateNodeStatus_def by (intro kp.structural keeps_prims keeps_refreshNode) simp_all

lemma keeps_updateNode: "(\<And>n. keeps st_mutex (fn n)) \<Longrightarrow> keeps st_mutex (updateNode E fn)"
  unfolding updateNode_def by (intro kp.structural keeps_prims keeps_refreshNode) simp_all

lemma keeps_set_op_fields: "hist_free f \<Longrightarrow> keeps f (set_op_fields E p r m n)"
  unfolding set_op_fields_def by (intro kp.structural keeps_prims)

lemma keeps_updateOpStatus: "keeps st_mutex (updateOpStatus E p r m)"
  unfolding updateOpStatus_def
  by (intro kp.structural keeps_updateNodeStatus keeps_set_op_fields) simp

text \<open>A write makes the calls of its function, reads the node and writes what the function made of it.\<close>

lemma emits_refreshNode:
  "(\<And>ns n. A (Api (GetNode ns n))) \<Longrightarrow> emits A (refreshNode E)"
  unfolding refreshNode_def by (intro em.structural emits_prims)

lemma emits_updateNodeStatus:
  assumes "\<And>ns n. A (Api (GetNode ns n))" and "\<And>n. emits A (fn n)"
    and "\<And>n n' s s'. fn n s = (Ok n', s') \<Longrightarrow> A (Api (StatusUpdateNode n n'))"
  shows "emits A (updateNodeStatus E fn)"
  unfolding updateNodeStatus_def
proof (rule em.retryOnConflict, rule em.bindE)
  show "emits A (refreshNode E)" using assms(1) by (rule emits_refreshNode)
  show "emits A (bindE (fn n) (\<lambda>n'. andThen (set_node n')
      (bindE (ask (e_node E) (Api (StatusUpdateNode n n'))) set_node)))" for n
    by (rule em.bindE_value) (use assms(2,3) in \<open>auto intro!: em.structural emits_prims\<close>)
qed

lemma emits_updateNode:
  assumes "\<And>ns n. A (Api (GetNode ns n))" and "\<And>n. emits A (fn n)"
    and "\<And>n n' s s'. fn n s = (Ok n', s') \<Longrightarrow> A (Api (UpdateNode n n'))"
  shows "emits A (updateNode E fn)"
  unfolding updateNode_def
proof (rule em.retryOnConflict, rule em.bindE)
  show "emits A (refreshNode E)" using assms(1) by (rule emits_refreshNode)
  show "emits A (bindE (fn n) (\<lambda>n'. andThen (set_node n')
      (bindE (ask (e_node E) (Api (UpdateNode n n'))) set_node)))" for n
    by (rule em.bindE_value) (use assms(2,3) in \<open>auto intro!: em.structural emits_prims\<close>)
qed

text \<open>
  The writes of the operation status a handler may make: every status write of a node
  leaves everything but the status as it was read, and either leaves the operation status
  alone or moves the operation that was read, unchanged, to one of the phases \<open>Q\<close>.
\<close>

definition op_step :: "string set \<Rightarrow> Node \<Rightarrow> Node \<Rightarrow> bool" where
  "op_step Q b n \<longleftrightarrow>
    n_OpStatus n = n_OpStatus b \<or>
    (\<exists>os os'. n_OpStatus b = Some os \<and> n_OpStatus n = Some os' \<and>
      nos_op os' = nos_op os \<and> nos_Phase os' \<in> Q)"

definition phase_writes :: "string set \<Rightarrow> call \<Rightarrow> bool" where
  "phase_writes Q c \<longleftrightarrow>
    (case node_status_write c of
       None \<Rightarrow> True
     | Some (b, n) \<Rightarrow> n\<lparr>n_Status := n_Status b\<rparr> = b \<and> op_step Q b n)"

lemma phase_writes_mono: "phase_writes P c \<Longrightarrow> P \<subseteq> Q \<Longrightarrow> phase_writes Q c"
  by (auto simp: phase_writes_def op_step_def split: option.splits)

lemma phase_writes_read [simp]: "is_read c \<Longrightarrow> phase_writes Q c"
  by (simp add: phase_writes_def)

lemma phase_writes_other [simp]:
  "phase_writes Q (Talos c t)" "phase_writes Q (K8s c' k)" "phase_writes Q (Sys y)"
  "phase_writes Q (Event ty r a)" "phase_writes Q (Api (UpdateNode b n))"
  "phase_writes Q (Api (GetNode ns nm))" "phase_writes Q (Api (ListNodes x cl ro))"
  by (simp_all add: phase_writes_def)

text \<open>
  \<open>allowed Q D\<close>: status writes as above, and of the calls that change a machine or the
  workloads only those of \<open>D\<close>.
\<close>

definition allowed :: "string set \<Rightarrow> (call \<Rightarrow> bool) \<Rightarrow> call \<Rightarrow> bool" where
  "allowed Q D c \<longleftrightarrow> phase_writes Q c \<and> (disruptive c \<longrightarrow> D c)"

lemma allowed_mono:
  "allowed P D c \<Longrightarrow> P \<subseteq> Q \<Longrightarrow> (\<And>c. D c \<Longrightarrow> D' c) \<Longrightarrow> allowed Q D' c"
  by (auto simp: allowed_def phase_writes_mono)

lemma allowed_read [simp]: "is_read c \<Longrightarrow> allowed Q D c"
  by (simp add: allowed_def is_read_not_disruptive)

lemma allowed_call [simp]:
  "allowed Q D (Talos c t) \<longleftrightarrow> (mutates_machine t \<longrightarrow> D (Talos c t))"
  "allowed Q D (K8s c' k) \<longleftrightarrow> (mutates_workload k \<longrightarrow> D (K8s c' k))"
  "allowed Q D (Sys y)" "allowed Q D (Event ty r a)" "allowed Q D (Api (UpdateNode b n))"
  "allowed Q D (Api (GetNode ns nm))" "allowed Q D (Api (ListNodes x cl ro))"
  by (auto simp: allowed_def)

text \<open>What a function given to a status write changes.\<close>

definition only_status :: "(Node \<Rightarrow> Node ctl) \<Rightarrow> bool" where
  "only_status fn \<longleftrightarrow>
    (\<forall>n s n' s'. fn n s = (Ok n', s') \<longrightarrow>
      n'\<lparr>n_Status := n_Status n\<rparr> = n \<and> n_OpStatus n' = n_OpStatus n)"

lemma only_status_ret:
  "(\<And>n. (f n)\<lparr>n_Status := n_Status n\<rparr> = n \<and> n_OpStatus (f n) = n_OpStatus n) \<Longrightarrow>
   only_status (\<lambda>n. ret (f n))"
  by (auto simp: only_status_def go_ok)

lemma only_status_set_cond: "only_status (set_cond E ty st r m)"
  by (auto simp: only_status_def set_cond_def go_ok)

lemma only_status_bind:
  assumes "only_status f" and "only_status g"
  shows "only_status (\<lambda>n. bindE (f n) g)"
  using assms unfolding only_status_def go_ok
  by (metis Node.surjective Node.update_convs(9))

lemma emits_status_phase:
  assumes "only_status fn" and "\<And>n. emits (allowed Q D) (fn n)"
  shows "emits (allowed Q D) (updateNodeStatus E fn)"
  using assms
  by (intro emits_updateNodeStatus) (auto simp: only_status_def allowed_def phase_writes_def op_step_def)

lemma emits_set_op_fields: "A (Sys Now) \<Longrightarrow> emits A (set_op_fields E p r m n)"
  unfolding set_op_fields_def by (intro em.structural emits_prims)

lemma emits_updateOpStatus:
  assumes "phase \<in> Q"
  shows "emits (allowed Q D) (updateOpStatus E phase reason message)"
  unfolding updateOpStatus_def
proof (intro em.wrapE emits_updateNodeStatus emits_set_op_fields)
  fix n n' :: Node and s s' :: st
  assume "set_op_fields E phase reason message n s = (Ok n', s')"
  with assms show "allowed Q D (Api (StatusUpdateNode n n'))"
    by (auto simp: set_op_fields_def go_ok allowed_def phase_writes_def op_step_def map_OpStatus_def
        split: option.splits)
qed simp_all

text \<open>A status write that puts the operation into phase \<open>p\<close>.\<close>

definition moves_to :: "string \<Rightarrow> call \<Rightarrow> bool" where
  "moves_to p c \<longleftrightarrow>
    (\<exists>b n os. c = Api (StatusUpdateNode b n) \<and> n_OpStatus n = Some os \<and> nos_Phase os = p)"

lemma moves_to_simps [simp]:
  "\<not> moves_to p (Talos c t)" "\<not> moves_to p (K8s c' k)" "\<not> moves_to p (Sys y)"
  "\<not> moves_to p (Event ty r a)" "\<not> moves_to p (Api (UpdateNode b n))"
  "\<not> moves_to p (Api (GetNode ns nm))" "\<not> moves_to p (Api (ListNodes x cl ro))"
  by (simp_all add: moves_to_def)

lemma moves_to_write [simp]:
  "moves_to p (Api (StatusUpdateNode b n)) \<longleftrightarrow>
    (case n_OpStatus n of Some os \<Rightarrow> nos_Phase os = p | None \<Rightarrow> False)"
  by (auto simp: moves_to_def split: option.splits)

lemma moves_to_read: "is_read c \<Longrightarrow> \<not> moves_to p c"
  by (auto simp: moves_to_def)

lemma emits_moves: "emits (\<lambda>c. \<forall>q. moves_to q c \<longrightarrow> q = p) (updateOpStatus E p r m)"
  unfolding updateOpStatus_def
  by (intro em.wrapE emits_updateNodeStatus emits_set_op_fields)
    (auto simp: moves_to_def set_op_fields_def go_ok map_OpStatus_def split: option.splits)

text \<open>\<open>only_when P Q\<close>: the operation is put into phase \<open>P\<close> only in a history with \<open>Q\<close>.\<close>

definition only_when :: "string \<Rightarrow> (call list \<Rightarrow> bool) \<Rightarrow> call list \<Rightarrow> call \<Rightarrow> bool" where
  "only_when P Q h c \<longleftrightarrow> (moves_to P c \<longrightarrow> Q h)"

lemma only_when_simps [simp]:
  "only_when P Q h (Talos c t)" "only_when P Q h (K8s c' k)" "only_when P Q h (Sys y)"
  "only_when P Q h (Event ty r a)" "only_when P Q h (Api (UpdateNode b n))"
  "only_when P Q h (Api (GetNode ns nm))" "only_when P Q h (Api (ListNodes x cl ro))"
  "is_read c'' \<Longrightarrow> only_when P Q h c''"
  by (simp_all add: only_when_def moves_to_read)

lemma only_when_updateOpStatus:
  assumes "persists F" and "\<And>h. p = P \<Longrightarrow> F h \<Longrightarrow> Q h"
  shows "under F (only_when P Q) (updateOpStatus E p r m)"
  by (rule under_emits [OF emits_moves]) (use assms in \<open>auto simp: only_when_def\<close>)

text \<open>Everything that is not such a write.\<close>

lemma only_when_quiet: "emits (\<lambda>c. \<not> moves_to P c) m \<Longrightarrow> persists F \<Longrightarrow> under F (only_when P Q) m"
  by (erule under_emits) (auto simp: only_when_def)

text \<open>None of the writes touches a machine or the workloads.\<close>

lemma quiet_updateNodeStatus:
  "(\<And>n. emits (\<lambda>c. \<not> disruptive c) (fn n)) \<Longrightarrow> emits (\<lambda>c. \<not> disruptive c) (updateNodeStatus E fn)"
  by (intro emits_updateNodeStatus) auto

lemma quiet_updateOpStatus: "emits (\<lambda>c. \<not> disruptive c) (updateOpStatus E p r m)"
  unfolding updateOpStatus_def
  by (intro em.wrapE quiet_updateNodeStatus emits_set_op_fields) simp

section \<open>The guard\<close>

lemma other_in_progress_iff:
  "other_in_progress name ns \<longleftrightarrow>
    (\<exists>n\<in>set ns. n_Name n \<noteq> name \<and>
      (\<exists>os. n_OpStatus n = Some os \<and> nos_Phase os \<notin> set notInProgressPhases))"
  by (induction ns) (auto split: option.splits)

lemma emits_tryLock: "emits A (tryLock key)"
  by (rule stepsI) (auto simp: tryLock_def grows_def split: prod.splits)

lemma emits_unlock: "emits A (unlock key)"
  by (rule stepsI) (auto simp: unlock_def grows_def split: option.splits)

lemma emits_withMutex: "emits A body \<Longrightarrow> emits A (withMutex cluster body)"
  unfolding withMutex_def by (intro em.structural emits_tryLock emits_unlock)

lemma emits_areOtherOperationsInProgress:
  "(\<And>x cl ro. A (Api (ListNodes x cl ro))) \<Longrightarrow> emits A (areOtherOperationsInProgress E cluster node)"
  unfolding areOtherOperationsInProgress_def by (intro em.structural emits_prims)

lemma emits_checkOthers:
  "(\<And>x cl ro. A (Api (ListNodes x cl ro))) \<Longrightarrow> emits A body \<Longrightarrow> emits A (checkOthers E cluster node body)"
  unfolding checkOthers_def by (intro em.structural emits_areOtherOperationsInProgress)

lemma emits_exclusively:
  "(\<And>x cl ro. A (Api (ListNodes x cl ro))) \<Longrightarrow> emits A body \<Longrightarrow> emits A (exclusively E cluster node body)"
  unfolding exclusively_def by (intro emits_checkOthers emits_withMutex)

text \<open>The mutexes held are the same before and after, whatever the outcome.\<close>

definition balanced :: "st \<Rightarrow> st \<Rightarrow> bool" where
  "balanced s s' \<longleftrightarrow>
    (wf (st_mutex s) \<longrightarrow> wf (st_mutex s') \<and> (\<forall>k. holds (st_mutex s') k = holds (st_mutex s) k))"

interpretation bal: preorder_steps balanced
  by unfold_locales (auto simp: balanced_def)

lemma balanced_keeps: "keeps st_mutex m \<Longrightarrow> steps balanced m"
  by (erule steps_mono) (simp add: same_def balanced_def)

lemma balanced_withMutex:
  assumes "keeps st_mutex body"
  shows "steps balanced (withMutex cluster body)"
proof (rule stepsI)
  fix s :: st
  let ?k = "mutexKey cluster"
  obtain b km where t: "TryLock (st_mutex s) ?k = (b, km)" by (cases "TryLock (st_mutex s) ?k")
  show "balanced s (snd (withMutex cluster body s))"
  proof (cases b)
    case False
    with t have w: "withMutex cluster body s = (Ok (Some RequeueShortDelay), s\<lparr>st_mutex := km\<rparr>)"
      by (simp add: withMutex_def bindE_def onErr_def tryLock_def run_basic)
    show ?thesis unfolding w balanced_def
      using mutex_map.trylock_fail mutex_map.trylock_invar t False by auto
  next
    case True
    obtain r s1 where m: "body (s\<lparr>st_mutex := km\<rparr>) = (r, s1)" by (cases "body (s\<lparr>st_mutex := km\<rparr>)")
    have k: "st_mutex s1 = km" using keepsD [OF assms m] by simp
    have w: "withMutex cluster body s = deferred body (unlock ?k) (s\<lparr>st_mutex := km\<rparr>)"
      using t True by (simp add: withMutex_def bindE_def onErr_def tryLock_def)
    show ?thesis unfolding w balanced_def
    proof (rule impI)
      assume i: "wf (st_mutex s)"
      then obtain m' where "Unlock km ?k = Some m'" "wf m'" "\<forall>j. holds m' j = holds (st_mutex s) j"
        using mutex_map.lock_unlock [OF i, of ?k km] t True by auto
      then show "wf (st_mutex (snd (deferred body (unlock ?k) (s\<lparr>st_mutex := km\<rparr>)))) \<and>
          (\<forall>j. holds (st_mutex (snd (deferred body (unlock ?k) (s\<lparr>st_mutex := km\<rparr>)))) j =
            holds (st_mutex s) j)"
        using m k by (simp add: deferred_def unlock_def)
    qed
  qed
qed

lemma keeps_areOtherOperationsInProgress: "keeps st_mutex (areOtherOperationsInProgress E cluster node)"
  unfolding areOtherOperationsInProgress_def by (intro kp.structural keeps_prims) simp

lemma balanced_checkOthers: "steps balanced body \<Longrightarrow> steps balanced (checkOthers E cluster node body)"
  unfolding checkOthers_def
  by (intro bal.structural balanced_keeps [OF keeps_areOtherOperationsInProgress])

lemma balanced_exclusively: "keeps st_mutex body \<Longrightarrow> steps balanced (exclusively E cluster node body)"
  unfolding exclusively_def by (intro balanced_checkOthers balanced_withMutex)

text \<open>
  When the guard does not let the body run, the handler comes back later or fails, and the
  only call it has made is the listing of the nodes.
\<close>

definition others_answer :: "env \<Rightarrow> Cluster \<Rightarrow> Node \<Rightarrow> st \<Rightarrow> go_error + Node list" where
  "others_answer E cluster node s =
    e_nodes E (st_hist s) (Api (ListNodes (Some (n_Namespace node)) (Some (c_Name cluster)) None))"

definition free_to_run :: "env \<Rightarrow> Cluster \<Rightarrow> Node \<Rightarrow> st \<Rightarrow> bool" where
  "free_to_run E cluster node s \<longleftrightarrow>
    (case others_answer E cluster node s of
       Inl e \<Rightarrow> False
     | Inr ns \<Rightarrow> \<not> other_in_progress (n_Name node) ns) \<and>
    \<not> holds (st_mutex s) (mutexKey cluster)"

lemma exclusively_blocked:
  assumes "wf (st_mutex s)" and "\<not> free_to_run E cluster node s"
  shows "\<exists>r s'. exclusively E cluster node body s = (r, s') \<and>
    st_hist s' = Api (ListNodes (Some (n_Namespace node)) (Some (c_Name cluster)) None) # st_hist s \<and>
    (r = Ok (Some RequeueShortDelay) \<or> (\<exists>e. r = Err e))"
proof (cases "others_answer E cluster node s")
  case (Inl e)
  then show ?thesis
    by (simp add: exclusively_def checkOthers_def areOtherOperationsInProgress_def others_answer_def
        wrapE_def bindE_def onErr_def ask_def fail_def)
next
  case (Inr ns)
  obtain b km where t: "TryLock (st_mutex s) (mutexKey cluster) = (b, km)"
    by (cases "TryLock (st_mutex s) (mutexKey cluster)")
  then have "\<not> other_in_progress (n_Name node) ns \<Longrightarrow> \<not> b"
    using assms Inr mutex_map.trylock_result [OF assms(1), of "mutexKey cluster"]
    by (simp add: free_to_run_def)
  then show ?thesis using Inr t
    by (simp add: exclusively_def checkOthers_def areOtherOperationsInProgress_def others_answer_def
        wrapE_def bindE_def onErr_def ask_def ret_def withMutex_def tryLock_def)
qed

text \<open>Otherwise the body has run, between taking and releasing the mutex.\<close>

lemma withMutex_cases:
  assumes "withMutex cluster body s = (r, s')"
  obtains "st_hist s' = st_hist s" and "r = Ok (Some RequeueShortDelay)"
  | s1 r1 s2 where "st_hist s1 = st_hist s" and "st_node s1 = st_node s" and "body s1 = (r1, s2)"
    and "st_hist s' = st_hist s2" and "st_node s' = st_node s2" and "r = r1 \<or> (\<exists>p. r = Panic p)"
proof (cases "TryLock (st_mutex s) (mutexKey cluster)")
  case (Pair b km)
  let ?s1 = "s\<lparr>st_mutex := km\<rparr>"
  show ?thesis
  proof (cases b)
    case False
    with Pair assms that(1) show ?thesis
      by (auto simp: withMutex_def bindE_def onErr_def tryLock_def run_basic)
  next
    case True
    obtain r1 s2 where b: "body ?s1 = (r1, s2)" by (cases "body ?s1")
    with True Pair assms have "(r, s') = (case unlock (mutexKey cluster) s2 of
        (Panic p, s'') \<Rightarrow> (Panic p, s'') | (Ok _, s'') \<Rightarrow> (r1, s'') | (Err _, s'') \<Rightarrow> (r1, s''))"
      by (simp add: withMutex_def bindE_def onErr_def tryLock_def deferred_def)
    then have "st_hist s' = st_hist s2" "st_node s' = st_node s2" "r = r1 \<or> (\<exists>p. r = Panic p)"
      by (auto simp: unlock_def split: option.splits)
    with b show ?thesis by (intro that(2) [of ?s1 r1 s2]) simp_all
  qed
qed

definition list_others :: "Cluster \<Rightarrow> Node \<Rightarrow> call" where
  "list_others cluster node = Api (ListNodes (Some (n_Namespace node)) (Some (c_Name cluster)) None)"

lemma exclusively_cases:
  assumes "exclusively E cluster node body s = (r, s')"
  obtains "st_hist s' = list_others cluster node # st_hist s"
  | s1 r1 s2 where "st_hist s1 = list_others cluster node # st_hist s" and "st_node s1 = st_node s"
    and "body s1 = (r1, s2)" and "st_hist s' = st_hist s2" and "st_node s' = st_node s2"
    and "r = r1 \<or> (\<exists>p. r = Panic p)"
proof (cases "others_answer E cluster node s")
  case (Inl e)
  with assms that(1) show ?thesis
    by (auto simp: exclusively_def checkOthers_def areOtherOperationsInProgress_def others_answer_def
        wrapE_def bindE_def onErr_def ask_def fail_def list_others_def)
next
  case (Inr ns)
  let ?s = "s\<lparr>st_hist := list_others cluster node # st_hist s\<rparr>"
  have run: "exclusively E cluster node body s =
      (if other_in_progress (n_Name node) ns then ret (Some RequeueShortDelay) else withMutex cluster body) ?s"
    using Inr
    by (auto simp: exclusively_def checkOthers_def areOtherOperationsInProgress_def others_answer_def
        wrapE_def bindE_def onErr_def ask_def ret_def list_others_def)
  show ?thesis
  proof (cases "other_in_progress (n_Name node) ns")
    case True
    with run assms that(1) show ?thesis by (auto simp: run_basic)
  next
    case False
    with run assms have "withMutex cluster body ?s = (r, s')" by simp
    then show ?thesis
    proof (cases rule: withMutex_cases)
      case 1
      with that(1) show ?thesis by simp
    next
      case (2 s1 r1 s2)
      then show ?thesis by (intro that(2) [of s1 r1 s2]) simp_all
    qed
  qed
qed

section \<open>The contract of the operation handlers\<close>

text \<open>
  What the four guarded handlers (power, reset, apply, Kubernetes component upgrade) have
  in common: a body that leaves the mutexes alone, whose status writes move the phase it
  started in along \<open>nxt\<close> and whose disruptive calls are those of \<open>does\<close>. The handler itself checks
  that there is an operation of its kind and runs the body exclusively.
\<close>

locale guarded_operation =
  fixes E :: env
    and mine :: "string \<Rightarrow> bool"
    and body :: "Cluster \<Rightarrow> Node \<Rightarrow> NodeOperationStatus \<Rightarrow> result ctl"
    and nxt :: "NodeOperationStatus \<Rightarrow> string set"
    and does :: "NodeOperationStatus \<Rightarrow> call \<Rightarrow> bool"
    and handler :: "Cluster \<Rightarrow> result ctl"
  assumes handler_def:
      "handler cluster =
        bindE (gets st_node) (\<lambda>node.
          if isOperationComplete node then ret None
          else (case n_OpStatus node of
              None \<Rightarrow> ret None
            | Some os \<Rightarrow>
                if \<not> mine (nos_Type os) then ret None
                else exclusively E cluster node (body cluster node os)))"
    and body_mutex: "n_OpStatus node = Some os \<Longrightarrow> mine (nos_Type os) \<Longrightarrow>
      keeps st_mutex (body cluster node os)"
    and body_calls: "n_OpStatus node = Some os \<Longrightarrow> mine (nos_Type os) \<Longrightarrow>
      emits (allowed (nxt os) (does os)) (body cluster node os)"
begin

lemma handler_running:
  assumes "n_OpStatus (st_node s) = Some os" and "\<not> isOperationComplete (st_node s)" and "mine (nos_Type os)"
  shows "handler cluster s = exclusively E cluster (st_node s) (body cluster (st_node s) os) s"
  using assms by (simp add: handler_def bindE_def onErr_def gets_def)

lemma handler_idle:
  assumes "isOperationComplete (st_node s) \<or>
    (\<forall>os. n_OpStatus (st_node s) = Some os \<longrightarrow> \<not> mine (nos_Type os))"
  shows "handler cluster s = (Ok None, s)"
  using assms
  by (auto simp: handler_def bindE_def onErr_def gets_def ret_def isOperationComplete_def split: option.splits)

text \<open>Every mutex is held after the handler exactly if it was held before.\<close>

lemma mutex_balanced: "steps balanced (handler cluster)"
  unfolding handler_def
  by (intro bal.structural balanced_exclusively body_mutex) simp_all

text \<open>
  The operation moves along its phases only, and does to the machine and the workloads
  only what belongs to its phase.
\<close>

lemma calls:
  assumes "n_OpStatus (st_node s) = Some os" and "handler cluster s = (r, s')"
  shows "grows (allowed (nxt os) (does os)) s s'"
proof (cases "isOperationComplete (st_node s) \<or> \<not> mine (nos_Type os)")
  case True
  then have "handler cluster s = (Ok None, s)" using assms(1) by (intro handler_idle) auto
  with assms show ?thesis by (simp add: grows_refl)
next
  case False
  then have "handler cluster s = exclusively E cluster (st_node s) (body cluster (st_node s) os) s"
    using assms(1) by (intro handler_running) auto
  moreover have "emits (allowed (nxt os) (does os)) (exclusively E cluster (st_node s) (body cluster (st_node s) os))"
    using False assms(1) by (intro emits_exclusively body_calls) simp_all
  ultimately show ?thesis using assms(2) by (metis stepsD)
qed

text \<open>What the handler has done is what its body has done, after the listing of the nodes.\<close>

lemma handler_cases:
  assumes "n_OpStatus (st_node s) = Some os" and "handler cluster s = (r, s')"
  obtains "st_hist s' = st_hist s"
  | "st_hist s' = list_others cluster (st_node s) # st_hist s"
  | s1 r1 s2 where "st_hist s1 = list_others cluster (st_node s) # st_hist s" and "st_node s1 = st_node s"
    and "body cluster (st_node s) os s1 = (r1, s2)" and "st_hist s' = st_hist s2"
    and "st_node s' = st_node s2" and "r = r1 \<or> (\<exists>p. r = Panic p)"
proof (cases "isOperationComplete (st_node s) \<or> \<not> mine (nos_Type os)")
  case True
  then have "handler cluster s = (Ok None, s)" using assms(1) by (intro handler_idle) auto
  with assms(2) that(1) show ?thesis by simp
next
  case False
  then have "handler cluster s = exclusively E cluster (st_node s) (body cluster (st_node s) os) s"
    using assms(1) by (intro handler_running) auto
  with assms(2) have "exclusively E cluster (st_node s) (body cluster (st_node s) os) s = (r, s')" by simp
  then show ?thesis by (cases rule: exclusively_cases) (use that in blast)+
qed

text \<open>So what justifies the calls of the body justifies those of the handler.\<close>

lemma justified_calls:
  assumes "n_OpStatus (st_node s) = Some os" and "handler cluster s = (r, s')"
    and "\<And>h. A h (list_others cluster (st_node s))"
    and "mine (nos_Type os) \<Longrightarrow> under (\<lambda>_. True) A (body cluster (st_node s) os)"
  shows "justified A s s'"
proof (cases "mine (nos_Type os)")
  case False
  then have "handler cluster s = (Ok None, s)" using assms(1) by (intro handler_idle) auto
  with assms(2) show ?thesis by (simp add: ju.R_refl)
next
  case True
  have list: "justified A s t" if "st_hist t = list_others cluster (st_node s) # st_hist s" for t :: st
    using that assms(3)
    by (auto simp: justified_def Cons_eq_append_conv intro!: exI [of _ "[list_others cluster (st_node s)]"])
  from assms(1,2) show ?thesis
  proof (cases rule: handler_cases)
    case (3 s1 r1 s2)
    have "justified A s1 s2" using assms(4) [OF True] 3(3) by (auto dest: underD)
    with list [OF 3(1)] have "justified A s s2" by (rule justified_trans)
    with 3 show ?thesis by (simp add: justified_def)
  qed (use list in \<open>simp_all add: justified_def\<close>)
qed

text \<open>
  While another node of the cluster has an operation in progress, the nodes cannot be
  listed, or the mutex of the cluster is taken, the handler only lists the nodes.
\<close>

lemma blocked:
  assumes "wf (st_mutex s)" and "\<not> free_to_run E cluster (st_node s) s"
  shows "\<exists>r s'. handler cluster s = (r, s') \<and>
    (st_hist s' = st_hist s \<or>
     st_hist s' = Api (ListNodes (Some (n_Namespace (st_node s))) (Some (c_Name cluster)) None) # st_hist s) \<and>
    (\<forall>p. r \<noteq> Panic p)"
proof (cases "isOperationComplete (st_node s) \<or>
    (\<forall>os. n_OpStatus (st_node s) = Some os \<longrightarrow> \<not> mine (nos_Type os))")
  case True
  then show ?thesis by (simp add: handler_idle)
next
  case False
  then obtain os where "n_OpStatus (st_node s) = Some os" "mine (nos_Type os)"
    "\<not> isOperationComplete (st_node s)" by auto
  then have h: "handler cluster s = exclusively E cluster (st_node s) (body cluster (st_node s) os) s"
    by (intro handler_running)
  from exclusively_blocked [OF assms, of "body cluster (st_node s) os"] show ?thesis
    unfolding h by auto
qed

end

end
