(* ===== verification/K8sHelpers.thy ===== *)
theory K8sHelpers
  imports NodeHelpers
begin

text \<open>
  \<^verbatim>\<open>internal/controller/helpers_k8s.go\<close>: the client for the managed cluster and its
  cache, the drain of a node, the check that a node has rebooted, and the uncordon.
\<close>

section \<open>Clients\<close>

text \<open>The first control plane node that is Ready, the way the loop looks for it.\<close>

definition first_ready :: "env \<Rightarrow> Node list \<Rightarrow> Node option" where
  "first_ready E nodes = find (\<lambda>n. IsTrue E (n_Conditions n) NodeConditionReady) nodes"

definition getKubeconfig :: "env \<Rightarrow> Cluster \<Rightarrow> Kubeconfig ctl" where
  "getKubeconfig E cluster =
    bindE (wrapE (msgtxt ''failed to list controlplane nodes'')
      (ask (e_nodes E) (Api (ListNodes (Some (c_Namespace cluster)) (Some (c_Name cluster))
        (Some NodeRoleControlplane))))) (\<lambda>items.
    if length items = 0
    then fail (errorf (msgtxt ''no controlplane nodes found for cluster '' @ c_Name cluster))
    else (case first_ready E items of
        None \<Rightarrow> fail (errorf (msgtxt ''no Ready controlplane nodes found for cluster '' @ c_Name cluster))
      | Some controlPlaneNode \<Rightarrow>
          bindE (wrapE (msgtxt ''failed to get talos controlplane client'')
            (getTalosClient E controlPlaneNode cluster)) (\<lambda>talosCPClient.
          bindE (wrapE (msgtxt ''failed to get kubeconfig'')
            (ask (e_text E) (Talos talosCPClient TKubeconfig))) (\<lambda>kubeconfigBytes.
          bindE (wrapE (msgtxt ''failed to create rest config from kubeconfig'')
            (ask (e_option E) (Sys (NewRESTConfig kubeconfigBytes)))) (\<lambda>kubeconfig.
          case kubeconfig of
            None \<Rightarrow> fail (errorf (msgtxt ''kubeconfig is nil?''))
          | Some k \<Rightarrow> ret k)))))"

definition cacheKey :: "Cluster \<Rightarrow> string" where
  "cacheKey cluster = c_Namespace cluster @ ''/'' @ c_Name cluster"

text \<open>A cached client is used when it still answers; otherwise a new one replaces it.\<close>

definition getKubernetesClient :: "env \<Rightarrow> Cluster \<Rightarrow> Clientset ctl" where
  "getKubernetesClient E cluster =
    (let fresh =
       bindE (wrapE (msgtxt ''failed to get kubeconfig'') (getKubeconfig E cluster)) (\<lambda>kubeconfig.
       bindE (wrapE (msgtxt ''failed to create remote kubernetes client'')
         (ask (e_text E) (Sys (NewClientset kubeconfig)))) (\<lambda>remoteClient.
       andThen (modify (\<lambda>s. s\<lparr>st_clientsets := map_set (st_clientsets s) (cacheKey cluster) remoteClient\<rparr>))
         (ret remoteClient)))
     in bindE (gets st_clientsets) (\<lambda>cache.
       case map_of cache (cacheKey cluster) of
         Some clientSet \<Rightarrow> onErr (act E (K8s clientSet KServerVersion)) (\<lambda>_. fresh) (\<lambda>_. ret clientSet)
       | None \<Rightarrow> fresh))"

definition getKubernetesCRClient :: "env \<Rightarrow> Cluster \<Rightarrow> Clientset ctl" where
  "getKubernetesCRClient E cluster =
    (let fresh =
       bindE (wrapE (msgtxt ''failed to get kubeconfig'') (getKubeconfig E cluster)) (\<lambda>kubeconfig.
       bindE (wrapE (msgtxt ''failed to create kubernetes controller-runtime client'')
         (ask (e_text E) (Sys (NewCRClient kubeconfig)))) (\<lambda>client.
       andThen (modify (\<lambda>s. s\<lparr>st_crclients := map_set (st_crclients s) (cacheKey cluster) client\<rparr>))
         (ret client)))
     in bindE (gets st_crclients) (\<lambda>cache.
       case map_of cache (cacheKey cluster) of
         Some crClient \<Rightarrow> onErr (act E (K8s crClient KListNodes)) (\<lambda>_. fresh) (\<lambda>_. ret crClient)
       | None \<Rightarrow> fresh))"

section \<open>Drain\<close>

definition newDrainer :: DrainHelper where
  "newDrainer =
    \<lparr>dh_IgnoreAllDaemonSets = True, dh_DeleteEmptyDirData = True, dh_Force = True,
     dh_GracePeriodSeconds = -1\<rparr>"

text \<open>
  Every pod is tried once; the evictions run concurrently in the code, and only whether
  all of them succeeded is used.
\<close>

fun evictAll :: "env \<Rightarrow> Clientset \<Rightarrow> bool \<Rightarrow> Pod list \<Rightarrow> bool ctl" where
  "evictAll E cs evictionSupport [] = ret True"
| "evictAll E cs evictionSupport (pod # pods) =
    bindE (onErr (act E (K8s cs (if evictionSupport then KEvictPod pod else KDeletePod pod)))
        (\<lambda>_. ret False) (\<lambda>_. ret True)) (\<lambda>ok.
    bindE (evictAll E cs evictionSupport pods) (\<lambda>rest. ret (ok \<and> rest)))"

text \<open>The drain itself (lines 230 to 321): cordon, list the pods, evict, go on.\<close>

definition drainPods :: "env \<Rightarrow> Clientset \<Rightarrow> Node \<Rightarrow> string \<Rightarrow> result ctl" where
  "drainPods E remoteClient node nextPhase =
    onErr (ask (e_knode E) (K8s remoteClient (KGetNode (GetShortName node))))
      (\<lambda>_. ret (Some RequeueStandardDelay)) (\<lambda>k8sNode.
    onErr (act E (K8s remoteClient (KCordon (kn_Name k8sNode) True)))
      (\<lambda>_. ret (Some RequeueStandardDelay)) (\<lambda>_.
    bindE (onErr (act E (K8s remoteClient KCheckEviction)) (\<lambda>_. ret False) (\<lambda>_. ret True)) (\<lambda>evictionSupport.
    onErr (ask (e_pods E) (K8s remoteClient (KPodsForDeletion newDrainer (GetShortName node))))
      (\<lambda>_. ret (Some RequeueStandardDelay)) (\<lambda>pods.
    bindE (evictAll E remoteClient evictionSupport pods) (\<lambda>ok.
      if \<not> ok then ret (Some RequeueStandardDelay)
      else andThen (wrapE (msgtxt ''failed to update node operation status'')
             (updateOpStatus E nextPhase NodeOperationReasonSuccessfulDrain
               (msgtxt ''Node drain successful, proceeding to next phase'')))
             (ret (Some RequeueStandardDelay)))))))"

definition doNodeDrain :: "env \<Rightarrow> Clientset \<Rightarrow> Node \<Rightarrow> Cluster \<Rightarrow> string \<Rightarrow> result ctl" where
  "doNodeDrain E remoteClient node cluster nextPhase =
    (if (case n_OpStatus node of Some os \<Rightarrow> nos_Unsafe os | None \<Rightarrow> False)
     then andThen (wrapE (msgtxt ''failed to update node operation status'')
            (updateOpStatus E nextPhase NodeOperationReasonSkippedDrain
              (msgtxt ''Node drain skipped due to unsafe mode'')))
            (ret (Some RequeueStandardDelay))
     else let (drainTimeout, invalid) = GetDrainTimeout (cs_Options (c_Spec cluster)) in
       andThen (if invalid then event EventTypeWarning EventReasonValidationError EventActionApplyDrain
                else ret ()) (
       bindE (case n_OpStatus node of
                Some os \<Rightarrow> bindE (time_Since E (nos_LastTransitionTime os)) (\<lambda>d. ret (drainTimeout < d))
              | None \<Rightarrow> ret False) (\<lambda>timedOut.
       if timedOut
       then andThen (event EventTypeWarning EventReasonFailed EventActionDrain) (
            andThen (wrapE (msgtxt ''failed to update node operation status'')
              (updateOpStatus E NodeOperationPhaseFailed NodeOperationReasonFailedDrain
                (msgtxt ''Node drain timed out'')))
              (ret (Some RequeueStandardDelay)))
       else drainPods E remoteClient node nextPhase)))"

section \<open>Reboot and uncordon\<close>

definition kubelet_ready :: "KNode \<Rightarrow> bool" where
  "kubelet_ready k \<longleftrightarrow> (''Ready'', CTrue) \<in> set (kn_Conditions k)"

definition hasNodeRebootedYet :: "env \<Rightarrow> TalosClient \<Rightarrow> Clientset \<Rightarrow> Node \<Rightarrow> bool ctl" where
  "hasNodeRebootedYet E talosClient remoteClient node =
    onErr (getNodeBootID E talosClient) (\<lambda>_. ret False) (\<lambda>currentBootID.
    if currentBootID = nst_BootID (n_Status node) then ret False
    else if \<not> IsTrue E (n_Conditions node) NodeConditionKubernetesReady then ret True
    else onErr (ask (e_knode E) (K8s remoteClient (KGetNode (GetShortName node)))) (\<lambda>_. ret False) (\<lambda>k8sNode.
      if ''node.cilium.io/agent-not-ready'' \<in> set (kn_Taints k8sNode) then ret False
      else ret (kubelet_ready k8sNode)))"

definition doNodeUncordon :: "env \<Rightarrow> Clientset \<Rightarrow> Node \<Rightarrow> unit ctl" where
  "doNodeUncordon E remoteClient node =
    bindE (wrapE (msgtxt ''failed to get node from kubernetes'')
      (ask (e_knode E) (K8s remoteClient (KGetNode (GetShortName node))))) (\<lambda>k8sNode.
    wrapE (msgtxt ''failed to uncordon node'')
      (act E (K8s remoteClient (KCordon (kn_Name k8sNode) False))))"

section \<open>Effects\<close>

lemma setup_is_read: "emits setup_read m \<Longrightarrow> (\<And>c. is_read c \<Longrightarrow> A c) \<Longrightarrow> emits A m"
  by (erule emits_mono) (simp add: setup_read_is_read)

lemma config_is_read: "emits config_read m \<Longrightarrow> (\<And>c. is_read c \<Longrightarrow> A c) \<Longrightarrow> emits A m"
  by (erule emits_mono) (simp add: config_read_is_read)

lemma emits_getKubeconfig: "(\<And>c. is_read c \<Longrightarrow> A c) \<Longrightarrow> emits A (getKubeconfig E cluster)"
  unfolding getKubeconfig_def
  by (intro em.structural emits_prims setup_is_read [OF emits_getTalosClient]) simp_all

lemma emits_modify_clientsets: "emits A (modify (\<lambda>s. s\<lparr>st_clientsets := f s\<rparr>))"
  "emits A (modify (\<lambda>s. s\<lparr>st_crclients := f s\<rparr>))"
  by (rule stepsI, simp add: run_basic grows_def)+

lemma emits_getKubernetesClient: "(\<And>c. is_read c \<Longrightarrow> A c) \<Longrightarrow> emits A (getKubernetesClient E cluster)"
  unfolding getKubernetesClient_def
  by (intro em.structural emits_prims emits_getKubeconfig emits_modify_clientsets) simp_all

lemma emits_getKubernetesCRClient: "(\<And>c. is_read c \<Longrightarrow> A c) \<Longrightarrow> emits A (getKubernetesCRClient E cluster)"
  unfolding getKubernetesCRClient_def
  by (intro em.structural emits_prims emits_getKubeconfig emits_modify_clientsets) simp_all

lemma emits_hasNodeRebootedYet: "(\<And>c. is_read c \<Longrightarrow> A c) \<Longrightarrow> emits A (hasNodeRebootedYet E t r node)"
  unfolding hasNodeRebootedYet_def
  by (intro em.structural emits_prims setup_is_read [OF emits_getNodeBootID]) simp_all

lemma keeps_getKubeconfig: "hist_free f \<Longrightarrow> keeps f (getKubeconfig E cluster)"
  unfolding getKubeconfig_def by (intro kp.structural keeps_prims keeps_getTalosClient)

lemma keeps_modify_clientsets:
  "keeps st_mutex (modify (\<lambda>s. s\<lparr>st_clientsets := f s\<rparr>))" "keeps st_node (modify (\<lambda>s. s\<lparr>st_clientsets := f s\<rparr>))"
  "keeps st_mutex (modify (\<lambda>s. s\<lparr>st_crclients := f s\<rparr>))" "keeps st_node (modify (\<lambda>s. s\<lparr>st_crclients := f s\<rparr>))"
  by (rule stepsI, simp add: run_basic same_def)+

lemma keeps_getKubernetesClient:
  "keeps st_mutex (getKubernetesClient E cluster)" "keeps st_node (getKubernetesClient E cluster)"
  unfolding getKubernetesClient_def
  by (intro kp.structural keeps_prims keeps_getKubeconfig keeps_modify_clientsets; simp)+

lemma keeps_getKubernetesCRClient:
  "keeps st_mutex (getKubernetesCRClient E cluster)" "keeps st_node (getKubernetesCRClient E cluster)"
  unfolding getKubernetesCRClient_def
  by (intro kp.structural keeps_prims keeps_getKubeconfig keeps_modify_clientsets; simp)+

lemma keeps_hasNodeRebootedYet: "hist_free f \<Longrightarrow> keeps f (hasNodeRebootedYet E t r node)"
  unfolding hasNodeRebootedYet_def by (intro kp.structural keeps_prims keeps_getNodeBootID)

lemma keeps_doNodeUncordon: "hist_free f \<Longrightarrow> keeps f (doNodeUncordon E r node)"
  unfolding doNodeUncordon_def by (intro kp.structural keeps_prims)

lemma keeps_evictAll: "hist_free f \<Longrightarrow> keeps f (evictAll E cs b pods)"
  by (induction pods) (auto intro!: kp.structural keeps_prims)

lemma keeps_doNodeDrain: "keeps st_mutex (doNodeDrain E r node cluster p)"
  unfolding doNodeDrain_def drainPods_def
  by (intro kp.structural keeps_prims keeps_updateOpStatus keeps_evictAll) simp_all

lemma emits_evictAll:
  "(\<And>p. A (K8s cs (KEvictPod p))) \<Longrightarrow> (\<And>p. A (K8s cs (KDeletePod p))) \<Longrightarrow> emits A (evictAll E cs b pods)"
  by (induction pods) (auto intro!: em.structural emits_prims)

text \<open>The calls of a drain that touch the workloads.\<close>

fun drain_call :: "call \<Rightarrow> bool" where
  "drain_call (K8s c (KCordon name desired)) = desired"
| "drain_call (K8s c (KEvictPod p)) = True"
| "drain_call (K8s c (KDeletePod p)) = True"
| "drain_call c = False"

fun uncordon_call :: "call \<Rightarrow> bool" where
  "uncordon_call (K8s c (KCordon name desired)) = (\<not> desired)"
| "uncordon_call c = False"

lemma phases_drainPods:
  "p \<in> Q \<Longrightarrow> (\<And>c. drain_call c \<Longrightarrow> D c) \<Longrightarrow> emits (allowed Q D) (drainPods E r node p)"
  unfolding drainPods_def
  by (intro em.structural emits_prims emits_evictAll emits_updateOpStatus) simp_all

text \<open>A drain goes to the phase it was given, or fails the operation.\<close>

lemma phases_doNodeDrain:
  "p \<in> Q \<Longrightarrow> NodeOperationPhaseFailed \<in> Q \<Longrightarrow> (\<And>c. drain_call c \<Longrightarrow> D c) \<Longrightarrow>
   emits (allowed Q D) (doNodeDrain E r node cluster p)"
  unfolding doNodeDrain_def
  by (intro em.structural emits_prims phases_drainPods emits_updateOpStatus) simp_all

lemma phases_doNodeUncordon: "(\<And>c. uncordon_call c \<Longrightarrow> D c) \<Longrightarrow> emits (allowed Q D) (doNodeUncordon E r node)"
  unfolding doNodeUncordon_def by (intro em.structural emits_prims) simp_all

lemmas phases_reads = setup_is_read [OF emits_getTalosClient] setup_is_read [OF emits_getNodeTalosRelease]
  setup_is_read [OF emits_getNodeBootID] config_is_read [OF emits_GenerateMachineConfig]
  emits_getKubernetesClient emits_getKubernetesCRClient emits_hasNodeRebootedYet

lemmas keeps_reads = keeps_getTalosClient keeps_getNodeTalosRelease keeps_getNodeBootID
  keeps_GenerateMachineConfig keeps_getKubernetesClient keeps_getKubernetesCRClient
  keeps_hasNodeRebootedYet keeps_doNodeUncordon

text \<open>The definitions a concrete run of a handler goes through.\<close>

lemmas helper_defs = getTalosClient_def getTalosClientConfig_def getSecrets_def
  getNodeTalosRelease_def getNodeBootID_def updateNode_def updateNodeStatus_def refreshNode_def
  set_op_fields_def updateOpStatus_def getKubernetesClient_def getKubernetesCRClient_def
  cacheKey_def GetConnectHost_def GetFQDN_def getFQDNOverride_def GetShortName_def
  NodeOperation_zero_def ResetOperationOptions_zero_def ProvisionOperationOptions_zero_def
  NodeOperationOptions_zero_def Let_def time_Since_def time_Sub_def map_OpStatus_def
  exclusively_def checkOthers_def withMutex_def tryLock_def unlock_def TryLock_def Unlock_def For_def
  mutex_TryLock_def mutex_Unlock_def NewMutexMap_def mutexKey_def areOtherOperationsInProgress_def
  isOperationComplete_def set_cond_def SetStatusCondition_def

text \<open>Texts of the example the simplifier is not to compute.\<close>

lemma demo_texts:
  "ParseDuration ''10m'' = Some (10 * Minute)" "ParseDuration ''20m'' = Some (20 * Minute)"
  "TrimSpace ''VERSION_ID=v1.13.0'' = ''VERSION_ID=v1.13.0''"
  by (simp_all add: ParseDuration_def duration_elem_def unitMap_def is_digit_def is_num_def
      digit_val_def Let_def Minute_def Second_def) code_simp

section \<open>Evidence of a reboot\<close>

text \<open>
  \<open>rebooted E t rc node h\<close>: in the history \<open>h\<close> the machine reported a boot ID other than the
  one in the status of the node, and, if the node was part of a working cluster, the
  cluster reported it as Ready and without the taint of a starting network agent.
\<close>

definition rebooted :: "env \<Rightarrow> TalosClient \<Rightarrow> Clientset \<Rightarrow> Node \<Rightarrow> call list \<Rightarrow> bool" where
  "rebooted E t rc node h \<longleftrightarrow>
    (\<exists>bytes. answered (e_text E) (Talos t (TReadAll ''/proc/sys/kernel/random/boot_id'')) bytes h \<and>
       TrimSpace bytes \<noteq> nst_BootID (n_Status node)) \<and>
    (IsTrue E (n_Conditions node) NodeConditionKubernetesReady \<longrightarrow>
      (\<exists>k. answered (e_knode E) (K8s rc (KGetNode (GetShortName node))) k h \<and>
        ''node.cilium.io/agent-not-ready'' \<notin> set (kn_Taints k) \<and> kubelet_ready k))"

lemma persists_rebooted [simp]: "persists (rebooted E t rc node)"
proof -
  have "persists (\<lambda>h. rebooted E t rc node h)" unfolding rebooted_def by simp
  then show ?thesis by simp
qed

lemma getNodeBootID_ok:
  assumes "getNodeBootID E t s = (Ok x, s')"
  shows "\<exists>bytes. answered (e_text E) (Talos t (TReadAll ''/proc/sys/kernel/random/boot_id'')) bytes (st_hist s') \<and>
    x = TrimSpace bytes"
  using assms unfolding getNodeBootID_def go_ok
  by (elim exE conjE) (rule exI, rule conjI, erule ssubst, simp, erule answered_Cons, simp)

lemma hasNodeRebootedYet_ok:
  assumes "hasNodeRebootedYet E t rc node s = (Ok True, s')"
  shows "rebooted E t rc node (st_hist s')"
proof -
  obtain x s1 where b: "getNodeBootID E t s = (Ok x, s1)" "x \<noteq> nst_BootID (n_Status node)"
    and rest: "(if \<not> IsTrue E (n_Conditions node) NodeConditionKubernetesReady then ret True
      else onErr (ask (e_knode E) (K8s rc (KGetNode (GetShortName node)))) (\<lambda>_. ret False) (\<lambda>k8sNode.
        if ''node.cilium.io/agent-not-ready'' \<in> set (kn_Taints k8sNode) then ret False
        else ret (kubelet_ready k8sNode))) s1 = (Ok True, s')"
    using assms by (auto simp: hasNodeRebootedYet_def ok_onErr ok_basic split: if_splits)
  obtain bytes where i: "answered (e_text E) (Talos t (TReadAll ''/proc/sys/kernel/random/boot_id'')) bytes (st_hist s1)"
    "x = TrimSpace bytes" using getNodeBootID_ok [OF b(1)] by blast
  show ?thesis
  proof (cases "IsTrue E (n_Conditions node) NodeConditionKubernetesReady")
    case False
    with rest i b(2) show ?thesis by (auto simp: rebooted_def ok_basic)
  next
    case True
    with rest obtain k where k: "e_knode E (st_hist s1) (K8s rc (KGetNode (GetShortName node))) = Inr k"
      "''node.cilium.io/agent-not-ready'' \<notin> set (kn_Taints k)" "kubelet_ready k"
      "st_hist s' = K8s rc (KGetNode (GetShortName node)) # st_hist s1"
      by (auto simp: ok_onErr ok_basic ok_ask split: if_splits)
    then have "answered (e_text E) (Talos t (TReadAll ''/proc/sys/kernel/random/boot_id'')) bytes (st_hist s')"
      using i(1) persists_answered unfolding persists_def by (metis append_Cons append_Nil)
    with i(2) b(2) k show ?thesis by (auto simp: rebooted_def intro: answered_Cons)
  qed
qed

text \<open>A step that may be taken only once the machine has rebooted.\<close>

lemma under_hasNodeRebootedYet:
  assumes "persists F" and "\<And>h c. is_read c \<Longrightarrow> A h c"
    and "\<And>b. under (\<lambda>h. F h \<and> (b \<longrightarrow> rebooted E t rc node h)) A (k b)"
  shows "under F A (bindE (hasNodeRebootedYet E t rc node) k)"
proof (rule under_bindE_value [where G = "\<lambda>b h. b \<longrightarrow> rebooted E t rc node h"])
  show "under F A (hasNodeRebootedYet E t rc node)"
    using assms(1,2) by (intro under_emits [where B = is_read] emits_hasNodeRebootedYet)
qed (use assms in \<open>auto dest: hasNodeRebootedYet_ok\<close>)

lemma only_when_doNodeUncordon: "persists F \<Longrightarrow> under F (only_when P Q) (doNodeUncordon E rc node)"
  unfolding doNodeUncordon_def by (intro under_structural under_prims) simp_all

lemmas only_when_reads = phases_reads [THEN only_when_quiet]

section \<open>Correctness of the drain\<close>

definition removal :: "bool \<Rightarrow> Pod \<Rightarrow> k8s_call" where
  "removal evictionSupport pod = (if evictionSupport then KEvictPod pod else KDeletePod pod)"

lemma evictAll_run:
  "\<exists>ok s' new. evictAll E cs b pods s = (Ok ok, s') \<and> st_hist s' = new @ st_hist s \<and>
    (\<forall>c\<in>set new. node_status_write c = None) \<and>
    (ok \<longrightarrow> (\<forall>pod\<in>set pods. succeeded E (st_hist s') (K8s cs (removal b pod))))"
proof (induction pods arbitrary: s)
  case (Cons pod pods)
  let ?c = "K8s cs (removal b pod)"
  let ?s1 = "s\<lparr>st_hist := ?c # st_hist s\<rparr>"
  obtain ok s' new where r: "evictAll E cs b pods ?s1 = (Ok ok, s')" "st_hist s' = new @ st_hist ?s1"
    "\<forall>c\<in>set new. node_status_write c = None"
    "ok \<longrightarrow> (\<forall>pod\<in>set pods. succeeded E (st_hist s') (K8s cs (removal b pod)))"
    using Cons.IH [of ?s1] by blast
  have one: "onErr (act E ?c) (\<lambda>_. ret False) (\<lambda>_. ret True) s = (Ok (e_unit E (st_hist s) ?c = None), ?s1)"
    by (cases "e_unit E (st_hist s) ?c") (simp_all add: go_run)
  have "evictAll E cs b (pod # pods) s = (Ok (e_unit E (st_hist s) ?c = None \<and> ok), s')"
    using r(1) one by (simp add: removal_def [symmetric] go_run cong: if_cong)
  moreover have "e_unit E (st_hist s) ?c = None \<Longrightarrow> succeeded E (st_hist s') ?c"
    using r(2) by (simp add: succeeded_append succeeded_Cons)
  ultimately show ?case using r
    by (intro exI [of _ "e_unit E (st_hist s) ?c = None \<and> ok"] exI [of _ s'] exI [of _ "new @ [?c]"]) auto
qed (auto simp: ret_def)

text \<open>
  \<open>drained E rc node h\<close>: in the history \<open>h\<close> the node was cordoned, the pods that have to
  go were listed, and each was evicted (or, without eviction support, deleted).
\<close>

definition drained :: "env \<Rightarrow> Clientset \<Rightarrow> Node \<Rightarrow> call list \<Rightarrow> bool" where
  "drained E rc node h \<longleftrightarrow> (\<exists>name evictionSupport pods.
    succeeded E h (K8s rc (KCordon name True)) \<and>
    answered (e_pods E) (K8s rc (KPodsForDeletion newDrainer (GetShortName node))) pods h \<and>
    (\<forall>pod\<in>set pods. succeeded E h (K8s rc (removal evictionSupport pod))))"

lemma evictAll_ok:
  assumes "evictAll E cs b pods s = (Ok ok, s')" and ok and "pod \<in> set pods"
  shows "succeeded E (st_hist s') (K8s cs (removal b pod))"
  using evictAll_run [of E cs b pods s] assms by auto

lemma status_free_evictAll: "emits (\<lambda>c. node_status_write c = None) (evictAll E cs b pods)"
  by (intro emits_evictAll) simp_all

lemma drained_write:
  assumes "persists F" and "\<And>h. F h \<Longrightarrow> drained E rc node h"
  shows "under F (\<lambda>h c. node_status_write c \<noteq> None \<longrightarrow> drained E rc node h)
    (andThen (wrapE pre (updateOpStatus E p r m)) (ret res))"
  using assms
  by (intro under_emits [where B = "\<lambda>_. True"] em.structural emits_mono [OF emits_updateOpStatus [of p UNIV]])
    simp_all

lemma drained_evictAll:
  "persists F \<Longrightarrow> under F (\<lambda>h c. node_status_write c \<noteq> None \<longrightarrow> drained E rc node h) (evictAll E cs b pods)"
  by (intro under_emits [OF status_free_evictAll]) simp_all

lemma drainPods_justified:
  "under (\<lambda>_. True) (\<lambda>h c. node_status_write c \<noteq> None \<longrightarrow> drained E rc node h) (drainPods E rc node p)"
  unfolding drainPods_def
  apply (rule under_onErr_ask, simp, simp, rule under_basic)
  apply (rule under_onErr_act, simp, simp, rule under_basic)
  apply (rule under_bindE, simp)
   apply (intro under_structural under_act; simp)
  subgoal for k u b
    apply (rule under_onErr_ask, simp, simp, rule under_basic)
    subgoal for pods
      apply (rule under_bindE_value [where G = "\<lambda>ok h. ok \<longrightarrow> (\<forall>pod\<in>set pods. succeeded E h (K8s rc (removal b pod)))"])
         apply simp
        apply (rule drained_evictAll, simp)
       apply (blast intro: evictAll_ok)
      apply (intro under_if under_basic drained_write)
       apply simp
      apply (unfold drained_def, blast)
      done
    done
  done


definition demo_drain_env :: env where
  "demo_drain_env = (demo_op_env (demo_op NodeOperationTypeReboot NodeOperationPhaseDraining))
    \<lparr>e_pods := \<lambda>h c. Inr [demo_pod]\<rparr>"

definition demo_drain :: "result outcome \<times> st" where
  "demo_drain =
    drainPods demo_drain_env
      ''cs'' (demo_op_node (demo_op NodeOperationTypeReboot NodeOperationPhaseDraining))
      NodeOperationPhaseApplying
      (demo_op_st (demo_op NodeOperationTypeReboot NodeOperationPhaseDraining))"

lemma demo_drain_writes: "list_ex (\<lambda>c. node_status_write c \<noteq> None) (st_hist (snd demo_drain))"
  by code_simp


end
