(* ===== verification/NodeUpgrade.thy ===== *)
theory NodeUpgrade
  imports K8sHelpers
begin

text \<open>
  \<^verbatim>\<open>internal/controller/node_controller_upgrade.go\<close>: the upgrade of the operating
  system, as an operation of its own or as the first part of an Apply, over the lifecycle
  service of Talos 1.13 or the older upgrade call; and \<^verbatim>\<open>hasPhaseTimedOut\<close> of
  \<^verbatim>\<open>node_controller_apply.go\<close>.
\<close>

section \<open>Timeouts\<close>

definition hasPhaseTimedOut :: "env \<Rightarrow> Node \<Rightarrow> Cluster \<Rightarrow> bool ctl" where
  "hasPhaseTimedOut E node cluster =
    (let (phaseTimeout, invalid) = GetPhaseTimeout (cs_Options (c_Spec cluster)) in
     andThen (if invalid then event EventTypeWarning EventReasonValidationError EventActionApply
              else ret ()) (
     case n_OpStatus node of
       None \<Rightarrow> panic (msgtxt ''nil pointer dereference: node.Status.Operation'')
     | Some opStatus \<Rightarrow>
         bindE (time_Since E (nos_LastTransitionTime opStatus)) (\<lambda>elapsed. ret (phaseTimeout < elapsed))))"

text \<open>The many places that fail the operation and return nil, nil.\<close>

definition failOp :: "env \<Rightarrow> string \<Rightarrow> string \<Rightarrow> result ctl" where
  "failOp E reason message =
    andThen (wrapE (msgtxt ''error updating operation status'')
      (updateOpStatus E NodeOperationPhaseFailed reason message)) (ret None)"

definition goOn :: "env \<Rightarrow> string \<Rightarrow> string \<Rightarrow> string \<Rightarrow> result \<Rightarrow> result ctl" where
  "goOn E phase reason message res =
    andThen (wrapE (msgtxt ''error updating operation status'')
      (updateOpStatus E phase reason message)) (ret res)"

definition quoted :: "string \<Rightarrow> string" where
  "quoted s = CHR 0x22 # s @ [CHR 0x22]"

section \<open>The phases\<close>

text \<open>What the handler finds out before it looks at the phase.\<close>

record UpgradeFacts =
  uf_talosVersion :: Version
  uf_talosSchematicID :: string
  uf_desiredImage :: string
  uf_desiredTalosVersion :: Version
  uf_desiredSchematicID :: string

definition hasSchematic :: "UpgradeFacts \<Rightarrow> bool" where
  "hasSchematic f \<longleftrightarrow> length (uf_desiredSchematicID f) = 64"

definition nodeNeedsUpgrade :: "env \<Rightarrow> UpgradeFacts \<Rightarrow> bool" where
  "nodeNeedsUpgrade E f \<longleftrightarrow>
    hasSchematic f \<and> uf_talosSchematicID f \<noteq> uf_desiredSchematicID f \<or>
    \<not> lib_version_EQ (e_lib E) (uf_talosVersion f) (uf_desiredTalosVersion f)"

definition upgradePending :: "env \<Rightarrow> Node \<Rightarrow> UpgradeFacts \<Rightarrow> result ctl" where
  "upgradePending E node f =
    (if \<not> nodeNeedsUpgrade E f
     then goOn E NodeOperationPhaseDone NodeOperationReasonSkippedUpgrade
            (msgtxt ''Node is already at desired version'') None
     else if IsTrue E (n_Conditions node) NodeConditionKubernetesReady
     then goOn E NodeOperationPhaseUpgradeDrain NodeOperationReasonKubernetesReady
            (msgtxt ''Node upgrade requested and Kubernetes is ready, proceeding to drain'')
            (Some RequeueImmediate)
     else goOn E NodeOperationPhaseUpgradePreflight NodeOperationReasonKubernetesNotReadySkippedDrain
            (msgtxt ''Node upgrade requested but Kubernetes is not ready, skipping drain and proceeding to preflight'')
            (Some RequeueImmediate))"

definition upgradeDrain :: "env \<Rightarrow> Clientset \<Rightarrow> Node \<Rightarrow> Cluster \<Rightarrow> result ctl" where
  "upgradeDrain E remoteClient node cluster =
    wrapE (msgtxt ''failed to drain'')
      (doNodeDrain E remoteClient node cluster NodeOperationPhaseUpgradePreflight)"

definition v1_13 :: Version where
  "v1_13 = \<lparr>v_Major = 1, v_Minor = 13, v_Patch = 0, v_Pre = [], v_Build = []\<rparr>"

definition upgradePreflight :: "env \<Rightarrow> TalosClient \<Rightarrow> UpgradeFacts \<Rightarrow> result ctl" where
  "upgradePreflight E talosClient f =
    onErr (ask (e_text E) (Sys (ParseReference (uf_desiredImage f))))
      (\<lambda>err. failOp E NodeOperationReasonFailedImageValidation
          (msgtxt ''Failed to parse desired image reference: '' @ emsg err)) (\<lambda>imageRef.
    onErr (ask (e_option E) (Sys (RegistryHead imageRef)))
      (\<lambda>err. failOp E NodeOperationReasonFailedImageValidation
          (msgtxt ''Failed to fetch desired image from registry: '' @ emsg err)) (\<lambda>desc.
    if desc = None
    then failOp E NodeOperationReasonFailedImageValidation
           (msgtxt ''Received nil descriptor when fetching desired image from registry'')
    else onErr (getNodeTalosRelease E talosClient)
      (\<lambda>err. failOp E NodeReasonNodeUnreachable
          (msgtxt ''Failed to get node Talos release: '' @ emsg err)) (\<lambda>(talosVersion, _).
      if lib_version_GTE (e_lib E) talosVersion v1_13
      then goOn E NodeOperationPhaseUpgrade113ImagePull NodeOperationReasonUpgradePathPost113
             (msgtxt ''Node requires upgrade and is running Talos 1.13+'') (Some RequeueImmediate)
      else goOn E NodeOperationPhaseUpgradeLegacyUpgrade NodeOperationReasonUpgradePathPre113
             (msgtxt ''Node requires upgrade and is running Talos <1.13'') (Some RequeueImmediate))))"

text \<open>The stream ends with io.EOF or an error; the image is there when its name was received.\<close>

fun pulled :: "pull_msg list \<Rightarrow> bool" where
  "pulled [] = False"
| "pulled (PullProgress # msgs) = pulled msgs"
| "pulled (PullName name # msgs) = True"

definition upgrade113ImagePull :: "env \<Rightarrow> TalosClient \<Rightarrow> UpgradeFacts \<Rightarrow> result ctl" where
  "upgrade113ImagePull E talosClient f =
    onErr (ask (e_pull E) (Talos talosClient (TImagePull (uf_desiredImage f))))
      (\<lambda>err. failOp E NodeOperationReasonFailedGRPCCallImagePull
          (msgtxt ''Failed to start image pull: '' @ emsg err)) (\<lambda>(msgs, err).
    if ekind err \<noteq> EOF
    then failOp E NodeOperationReasonFailedGRPCCallImagePull
           (msgtxt ''Error during image pull: '' @ emsg err)
    else if \<not> pulled msgs
    then failOp E NodeOperationReasonFailedGRPCCallImagePullBadResult
           (msgtxt ''Image pull completed without receiving image name'')
    else goOn E NodeOperationPhaseUpgrade113Upgrade NodeOperationReasonSuccessfulImagePull
           (msgtxt ''Install image pulled successfully, proceeding to upgrade preflight decision'')
           (Some RequeueImmediate))"

text \<open>The first exit code other than zero, with the last message before it.\<close>

fun upgradeExit :: "string \<Rightarrow> upgrade_msg list \<Rightarrow> (int \<times> string) option" where
  "upgradeExit msg [] = None"
| "upgradeExit msg (ProgressNil # ps) = upgradeExit msg ps"
| "upgradeExit msg (ProgressMessage m # ps) = upgradeExit m ps"
| "upgradeExit msg (ProgressExitCode c # ps) = (if c \<noteq> 0 then Some (c, msg) else upgradeExit msg ps)"

definition upgrade113Upgrade :: "env \<Rightarrow> TalosClient \<Rightarrow> UpgradeFacts \<Rightarrow> result ctl" where
  "upgrade113Upgrade E talosClient f =
    onErr (ask (e_upgrade E) (Talos talosClient (TLifecycleUpgrade (uf_desiredImage f))))
      (\<lambda>err. failOp E NodeOperationReasonFailedGRPCCallLifecycleClientUpgrade
          (msgtxt ''Failed to start upgrade: '' @ emsg err)) (\<lambda>(msgs, err).
    case upgradeExit [] msgs of
      Some (code, msg) \<Rightarrow>
        failOp E NodeOperationReasonFailedUpgrade
          (msgtxt ''Upgrade process exited with code '' @ itoa code @ msgtxt '', message '' @ quoted msg)
    | None \<Rightarrow>
        if ekind err \<noteq> EOF
        then failOp E NodeOperationReasonFailedGRPCCallLifecycleClientUpgrade
               (msgtxt ''Error during upgrade: '' @ emsg err)
        else onErr (act E (Talos talosClient (TReboot [''DEFAULT''])))
          (\<lambda>err. failOp E NodeOperationReasonFailedReboot
              (msgtxt ''Failed to reboot after upgrade: '' @ emsg err))
          (\<lambda>_. goOn E NodeOperationPhaseUpgradeVerifying NodeOperationReasonSuccessfulLifecycleClientUpgrade
              (msgtxt ''Node upgraded successfully, proceeding to verifying'') None))"

definition upgradeLegacyUpgrade :: "env \<Rightarrow> TalosClient \<Rightarrow> UpgradeFacts \<Rightarrow> result ctl" where
  "upgradeLegacyUpgrade E talosClient f =
    onErr (act E (Talos talosClient (TUpgradeLegacy (uf_desiredImage f))))
      (\<lambda>err. failOp E NodeOperationReasonFailedUpgrade
          (msgtxt ''Failed to start legacy upgrade: '' @ emsg err))
      (\<lambda>_. goOn E NodeOperationPhaseUpgradeVerifying NodeOperationReasonSuccessfulLegacyUpgradeRequest
          (msgtxt ''Legacy upgrade requested successfully, proceeding to verifying'')
          (Some RequeueShortDelay))"

definition upgradeVerifying ::
    "env \<Rightarrow> TalosClient \<Rightarrow> Clientset \<Rightarrow> Node \<Rightarrow> Cluster \<Rightarrow> UpgradeFacts \<Rightarrow> result ctl" where
  "upgradeVerifying E talosClient remoteClient node cluster f =
    bindE (hasPhaseTimedOut E node cluster) (\<lambda>timedOut.
    if timedOut
    then goOn E NodeOperationPhaseFailed NodeOperationReasonTimedOutVerifyingUpgrade
           (msgtxt ''Timed out while waiting for node to reboot after upgrade'') None
    else bindE (hasNodeRebootedYet E talosClient remoteClient node) (\<lambda>ok.
      if \<not> ok then ret (Some RequeueShortDelay)
      else if nodeNeedsUpgrade E f
      then andThen (event EventTypeWarning EventReasonFailed EventActionOSUpgrade) (
           andThen (updateOpStatus E NodeOperationPhaseFailed NodeOperationReasonFailedUpgrade
             (msgtxt ''Node OS upgrade verification failed: expected version ''
              @ lib_version_String (e_lib E) (uf_desiredTalosVersion f) @ msgtxt '' (schematic ''
              @ uf_desiredSchematicID f @ msgtxt ''), got version ''
              @ lib_version_String (e_lib E) (uf_talosVersion f) @ msgtxt '' (schematic ''
              @ uf_talosSchematicID f @ '')''))
             (ret None))
      else bindE (wrapE (msgtxt ''failed to get node boot ID after upgrade'')
             (getNodeBootID E talosClient)) (\<lambda>bootID.
           andThen (wrapE (msgtxt ''failed to reset node BootID status for upgrade verification'')
             (updateNodeStatus E (\<lambda>n. ret (upd_status (\<lambda>st. st\<lparr>nst_BootID := bootID\<rparr>) n)))) (
           goOn E NodeOperationPhaseUpgradeUncordon NodeOperationReasonSuccessfulUpgrade
             (msgtxt ''Node rebooted successfully after upgrade, proceeding to uncordon'')
             (Some RequeueImmediate)))))"

definition upgradeUncordon :: "env \<Rightarrow> Clientset \<Rightarrow> Node \<Rightarrow> NodeOperationStatus \<Rightarrow> result ctl" where
  "upgradeUncordon E remoteClient node opStatus =
    onErr (doNodeUncordon E remoteClient node)
      (\<lambda>err. failOp E NodeOperationReasonFailedUncordon
          (msgtxt ''Failed to uncordon node after upgrade: '' @ emsg err))
      (\<lambda>_.
        if nos_Type opStatus = NodeOperationTypeApply
        then goOn E NodeOperationPhaseApplying NodeOperationReasonSuccessfulUpgrade
               (msgtxt ''Node uncordoned successfully after upgrade, proceeding to apply'')
               (Some RequeueImmediate)
        else goOn E NodeOperationPhaseDone NodeOperationReasonSuccessfulUpgrade
               (msgtxt ''Node uncordoned successfully after upgrade, operation complete'') None)"

definition upgradePhase ::
    "env \<Rightarrow> TalosClient \<Rightarrow> Clientset \<Rightarrow> Cluster \<Rightarrow> Node \<Rightarrow> NodeOperationStatus \<Rightarrow> UpgradeFacts \<Rightarrow> result ctl" where
  "upgradePhase E talosClient remoteClient cluster node opStatus f =
    (if nos_Phase opStatus = NodeOperationPhasePending then upgradePending E node f
     else if nos_Phase opStatus = NodeOperationPhaseUpgradeDrain
     then upgradeDrain E remoteClient node cluster
     else if nos_Phase opStatus = NodeOperationPhaseUpgradePreflight
     then upgradePreflight E talosClient f
     else if nos_Phase opStatus = NodeOperationPhaseUpgrade113ImagePull
     then upgrade113ImagePull E talosClient f
     else if nos_Phase opStatus = NodeOperationPhaseUpgrade113Upgrade
     then upgrade113Upgrade E talosClient f
     else if nos_Phase opStatus = NodeOperationPhaseUpgradeLegacyUpgrade
     then upgradeLegacyUpgrade E talosClient f
     else if nos_Phase opStatus = NodeOperationPhaseUpgradeVerifying
     then upgradeVerifying E talosClient remoteClient node cluster f
     else if nos_Phase opStatus = NodeOperationPhaseUpgradeUncordon
     then upgradeUncordon E remoteClient node opStatus
     else failOp E NodeOperationReasonProgramError
            (msgtxt ''Unsupported phase passed to handleNodeUpgrade''))"

text \<open>Clients, configuration, running release and desired image (lines 72 to 136).\<close>

definition upgradeBody :: "env \<Rightarrow> Cluster \<Rightarrow> Node \<Rightarrow> NodeOperationStatus \<Rightarrow> result ctl" where
  "upgradeBody E cluster node opStatus =
    bindE (wrapE (msgtxt ''failed to get talos client'') (getTalosClient E node cluster)) (\<lambda>talosClient.
    bindE (wrapE (msgtxt ''failed to get kubernetes client'') (getKubernetesClient E cluster)) (\<lambda>remoteClient.
    onErr (GenerateMachineConfig E node (NewGenerateMachineConfigOptions E))
      (\<lambda>err. failOp E NodeReasonConfigGenerationFailed
          (msgtxt ''Failed to generate machine config: '' @ emsg err)) (\<lambda>(cfg, _).
    onErr (getNodeTalosRelease E talosClient)
      (\<lambda>err. failOp E NodeReasonNodeUnreachable
          (msgtxt ''Failed to get node Talos release: '' @ emsg err)) (\<lambda>(talosVersion, talosSchematicID).
      let desiredImage = (case GetInstallImage E cfg of Inl _ \<Rightarrow> [] | Inr img \<Rightarrow> img) in
      case parseImageTalosRelease E desiredImage of
        Inl err \<Rightarrow> failOp E NodeConditionReasonFailedImageValidation
                    (msgtxt ''Failed to parse install image Talos release: '' @ emsg err)
      | Inr (desiredTalosVersion, desiredSchematicID) \<Rightarrow>
          upgradePhase E talosClient remoteClient cluster node opStatus
            \<lparr>uf_talosVersion = talosVersion, uf_talosSchematicID = talosSchematicID,
             uf_desiredImage = desiredImage, uf_desiredTalosVersion = desiredTalosVersion,
             uf_desiredSchematicID = desiredSchematicID\<rparr>))))"

text \<open>
  As part of an Apply the mutex is already held by the caller. Which nodes are checked
  first is the same for both. \<open>upgradeNode\<close> is the handler on the node as it is when the
  handler is called; Apply calls it with the node it was itself called with.
\<close>

definition upgradeNode :: "env \<Rightarrow> Cluster \<Rightarrow> Node \<Rightarrow> result ctl" where
  "upgradeNode E cluster node =
    (if isOperationComplete node then ret None
     else (case n_OpStatus node of
         None \<Rightarrow> ret None
       | Some opStatus \<Rightarrow>
           checkOthers E cluster node (
             if nos_Type opStatus = NodeOperationTypeUpgrade
             then withMutex cluster (upgradeBody E cluster node opStatus)
             else if nos_Type opStatus = NodeOperationTypeApply
             then upgradeBody E cluster node opStatus
             else ret None)))"

definition handleNodeUpgrade :: "env \<Rightarrow> Cluster \<Rightarrow> result ctl" where
  "handleNodeUpgrade E cluster = bindE (gets st_node) (upgradeNode E cluster)"

section \<open>Where the phases lead\<close>

text \<open>Every phase can fail the operation, if only because the machine cannot be read.\<close>

definition upgrade_next :: "NodeOperationStatus \<Rightarrow> string set" where
  "upgrade_next os =
    insert NodeOperationPhaseFailed
    (if nos_Phase os = NodeOperationPhasePending
     then {NodeOperationPhaseDone, NodeOperationPhaseUpgradeDrain, NodeOperationPhaseUpgradePreflight}
     else if nos_Phase os = NodeOperationPhaseUpgradeDrain then {NodeOperationPhaseUpgradePreflight}
     else if nos_Phase os = NodeOperationPhaseUpgradePreflight
     then {NodeOperationPhaseUpgrade113ImagePull, NodeOperationPhaseUpgradeLegacyUpgrade}
     else if nos_Phase os = NodeOperationPhaseUpgrade113ImagePull then {NodeOperationPhaseUpgrade113Upgrade}
     else if nos_Phase os = NodeOperationPhaseUpgrade113Upgrade then {NodeOperationPhaseUpgradeVerifying}
     else if nos_Phase os = NodeOperationPhaseUpgradeLegacyUpgrade then {NodeOperationPhaseUpgradeVerifying}
     else if nos_Phase os = NodeOperationPhaseUpgradeVerifying then {NodeOperationPhaseUpgradeUncordon}
     else if nos_Phase os = NodeOperationPhaseUpgradeUncordon
     then {if nos_Type os = NodeOperationTypeApply then NodeOperationPhaseApplying
           else NodeOperationPhaseDone}
     else {})"

definition upgrade_does :: "NodeOperationStatus \<Rightarrow> call \<Rightarrow> bool" where
  "upgrade_does os c \<longleftrightarrow>
    (if nos_Phase os = NodeOperationPhaseUpgradeDrain then drain_call c
     else if nos_Phase os = NodeOperationPhaseUpgrade113ImagePull
     then (\<exists>t img. c = Talos t (TImagePull img))
     else if nos_Phase os = NodeOperationPhaseUpgrade113Upgrade
     then (\<exists>t img. c = Talos t (TLifecycleUpgrade img)) \<or> (\<exists>t. c = Talos t (TReboot [''DEFAULT'']))
     else if nos_Phase os = NodeOperationPhaseUpgradeLegacyUpgrade
     then (\<exists>t img. c = Talos t (TUpgradeLegacy img))
     else if nos_Phase os = NodeOperationPhaseUpgradeUncordon then uncordon_call c
     else False)"

lemma emits_hasPhaseTimedOut:
  "(\<And>t r a. A (Event t r a)) \<Longrightarrow> A (Sys Now) \<Longrightarrow> emits A (hasPhaseTimedOut E node cluster)"
  unfolding hasPhaseTimedOut_def by (intro em.structural emits_prims)

lemma keeps_hasPhaseTimedOut: "hist_free f \<Longrightarrow> keeps f (hasPhaseTimedOut E node cluster)"
  unfolding hasPhaseTimedOut_def by (intro kp.structural keeps_prims)

lemma phases_failOp: "NodeOperationPhaseFailed \<in> Q \<Longrightarrow> emits (allowed Q D) (failOp E r m)"
  unfolding failOp_def by (intro em.structural emits_updateOpStatus)

lemma phases_goOn: "p \<in> Q \<Longrightarrow> emits (allowed Q D) (goOn E p r m res)"
  unfolding goOn_def by (intro em.structural emits_updateOpStatus)

lemma keeps_failOp: "keeps st_mutex (failOp E r m)"
  unfolding failOp_def by (intro kp.structural keeps_updateOpStatus)

lemma keeps_goOn: "keeps st_mutex (goOn E p r m res)"
  unfolding goOn_def by (intro kp.structural keeps_updateOpStatus)

lemmas upgrade_phase_defs = upgradePending_def upgradeDrain_def upgradePreflight_def
  upgrade113ImagePull_def upgrade113Upgrade_def upgradeLegacyUpgrade_def upgradeVerifying_def
  upgradeUncordon_def

lemma upgradePhase_mutex: "keeps st_mutex (upgradePhase E t r cluster node os f)"
  unfolding upgradePhase_def upgrade_phase_defs
  by (intro kp.structural keeps_prims keeps_reads keeps_failOp keeps_goOn keeps_doNodeDrain
      keeps_hasPhaseTimedOut keeps_updateNodeStatus keeps_updateOpStatus) simp_all

lemma upgradeBody_mutex: "keeps st_mutex (upgradeBody E cluster node os)"
  unfolding upgradeBody_def
  by (intro kp.structural keeps_prims keeps_reads keeps_failOp upgradePhase_mutex) simp_all

lemma only_status_BootID: "only_status (\<lambda>n. ret (upd_status (\<lambda>st. st\<lparr>nst_BootID := b\<rparr>) n))"
  by (rule only_status_ret) simp

lemma upgradePhase_calls:
  "emits (allowed (upgrade_next os) (upgrade_does os)) (upgradePhase E t r cluster node os f)"
  unfolding upgradePhase_def upgrade_phase_defs
  by (intro em.structural emits_prims phases_reads phases_failOp phases_goOn phases_doNodeDrain
      phases_doNodeUncordon emits_hasPhaseTimedOut emits_status_phase only_status_BootID emits_updateOpStatus)
    (auto simp: upgrade_next_def upgrade_does_def)

lemma upgradeBody_calls:
  "emits (allowed (upgrade_next os) (upgrade_does os)) (upgradeBody E cluster node os)"
  unfolding upgradeBody_def
  by (intro em.structural emits_prims phases_reads phases_failOp upgradePhase_calls)
    (auto simp: upgrade_next_def)

lemma upgradeNode_calls:
  assumes "n_OpStatus node = Some os"
  shows "emits (allowed (upgrade_next os) (upgrade_does os)) (upgradeNode E cluster node)"
  using assms unfolding upgradeNode_def
  by (auto intro!: em.structural emits_checkOthers emits_withMutex upgradeBody_calls)

text \<open>Only an operation of its own takes the mutex.\<close>

lemma upgradeNode_mutex:
  assumes "n_OpStatus node = Some os" and "nos_Type os = NodeOperationTypeApply"
  shows "keeps st_mutex (upgradeNode E cluster node)"
proof -
  have "NodeOperationTypeApply \<noteq> NodeOperationTypeUpgrade" by (simp add: const_defs)
  with assms show ?thesis unfolding upgradeNode_def checkOthers_def
    by (auto intro!: kp.structural keeps_areOtherOperationsInProgress upgradeBody_mutex)
qed

text \<open>
  C29. An operating system upgrade moves along its phases only: Pending to drain or, when
  Kubernetes is not ready, to preflight (or Done when nothing is to do); drain to
  preflight; preflight to the image pull of Talos 1.13 or the older upgrade; the pull to
  the upgrade; both upgrades to Verifying; Verifying to the uncordon; and the uncordon to
  Done or, within an Apply, back to Applying. Every phase may fail. Pods are evicted, the
  image pulled, the machine upgraded and rebooted and the node uncordoned only in the
  phase for it.
\<close>

theorem handleNodeUpgrade_phases:
  assumes "n_OpStatus (st_node s) = Some os" and "handleNodeUpgrade E cluster s = (r, s')"
  shows "grows (allowed (upgrade_next os) (upgrade_does os)) s s'"
  using upgradeNode_calls [OF assms(1)] assms(2) by (auto simp: handleNodeUpgrade_def go_run dest: stepsD)

theorem handleNodeUpgrade_phases_witness:
  "grows (allowed (upgrade_next (demo_op NodeOperationTypeUpgrade NodeOperationPhasePending))
      (upgrade_does (demo_op NodeOperationTypeUpgrade NodeOperationPhasePending)))
    (demo_op_st (demo_op NodeOperationTypeUpgrade NodeOperationPhasePending))
    (snd (handleNodeUpgrade (demo_op_env (demo_op NodeOperationTypeUpgrade NodeOperationPhasePending)) demo_cluster
      (demo_op_st (demo_op NodeOperationTypeUpgrade NodeOperationPhasePending))))"
  by (rule handleNodeUpgrade_phases [OF _ prod.collapse [symmetric]])
    (simp add: demo_op_st_def demo_op_node_def)


section \<open>What the steps rest on\<close>

text \<open>The definitions a concrete run of the config generator goes through.\<close>

lemmas config_defs = GenerateMachineConfig_def base_config_def NewGenerateMachineConfigOptions_def
  patch_level_def role_level_def operator_level_def addPatchesToProvider_def addPatchToProvider_def
  kube_patch_def component_patch_def label_patch_def EncodeMachineConfig_def GetInstallImage_def

text \<open>The release and the image of the example.\<close>

lemma demo_release:
  "ParseOSRelease ''VERSION_ID=v1.13.0'' = [(''VERSION_ID'', ''v1.13.0'')]"
  "demo_ParseTolerant ''v1.13.0'' =
    Inr \<lparr>v_Major = 1, v_Minor = 13, v_Patch = 0, v_Pre = [], v_Build = []\<rparr>"
  by code_simp+

lemma only_when_hasPhaseTimedOut: "persists F \<Longrightarrow> under F (only_when P Q) (hasPhaseTimedOut E node cluster)"
  by (intro only_when_quiet emits_hasPhaseTimedOut) simp_all

lemma only_when_goOn:
  "persists F \<Longrightarrow> (\<And>h. p = P \<Longrightarrow> F h \<Longrightarrow> Q h) \<Longrightarrow> under F (only_when P Q) (goOn E p r m res)"
  unfolding goOn_def by (intro under_structural only_when_updateOpStatus)

text \<open>A write that comes when its justification is there anyway.\<close>

lemma only_when_free:
  assumes "persists F" and "\<And>h. F h \<Longrightarrow> Q h" and "\<And>n. emits (\<lambda>_. True) (fn n)"
  shows "under F (only_when P Q) (updateNodeStatus E fn)"
  using assms
  by (intro under_emits [where B = "\<lambda>_. True"] emits_updateNodeStatus) (auto simp: only_when_def)

lemma upgradeVerifying_only_when:
  "under (\<lambda>_. True) (only_when NodeOperationPhaseUpgradeUncordon
      (\<lambda>h. rebooted E t rc node h \<and> \<not> nodeNeedsUpgrade E f))
    (upgradeVerifying E t rc node cluster f)"
  unfolding upgradeVerifying_def
  by (intro under_hasNodeRebootedYet under_structural under_prims only_when_updateOpStatus only_when_goOn
      only_when_hasPhaseTimedOut only_when_reads only_when_free em.structural)
    (simp_all add: moves_to_read)

text \<open>
  C5. An operating system upgrade goes on to the uncordon only after the machine has
  rebooted and when it runs the version of the desired image and, if the image names a
  schematic, that schematic.
\<close>

theorem upgradeVerifying_checks_release:
  assumes "upgradeVerifying E t rc node cluster f s = (r, s')"
    and "st_hist s' = later @ c # before @ st_hist s"
    and "moves_to NodeOperationPhaseUpgradeUncordon c"
  shows "rebooted E t rc node (before @ st_hist s) \<and>
    lib_version_EQ (e_lib E) (uf_talosVersion f) (uf_desiredTalosVersion f) \<and>
    (length (uf_desiredSchematicID f) = 64 \<longrightarrow> uf_talosSchematicID f = uf_desiredSchematicID f)"
  using justifiedD [OF underD [OF upgradeVerifying_only_when assms(1)] assms(2)] assms(3)
  by (auto simp: only_when_def nodeNeedsUpgrade_def hasSchematic_def)

definition demo_upgrade_facts :: UpgradeFacts where
  "demo_upgrade_facts = \<lparr>uf_talosVersion = v1_13, uf_talosSchematicID = [], uf_desiredImage = [],
     uf_desiredTalosVersion = v1_13, uf_desiredSchematicID = []\<rparr>"

definition demo_upgrade_os :: NodeOperationStatus where
  "demo_upgrade_os = demo_op NodeOperationTypeUpgrade NodeOperationPhaseUpgradeVerifying"

definition demo_client :: TalosClient where
  "demo_client = \<lparr>tc_node = ''n1'', tc_endpoints = [], tc_override = None, tc_secure = True\<rparr>"

definition demo_verify :: "result outcome \<times> st" where
  "demo_verify = upgradeVerifying (demo_op_env demo_upgrade_os) demo_client ''cs'' (demo_op_node demo_upgrade_os)
     demo_cluster demo_upgrade_facts (demo_op_st demo_upgrade_os)"

lemma demo_verify_moves:
  "list_ex (moves_to NodeOperationPhaseUpgradeUncordon) (st_hist (snd demo_verify))"
  by (simp add: demo_verify_def demo_upgrade_os_def demo_upgrade_facts_def upgradeVerifying_def
      hasPhaseTimedOut_def GetPhaseTimeout_def hasNodeRebootedYet_def nodeNeedsUpgrade_def hasSchematic_def
      goOn_def Minute_def Second_def clamp64_def demo_defs helper_defs go_eval demo_texts)

theorem upgradeVerifying_checks_release_witness:
  "\<exists>later c before. st_hist (snd demo_verify) = later @ c # before \<and>
    moves_to NodeOperationPhaseUpgradeUncordon c \<and>
    rebooted (demo_op_env demo_upgrade_os) demo_client ''cs'' (demo_op_node demo_upgrade_os) before"
proof -
  obtain r s' where run: "demo_verify = (r, s')" by (cases demo_verify)
  obtain later c before where h: "st_hist s' = later @ c # before" "moves_to NodeOperationPhaseUpgradeUncordon c"
    using list_ex_split [OF demo_verify_moves] unfolding run snd_conv by blast
  have e: "st_hist (demo_op_st demo_upgrade_os) = []" by (simp add: demo_op_st_def demo_st_def)
  from upgradeVerifying_checks_release [OF run [unfolded demo_verify_def], of later c before] h e
  show ?thesis unfolding run snd_conv by (metis append_Nil2)
qed

text \<open>
  The reboot that ends an upgrade over the lifecycle service.
\<close>

definition installed :: "env \<Rightarrow> TalosClient \<Rightarrow> string \<Rightarrow> call list \<Rightarrow> bool" where
  "installed E t img h \<longleftrightarrow>
    (\<exists>msgs err. answered (e_upgrade E) (Talos t (TLifecycleUpgrade img)) (msgs, err) h \<and>
      ekind err = EOF \<and> (\<forall>code. ProgressExitCode code \<in> set msgs \<longrightarrow> code = 0))"

lemma upgradeExit_None: "upgradeExit msg ps = None \<Longrightarrow> ProgressExitCode code \<in> set ps \<Longrightarrow> code = 0"
  by (induction msg ps rule: upgradeExit.induct) (auto split: if_splits)

definition reboots_only :: "(call list \<Rightarrow> bool) \<Rightarrow> call list \<Rightarrow> call \<Rightarrow> bool" where
  "reboots_only Q h c \<longleftrightarrow> (\<forall>t opts. c = Talos t (TReboot opts) \<longrightarrow> Q h)"

lemma reboots_only_status: "persists F \<Longrightarrow> under F (reboots_only Q) (updateOpStatus E p r m)"
  by (rule under_emits [OF quiet_updateOpStatus]) (auto simp: reboots_only_def)

lemma upgrade113Upgrade_reboots:
  "under (\<lambda>_. True) (reboots_only (installed E t (uf_desiredImage f))) (upgrade113Upgrade E t f)"
  unfolding upgrade113Upgrade_def failOp_def goOn_def
  by (intro under_onErr_ask under_onErr_act under_structural reboots_only_status)
    (auto simp: reboots_only_def installed_def dest: upgradeExit_None)

text \<open>
  Over the lifecycle service a machine is rebooted only when the stream of the
  installation of the desired image has come to its regular end and none of its exit codes
  was other than zero.
\<close>

theorem upgrade113Upgrade_reboots_installed:
  assumes "upgrade113Upgrade E t f s = (r, s')"
    and "st_hist s' = later @ Talos t' (TReboot opts) # before @ st_hist s"
  shows "installed E t (uf_desiredImage f) (before @ st_hist s)"
  using justifiedD [OF underD [OF upgrade113Upgrade_reboots assms(1)] assms(2)]
  by (simp add: reboots_only_def)

definition demo_install :: "result outcome \<times> st" where
  "demo_install = upgrade113Upgrade (demo_op_env demo_upgrade_os) demo_client demo_upgrade_facts
     (demo_op_st demo_upgrade_os)"

lemma demo_install_reboots:
  "list_ex (\<lambda>c. c = Talos demo_client (TReboot [''DEFAULT''])) (st_hist (snd demo_install))"
  by (simp add: demo_install_def demo_upgrade_os_def demo_upgrade_facts_def upgrade113Upgrade_def
      goOn_def demo_defs helper_defs go_eval)

theorem upgrade113Upgrade_reboots_installed_witness:
  "\<exists>later before. st_hist (snd demo_install) = later @ Talos demo_client (TReboot [''DEFAULT'']) # before \<and>
    installed (demo_op_env demo_upgrade_os) demo_client [] before"
proof -
  obtain r s' where run: "demo_install = (r, s')" by (cases demo_install)
  obtain later before where h: "st_hist s' = later @ Talos demo_client (TReboot [''DEFAULT'']) # before"
    using list_ex_split [OF demo_install_reboots] unfolding run snd_conv by blast
  have e: "st_hist (demo_op_st demo_upgrade_os) = []" by (simp add: demo_op_st_def demo_st_def)
  have i: "uf_desiredImage demo_upgrade_facts = []" by (simp add: demo_upgrade_facts_def)
  from upgrade113Upgrade_reboots_installed [OF run [unfolded demo_install_def], of later demo_client _ before] h e i
  show ?thesis unfolding run snd_conv by (metis append_Nil2)
qed

end
