(* ===== verification/NodeApply.thy ===== *)
theory NodeApply
  imports NodeUpgrade
begin

text \<open>
  \<^verbatim>\<open>internal/controller/node_controller_apply.go\<close>: the Apply operation, which brings the
  machine configuration of a node (and, through the upgrade phases, its operating system)
  to what the Node and Cluster objects say.
\<close>

section \<open>The phases\<close>

text \<open>Does the operating system need updating (lines 177 and 178)?\<close>

definition applyNeedsUpgrade ::
    "env \<Rightarrow> Version \<Rightarrow> string \<Rightarrow> string \<Rightarrow> go_error + (Version \<times> string) \<Rightarrow> bool" where
  "applyNeedsUpgrade E talosVersion talosSchematicID desiredImage parsed =
    (case parsed of
       Inl _ \<Rightarrow> False
     | Inr (desiredTalosVersion, desiredSchematicID) \<Rightarrow>
         desiredImage \<noteq> [] \<and>
         (\<not> lib_version_EQ (e_lib E) desiredTalosVersion talosVersion \<or>
          length desiredSchematicID = 64 \<and> desiredSchematicID \<noteq> talosSchematicID))"

text \<open>The conditions are looked at again after the write that may have changed the node.\<close>

definition applyPending :: "env \<Rightarrow> Node \<Rightarrow> bool \<Rightarrow> result ctl" where
  "applyPending E node needsUpgrade =
    andThen (event EventTypeNormal EventReasonStarted EventActionApply) (
    andThen (if IsTrue E (n_Conditions node) NodeConditionConfigDriftDetected
             then wrapE (msgtxt ''failed to clear config drift condition'')
               (updateNodeStatus E (\<lambda>n. ret (upd_status (\<lambda>st. st\<lparr>nst_Conditions :=
                  lib_RemoveStatusCondition (e_lib E) (nst_Conditions st)
                    NodeConditionConfigDriftDetected\<rparr>) n)))
             else ret ()) (
    bindE (gets st_node) (\<lambda>node.
    if IsTrue E (n_Conditions node) NodeConditionConfigInSync
    then andThen (updateOpStatus E NodeOperationPhaseDone NodeOperationReasonSkippedConfigInSync
           (msgtxt ''Node configuration is already in sync, so no apply was needed''))
           (ret None)
    else andThen (wrapE (msgtxt ''failed to update operation phase'')
           (if needsUpgrade
            then updateOpStatus E NodeOperationPhaseUpgradeDrain NodeOperationReasonUpgradeRequired
              (msgtxt ''OS upgrade needed before apply, proceeding to drain node for upgrade'')
            else updateOpStatus E NodeOperationPhaseApplying NodeOperationReasonUpgradeNotRequired
              (msgtxt ''No OS upgrade needed, proceeding to apply configuration'')))
           (ret (Some RequeueImmediate)))))"

text \<open>What the status becomes when the configuration was accepted (lines 279 to 293).\<close>

definition appliedStatus :: "env \<Rightarrow> string \<Rightarrow> bool \<Rightarrow> Node \<Rightarrow> Node ctl" where
  "appliedStatus E encodedCfg needsReboot n =
    (case n_OpStatus n of
       None \<Rightarrow> panic (msgtxt ''nil pointer dereference: node.Status.Operation'')
     | Some _ \<Rightarrow> bindE (now E) (\<lambda>t.
         ret (map_OpStatus (\<lambda>os.
             if needsReboot
             then os\<lparr>nos_Phase := NodeOperationPhaseApplyVerifying, nos_LastTransitionTime := t,
                     nos_Reason := NodeOperationReasonRebootRequired,
                     nos_Message := msgtxt ''Configuration applied with reboot, verifying''\<rparr>
             else os\<lparr>nos_Phase := NodeOperationPhaseDone, nos_LastTransitionTime := t,
                     nos_Reason := NodeOperationReasonSuccessfulApply,
                     nos_Message := msgtxt ''Configuration applied, no reboot required''\<rparr>)
           (upd_status (\<lambda>st. st\<lparr>nst_AppliedConfigHash := lib_sha256Sum (e_lib E) encodedCfg\<rparr>) n))))"

definition sendApply :: "env \<Rightarrow> TalosClient \<Rightarrow> string \<Rightarrow> bool \<Rightarrow> result ctl" where
  "sendApply E talosClient encodedCfg needsReboot =
    onErr (ask (e_modes E) (Talos talosClient (TApplyConfiguration False encodedCfg)))
      (\<lambda>err. andThen (wrapE (msgtxt ''failed to update operation phase after apply failure'')
          (updateOpStatus E NodeOperationPhaseFailed NodeOperationReasonFailedApply
            (msgtxt ''Failed to send apply request: '' @ emsg err))) (ret None))
      (\<lambda>_. andThen (wrapE (msgtxt ''failed to update status with applied config hash'')
          (updateNodeStatus E (appliedStatus E encodedCfg needsReboot)))
          (ret (Some RequeueImmediate)))"

definition applyApplying :: "env \<Rightarrow> TalosClient \<Rightarrow> Clientset \<Rightarrow> Node \<Rightarrow> string \<Rightarrow> result ctl" where
  "applyApplying E talosClient remoteClient node encodedCfg =
    onErr (ask (e_modes E) (Talos talosClient (TApplyConfiguration True encodedCfg)))
      (\<lambda>err. andThen (wrapE (msgtxt ''failed to update operation phase after apply dry-run failure'')
          (updateOpStatus E NodeOperationPhaseFailed NodeOperationReasonFailedApply
            (msgtxt ''Failed to send apply dry-run request: '' @ emsg err))) (ret None)) (\<lambda>msgs.
    case msgs of
      [] \<Rightarrow> fail (errorf (msgtxt ''unexpected number of messages from ApplyConfiguration: 0''))
    | mode # _ \<Rightarrow>
        if mode = ModeReboot
        then bindE (wrapE (msgtxt ''failed to get node from remote kubernetes'')
               (ask (e_knode E) (K8s remoteClient (KGetNode (GetShortName node))))) (\<lambda>k8sNode.
             if kubelet_ready k8sNode \<and> \<not> kn_Unschedulable k8sNode
             then andThen (wrapE (msgtxt ''failed to update operation phase'')
                    (updateOpStatus E NodeOperationPhaseApplyDrain NodeOperationReasonRebootRequired
                      (msgtxt ''Node requires reboot after apply, draining node first'')))
                    (ret (Some RequeueImmediate))
             else sendApply E talosClient encodedCfg True)
        else sendApply E talosClient encodedCfg False)"

definition applyDrain :: "env \<Rightarrow> Clientset \<Rightarrow> Node \<Rightarrow> Cluster \<Rightarrow> result ctl" where
  "applyDrain E remoteClient node cluster =
    bindE (wrapE (msgtxt ''failed to drain node for apply'')
      (doNodeDrain E remoteClient node cluster NodeOperationPhaseApplying)) (\<lambda>res.
    case res of Some r \<Rightarrow> ret (Some r) | None \<Rightarrow> ret (Some RequeueImmediate))"

definition applyVerified :: "env \<Rightarrow> Clientset \<Rightarrow> Node \<Rightarrow> result ctl" where
  "applyVerified E remoteClient node =
    andThen (if \<not> IsTrue E (n_Conditions node) NodeConditionKubernetesUnschedulable
             then wrapE (msgtxt ''failed to uncordon node after apply'')
                    (doNodeUncordon E remoteClient node)
             else ret ()) (
    andThen (wrapE (msgtxt ''failed to update node status with config in sync condition'')
      (updateNodeStatus E (set_cond E NodeConditionConfigInSync CTrue NodeConditionReasonConfigInSync
        (msgtxt ''Node configuration is in sync'')))) (
    andThen (updateOpStatus E NodeOperationPhaseDone OperationReasonCompleted
      (msgtxt ''Node apply operation complete'')) (
    andThen (event EventTypeNormal EventReasonCompleted EventActionApply)
      (ret (Some RequeueImmediate)))))"

definition applyVerifying ::
    "env \<Rightarrow> TalosClient \<Rightarrow> Clientset \<Rightarrow> Node \<Rightarrow> Cluster \<Rightarrow> result ctl" where
  "applyVerifying E talosClient remoteClient node cluster =
    bindE (hasPhaseTimedOut E node cluster) (\<lambda>timedOut.
    if timedOut
    then andThen (updateOpStatus E NodeOperationPhaseFailed NodeOperationReasonTimedOutVerifyingApply
           (msgtxt ''Timed out waiting for node to reboot and become Ready after apply'')) (
         andThen (event EventTypeWarning EventReasonFailed EventActionApply) (ret None))
    else bindE (hasNodeRebootedYet E talosClient remoteClient node) (\<lambda>rebooted.
      if \<not> rebooted then ret (Some RequeueStandardDelay)
      else if IsTrue E (n_Conditions node) NodeConditionKubernetesReady
      then bindE (wrapE (msgtxt ''failed to get remote kubernetes client'')
             (getKubernetesClient E cluster)) (\<lambda>remoteClient'.
           bindE (wrapE (msgtxt ''failed to get node from remote kubernetes'')
             (ask (e_knode E) (K8s remoteClient' (KGetNode (GetShortName node))))) (\<lambda>k8sNode.
           if \<not> kubelet_ready k8sNode then ret (Some RequeueStandardDelay)
           else applyVerified E remoteClient node))
      else applyVerified E remoteClient node))"

text \<open>Lines 75 to 135: clients, configuration, running release, desired image, phase.\<close>

definition applyPhase ::
    "env \<Rightarrow> TalosClient \<Rightarrow> Clientset \<Rightarrow> Cluster \<Rightarrow> Node \<Rightarrow> NodeOperationStatus \<Rightarrow> string \<Rightarrow> bool \<Rightarrow> result ctl" where
  "applyPhase E talosClient remoteClient cluster node opStatus encodedCfg needsUpgrade =
    (if nos_Phase opStatus = NodeOperationPhasePending then applyPending E node needsUpgrade
     else if nos_Phase opStatus = NodeOperationPhaseApplying
     then applyApplying E talosClient remoteClient node encodedCfg
     else if nos_Phase opStatus = NodeOperationPhaseApplyDrain
     then applyDrain E remoteClient node cluster
     else if nos_Phase opStatus = NodeOperationPhaseApplyVerifying
     then applyVerifying E talosClient remoteClient node cluster
     else ret (Some RequeueImmediate))"

definition applyBody :: "env \<Rightarrow> Cluster \<Rightarrow> Node \<Rightarrow> NodeOperationStatus \<Rightarrow> result ctl" where
  "applyBody E cluster node opStatus =
    bindE (wrapE (msgtxt ''failed to get talos client'') (getTalosClient E node cluster)) (\<lambda>talosClient.
    bindE (wrapE (msgtxt ''failed to get kubernetes client'') (getKubernetesClient E cluster)) (\<lambda>remoteClient.
    bindE (wrapE (msgtxt ''failed to generate machine config'')
      (GenerateMachineConfig E node (NewGenerateMachineConfigOptions E))) (\<lambda>(cfg, _).
    bindE (wrapE (msgtxt ''failed to encode machine config'')
      (lift (EncodeMachineConfig E cfg False))) (\<lambda>encodedCfg.
    onErr (getNodeTalosRelease E talosClient)
      (\<lambda>_. ret (Some RequeueShortDelay)) (\<lambda>(talosVersion, talosSchematicID).
    case GetInstallImage E cfg of
      Inl err \<Rightarrow>
        andThen (wrapE (msgtxt ''failed to update operation status after failing to get desired install image'')
          (updateOpStatus E NodeOperationPhaseFailed NodeOperationReasonFailedImageValidation
            (msgtxt ''Failed to get desired install image: '' @ emsg err))) (ret None)
    | Inr desiredImage \<Rightarrow>
        bindE (if HasPrefix (nos_Phase opStatus) NodeOperationPhasePrefixUpgrade
               then wrapE (msgtxt ''error handling node upgrade'') (upgradeNode E cluster node)
               else ret None) (\<lambda>res.
        case res of
          Some r \<Rightarrow> ret (Some r)
        | None \<Rightarrow> applyPhase E talosClient remoteClient cluster node opStatus encodedCfg
            (applyNeedsUpgrade E talosVersion talosSchematicID desiredImage
              (parseImageTalosRelease E desiredImage))))))))"

definition isApply :: "string \<Rightarrow> bool" where
  "isApply type \<longleftrightarrow> type = NodeOperationTypeApply"

definition handleNodeApply :: "env \<Rightarrow> Cluster \<Rightarrow> result ctl" where
  "handleNodeApply E cluster =
    bindE (gets st_node) (\<lambda>node.
      if isOperationComplete node then ret None
      else (case n_OpStatus node of
          None \<Rightarrow> ret None
        | Some opStatus \<Rightarrow>
            if \<not> isApply (nos_Type opStatus) then ret None
            else exclusively E cluster node (applyBody E cluster node opStatus)))"

section \<open>Where the phases lead\<close>

definition apply_next :: "NodeOperationStatus \<Rightarrow> string set" where
  "apply_next os =
    insert NodeOperationPhaseFailed
    (if HasPrefix (nos_Phase os) NodeOperationPhasePrefixUpgrade then upgrade_next os
     else if nos_Phase os = NodeOperationPhasePending
     then {NodeOperationPhaseDone, NodeOperationPhaseUpgradeDrain, NodeOperationPhaseApplying}
     else if nos_Phase os = NodeOperationPhaseApplying
     then {NodeOperationPhaseApplyDrain, NodeOperationPhaseApplyVerifying, NodeOperationPhaseDone}
     else if nos_Phase os = NodeOperationPhaseApplyDrain then {NodeOperationPhaseApplying}
     else if nos_Phase os = NodeOperationPhaseApplyVerifying then {NodeOperationPhaseDone}
     else {})"

definition apply_does :: "NodeOperationStatus \<Rightarrow> call \<Rightarrow> bool" where
  "apply_does os c \<longleftrightarrow>
    (if HasPrefix (nos_Phase os) NodeOperationPhasePrefixUpgrade then upgrade_does os c
     else if nos_Phase os = NodeOperationPhaseApplying
     then (\<exists>t cfg. c = Talos t (TApplyConfiguration False cfg))
     else if nos_Phase os = NodeOperationPhaseApplyDrain then drain_call c
     else if nos_Phase os = NodeOperationPhaseApplyVerifying then uncordon_call c
     else False)"

lemma upgrade_prefix [simp]:
  "\<not> HasPrefix NodeOperationPhasePending NodeOperationPhasePrefixUpgrade"
  "\<not> HasPrefix NodeOperationPhaseApplying NodeOperationPhasePrefixUpgrade"
  "\<not> HasPrefix NodeOperationPhaseApplyDrain NodeOperationPhasePrefixUpgrade"
  "\<not> HasPrefix NodeOperationPhaseApplyVerifying NodeOperationPhasePrefixUpgrade"
  by (simp_all add: const_defs HasPrefix_def)

lemma only_status_drift:
  "only_status (\<lambda>n. ret (upd_status (\<lambda>st. st\<lparr>nst_Conditions := f (nst_Conditions st)\<rparr>) n))"
  by (rule only_status_ret) simp

lemma emits_appliedStatus: "A (Sys Now) \<Longrightarrow> emits A (appliedStatus E cfg b n)"
  unfolding appliedStatus_def by (intro em.structural emits_prims)

lemma keeps_appliedStatus: "hist_free f \<Longrightarrow> keeps f (appliedStatus E cfg b n)"
  unfolding appliedStatus_def by (intro kp.structural keeps_prims)

lemma appliedStatus_ok:
  assumes "appliedStatus E cfg b n s = (Ok n', s')"
  obtains os os' where "n_OpStatus n = Some os" and "n_OpStatus n' = Some os'" and "nos_op os' = nos_op os"
    and "nos_Phase os' = (if b then NodeOperationPhaseApplyVerifying else NodeOperationPhaseDone)"
    and "n'\<lparr>n_Status := n_Status n\<rparr> = n"
proof (cases "n_OpStatus n")
  case None
  with assms show ?thesis by (simp add: appliedStatus_def run_basic)
next
  case (Some os)
  then show ?thesis using assms that
    by (cases b) (simp_all add: appliedStatus_def run_basic run_now run_bindE map_OpStatus_def, force+)
qed

lemma phases_applied:
  assumes "NodeOperationPhaseApplyVerifying \<in> Q" and "NodeOperationPhaseDone \<in> Q"
  shows "emits (allowed Q D) (updateNodeStatus E (appliedStatus E cfg b))"
proof (intro emits_updateNodeStatus emits_appliedStatus)
  fix n n' :: Node and s s' :: st
  assume "appliedStatus E cfg b n s = (Ok n', s')"
  then show "allowed Q D (Api (StatusUpdateNode n n'))"
    by (rule appliedStatus_ok) (use assms in \<open>simp add: allowed_def phase_writes_def op_step_def\<close>)
qed simp_all

lemmas apply_phase_defs = applyPending_def applyApplying_def sendApply_def applyDrain_def
  applyVerifying_def applyVerified_def

lemma applyPhase_mutex: "keeps st_mutex (applyPhase E t r cluster node os cfg b)"
  unfolding applyPhase_def apply_phase_defs
  by (intro kp.structural keeps_prims keeps_reads keeps_updateOpStatus keeps_doNodeDrain
      keeps_hasPhaseTimedOut keeps_updateNodeStatus keeps_appliedStatus) simp_all

lemma applyPhase_calls:
  "emits (allowed (apply_next os) (apply_does os)) (applyPhase E t r cluster node os cfg b)"
  unfolding applyPhase_def apply_phase_defs
  by (intro em.structural emits_prims phases_reads phases_doNodeDrain phases_doNodeUncordon
      phases_applied emits_hasPhaseTimedOut emits_status_phase only_status_drift only_status_set_cond
      emits_updateOpStatus)
    (auto simp: apply_next_def apply_does_def)

lemma upgrade_in_apply:
  assumes "HasPrefix (nos_Phase os) NodeOperationPhasePrefixUpgrade" and "n_OpStatus node = Some os"
  shows "emits (allowed (apply_next os) (apply_does os)) (upgradeNode E cluster node)"
  using assms
  by (intro emits_mono [OF upgradeNode_calls]) (auto elim!: allowed_mono simp: apply_next_def apply_does_def)

lemma applyBody_mutex:
  assumes "n_OpStatus node = Some os" and "isApply (nos_Type os)"
  shows "keeps st_mutex (applyBody E cluster node os)"
  unfolding applyBody_def
  by (intro kp.structural keeps_prims keeps_reads keeps_updateOpStatus applyPhase_mutex
      upgradeNode_mutex [OF assms(1)]) (use assms(2) in \<open>simp_all add: isApply_def\<close>)

lemma applyBody_calls:
  assumes "n_OpStatus node = Some os"
  shows "emits (allowed (apply_next os) (apply_does os)) (applyBody E cluster node os)"
  unfolding applyBody_def
  by (intro em.structural emits_prims phases_reads emits_updateOpStatus applyPhase_calls
      upgrade_in_apply assms)
    (simp_all add: apply_next_def)

interpretation apply_op: guarded_operation E isApply "applyBody E" apply_next apply_does "handleNodeApply E" for E
  by unfold_locales (simp_all add: handleNodeApply_def applyBody_mutex applyBody_calls)


text \<open>
  C30. An Apply operation moves along its phases only: Pending to Applying, to the drain
  of an operating system upgrade or, when the configuration is in sync, to Done; the
  upgrade phases as the upgrade handler has them, back to Applying at their end; Applying
  to ApplyDrain, ApplyVerifying or Done; ApplyDrain to Applying; ApplyVerifying to Done.
  Every phase may fail. A configuration is sent to the machine only in Applying, pods are
  evicted only in the drains, the node is uncordoned only after verification.
\<close>

theorem handleNodeApply_phases:
  assumes "n_OpStatus (st_node s) = Some os" and "handleNodeApply E cluster s = (r, s')"
  shows "grows (allowed (apply_next os) (apply_does os)) s s'"
  using assms by (rule apply_op.calls)

theorem handleNodeApply_phases_witness:
  "grows (allowed (apply_next (demo_op NodeOperationTypeApply NodeOperationPhaseApplying))
      (apply_does (demo_op NodeOperationTypeApply NodeOperationPhaseApplying)))
    (demo_op_st (demo_op NodeOperationTypeApply NodeOperationPhaseApplying))
    (snd (handleNodeApply (demo_op_env (demo_op NodeOperationTypeApply NodeOperationPhaseApplying)) demo_cluster
      (demo_op_st (demo_op NodeOperationTypeApply NodeOperationPhaseApplying))))"
  by (rule handleNodeApply_phases [OF _ prod.collapse [symmetric]])
    (simp add: demo_op_st_def demo_op_node_def)

section \<open>Rebooting through an apply\<close>

text \<open>
  \<open>sent_rightly\<close>: a configuration is sent only after a dry run of the same configuration
  was answered and, if the answer was that the machine will reboot, after the cluster was
  found not to have the node as both Ready and schedulable.
\<close>

definition sent_rightly :: "env \<Rightarrow> Node \<Rightarrow> call list \<Rightarrow> call \<Rightarrow> bool" where
  "sent_rightly E node h c \<longleftrightarrow>
    (\<forall>t cfg. c = Talos t (TApplyConfiguration False cfg) \<longrightarrow>
      (\<exists>mode modes. answered (e_modes E) (Talos t (TApplyConfiguration True cfg)) (mode # modes) h \<and>
        (mode = ModeReboot \<longrightarrow>
          (\<exists>rc k. answered (e_knode E) (K8s rc (KGetNode (GetShortName node))) k h \<and>
            \<not> (kubelet_ready k \<and> \<not> kn_Unschedulable k)))))"

definition no_apply :: "call \<Rightarrow> bool" where
  "no_apply c \<longleftrightarrow> (\<forall>t cfg. c \<noteq> Talos t (TApplyConfiguration False cfg))"

lemma no_apply_simps [simp]:
  "no_apply (Api a)" "no_apply (K8s cs k)" "no_apply (Sys y)" "no_apply (Event ty r b)"
  "no_apply (Talos t k') \<longleftrightarrow> (\<forall>cfg. k' \<noteq> TApplyConfiguration False cfg)"
  by (auto simp: no_apply_def)

lemma no_apply_read: "is_read c \<Longrightarrow> no_apply c"
  by (auto simp: no_apply_def)

lemma no_apply_sent: "no_apply c \<Longrightarrow> sent_rightly E node h c"
  by (simp add: no_apply_def sent_rightly_def)

lemma no_apply_status: "(\<And>n. emits no_apply (fn n)) \<Longrightarrow> emits no_apply (updateNodeStatus E fn)"
  by (intro emits_updateNodeStatus) simp_all

lemma no_apply_op: "emits no_apply (updateOpStatus E p r m)"
  unfolding updateOpStatus_def by (intro em.wrapE no_apply_status emits_set_op_fields) simp

lemma sendApply_rightly:
  assumes "persists F"
    and "\<And>h. F h \<Longrightarrow> sent_rightly E node h (Talos tc (TApplyConfiguration False cfg))"
  shows "under F (sent_rightly E node) (sendApply E tc cfg b)"
  unfolding sendApply_def
proof (rule under_onErr)
  show "under F (sent_rightly E node) (ask (e_modes E) (Talos tc (TApplyConfiguration False cfg)))"
    using assms(2) by (rule under_ask)
qed (use assms(1) in \<open>auto intro!: under_emits [where B = no_apply] no_apply_sent em.structural
    no_apply_op no_apply_status emits_appliedStatus\<close>)

lemma applyApplying_rightly: "under (\<lambda>_. True) (sent_rightly E node) (applyApplying E tc rc node cfg)"
  unfolding applyApplying_def
  apply (rule under_onErr_ask)
     apply (simp_all add: no_apply_sent)
   apply (intro under_emits [where B = no_apply] no_apply_sent em.structural no_apply_op; simp)
  subgoal for msgs
    apply (intro under_list under_if under_basic under_bindE_ask sendApply_rightly)
           apply (simp_all add: no_apply_sent)
     apply (intro under_emits [where B = no_apply] no_apply_sent em.structural no_apply_op; simp)
     apply (auto simp: sent_rightly_def)
    done
  done

text \<open>In every other phase no configuration is sent, so only the dry runs of Applying matter.\<close>

lemma applyBody_rightly:
  assumes "n_OpStatus node = Some os" and "nos_Type os = NodeOperationTypeApply"
  shows "under (\<lambda>_. True) (sent_rightly E node) (applyBody E cluster node os)"
proof (cases "nos_Phase os = NodeOperationPhaseApplying")
  case True
  have read: "emits (\<lambda>c. no_apply c) m \<Longrightarrow> under (\<lambda>_. True) (sent_rightly E node) m" for m :: "'a ctl"
    by (erule under_emits) (simp_all add: no_apply_sent)
  show ?thesis
    unfolding applyBody_def applyPhase_def using True
    by (intro under_structural under_onErr applyApplying_rightly read em.structural emits_prims
        phases_reads no_apply_op) (simp_all add: no_apply_read)
next
  case False
  have "\<not> apply_does os (Talos t (TApplyConfiguration False cfg))" for t cfg
    using False by (auto simp: apply_does_def upgrade_does_def)
  then have "allowed (apply_next os) (apply_does os) c \<Longrightarrow> no_apply c" for c
    by (auto simp: no_apply_def)
  then show ?thesis
    by (intro under_emits [OF applyBody_calls [OF assms(1)]]) (auto intro: no_apply_sent)
qed

text \<open>
  C2. An Apply sends a configuration to the machine only after a dry run of that very
  configuration was answered; and if the dry run says that the machine will reboot, only
  after the managed cluster was found not to have the node as Ready and schedulable, that
  is after a drain has cordoned it (or when there is nothing to drain).
\<close>

theorem handleNodeApply_reboots_only_drained:
  assumes "n_OpStatus (st_node s) = Some os" and "handleNodeApply E cluster s = (r, s')"
    and "st_hist s' = later @ Talos t (TApplyConfiguration False cfg) # before @ st_hist s"
  shows "\<exists>mode modes.
    answered (e_modes E) (Talos t (TApplyConfiguration True cfg)) (mode # modes) (before @ st_hist s) \<and>
    (mode = ModeReboot \<longrightarrow>
      (\<exists>rc k. answered (e_knode E) (K8s rc (KGetNode (GetShortName (st_node s)))) k (before @ st_hist s) \<and>
        \<not> (kubelet_ready k \<and> \<not> kn_Unschedulable k)))"
proof -
  have "justified (sent_rightly E (st_node s)) s s'"
    using assms(1,2)
    by (rule apply_op.justified_calls)
      (simp_all add: list_others_def no_apply_sent isApply_def applyBody_rightly [OF assms(1)])
  from justifiedD [OF this assms(3)] show ?thesis by (simp add: sent_rightly_def)
qed

definition demo_apply_os :: NodeOperationStatus where
  "demo_apply_os = demo_op NodeOperationTypeApply NodeOperationPhaseApplying"

definition demo_apply :: "result outcome \<times> st" where
  "demo_apply = handleNodeApply (demo_op_env demo_apply_os) demo_cluster (demo_op_st demo_apply_os)"

lemma demo_apply_sends: "list_ex (\<lambda>c. \<not> no_apply c) (st_hist (snd demo_apply))"
  by (simp add: demo_apply_def demo_apply_os_def handleNodeApply_def applyBody_def applyPhase_def
      applyApplying_def sendApply_def appliedStatus_def isApply_def
      config_defs demo_defs helper_defs go_eval demo_release ParseExtensions_def GetSchematicID_def del: demo_ParseTolerant_def)


theorem handleNodeApply_reboots_only_drained_witness:
  "\<exists>t cfg later before mode modes.
    st_hist (snd demo_apply) = later @ Talos t (TApplyConfiguration False cfg) # before \<and>
    answered (e_modes (demo_op_env demo_apply_os)) (Talos t (TApplyConfiguration True cfg)) (mode # modes) before"
proof -
  obtain r s' where run: "demo_apply = (r, s')" by (cases demo_apply)
  from demo_apply_sends obtain t cfg where "Talos t (TApplyConfiguration False cfg) \<in> set (st_hist s')"
    unfolding run list_ex_iff snd_conv no_apply_def by blast
  then obtain later before where h: "st_hist s' = later @ Talos t (TApplyConfiguration False cfg) # before"
    by (meson split_list)
  have e: "st_hist (demo_op_st demo_apply_os) = []" by (simp add: demo_op_st_def demo_st_def)
  have os: "n_OpStatus (st_node (demo_op_st demo_apply_os)) = Some demo_apply_os"
    by (simp add: demo_op_st_def demo_op_node_def)
  from handleNodeApply_reboots_only_drained [OF os run [unfolded demo_apply_def], of later t cfg before] h e
  show ?thesis unfolding run snd_conv by fastforce
qed

section \<open>An unsafe Apply that needs a reboot\<close>

text \<open>
  The drain of an unsafe operation touches nothing, so the node is still Ready and
  schedulable when Applying looks again.
\<close>

lemma doNodeDrain_unsafe:
  assumes "n_OpStatus node = Some os" and "nos_Unsafe os"
  shows "emits (allowed {p} (\<lambda>_. False)) (doNodeDrain E rc node cluster p)"
  using assms unfolding doNodeDrain_def
  by (auto intro!: em.structural emits_updateOpStatus)

definition stuck_world :: "env \<Rightarrow> bool" where
  "stuck_world E \<longleftrightarrow>
    (\<forall>h t cfg modes. e_modes E h (Talos t (TApplyConfiguration True cfg)) = Inr modes \<longrightarrow>
       (\<exists>ms. modes = ModeReboot # ms)) \<and>
    (\<forall>h rc name k. e_knode E h (K8s rc (KGetNode name)) = Inr k \<longrightarrow>
       kubelet_ready k \<and> \<not> kn_Unschedulable k)"

lemma not_sent_rightly:
  assumes "stuck_world E" and "sent_rightly E node h c"
  shows "no_apply c"
  using assms unfolding stuck_world_def sent_rightly_def answered_def no_apply_def
  by (metis list.inject)



definition demo_stuck_os :: NodeOperationStatus where
  "demo_stuck_os = demo_apply_os\<lparr>nos_op := (nos_op demo_apply_os)\<lparr>no_Options := \<lparr>noo_Unsafe = True\<rparr>\<rparr>\<rparr>"

definition demo_stuck_env :: env where
  "demo_stuck_env = (demo_op_env demo_stuck_os)\<lparr>e_modes := \<lambda>h c. Inr [ModeReboot]\<rparr>"



section \<open>Success\<close>

lemma applyVerifying_rebooted:
  "under (\<lambda>_. True) (only_when NodeOperationPhaseDone (rebooted E t rc node)) (applyVerifying E t rc node cluster)"
  unfolding applyVerifying_def applyVerified_def
  by (intro under_hasNodeRebootedYet under_structural under_prims only_when_updateOpStatus
      only_when_hasPhaseTimedOut only_when_reads only_when_free only_when_doNodeUncordon emits_set_cond)
    (simp_all add: moves_to_read)

text \<open>
  C4. An Apply that rebooted the machine is reported as done only after the machine has
  reported a new boot ID and, if the node was Ready in the cluster before, after the
  cluster has reported it as Ready again.
\<close>

theorem handleNodeApply_done_after_reboot:
  assumes "n_OpStatus (st_node s) = Some os" and "nos_Phase os = NodeOperationPhaseApplyVerifying"
    and "handleNodeApply E cluster s = (r, s')"
    and "st_hist s' = later @ c # before @ st_hist s" and "moves_to NodeOperationPhaseDone c"
  shows "\<exists>t rc. rebooted E t rc (st_node s) (before @ st_hist s)"
proof -
  have "under (\<lambda>_. True) (only_when NodeOperationPhaseDone (\<lambda>h. \<exists>t rc. rebooted E t rc (st_node s) h))
      (applyBody E cluster (st_node s) os)"
    unfolding applyBody_def applyPhase_def using assms(2)
    by (intro under_structural under_prims only_when_reads only_when_updateOpStatus
        under_mono [OF applyVerifying_rebooted]) (auto simp: moves_to_read only_when_def)
  then have "justified (only_when NodeOperationPhaseDone (\<lambda>h. \<exists>t rc. rebooted E t rc (st_node s) h)) s s'"
    using assms(1,3) by (intro apply_op.justified_calls) (simp_all add: list_others_def)
  from justifiedD [OF this assms(4)] assms(5) show ?thesis by (simp add: only_when_def)
qed

definition demo_applied_os :: NodeOperationStatus where
  "demo_applied_os = demo_op NodeOperationTypeApply NodeOperationPhaseApplyVerifying"

definition demo_applied :: "result outcome \<times> st" where
  "demo_applied = handleNodeApply (demo_op_env demo_applied_os) demo_cluster (demo_op_st demo_applied_os)"

lemma demo_applied_done: "list_ex (moves_to NodeOperationPhaseDone) (st_hist (snd demo_applied))"
  by (simp add: demo_applied_def demo_applied_os_def handleNodeApply_def applyBody_def applyPhase_def
      applyVerifying_def applyVerified_def isApply_def hasPhaseTimedOut_def GetPhaseTimeout_def
      hasNodeRebootedYet_def doNodeUncordon_def Minute_def Second_def clamp64_def ParseExtensions_def
      GetSchematicID_def config_defs demo_defs helper_defs go_eval demo_texts demo_release
      del: demo_ParseTolerant_def)

theorem handleNodeApply_done_after_reboot_witness:
  "\<exists>t rc later c before. st_hist (snd demo_applied) = later @ c # before \<and> moves_to NodeOperationPhaseDone c \<and>
    rebooted (demo_op_env demo_applied_os) t rc (st_node (demo_op_st demo_applied_os)) before"
proof -
  obtain r s' where run: "demo_applied = (r, s')" by (cases demo_applied)
  obtain later c before where h: "st_hist s' = later @ c # before" "moves_to NodeOperationPhaseDone c"
    using list_ex_split [OF demo_applied_done] unfolding run snd_conv by blast
  have e: "st_hist (demo_op_st demo_applied_os) = []" by (simp add: demo_op_st_def demo_st_def)
  have "\<exists>t rc. rebooted (demo_op_env demo_applied_os) t rc (st_node (demo_op_st demo_applied_os))
      (before @ st_hist (demo_op_st demo_applied_os))"
    by (rule handleNodeApply_done_after_reboot
        [where os = demo_applied_os and later = later, OF _ _ run [unfolded demo_applied_def] _ h(2)])
      (simp_all add: h e, simp_all add: demo_op_st_def demo_op_node_def demo_applied_os_def demo_op_def)
  then show ?thesis unfolding run snd_conv using h e by (metis append_Nil2)
qed

end
