(* ===== verification/NodeK8sUpgrade.thy ===== *)
theory NodeK8sUpgrade
  imports NodeUpgrade
begin

text \<open>
  \<^verbatim>\<open>internal/controller/node_controller_kubernetes_upgrade.go\<close>: the upgrade of one
  Kubernetes component (API server, controller manager, scheduler or kubelet) of a node.
\<close>

section \<open>The phases\<close>

abbreviation component :: "NodeOperationStatus \<Rightarrow> string" where
  "component opStatus \<equiv> kcu_ComponentName (no_KubernetesComponentUpgrade (nos_op opStatus))"

text \<open>The many places that fail the operation and return the error of the write as it is.\<close>

definition failUp :: "env \<Rightarrow> string \<Rightarrow> string \<Rightarrow> result ctl" where
  "failUp E reason message =
    andThen (updateOpStatus E NodeOperationPhaseFailed reason message) (ret None)"

text \<open>Lines 67 to 78.\<close>

definition detectLonghorn :: "env \<Rightarrow> Clientset \<Rightarrow> bool ctl" where
  "detectLonghorn E remoteClient =
    onErr (ask (e_option E) (K8s remoteClient (KGetCSIDriver ''driver.longhorn.io'')))
      (\<lambda>err. if IsNotFound err then ret False
             else fail (errorf_w (msgtxt ''error checking for Longhorn CSI driver'') err))
      (\<lambda>driver. ret (driver \<noteq> None))"

text \<open>Bumping the version of a component; a missing record of versions or an unknown component panics.\<close>

definition bumpVersion :: "string \<Rightarrow> string \<Rightarrow> Node \<Rightarrow> Node ctl" where
  "bumpVersion cname version n =
    (case nst_KubernetesVersions (n_Status n) of
       None \<Rightarrow> panic (msgtxt ''nil pointer dereference: KubernetesVersions'')
     | Some kv \<Rightarrow>
         (case SetComponentVersion kv cname version of
            None \<Rightarrow> panic (msgtxt ''unknown Kubernetes component'')
          | Some kv' \<Rightarrow> ret (upd_status (\<lambda>st. st\<lparr>nst_KubernetesVersions := Some kv'\<rparr>) n)))"

definition bumpComponent :: "env \<Rightarrow> Cluster \<Rightarrow> string \<Rightarrow> unit ctl" where
  "bumpComponent E cluster cname =
    wrapE (msgtxt ''failed to update node status with new Kubernetes '' @ cname @ msgtxt '' version for upgrade'')
      (updateNodeStatus E (bumpVersion cname (cs_KubernetesVersion (c_Spec cluster))))"

definition componentEnabled :: "env \<Rightarrow> Provider \<Rightarrow> string \<Rightarrow> bool" where
  "componentEnabled E machineCfg cname =
    (if cname = KubernetesComponentControllerManager \<or> cname = KubernetesComponentScheduler
     then lib_ComponentEnabled (e_clib E) machineCfg cname else True)"

definition k8sPending ::
    "env \<Rightarrow> Cluster \<Rightarrow> Node \<Rightarrow> NodeOperationStatus \<Rightarrow> Provider \<Rightarrow> bool \<Rightarrow> result ctl" where
  "k8sPending E cluster node opStatus machineCfg hasLonghorn =
    andThen (event EventTypeNormal EventReasonStarted EventActionKubernetesComponentUpgrade) (
    if \<not> IsTrue E (n_Conditions node) NodeConditionConfigInSync
    then failUp E NodeOperationReasonConfigOutOfSync
           (msgtxt ''Node configuration is out of sync, cannot perform Kubernetes upgrade'')
    else if component opStatus \<notin> {KubernetesComponentAPIServer, KubernetesComponentControllerManager,
              KubernetesComponentScheduler, KubernetesComponentKubelet}
    then failUp E NodeOperationReasonUnknownComponent
           (msgtxt ''Unknown Kubernetes component '' @ quoted (component opStatus) @ msgtxt '' for upgrade'')
    else if n_Role node = NodeRoleWorker \<and>
            component opStatus \<in> {KubernetesComponentAPIServer, KubernetesComponentControllerManager,
              KubernetesComponentScheduler}
    then failUp E NodeOperationReasonInvalidComponentForRole
           (msgtxt ''Kubernetes component '' @ quoted (component opStatus)
            @ msgtxt '' cannot be upgraded on worker nodes'')
    else if \<not> componentEnabled E machineCfg (component opStatus)
    then andThen (bumpComponent E cluster (component opStatus)) (
         andThen (updateOpStatus E NodeOperationPhaseDone NodeOperationReasonSkippedDisabledComponent
           (msgtxt ''Kubernetes component '' @ quoted (component opStatus)
            @ msgtxt '' is disabled on this node, skipping upgrade''))
         (ret None))
    else let drains = hasLonghorn \<and> component opStatus = KubernetesComponentKubelet in
         andThen (if drains then event EventTypeNormal EventReasonStarted EventActionApplyDrain else ret ()) (
         andThen (bumpComponent E cluster (component opStatus)) (
         andThen (updateOpStatus E (if drains then NodeOperationPhaseDraining else NodeOperationPhaseApplying)
           OperationReasonStarted
           (msgtxt ''Upgrading Kubernetes component '' @ quoted (component opStatus)
            @ msgtxt '' to version '' @ quoted (cs_KubernetesVersion (c_Spec cluster))))
         (ret (Some RequeueShortDelay)))))"

definition k8sDraining :: "env \<Rightarrow> Clientset \<Rightarrow> Node \<Rightarrow> Cluster \<Rightarrow> result ctl" where
  "k8sDraining E remoteClient node cluster =
    bindE (wrapE (msgtxt ''failed to drain'')
      (doNodeDrain E remoteClient node cluster NodeOperationPhaseApplying)) (\<lambda>res.
    case res of Some r \<Rightarrow> ret (Some r) | None \<Rightarrow> ret (Some RequeueShortDelay))"

text \<open>A kubelet next to Longhorn needs a reboot unless Talos says it does one.\<close>

definition k8sApplying ::
    "env \<Rightarrow> TalosClient \<Rightarrow> NodeOperationStatus \<Rightarrow> Provider \<Rightarrow> bool \<Rightarrow> result ctl" where
  "k8sApplying E talosClient opStatus machineCfg hasLonghorn =
    (case lib_Bytes (e_clib E) machineCfg of
       Inl err \<Rightarrow> failUp E NodeReasonConfigSerializationFailed
         (msgtxt ''Failed to serialize machine config for Kubernetes component upgrade: '' @ emsg err)
     | Inr data \<Rightarrow>
         onErr (ask (e_modes E) (Talos talosClient (TApplyConfiguration False data)))
           (\<lambda>err. failUp E NodeOperationReasonFailedApply
              (msgtxt ''Failed to apply configuration for Kubernetes component upgrade: '' @ emsg err)) (\<lambda>msgs.
         andThen (if (component opStatus = KubernetesComponentKubelet \<and> hasLonghorn) \<and> ModeReboot \<notin> set msgs
                  then updateOpStatus E NodeOperationPhaseKubeletReboot NodeOperationReasonRebootRequired
                         (msgtxt ''Reboot required for Longhorn and kubelet upgrade'')
                  else updateOpStatus E NodeOperationPhaseVerifying NodeOperationReasonSuccessfulApply
                         (msgtxt ''Kubernetes component upgrade applied, verifying upgrade''))
           (ret (Some RequeueShortDelay))))"

definition k8sKubeletReboot :: "env \<Rightarrow> TalosClient \<Rightarrow> result ctl" where
  "k8sKubeletReboot E talosClient =
    andThen (wrapE (msgtxt ''failed to request reboot during kubelet upgrade'')
      (act E (Talos talosClient (TReboot [])))) (
    andThen (updateOpStatus E NodeOperationPhaseVerifyReboot NodeOperationReasonRebootRequired
      (msgtxt ''Reboot required for kubelet upgrade''))
      (ret (Some RequeueShortDelay)))"

definition k8sVerifyReboot :: "env \<Rightarrow> TalosClient \<Rightarrow> Clientset \<Rightarrow> Node \<Rightarrow> Cluster \<Rightarrow> result ctl" where
  "k8sVerifyReboot E talosClient remoteClient node cluster =
    bindE (hasNodeRebootedYet E talosClient remoteClient node) (\<lambda>rebooted.
    if \<not> rebooted
    then bindE (hasPhaseTimedOut E node cluster) (\<lambda>timedOut.
         if timedOut
         then failUp E NodeOperationReasonTimedOutVerifyingReboot (msgtxt ''Node reboot verification timed out'')
         else ret (Some RequeueStandardDelay))
    else andThen (updateOpStatus E NodeOperationPhaseVerifying NodeOperationReasonSuccessfulReboot
           (msgtxt ''Node reboot verified successfully''))
           (ret (Some RequeueShortDelay)))"

text \<open>The pod of a control plane component; the kubelet has none.\<close>

definition componentPod :: "Node \<Rightarrow> string \<Rightarrow> string" where
  "componentPod node cname =
    (if cname = KubernetesComponentAPIServer then ''kube-apiserver-'' @ GetShortName node
     else if cname = KubernetesComponentControllerManager then ''kube-controller-manager-'' @ GetShortName node
     else if cname = KubernetesComponentScheduler then ''kube-scheduler-'' @ GetShortName node
     else [])"

definition pod_ready :: "Pod \<Rightarrow> bool" where
  "pod_ready p \<longleftrightarrow> (''Ready'', CTrue) \<in> set (pod_Conditions p)"

text \<open>Lines 533 to 602: the node is Ready, uncordon it, done.\<close>

definition k8sFinish :: "env \<Rightarrow> Clientset \<Rightarrow> Node \<Rightarrow> Cluster \<Rightarrow> NodeOperationStatus \<Rightarrow> result ctl" where
  "k8sFinish E remoteClient node cluster opStatus =
    bindE (wrapE (msgtxt ''failed to get node '' @ GetShortName node @ msgtxt '' for verification'')
      (ask (e_knode E) (K8s remoteClient (KGetNode (GetShortName node))))) (\<lambda>k8sNode.
    if \<not> kubelet_ready k8sNode then ret (Some RequeueStandardDelay)
    else onErr (if \<not> IsTrue E (n_Conditions node) NodeConditionKubernetesUnschedulable
                then doNodeUncordon E remoteClient node else ret ())
      (\<lambda>_. andThen (event EventTypeWarning EventReasonFailed EventActionKubernetesComponentUpgrade)
             (ret (Some RequeueStandardDelay)))
      (\<lambda>_. andThen (event EventTypeNormal EventReasonCompleted EventActionKubernetesComponentUpgrade) (
        andThen (updateOpStatus E NodeOperationPhaseDone OperationReasonCompleted
          (msgtxt ''Kubernetes '' @ component opStatus @ msgtxt '' successfully upgraded to version ''
           @ quoted (cs_KubernetesVersion (c_Spec cluster))))
        (ret (Some RequeueShortDelay)))))"

text \<open>Lines 447 to 531: the pod has the image and is ready, or the kubelet has the version.\<close>

definition k8sCheckComponent ::
    "env \<Rightarrow> Clientset \<Rightarrow> Node \<Rightarrow> Cluster \<Rightarrow> NodeOperationStatus \<Rightarrow> string \<Rightarrow> result ctl" where
  "k8sCheckComponent E remoteClient node cluster opStatus targetImage =
    (let podName = componentPod node (component opStatus);
         checkKubelet =
           (if component opStatus = KubernetesComponentKubelet
            then onErr (ask (e_knode E) (K8s remoteClient (KGetNode (GetShortName node))))
                   (\<lambda>_. ret (Some RequeueStandardDelay)) (\<lambda>k8sNode.
                 case Cut targetImage CHR '':'' of (_, kubeletImageTag, ok) \<Rightarrow>
                   if \<not> ok
                   then failUp E NodeOperationReasonFailedImageValidation
                          (msgtxt ''Invalid target image '' @ quoted targetImage @ msgtxt '' for kubelet upgrade'')
                   else if kn_KubeletVersion k8sNode \<noteq> kubeletImageTag then ret (Some RequeueStandardDelay)
                   else k8sFinish E remoteClient node cluster opStatus)
            else k8sFinish E remoteClient node cluster opStatus)
     in if podName \<noteq> []
        then onErr (ask (e_pod E) (K8s remoteClient (KGetPod ''kube-system'' podName)))
               (\<lambda>_. ret (Some RequeueStandardDelay)) (\<lambda>pod.
             if targetImage \<notin> set (pod_Images pod) then ret (Some RequeueStandardDelay)
             else if \<not> pod_ready pod then ret (Some RequeueStandardDelay)
             else checkKubelet)
        else checkKubelet)"

definition k8sVerifying ::
    "env \<Rightarrow> Clientset \<Rightarrow> Node \<Rightarrow> Cluster \<Rightarrow> NodeOperationStatus \<Rightarrow> Provider \<Rightarrow> result ctl" where
  "k8sVerifying E remoteClient node cluster opStatus machineCfg =
    (let (phaseTimeout, invalid) = GetPhaseTimeout (cs_Options (c_Spec cluster)) in
     andThen (if invalid
              then event EventTypeWarning EventReasonValidationError EventActionKubernetesComponentUpgrade
              else ret ()) (
     bindE (time_Since E (nos_LastTransitionTime opStatus)) (\<lambda>elapsed.
     if phaseTimeout < elapsed
     then failUp E NodeOperationReasonTimedOutVerifyingUpgrade
            (msgtxt ''Kubernetes component upgrade verification timed out'')
     else if component opStatus \<notin> {KubernetesComponentAPIServer, KubernetesComponentControllerManager,
               KubernetesComponentScheduler, KubernetesComponentKubelet}
     then failUp E NodeOperationReasonUnknownComponent
            (msgtxt ''Unknown Kubernetes component `'' @ component opStatus @ msgtxt ''` for upgrade'')
     else let targetImage = lib_ComponentImage (e_clib E) machineCfg (component opStatus) in
       if targetImage = []
       then failUp E NodeOperationReasonFailedImageValidation
              (msgtxt ''No target image found for Kubernetes component `'' @ component opStatus @ ''`'')
       else k8sCheckComponent E remoteClient node cluster opStatus targetImage)))"

definition k8sUpgradeBody :: "env \<Rightarrow> Cluster \<Rightarrow> Node \<Rightarrow> NodeOperationStatus \<Rightarrow> result ctl" where
  "k8sUpgradeBody E cluster node opStatus =
    bindE (getTalosClient E node cluster) (\<lambda>talosClient.
    bindE (wrapE (msgtxt ''failed to get kubernetes client for k8s upgrade'')
      (getKubernetesClient E cluster)) (\<lambda>remoteClient.
    bindE (detectLonghorn E remoteClient) (\<lambda>hasLonghorn.
    onErr (GenerateMachineConfig E node (NewGenerateMachineConfigOptions E))
      (\<lambda>err. failUp E NodeReasonConfigGenerationFailed
         (msgtxt ''Failed to generate machine config for Kubernetes component upgrade: '' @ emsg err))
      (\<lambda>(machineCfg, _).
      if nos_Phase opStatus = NodeOperationPhasePending
      then k8sPending E cluster node opStatus machineCfg hasLonghorn
      else if nos_Phase opStatus = NodeOperationPhaseDraining
      then k8sDraining E remoteClient node cluster
      else if nos_Phase opStatus = NodeOperationPhaseApplying
      then k8sApplying E talosClient opStatus machineCfg hasLonghorn
      else if nos_Phase opStatus = NodeOperationPhaseKubeletReboot
      then k8sKubeletReboot E talosClient
      else if nos_Phase opStatus = NodeOperationPhaseVerifyReboot
      then k8sVerifyReboot E talosClient remoteClient node cluster
      else if nos_Phase opStatus = NodeOperationPhaseVerifying
      then k8sVerifying E remoteClient node cluster opStatus machineCfg
      else ret (Some RequeueShortDelay)))))"

definition isK8sUpgrade :: "string \<Rightarrow> bool" where
  "isK8sUpgrade type \<longleftrightarrow> type = NodeOperationTypeKubernetesComponentUpgrade"

definition handleKubernetesComponentUpgrade :: "env \<Rightarrow> Cluster \<Rightarrow> result ctl" where
  "handleKubernetesComponentUpgrade E cluster =
    bindE (gets st_node) (\<lambda>node.
      if isOperationComplete node then ret None
      else (case n_OpStatus node of
          None \<Rightarrow> ret None
        | Some opStatus \<Rightarrow>
            if \<not> isK8sUpgrade (nos_Type opStatus) then ret None
            else exclusively E cluster node (k8sUpgradeBody E cluster node opStatus)))"

section \<open>Where the phases lead\<close>

definition k8s_next :: "NodeOperationStatus \<Rightarrow> string set" where
  "k8s_next os =
    insert NodeOperationPhaseFailed
    (if nos_Phase os = NodeOperationPhasePending
     then {NodeOperationPhaseDone, NodeOperationPhaseApplying} \<union>
          (if component os = KubernetesComponentKubelet then {NodeOperationPhaseDraining} else {})
     else if nos_Phase os = NodeOperationPhaseDraining then {NodeOperationPhaseApplying}
     else if nos_Phase os = NodeOperationPhaseApplying
     then {NodeOperationPhaseVerifying} \<union>
          (if component os = KubernetesComponentKubelet then {NodeOperationPhaseKubeletReboot} else {})
     else if nos_Phase os = NodeOperationPhaseKubeletReboot then {NodeOperationPhaseVerifyReboot}
     else if nos_Phase os = NodeOperationPhaseVerifyReboot then {NodeOperationPhaseVerifying}
     else if nos_Phase os = NodeOperationPhaseVerifying then {NodeOperationPhaseDone}
     else {})"

definition k8s_does :: "NodeOperationStatus \<Rightarrow> call \<Rightarrow> bool" where
  "k8s_does os c \<longleftrightarrow>
    (if nos_Phase os = NodeOperationPhaseDraining then drain_call c
     else if nos_Phase os = NodeOperationPhaseApplying
     then (\<exists>t cfg. c = Talos t (TApplyConfiguration False cfg))
     else if nos_Phase os = NodeOperationPhaseKubeletReboot then (\<exists>t. c = Talos t (TReboot []))
     else if nos_Phase os = NodeOperationPhaseVerifying then uncordon_call c
     else False)"

lemma phases_failUp: "NodeOperationPhaseFailed \<in> Q \<Longrightarrow> emits (allowed Q D) (failUp E r m)"
  unfolding failUp_def by (intro em.structural emits_updateOpStatus)

lemma keeps_failUp: "keeps st_mutex (failUp E r m)"
  unfolding failUp_def by (intro kp.structural keeps_updateOpStatus)

lemma only_status_bumpVersion: "only_status (bumpVersion cname v)"
  by (auto simp: only_status_def bumpVersion_def go_ok split: option.splits)

lemma emits_bumpVersion: "emits A (bumpVersion cname v n)"
  unfolding bumpVersion_def by (intro em.structural)

lemma keeps_bumpVersion: "keeps f (bumpVersion cname v n)"
  unfolding bumpVersion_def by (intro kp.structural)

lemmas k8s_phase_defs = k8sPending_def k8sDraining_def k8sApplying_def k8sKubeletReboot_def
  k8sVerifyReboot_def k8sVerifying_def k8sCheckComponent_def k8sFinish_def bumpComponent_def
  detectLonghorn_def

lemma k8sUpgradeBody_mutex: "keeps st_mutex (k8sUpgradeBody E cluster node os)"
  unfolding k8sUpgradeBody_def k8s_phase_defs
  by (intro kp.structural keeps_prims keeps_reads keeps_failUp keeps_updateOpStatus keeps_doNodeDrain
      keeps_hasPhaseTimedOut keeps_updateNodeStatus keeps_bumpVersion) simp_all

lemma k8sUpgradeBody_calls: "emits (allowed (k8s_next os) (k8s_does os)) (k8sUpgradeBody E cluster node os)"
  unfolding k8sUpgradeBody_def k8s_phase_defs
  by (intro em.structural emits_prims phases_reads phases_failUp phases_doNodeDrain
      phases_doNodeUncordon emits_hasPhaseTimedOut emits_status_phase only_status_bumpVersion
      emits_bumpVersion emits_updateOpStatus)
    (simp_all add: k8s_next_def k8s_does_def)

interpretation k8s_op: guarded_operation E isK8sUpgrade "k8sUpgradeBody E" k8s_next k8s_does
    "handleKubernetesComponentUpgrade E" for E
  by unfold_locales
    (simp_all add: handleKubernetesComponentUpgrade_def k8sUpgradeBody_mutex k8sUpgradeBody_calls)

text \<open>
  C31. The upgrade of a Kubernetes component moves along its phases only: Pending to
  Applying, to Draining for a kubelet, or to Done when the component is disabled; Draining
  to Applying; Applying to Verifying or, for a kubelet, to KubeletReboot; KubeletReboot to
  VerifyReboot, VerifyReboot to Verifying, Verifying to Done. Every phase may fail. The
  machine gets a configuration only in Applying and is rebooted only in KubeletReboot,
  pods are evicted only in Draining, and the node is uncordoned only in Verifying.
\<close>

theorem handleKubernetesComponentUpgrade_phases:
  assumes "n_OpStatus (st_node s) = Some os" and "handleKubernetesComponentUpgrade E cluster s = (r, s')"
  shows "grows (allowed (k8s_next os) (k8s_does os)) s s'"
  using assms by (rule k8s_op.calls)

theorem handleKubernetesComponentUpgrade_phases_witness:
  "grows (allowed (k8s_next (demo_op NodeOperationTypeKubernetesComponentUpgrade NodeOperationPhaseVerifying))
      (k8s_does (demo_op NodeOperationTypeKubernetesComponentUpgrade NodeOperationPhaseVerifying)))
    (demo_op_st (demo_op NodeOperationTypeKubernetesComponentUpgrade NodeOperationPhaseVerifying))
    (snd (handleKubernetesComponentUpgrade
      (demo_op_env (demo_op NodeOperationTypeKubernetesComponentUpgrade NodeOperationPhaseVerifying)) demo_cluster
      (demo_op_st (demo_op NodeOperationTypeKubernetesComponentUpgrade NodeOperationPhaseVerifying))))"
  by (rule handleKubernetesComponentUpgrade_phases [OF _ prod.collapse [symmetric]])
    (simp add: demo_op_st_def demo_op_node_def)


section \<open>Success\<close>

text \<open>
  \<open>component_upgraded\<close>: the managed cluster has reported the node as Ready and the
  component as running the target image (a ready pod with it, or a kubelet of the version
  in its tag).
\<close>

definition component_upgraded ::
    "env \<Rightarrow> Clientset \<Rightarrow> Node \<Rightarrow> string \<Rightarrow> string \<Rightarrow> call list \<Rightarrow> bool" where
  "component_upgraded E rc node cname img h \<longleftrightarrow>
    (\<exists>k. answered (e_knode E) (K8s rc (KGetNode (GetShortName node))) k h \<and> kubelet_ready k) \<and>
    (if cname = KubernetesComponentKubelet
     then \<exists>k repo. answered (e_knode E) (K8s rc (KGetNode (GetShortName node))) k h \<and>
            Cut img CHR '':'' = (repo, kn_KubeletVersion k, True)
     else \<exists>p. answered (e_pod E) (K8s rc (KGetPod ''kube-system'' (componentPod node cname))) p h \<and>
            img \<in> set (pod_Images p) \<and> pod_ready p)"

lemma only_when_failUp:
  "persists F \<Longrightarrow> P \<noteq> NodeOperationPhaseFailed \<Longrightarrow> under F (only_when P Q) (failUp E r m)"
  unfolding failUp_def by (intro under_structural only_when_updateOpStatus) simp_all

lemma componentPod_empty: "componentPod node cname = [] \<Longrightarrow>
   cname \<in> {KubernetesComponentAPIServer, KubernetesComponentControllerManager,
     KubernetesComponentScheduler, KubernetesComponentKubelet} \<Longrightarrow> cname = KubernetesComponentKubelet"
  by (auto simp: componentPod_def)

lemma k8sFinish_only_when:
  assumes "persists F"
    and "\<And>h k. F h \<Longrightarrow> answered (e_knode E) (K8s rc (KGetNode (GetShortName node))) k h \<Longrightarrow> kubelet_ready k \<Longrightarrow> Q h"
  shows "under F (only_when NodeOperationPhaseDone Q) (k8sFinish E rc node cluster os)"
  unfolding k8sFinish_def
  by (intro under_bindE_ask under_structural under_prims only_when_updateOpStatus only_when_doNodeUncordon)
    (use assms in auto)

lemma k8sCheckComponent_only_when:
  assumes "component os \<in> {KubernetesComponentAPIServer, KubernetesComponentControllerManager,
     KubernetesComponentScheduler, KubernetesComponentKubelet}"
  shows "under (\<lambda>_. True) (only_when NodeOperationPhaseDone (component_upgraded E rc node (component os) img))
    (k8sCheckComponent E rc node cluster os img)"
  unfolding k8sCheckComponent_def Let_def
  by (intro under_branches under_basic under_onErr_ask only_when_failUp k8sFinish_only_when)
    (use assms in \<open>auto simp: component_upgraded_def componentPod_def\<close>)

lemma k8sVerifying_only_when:
  "under (\<lambda>_. True) (only_when NodeOperationPhaseDone
      (component_upgraded E rc node (component os) (lib_ComponentImage (e_clib E) cfg (component os))))
    (k8sVerifying E rc node cluster os cfg)"
  unfolding k8sVerifying_def Let_def
  by (intro under_structural under_prims only_when_failUp k8sCheckComponent_only_when) simp_all

text \<open>
  C6. In Verifying, the upgrade of a Kubernetes component is reported as done only after
  the cluster has reported the node as Ready and the component as running the image that
  the generated machine configuration names for it: a ready pod with this image, or for
  the kubelet the version in its tag.
\<close>

theorem k8sVerifying_checks_component:
  assumes "k8sVerifying E rc node cluster os cfg s = (r, s')"
    and "st_hist s' = later @ c # before @ st_hist s"
    and "moves_to NodeOperationPhaseDone c"
  shows "component_upgraded E rc node (component os) (lib_ComponentImage (e_clib E) cfg (component os))
    (before @ st_hist s)"
  using justifiedD [OF underD [OF k8sVerifying_only_when assms(1)] assms(2)] assms(3)
  by (simp add: only_when_def)

definition demo_kubelet_os :: NodeOperationStatus where
  "demo_kubelet_os = (demo_op NodeOperationTypeKubernetesComponentUpgrade NodeOperationPhaseVerifying)
    \<lparr>nos_op := NodeOperation_zero\<lparr>no_Type := NodeOperationTypeKubernetesComponentUpgrade,
      no_KubernetesComponentUpgrade := \<lparr>kcu_ComponentName = KubernetesComponentKubelet\<rparr>\<rparr>\<rparr>"

definition demo_kubelet :: "result outcome \<times> st" where
  "demo_kubelet = k8sVerifying (demo_op_env demo_kubelet_os) ''cs'' (demo_op_node demo_kubelet_os)
     demo_cluster demo_kubelet_os ''cfg'' (demo_op_st demo_kubelet_os)"

lemma demo_kubelet_done: "list_ex (moves_to NodeOperationPhaseDone) (st_hist (snd demo_kubelet))"
  by (simp add: demo_kubelet_def demo_kubelet_os_def k8sVerifying_def k8sCheckComponent_def k8sFinish_def
      componentPod_def kubelet_ready_def GetPhaseTimeout_def doNodeUncordon_def
      Minute_def Second_def clamp64_def demo_defs helper_defs go_eval demo_texts)

theorem k8sVerifying_checks_component_witness:
  "\<exists>later c before. st_hist (snd demo_kubelet) = later @ c # before \<and> moves_to NodeOperationPhaseDone c \<and>
    component_upgraded (demo_op_env demo_kubelet_os) ''cs'' (demo_op_node demo_kubelet_os)
      (component demo_kubelet_os)
      (lib_ComponentImage (e_clib (demo_op_env demo_kubelet_os)) ''cfg'' (component demo_kubelet_os)) before"
proof -
  obtain r s' where run: "demo_kubelet = (r, s')" by (cases demo_kubelet)
  obtain later c before where h: "st_hist s' = later @ c # before" "moves_to NodeOperationPhaseDone c"
    using list_ex_split [OF demo_kubelet_done] unfolding run snd_conv by blast
  have e: "st_hist (demo_op_st demo_kubelet_os) = []" by (simp add: demo_op_st_def demo_st_def)
  from k8sVerifying_checks_component [OF run [unfolded demo_kubelet_def], of later c before] h e
  show ?thesis unfolding run snd_conv by (metis append_Nil2)
qed

end
