(* ===== verification/NodePower.thy ===== *)
theory NodePower
  imports K8sHelpers
begin

text \<open>
  \<^verbatim>\<open>internal/controller/node_controller_power.go\<close>: the Reboot and Shutdown operations.
\<close>

definition powerVerb :: "NodeOperationStatus \<Rightarrow> string" where
  "powerVerb opStatus =
    (if nos_Type opStatus = NodeOperationTypeReboot then ''reboot''
     else if nos_Type opStatus = NodeOperationTypeShutdown then ''shutdown'' else [])"

definition powerVerbTitle :: "NodeOperationStatus \<Rightarrow> string" where
  "powerVerbTitle opStatus =
    (if nos_Type opStatus = NodeOperationTypeReboot then ''Reboot''
     else if nos_Type opStatus = NodeOperationTypeShutdown then ''Shutdown'' else [])"

definition powerPending :: "env \<Rightarrow> NodeOperationStatus \<Rightarrow> result ctl" where
  "powerPending E opStatus =
    (if nos_Unsafe opStatus
     then andThen (updateOpStatus E NodeOperationPhaseApplying OperationReasonStarted
            (powerVerbTitle opStatus @ msgtxt '' of node in progress (unsafe)''))
            (ret (Some RequeueShortDelay))
     else andThen (updateOpStatus E NodeOperationPhaseDraining OperationReasonStarted
            (msgtxt ''Started '' @ powerVerb opStatus @ msgtxt '' of node''))
            (ret (Some RequeueShortDelay)))"

definition powerDraining :: "env \<Rightarrow> Clientset \<Rightarrow> Node \<Rightarrow> Cluster \<Rightarrow> result ctl" where
  "powerDraining E remoteClient node cluster =
    bindE (wrapE (msgtxt ''failed to drain'')
      (doNodeDrain E remoteClient node cluster NodeOperationPhaseApplying)) (\<lambda>res.
    case res of Some r \<Rightarrow> ret (Some r) | None \<Rightarrow> ret (Some RequeueShortDelay))"

definition powerApplying :: "env \<Rightarrow> TalosClient \<Rightarrow> NodeOperationStatus \<Rightarrow> result ctl" where
  "powerApplying E talosClient opStatus =
    onErr (if nos_Type opStatus = NodeOperationTypeReboot
           then act E (Talos talosClient (TReboot (if nos_Unsafe opStatus then [''WithForce''] else [])))
           else if nos_Type opStatus = NodeOperationTypeShutdown
           then act E (Talos talosClient TShutdown)
           else fail (errorf (msgtxt ''unsupported operation type: '' @ nos_Type opStatus)))
      (\<lambda>err. andThen (updateOpStatus E NodeOperationPhaseFailed NodeOperationReasonFailedPowerOperation
          (powerVerbTitle opStatus @ msgtxt '' of node failed: '' @ emsg err))
          (ret None))
      (\<lambda>_.
        andThen (if nos_Type opStatus = NodeOperationTypeShutdown
                 then event EventTypeNormal EventReasonCompleted EventActionPowerOperation else ret ()) (
        andThen (updateOpStatus E
          (if nos_Type opStatus = NodeOperationTypeReboot then NodeOperationPhaseVerifying
           else NodeOperationPhaseDone)
          (if nos_Type opStatus = NodeOperationTypeReboot then NodeOperationReasonRebootRequested
           else OperationReasonCompleted)
          (powerVerbTitle opStatus @ msgtxt '' of node initiated successfully''))
          (ret (Some RequeueShortDelay))))"

definition powerVerifying ::
    "env \<Rightarrow> TalosClient \<Rightarrow> Clientset \<Rightarrow> Node \<Rightarrow> Cluster \<Rightarrow> NodeOperationStatus \<Rightarrow> result ctl" where
  "powerVerifying E talosClient remoteClient node cluster opStatus =
    (let (phaseTimeout, invalid) = GetPhaseTimeout (cs_Options (c_Spec cluster)) in
     andThen (if invalid then event EventTypeWarning EventReasonValidationError EventActionPowerOperation
              else ret ()) (
     bindE (time_Since E (nos_LastTransitionTime opStatus)) (\<lambda>elapsed.
     if phaseTimeout < elapsed
     then andThen (updateOpStatus E NodeOperationPhaseFailed NodeOperationReasonTimedOutVerifyingReboot
            (msgtxt ''Node verification after reboot timed out'')) (ret None)
     else bindE (hasNodeRebootedYet E talosClient remoteClient node) (\<lambda>rebooted.
       if \<not> rebooted then ret (Some RequeueStandardDelay)
       else andThen (wrapE (msgtxt ''failed to uncordon node after reboot'')
              (doNodeUncordon E remoteClient node)) (
            andThen (event EventTypeNormal EventReasonCompleted EventActionPowerOperation) (
            andThen (updateOpStatus E NodeOperationPhaseDone OperationReasonCompleted
              (msgtxt ''Node reboot operation complete''))
              (ret (Some RequeueShortDelay))))))))"

definition powerBody :: "env \<Rightarrow> Cluster \<Rightarrow> Node \<Rightarrow> NodeOperationStatus \<Rightarrow> result ctl" where
  "powerBody E cluster node opStatus =
    bindE (getTalosClient E node cluster) (\<lambda>talosClient.
    bindE (getKubernetesClient E cluster) (\<lambda>remoteClient.
      if nos_Phase opStatus = NodeOperationPhasePending then powerPending E opStatus
      else if nos_Phase opStatus = NodeOperationPhaseDraining
      then powerDraining E remoteClient node cluster
      else if nos_Phase opStatus = NodeOperationPhaseApplying
      then powerApplying E talosClient opStatus
      else if nos_Phase opStatus = NodeOperationPhaseVerifying
      then powerVerifying E talosClient remoteClient node cluster opStatus
      else ret (Some RequeueShortDelay)))"

definition isPower :: "string \<Rightarrow> bool" where
  "isPower type \<longleftrightarrow> type = NodeOperationTypeReboot \<or> type = NodeOperationTypeShutdown"

definition handleNodePower :: "env \<Rightarrow> Cluster \<Rightarrow> result ctl" where
  "handleNodePower E cluster =
    bindE (gets st_node) (\<lambda>node.
      if isOperationComplete node then ret None
      else (case n_OpStatus node of
          None \<Rightarrow> ret None
        | Some opStatus \<Rightarrow>
            if \<not> isPower (nos_Type opStatus) then ret None
            else exclusively E cluster node (powerBody E cluster node opStatus)))"

section \<open>Phases\<close>

text \<open>Where a power operation may go from the phase it is in, and what it may do there.\<close>

definition power_next :: "NodeOperationStatus \<Rightarrow> string set" where
  "power_next os =
    (if nos_Phase os = NodeOperationPhasePending
     then {if nos_Unsafe os then NodeOperationPhaseApplying else NodeOperationPhaseDraining}
     else if nos_Phase os = NodeOperationPhaseDraining
     then {NodeOperationPhaseApplying, NodeOperationPhaseFailed}
     else if nos_Phase os = NodeOperationPhaseApplying
     then {NodeOperationPhaseFailed,
           if nos_Type os = NodeOperationTypeReboot then NodeOperationPhaseVerifying
           else NodeOperationPhaseDone}
     else if nos_Phase os = NodeOperationPhaseVerifying
     then {NodeOperationPhaseFailed, NodeOperationPhaseDone}
     else {})"

definition power_does :: "NodeOperationStatus \<Rightarrow> call \<Rightarrow> bool" where
  "power_does os c \<longleftrightarrow>
    (if nos_Phase os = NodeOperationPhaseDraining then drain_call c
     else if nos_Phase os = NodeOperationPhaseApplying
     then (\<exists>t. if nos_Type os = NodeOperationTypeReboot
               then c = Talos t (TReboot (if nos_Unsafe os then [''WithForce''] else []))
               else c = Talos t TShutdown)
     else if nos_Phase os = NodeOperationPhaseVerifying then uncordon_call c
     else False)"

lemma powerBody_mutex: "keeps st_mutex (powerBody E cluster node os)"
  unfolding powerBody_def powerPending_def powerDraining_def powerApplying_def powerVerifying_def
  by (intro kp.structural keeps_prims keeps_reads keeps_updateOpStatus keeps_doNodeDrain) simp_all

lemma powerBody_calls: "emits (allowed (power_next os) (power_does os)) (powerBody E cluster node os)"
  unfolding powerBody_def powerPending_def powerDraining_def powerApplying_def powerVerifying_def
  by (intro em.structural emits_prims phases_reads phases_doNodeDrain phases_doNodeUncordon
      emits_updateOpStatus)
    (auto simp: power_next_def power_does_def)

interpretation power: guarded_operation E isPower "powerBody E" power_next power_does "handleNodePower E" for E
  by unfold_locales (simp_all add: handleNodePower_def powerBody_mutex powerBody_calls)

text \<open>
  C27. A Reboot or Shutdown operation moves along its phases only (Pending to Draining, or
  straight to Applying when unsafe; Draining to Applying; Applying to Verifying for a
  reboot and to Done for a shutdown; Verifying to Done; anything but Pending to Failed),
  it leaves the operation itself as it was read, and it reboots or shuts down the machine
  only in Applying, cordons and evicts only in Draining and uncordons only in Verifying.
\<close>

theorem handleNodePower_phases:
  assumes "n_OpStatus (st_node s) = Some os" and "handleNodePower E cluster s = (r, s')"
  shows "grows (allowed (power_next os) (power_does os)) s s'"
  using assms by (rule power.calls)

theorem handleNodePower_phases_witness:
  "grows (allowed (power_next (demo_op NodeOperationTypeReboot NodeOperationPhasePending))
      (power_does (demo_op NodeOperationTypeReboot NodeOperationPhasePending)))
    (demo_op_st (demo_op NodeOperationTypeReboot NodeOperationPhasePending))
    (snd (handleNodePower (demo_op_env (demo_op NodeOperationTypeReboot NodeOperationPhasePending)) demo_cluster
      (demo_op_st (demo_op NodeOperationTypeReboot NodeOperationPhasePending))))"
  by (rule handleNodePower_phases [OF _ prod.collapse [symmetric]])
    (simp add: demo_op_st_def demo_op_node_def)


section \<open>Success\<close>

lemma powerVerifying_rebooted:
  "under (\<lambda>_. True) (only_when NodeOperationPhaseDone (rebooted E t rc node))
    (powerVerifying E t rc node cluster os)"
  unfolding powerVerifying_def Let_def
  by (intro under_hasNodeRebootedYet under_structural under_prims only_when_updateOpStatus
      only_when_doNodeUncordon) simp_all

text \<open>
  A reboot is reported as done only after the machine has reported a boot ID that
  differs from the one in the node's status and, if the node was Ready in the cluster
  before, after the cluster has reported it as Ready again without the taint of a network
  agent that is still starting.
\<close>

theorem handleNodePower_done_after_reboot:
  assumes "n_OpStatus (st_node s) = Some os" and "nos_Phase os = NodeOperationPhaseVerifying"
    and "handleNodePower E cluster s = (r, s')"
    and "st_hist s' = later @ c # before @ st_hist s" and "moves_to NodeOperationPhaseDone c"
  shows "\<exists>t rc. rebooted E t rc (st_node s) (before @ st_hist s)"
proof -
  have "under (\<lambda>_. True) (only_when NodeOperationPhaseDone (\<lambda>h. \<exists>t rc. rebooted E t rc (st_node s) h))
      (powerBody E cluster (st_node s) os)"
    unfolding powerBody_def using assms(2)
    by (intro under_structural only_when_reads
        under_mono [OF powerVerifying_rebooted]) (auto simp: moves_to_read only_when_def)
  then have "justified (only_when NodeOperationPhaseDone (\<lambda>h. \<exists>t rc. rebooted E t rc (st_node s) h)) s s'"
    using assms(1,3) by (intro power.justified_calls) (simp_all add: list_others_def)
  from justifiedD [OF this assms(4)] assms(5) show ?thesis by (simp add: only_when_def)
qed


definition demo_power_os :: NodeOperationStatus where
  "demo_power_os = demo_op NodeOperationTypeReboot NodeOperationPhaseVerifying"

definition demo_power :: "result outcome \<times> st" where
  "demo_power = handleNodePower (demo_op_env demo_power_os) demo_cluster (demo_op_st demo_power_os)"

lemma demo_power_done: "list_ex (moves_to NodeOperationPhaseDone) (st_hist (snd demo_power))"
  by (simp add: demo_power_def demo_power_os_def handleNodePower_def powerBody_def powerVerifying_def
      isPower_def GetPhaseTimeout_def hasNodeRebootedYet_def doNodeUncordon_def kubelet_ready_def
      Minute_def Second_def clamp64_def demo_defs helper_defs go_eval demo_texts)

theorem handleNodePower_done_after_reboot_witness:
  "\<exists>t rc later c before. st_hist (snd demo_power) = later @ c # before \<and> moves_to NodeOperationPhaseDone c \<and>
    rebooted (demo_op_env demo_power_os) t rc (st_node (demo_op_st demo_power_os)) before"
proof -
  obtain r s' where run: "demo_power = (r, s')" by (cases demo_power)
  obtain later c before where h: "st_hist s' = later @ c # before" "moves_to NodeOperationPhaseDone c"
    using list_ex_split [OF demo_power_done] unfolding run snd_conv by blast
  have e: "st_hist (demo_op_st demo_power_os) = []" by (simp add: demo_op_st_def demo_st_def)
  have "\<exists>t rc. rebooted (demo_op_env demo_power_os) t rc (st_node (demo_op_st demo_power_os))
      (before @ st_hist (demo_op_st demo_power_os))"
    by (rule handleNodePower_done_after_reboot
        [where os = demo_power_os and later = later, OF _ _ run [unfolded demo_power_def] _ h(2)])
      (simp_all add: h e, simp_all add: demo_op_st_def demo_op_node_def demo_power_os_def demo_op_def)
  then show ?thesis unfolding run snd_conv using h e by (metis append_Nil2)
qed

end
