(* ===== verification/NodeReset.thy ===== *)
theory NodeReset
  imports K8sHelpers
begin

text \<open>
  \<^verbatim>\<open>internal/controller/node_controller_reset.go\<close>: the Reset operation, which wipes a
  machine, takes the finalizer off the node and removes it from the managed cluster.
\<close>

section \<open>The handler\<close>

definition resetPending :: "env \<Rightarrow> result ctl" where
  "resetPending E =
    andThen (event EventTypeNormal EventReasonStarted EventActionReset) (
    andThen (updateOpStatus E NodeOperationPhaseDraining OperationReasonStarted
      (msgtxt ''Started reset of node''))
      (ret (Some RequeueShortDelay)))"

definition resetDraining :: "env \<Rightarrow> Node \<Rightarrow> Cluster \<Rightarrow> result ctl" where
  "resetDraining E node cluster =
    bindE (getKubernetesClient E cluster) (\<lambda>remoteClient.
    bindE (wrapE (msgtxt ''failed to drain'')
      (doNodeDrain E remoteClient node cluster NodeOperationPhaseApplying)) (\<lambda>res.
    case res of Some r \<Rightarrow> ret (Some r) | None \<Rightarrow> ret (Some RequeueShortDelay)))"

text \<open>Without a mode, one is inferred from the labels and disks given.\<close>

definition inferMode :: "ResetOperationOptions \<Rightarrow> ResetOperationOptions" where
  "inferMode reset =
    (if roo_Mode reset = [] then
       (if 0 < length (roo_SystemLabelsToWipe reset) \<and> length (roo_UserDisksToWipe reset) = 0
        then reset\<lparr>roo_Mode := NodeResetModeSystemDisk\<rparr>
        else if 0 < length (roo_UserDisksToWipe reset) \<and> length (roo_SystemLabelsToWipe reset) = 0
        then reset\<lparr>roo_Mode := NodeResetModeUserDisks\<rparr>
        else reset\<lparr>roo_Mode := NodeResetModeAll\<rparr>)
     else reset)"

definition resetRequest :: "ResetOperationOptions \<Rightarrow> bool \<Rightarrow> ResetRequest" where
  "resetRequest reset graceful =
    \<lparr>rr_Mode = (if roo_Mode reset = NodeResetModeAll then ResetAll
                else if roo_Mode reset = NodeResetModeSystemDisk then ResetSystemDisk
                else if roo_Mode reset = NodeResetModeUserDisks then ResetUserDisks
                else ResetAll),
     rr_SystemPartitionsToWipe = roo_SystemLabelsToWipe reset,
     rr_UserDisksToWipe = roo_UserDisksToWipe reset,
     rr_Graceful = graceful,
     rr_Reboot = roo_Reboot reset\<rparr>"

fun healthyOthers :: "env \<Rightarrow> string \<Rightarrow> Node list \<Rightarrow> nat" where
  "healthyOthers E name [] = 0"
| "healthyOthers E name (otherNode # nodes) =
    (if n_Name otherNode = name then healthyOthers E name nodes
     else if n_DeletionTimestamp otherNode = None \<and> isOperationComplete otherNode
          \<and> IsTrue E (n_Conditions otherNode) NodeConditionReady
     then Suc (healthyOthers E name nodes)
     else healthyOthers E name nodes)"

text \<open>
  Graceful unless the user says otherwise or this is the last healthy control plane node.
  The listing is not restricted to a namespace.
\<close>

definition gracefulMode :: "env \<Rightarrow> Node \<Rightarrow> Cluster \<Rightarrow> ResetOperationOptions \<Rightarrow> bool ctl" where
  "gracefulMode E node cluster reset =
    (case roo_Graceful reset of
       Some g \<Rightarrow> ret g
     | None \<Rightarrow>
         if n_Role node = NodeRoleControlplane
         then bindE (wrapE (msgtxt ''failed to list controlplane nodes'')
                (ask (e_nodes E) (Api (ListNodes None (Some (c_Name cluster)) (Some NodeRoleControlplane)))))
                (\<lambda>items. ret (healthyOthers E (n_Name node) items \<noteq> 0))
         else ret True)"

definition resetApplying :: "env \<Rightarrow> TalosClient \<Rightarrow> Node \<Rightarrow> Cluster \<Rightarrow> NodeOperationStatus \<Rightarrow> result ctl" where
  "resetApplying E talosClient node cluster opStatus =
    (let reset = inferMode (no_Reset (nos_op opStatus));
         opStatus' = opStatus\<lparr>nos_op := (nos_op opStatus)\<lparr>no_Reset := reset\<rparr>\<rparr>
     in andThen (set_node (map_OpStatus (\<lambda>_. opStatus') node)) (
        bindE (gracefulMode E node cluster reset) (\<lambda>graceful.
        onErr (act E (Talos talosClient (TReset (resetRequest reset graceful))))
          (\<lambda>err. andThen (updateOpStatus E NodeOperationPhaseFailed NodeOperationReasonFailedReset
              (msgtxt ''Failed to reset node: '' @ emsg err)) (ret None))
          (\<lambda>_. andThen (updateOpStatus E NodeOperationPhaseVerifying OperationReasonStarted
              (msgtxt ''Node reset successfully'')) (ret (Some RequeueShortDelay))))))"

text \<open>Whether the state partition is taken to be wiped (lines 214 and 215).\<close>

definition stateWiped :: "NodeOperationStatus \<Rightarrow> bool" where
  "stateWiped opStatus \<longleftrightarrow>
    roo_Mode (no_Reset (nos_op opStatus)) \<noteq> NodeResetModeUserDisks \<and>
    (length (roo_SystemLabelsToWipe (no_Reset (nos_op opStatus))) = 0 \<or>
     ''STATE'' \<in> set (roo_SystemLabelsToWipe (no_Reset (nos_op opStatus))))"

definition resetConditions :: "env \<Rightarrow> Node \<Rightarrow> Node ctl" where
  "resetConditions E n =
    bindE (now E) (\<lambda>t1.
    bindE (now E) (\<lambda>t1'.
    bindE (now E) (\<lambda>t2.
    bindE (now E) (\<lambda>t2'.
      let c1 = lib_SetStatusCondition (e_lib E) t1' []
            \<lparr>cd_type = NodeConditionReady, cd_status = CFalse, cd_reason = NodeConditionReasonReset,
             cd_message = msgtxt ''Node has been reset and is no longer ready'', cd_since = t1\<rparr>;
          c2 = lib_SetStatusCondition (e_lib E) t2' c1
            \<lparr>cd_type = NodeConditionProvisioned, cd_status = CFalse, cd_reason = NodeConditionReasonReset,
             cd_message = msgtxt ''Node has been reset and is no longer provisioned'', cd_since = t2\<rparr>
      in ret (upd_status (\<lambda>st. st\<lparr>nst_Conditions := c2\<rparr>) n)))))"

text \<open>Taking a wiped node out of service (lines 214 to 286).\<close>

definition resetWiped :: "env \<Rightarrow> Node \<Rightarrow> Cluster \<Rightarrow> unit ctl" where
  "resetWiped E node cluster =
    (let newFinalizers = filter (\<lambda>item. item \<noteq> NodeFinalizer) (n_Finalizers node) in
     andThen (wrapE (msgtxt ''failed to remove finalizer after reset'')
       (updateNode E (\<lambda>n. ret (n\<lparr>n_Finalizers := newFinalizers\<rparr>)))) (
     andThen (wrapE (msgtxt ''failed to update node conditions after reset'')
       (updateNodeStatus E (resetConditions E))) (
     andThen (event EventTypeNormal EventReasonCompleted EventActionReset) (
     bindE (gets st_node) (\<lambda>node'.
     onErr (bindE (getKubernetesClient E cluster) (\<lambda>remoteClient.
              act E (K8s remoteClient (KDeleteNode (GetShortName node')))))
       (\<lambda>_. event EventTypeWarning EventReasonFailed EventActionReset)
       (\<lambda>_. event EventTypeNormal EventReasonDeleted EventActionReset))))))"

definition resetVerifying :: "env \<Rightarrow> Node \<Rightarrow> Cluster \<Rightarrow> NodeOperationStatus \<Rightarrow> result ctl" where
  "resetVerifying E node cluster opStatus =
    bindE (wrapE (msgtxt ''failed to get Talos client for verification'')
      (getTalosClient E node cluster)) (\<lambda>talosClient.
    onErr (act E (Talos talosClient TVersion))
      (\<lambda>_.
        andThen (if stateWiped opStatus then resetWiped E node cluster else ret ()) (
        andThen (updateOpStatus E NodeOperationPhaseDone OperationReasonCompleted
          (msgtxt ''Node reset operation completed successfully''))
          (ret (Some RequeueShortDelay))))
      (\<lambda>_. ret (Some RequeueShortDelay)))"

definition resetBody :: "env \<Rightarrow> Cluster \<Rightarrow> Node \<Rightarrow> NodeOperationStatus \<Rightarrow> result ctl" where
  "resetBody E cluster node opStatus =
    bindE (wrapE (msgtxt ''failed to get Talos client'') (getTalosClient E node cluster)) (\<lambda>talosClient.
      if nos_Phase opStatus = NodeOperationPhasePending then resetPending E
      else if nos_Phase opStatus = NodeOperationPhaseDraining then resetDraining E node cluster
      else if nos_Phase opStatus = NodeOperationPhaseApplying
      then resetApplying E talosClient node cluster opStatus
      else if nos_Phase opStatus = NodeOperationPhaseVerifying
      then resetVerifying E node cluster opStatus
      else ret (Some RequeueShortDelay))"

definition isReset :: "string \<Rightarrow> bool" where
  "isReset type \<longleftrightarrow> type = NodeOperationTypeReset"

definition handleNodeReset :: "env \<Rightarrow> Cluster \<Rightarrow> result ctl" where
  "handleNodeReset E cluster =
    bindE (gets st_node) (\<lambda>node.
      if isOperationComplete node then ret None
      else (case n_OpStatus node of
          None \<Rightarrow> ret None
        | Some opStatus \<Rightarrow>
            if \<not> isReset (nos_Type opStatus) then ret None
            else exclusively E cluster node (resetBody E cluster node opStatus)))"

section \<open>Phases\<close>

definition reset_next :: "NodeOperationStatus \<Rightarrow> string set" where
  "reset_next os =
    (if nos_Phase os = NodeOperationPhasePending then {NodeOperationPhaseDraining}
     else if nos_Phase os = NodeOperationPhaseDraining
     then {NodeOperationPhaseApplying, NodeOperationPhaseFailed}
     else if nos_Phase os = NodeOperationPhaseApplying
     then {NodeOperationPhaseVerifying, NodeOperationPhaseFailed}
     else if nos_Phase os = NodeOperationPhaseVerifying then {NodeOperationPhaseDone}
     else {})"

text \<open>The machine is wiped with the request made of the options and a mode inferred from them.\<close>

definition reset_does :: "NodeOperationStatus \<Rightarrow> call \<Rightarrow> bool" where
  "reset_does os c \<longleftrightarrow>
    (if nos_Phase os = NodeOperationPhaseDraining then drain_call c
     else if nos_Phase os = NodeOperationPhaseApplying
     then (\<exists>t g. c = Talos t (TReset (resetRequest (inferMode (no_Reset (nos_op os))) g)))
     else if nos_Phase os = NodeOperationPhaseVerifying
     then stateWiped os \<and> (\<exists>cs name. c = K8s cs (KDeleteNode name))
     else False)"

lemma only_status_resetConditions: "only_status (resetConditions E)"
  by (auto simp: only_status_def resetConditions_def go_ok Let_def)

lemma emits_resetConditions: "A (Sys Now) \<Longrightarrow> emits A (resetConditions E n)"
  unfolding resetConditions_def by (intro em.structural emits_prims)

lemma keeps_resetConditions: "hist_free f \<Longrightarrow> keeps f (resetConditions E n)"
  unfolding resetConditions_def by (intro kp.structural keeps_prims)

lemma keeps_gracefulMode: "hist_free f \<Longrightarrow> keeps f (gracefulMode E node cluster reset)"
  unfolding gracefulMode_def by (intro kp.structural keeps_prims)

lemma resetBody_mutex: "keeps st_mutex (resetBody E cluster node os)"
  unfolding resetBody_def resetPending_def resetDraining_def resetApplying_def resetVerifying_def
    resetWiped_def
  by (intro kp.structural keeps_prims keeps_reads keeps_updateOpStatus keeps_doNodeDrain
      keeps_gracefulMode keeps_updateNode keeps_updateNodeStatus keeps_resetConditions) simp_all

lemma resetBody_calls: "emits (allowed (reset_next os) (reset_does os)) (resetBody E cluster node os)"
  unfolding resetBody_def resetPending_def resetDraining_def resetApplying_def resetVerifying_def
    resetWiped_def gracefulMode_def
  by (intro em.structural emits_prims phases_reads phases_doNodeDrain emits_updateOpStatus
      emits_updateNode emits_status_phase only_status_resetConditions emits_resetConditions)
    (auto simp: reset_next_def reset_does_def)

interpretation reset: guarded_operation E isReset "resetBody E" reset_next reset_does "handleNodeReset E" for E
  by unfold_locales (simp_all add: handleNodeReset_def resetBody_mutex resetBody_calls)

text \<open>
  C28. A Reset operation moves along Pending, Draining, Applying, Verifying and Done only
  (Draining and Applying may fail). The machine is wiped in Applying only, with exactly
  the request made of the operation's options; the node is deleted from the managed
  cluster in Verifying only, and only when the state partition counts as wiped.
\<close>

theorem handleNodeReset_phases:
  assumes "n_OpStatus (st_node s) = Some os" and "handleNodeReset E cluster s = (r, s')"
  shows "grows (allowed (reset_next os) (reset_does os)) s s'"
  using assms by (rule reset.calls)

theorem handleNodeReset_phases_witness:
  "grows (allowed (reset_next (demo_op NodeOperationTypeReset NodeOperationPhaseApplying))
      (reset_does (demo_op NodeOperationTypeReset NodeOperationPhaseApplying)))
    (demo_op_st (demo_op NodeOperationTypeReset NodeOperationPhaseApplying))
    (snd (handleNodeReset (demo_op_env (demo_op NodeOperationTypeReset NodeOperationPhaseApplying)) demo_cluster
      (demo_op_st (demo_op NodeOperationTypeReset NodeOperationPhaseApplying))))"
  by (rule handleNodeReset_phases [OF _ prod.collapse [symmetric]])
    (simp add: demo_op_st_def demo_op_node_def)

section \<open>The finalizer\<close>

text \<open>Writes outside the status: only ever the removal of the operator's finalizer.\<close>

definition finalizer_write :: "Node \<Rightarrow> call \<Rightarrow> bool" where
  "finalizer_write node c \<longleftrightarrow>
    (\<forall>b n. c = Api (UpdateNode b n) \<longrightarrow>
      n = b\<lparr>n_Finalizers := filter (\<lambda>f. f \<noteq> NodeFinalizer) (n_Finalizers node)\<rparr>)"

fun no_update :: "call \<Rightarrow> bool" where
  "no_update (Api (UpdateNode b n)) = False"
| "no_update c = True"

lemma no_update_read: "is_read c \<Longrightarrow> no_update c"
  by (cases c rule: no_update.cases) auto

lemma no_update_status:
  "(\<And>n. emits no_update (fn n)) \<Longrightarrow> emits no_update (updateNodeStatus E fn)"
  by (intro emits_updateNodeStatus) auto

lemma no_update_op: "emits no_update (updateOpStatus E p r m)"
  unfolding updateOpStatus_def by (intro em.structural no_update_status emits_set_op_fields) simp

lemma no_update_drain: "emits no_update (doNodeDrain E r node cluster p)"
  unfolding doNodeDrain_def drainPods_def
  by (intro em.structural emits_prims emits_evictAll no_update_op) simp_all

lemma emitsD_mem:
  "emits A m \<Longrightarrow> m s = (r, s') \<Longrightarrow> st_hist s' = new @ st_hist s \<Longrightarrow> c \<in> set new \<Longrightarrow> A c"
  by (auto simp: grows_def dest!: stepsD)

lemma finalizer_write_updateNode:
  "emits (finalizer_write node)
    (updateNode E (\<lambda>n. ret (n\<lparr>n_Finalizers := filter (\<lambda>item. item \<noteq> NodeFinalizer) (n_Finalizers node)\<rparr>)))"
  by (intro emits_updateNode em.basic) (auto simp: finalizer_write_def go_ok)

lemma no_update_finalizer: "no_update c \<Longrightarrow> finalizer_write node c"
  by (auto simp: finalizer_write_def)

lemma finalizer_write_resetWiped: "emits (finalizer_write node) (resetWiped E node cluster)"
proof -
  have "emits (finalizer_write node) (updateNodeStatus E (resetConditions E))"
    by (rule emits_mono [OF no_update_status]) (auto intro: emits_resetConditions no_update_finalizer)
  then show ?thesis
    unfolding resetWiped_def Let_def
    by (intro em.structural emits_prims finalizer_write_updateNode phases_reads)
      (auto intro: no_update_finalizer no_update_read)
qed

text \<open>In Verifying the node is written only after the machine has failed to answer.\<close>

lemma resetVerifying_update:
  assumes run: "resetVerifying E node cluster os s = (r, s')"
    and new: "st_hist s' = new @ st_hist s" and upd: "\<not> no_update c" "c \<in> set new"
  shows "stateWiped os \<and> finalizer_write node c \<and>
    (\<exists>later before t e. st_hist s' = later @ Talos t TVersion # before \<and>
      e_unit E before (Talos t TVersion) = Some e)"
proof -
  let ?g = "wrapE (msgtxt ''failed to get Talos client for verification'') (getTalosClient E node cluster)"
  let ?rest = "andThen (if stateWiped os then resetWiped E node cluster else ret ()) (
        andThen (updateOpStatus E NodeOperationPhaseDone OperationReasonCompleted
          (msgtxt ''Node reset operation completed successfully''))
          (ret (Some RequeueShortDelay)))"
  have g: "emits no_update ?g" by (intro em.structural phases_reads no_update_read)
  obtain rg sg where G: "?g s = (rg, sg)" by (cases "?g s")
  obtain cg where cg: "st_hist sg = cg @ st_hist s" "\<And>c. c \<in> set cg \<Longrightarrow> no_update c"
    using stepsD [OF g G] by (auto simp: grows_def)
  have stop: False if "st_hist s' = cs @ st_hist s" "\<And>c. c \<in> set cs \<Longrightarrow> no_update c" for cs
    using that new upd by auto
  obtain tc where tc: "rg = Ok tc"
  proof (cases rg)
    case (Err e)
    then show ?thesis using run G cg stop by (auto simp: resetVerifying_def go_run)
  next
    case (Panic p)
    then show ?thesis using run G cg stop by (auto simp: resetVerifying_def go_run)
  qed (use that in blast)
  let ?v = "Talos tc TVersion"
  let ?s2 = "sg\<lparr>st_hist := ?v # st_hist sg\<rparr>"
  obtain e where e: "e_unit E (st_hist sg) ?v = Some e"
  proof (cases "e_unit E (st_hist sg) ?v")
    case None
    then have "s' = ?s2" using run G tc by (simp add: resetVerifying_def go_run)
    moreover have "no_update c" if "c \<in> set (?v # cg)" for c using that cg(2) by auto
    ultimately show ?thesis using stop [of "?v # cg"] cg(1) by simp
  qed (use that in blast)
  have rest: "?rest ?s2 = (r, s')" using run G tc e by (simp add: resetVerifying_def go_run)
  have fw: "emits (\<lambda>c. finalizer_write node c \<and> (\<not> no_update c \<longrightarrow> stateWiped os)) ?rest"
    by (intro em.structural emits_prims emits_mono [OF no_update_op] emits_mono [OF finalizer_write_resetWiped])
      (auto intro: no_update_finalizer)
  obtain cr where cr: "st_hist s' = cr @ st_hist ?s2"
    "\<And>c. c \<in> set cr \<Longrightarrow> finalizer_write node c \<and> (\<not> no_update c \<longrightarrow> stateWiped os)"
    using stepsD [OF fw rest] by (auto simp: grows_def)
  have "c \<in> set cr"
    using new upd cr(1) cg by auto
  with cr upd e show ?thesis by auto
qed

text \<open>Only Verifying writes the node, after the client has been made.\<close>

lemma no_update_resetBody:
  "nos_Phase os \<noteq> NodeOperationPhaseVerifying \<Longrightarrow> emits no_update (resetBody E cluster node os)"
  unfolding resetBody_def resetPending_def resetDraining_def resetApplying_def gracefulMode_def
  by (intro em.structural emits_prims phases_reads no_update_op no_update_drain) (auto intro: no_update_read)

lemma resetBody_update:
  assumes "resetBody E cluster node os s1 = (r1, s2)" and "st_hist s2 = cs @ st_hist s1" and "Api (UpdateNode b n) \<in> set cs"
  shows "nos_Phase os = NodeOperationPhaseVerifying \<and>
    (\<exists>sg cv. resetVerifying E node cluster os sg = (r1, s2) \<and> st_hist s2 = cv @ st_hist sg \<and> Api (UpdateNode b n) \<in> set cv)"
proof -
  let ?g = "wrapE (msgtxt ''failed to get Talos client'') (getTalosClient E node cluster)"
  have ver: "nos_Phase os = NodeOperationPhaseVerifying"
  proof (rule ccontr)
    assume "nos_Phase os \<noteq> NodeOperationPhaseVerifying"
    from stepsD [OF no_update_resetBody [OF this] assms(1)] assms(2,3) show False by (auto simp: grows_def)
  qed
  obtain rg sg where G: "?g s1 = (rg, sg)" by (cases "?g s1")
  have "emits no_update ?g" by (intro em.structural phases_reads no_update_read)
  from stepsD [OF this G] have pre: "st_hist s2 = cv @ st_hist sg \<Longrightarrow> Api (UpdateNode b n) \<in> set cv" for cv
    using assms(2,3) by (fastforce simp: grows_def)
  have "\<exists>tc. rg = Ok tc"
  proof (rule ccontr)
    assume "\<nexists>tc. rg = Ok tc"
    then have "s2 = sg" using assms(1) G by (cases rg) (simp_all add: resetBody_def go_run)
    then show False using pre [of "[]"] by simp
  qed
  then have v: "resetVerifying E node cluster os sg = (r1, s2)"
    using assms(1) G ver by (auto simp: resetBody_def go_run)
  have "emits (\<lambda>_. True) (resetVerifying E node cluster os)"
    unfolding resetVerifying_def
    by (intro em.structural emits_prims phases_reads emits_mono [OF no_update_op]
        emits_mono [OF finalizer_write_resetWiped]) simp_all
  from this v obtain cv where "st_hist s2 = cv @ st_hist sg" by (rule emitsD)
  with ver v pre show ?thesis by blast
qed

text \<open>
  C1. The finalizer keeps a node until its machine is gone: a Reset writes the node itself
  only to take the operator's finalizer off, and only in Verifying, when the state
  partition counts as wiped and the machine has stopped answering. Everything else about
  the node is written as it was read.
\<close>

theorem handleNodeReset_finalizer:
  assumes "n_OpStatus (st_node s) = Some os" and "handleNodeReset E cluster s = (r, s')"
    and "st_hist s' = new @ st_hist s" and "Api (UpdateNode b n) \<in> set new"
  shows "nos_Phase os = NodeOperationPhaseVerifying \<and> stateWiped os \<and>
    n = b\<lparr>n_Finalizers := filter (\<lambda>f. f \<noteq> NodeFinalizer) (n_Finalizers (st_node s))\<rparr> \<and>
    (\<exists>later before t e. st_hist s' = later @ Talos t TVersion # before \<and>
      e_unit E before (Talos t TVersion) = Some e)"
proof -
  have stop: False if "st_hist s' = cs @ st_hist s" "\<forall>c\<in>set cs. no_update c" for cs
    using that assms(3,4) by fastforce
  from assms(1,2) show ?thesis
  proof (cases rule: reset.handler_cases)
    case 1
    then show ?thesis using stop [of "[]"] by simp
  next
    case 2
    then show ?thesis using stop [of "[list_others cluster (st_node s)]"] by (simp add: list_others_def)
  next
    case (3 s1 r1 s2)
    from resetBody_calls 3(3) obtain cs where cs: "st_hist s2 = cs @ st_hist s1" by (rule emitsD)
    then have "Api (UpdateNode b n) \<in> set cs" using assms(3,4) 3(1,4) by (auto simp: list_others_def)
    from resetBody_update [OF 3(3) cs this] obtain sg cv where
      "nos_Phase os = NodeOperationPhaseVerifying" "resetVerifying E (st_node s) cluster os sg = (r1, s2)"
      "st_hist s2 = cv @ st_hist sg" "Api (UpdateNode b n) \<in> set cv" by blast
    with resetVerifying_update [of E "st_node s" cluster os sg r1 s2 cv "Api (UpdateNode b n)"] 3(4) show ?thesis
      by (simp add: finalizer_write_def)
  qed
qed

definition demo_reset_os :: NodeOperationStatus where
  "demo_reset_os = demo_op NodeOperationTypeReset NodeOperationPhaseVerifying"

definition demo_reset_env :: env where
  "demo_reset_env = (demo_op_env demo_reset_os)
    \<lparr>e_unit := \<lambda>h c. case c of Talos t TVersion \<Rightarrow> Some (errorf ''unreachable'') | _ \<Rightarrow> None\<rparr>"

definition demo_reset :: "result outcome \<times> st" where
  "demo_reset = handleNodeReset demo_reset_env demo_cluster (demo_op_st demo_reset_os)"

lemma demo_reset_updates: "list_ex (\<lambda>c. \<not> no_update c) (st_hist (snd demo_reset))"
  by (simp add: demo_reset_def demo_reset_env_def demo_reset_os_def handleNodeReset_def resetBody_def
      resetVerifying_def resetWiped_def resetConditions_def stateWiped_def isReset_def
      demo_defs helper_defs go_eval)

theorem handleNodeReset_finalizer_witness:
  "\<exists>b n. Api (UpdateNode b n) \<in> set (st_hist (snd demo_reset)) \<and> stateWiped demo_reset_os \<and>
     n = b\<lparr>n_Finalizers := []\<rparr>"
proof -
  obtain r s' where run: "demo_reset = (r, s')" by (cases demo_reset)
  from demo_reset_updates obtain c where "c \<in> set (st_hist s')" "\<not> no_update c"
    unfolding run list_ex_iff snd_conv by blast
  then obtain b n where u: "Api (UpdateNode b n) \<in> set (st_hist s')"
    by (cases c rule: no_update.cases) auto
  have node: "st_node (demo_op_st demo_reset_os) = demo_op_node demo_reset_os"
    and new: "st_hist s' = st_hist s' @ st_hist (demo_op_st demo_reset_os)"
    by (simp_all add: demo_op_st_def demo_st_def)
  have os: "n_OpStatus (st_node (demo_op_st demo_reset_os)) = Some demo_reset_os"
    by (simp add: node demo_op_node_def)
  have "n_Finalizers (st_node (demo_op_st demo_reset_os)) = []"
    by (simp add: node demo_op_node_def demo_node_def)
  with handleNodeReset_finalizer [OF os run [unfolded demo_reset_def] new u] u show ?thesis
    unfolding run snd_conv by auto
qed

section \<open>Options that are not kept\<close>



end
