(* ===== verification/NodeBootstrap.thy ===== *)
theory NodeBootstrap
  imports K8sHelpers
begin

text \<open>
  \<^verbatim>\<open>internal/controller/node_controller_bootstrap.go\<close>: the Bootstrap operation of a
  node. It checks the other nodes of the cluster but does not take the cluster's mutex.
\<close>

definition bootstrapPending :: "env \<Rightarrow> result ctl" where
  "bootstrapPending E =
    andThen (updateOpStatus E NodeOperationPhaseApplying OperationReasonStarted
      (msgtxt ''Started bootstrap of node'')) (
    andThen (event EventTypeNormal EventReasonStarted EventActionBootstrap)
      (ret (Some RequeueShortDelay)))"

definition bootstrapApplying :: "env \<Rightarrow> Node \<Rightarrow> Cluster \<Rightarrow> result ctl" where
  "bootstrapApplying E node cluster =
    bindE (getTalosClient E node cluster) (\<lambda>talosClient.
    onErr (act E (Talos talosClient TBootstrap))
      (\<lambda>err.
        andThen (event EventTypeWarning EventReasonFailed EventActionBootstrap) (
        andThen (wrapE (msgtxt ''failed to update node operation status after bootstrap failure'')
          (updateOpStatus E NodeOperationPhaseFailed NodeOperationReasonFailedBootstrap
            (msgtxt ''Bootstrap of node failed: '' @ emsg err)))
          (ret None)))
      (\<lambda>_.
        andThen (updateOpStatus E NodeOperationPhaseDone OperationReasonCompleted
          (msgtxt ''Bootstrap of node completed successfully'')) (
        andThen (event EventTypeNormal EventReasonCompleted EventActionBootstrap)
          (ret (Some RequeueShortDelay)))))"

definition bootstrapBody :: "env \<Rightarrow> Cluster \<Rightarrow> Node \<Rightarrow> NodeOperationStatus \<Rightarrow> result ctl" where
  "bootstrapBody E cluster node opStatus =
    (if nos_Phase opStatus = NodeOperationPhasePending then bootstrapPending E
     else if nos_Phase opStatus = NodeOperationPhaseApplying then bootstrapApplying E node cluster
     else ret (Some RequeueShortDelay))"

definition handleNodeBootstrap :: "env \<Rightarrow> Cluster \<Rightarrow> result ctl" where
  "handleNodeBootstrap E cluster =
    bindE (gets st_node) (\<lambda>node.
      if isOperationComplete node then ret None
      else (case n_OpStatus node of
          None \<Rightarrow> ret None
        | Some opStatus \<Rightarrow>
            if nos_Type opStatus \<noteq> NodeOperationTypeBootstrap then ret None
            else checkOthers E cluster node (bootstrapBody E cluster node opStatus)))"

section \<open>Phases\<close>

definition bootstrap_next :: "NodeOperationStatus \<Rightarrow> string set" where
  "bootstrap_next os =
    (if nos_Phase os = NodeOperationPhasePending then {NodeOperationPhaseApplying}
     else if nos_Phase os = NodeOperationPhaseApplying
     then {NodeOperationPhaseFailed, NodeOperationPhaseDone}
     else {})"

definition bootstrap_does :: "NodeOperationStatus \<Rightarrow> call \<Rightarrow> bool" where
  "bootstrap_does os c \<longleftrightarrow> nos_Phase os = NodeOperationPhaseApplying \<and> (\<exists>t. c = Talos t TBootstrap)"

lemma bootstrapBody_mutex: "keeps st_mutex (bootstrapBody E cluster node os)"
  unfolding bootstrapBody_def bootstrapPending_def bootstrapApplying_def
  by (intro kp.structural keeps_prims keeps_reads keeps_updateOpStatus) simp_all

lemma bootstrapBody_calls:
  "emits (allowed (bootstrap_next os) (bootstrap_does os)) (bootstrapBody E cluster node os)"
  unfolding bootstrapBody_def bootstrapPending_def bootstrapApplying_def
  by (intro em.structural emits_prims phases_reads emits_updateOpStatus)
    (auto simp: bootstrap_next_def bootstrap_does_def)

lemma handleNodeBootstrap_calls:
  assumes "n_OpStatus (st_node s) = Some os" and "handleNodeBootstrap E cluster s = (r, s')"
  shows "grows (allowed (bootstrap_next os) (bootstrap_does os)) s s'"
proof -
  let ?m = "if isOperationComplete (st_node s) then ret None
    else if nos_Type os \<noteq> NodeOperationTypeBootstrap then ret None
    else checkOthers E cluster (st_node s) (bootstrapBody E cluster (st_node s) os)"
  have "handleNodeBootstrap E cluster s = ?m s"
    using assms(1) by (simp add: handleNodeBootstrap_def go_eval)
  moreover have "emits (allowed (bootstrap_next os) (bootstrap_does os)) ?m"
    by (intro em.structural emits_checkOthers bootstrapBody_calls) simp
  ultimately show ?thesis using assms(2) by (metis stepsD)
qed

lemma handleNodeBootstrap_mutex: "keeps st_mutex (handleNodeBootstrap E cluster)"
  unfolding handleNodeBootstrap_def checkOthers_def
  by (intro kp.structural keeps_areOtherOperationsInProgress bootstrapBody_mutex)

end
