(* ===== verification/NodeProvision.thy ===== *)
theory NodeProvision
  imports NodeUpgrade
begin

text \<open>
  \<^verbatim>\<open>internal/controller/node_controller_provision.go\<close>: the Provision operation, which
  sends the first configuration to a machine in maintenance mode. It takes no mutex and
  looks at no other node.
\<close>

section \<open>The phases\<close>

definition provisionCond :: "env \<Rightarrow> string \<Rightarrow> cond_status \<Rightarrow> string \<Rightarrow> string \<Rightarrow> string \<Rightarrow> unit ctl" where
  "provisionCond E pre status reason type message =
    wrapE pre (updateNodeStatus E (set_cond E type status reason message))"

definition provisionPending :: "env \<Rightarrow> Node \<Rightarrow> NodeOperationStatus \<Rightarrow> result ctl" where
  "provisionPending E node opStatus =
    (if IsTrue E (n_Conditions node) NodeConditionProvisioned
     then andThen (updateOpStatus E NodeOperationPhaseFailed NodeOperationReasonAlreadyProvisionedNode
            (msgtxt ''Node is already provisioned, ignoring request'')) (ret None)
     else if poo_Skip (no_Provision (nos_op opStatus))
     then andThen (provisionCond E (msgtxt ''failed to update node status for skipped provisioning'')
            CTrue NodeConditionReasonSkippedProvisioning NodeConditionProvisioned
            (msgtxt ''Provisioning operation was skipped as per request'')) (
          andThen (event EventTypeNormal EventReasonSkipped EventActionProvision) (
          andThen (updateOpStatus E NodeOperationPhaseProvisionVerifying NodeOperationReasonSkippedProvisioning
            (msgtxt ''Provisioning operation was skipped as per request''))
            (ret (Some RequeueShortDelay))))
     else andThen (event EventTypeNormal EventReasonStarted EventActionProvision) (
          andThen (updateOpStatus E NodeOperationPhaseProvisioning OperationReasonStarted
            (msgtxt ''Started provisioning of node''))
            (ret (Some RequeueShortDelay))))"

text \<open>A client without certificate for the address of the machine.\<close>

definition insecureClient :: "string \<Rightarrow> TalosClient" where
  "insecureClient address =
    \<lparr>tc_node = address, tc_endpoints = [address], tc_override = None, tc_secure = False\<rparr>"

text \<open>The status after the configuration was accepted (lines 263 to 275).\<close>

definition provisionedStatus :: "env \<Rightarrow> string \<Rightarrow> Node \<Rightarrow> Node ctl" where
  "provisionedStatus E encodedCfg n =
    (case n_OpStatus n of
       None \<Rightarrow> panic (msgtxt ''nil pointer dereference: node.Status.Operation'')
     | Some _ \<Rightarrow> bindE (now E) (\<lambda>t.
         set_cond E NodeConditionProvisioned CTrue NodeConditionReasonSuccessfulApply
           (msgtxt ''Successfully applied Talos config to node in maintenance mode'')
           (map_OpStatus (\<lambda>os. os\<lparr>nos_Phase := NodeOperationPhaseProvisionVerifying,
                nos_Reason := NodeOperationReasonSuccessfulApply,
                nos_Message := msgtxt ''Applied Talos config, waiting for node to leave maintenance mode'',
                nos_LastTransitionTime := t\<rparr>)
             (upd_status (\<lambda>st. st\<lparr>nst_AppliedConfigHash := lib_sha256Sum (e_lib E) encodedCfg\<rparr>) n))))"

definition sendProvision :: "env \<Rightarrow> TalosClient \<Rightarrow> string \<Rightarrow> result ctl" where
  "sendProvision E client encodedCfg =
    onErr (ask (e_modes E) (Talos client (TApplyConfiguration False encodedCfg)))
      (\<lambda>err. andThen (provisionCond E (msgtxt ''failed to update node provisioned status with apply failure'')
          CFalse NodeConditionReasonFailedApply NodeConditionProvisioned
          (msgtxt ''Failed to apply Talos config to node: '' @ emsg err))
          (ret (Some RequeueStandardDelay)))
      (\<lambda>_. andThen (wrapE (msgtxt ''failed to update node status after successful apply'')
          (updateNodeStatus E (provisionedStatus E encodedCfg)))
          (ret (Some RequeueShortDelay)))"

definition provisioning :: "env \<Rightarrow> Node \<Rightarrow> NodeOperationStatus \<Rightarrow> result ctl" where
  "provisioning E node opStatus =
    (let client = insecureClient (poo_Address (no_Provision (nos_op opStatus))) in
     andThen (wrapE (msgtxt ''failed to create insecure Talos client'') (act E (Talos client TNewClient))) (
     onErr (act E (Talos client TDisks))
       (\<lambda>err.
         if Contains (emsg err) ''tls: certificate required''
         then andThen (updateOpStatus E NodeOperationPhaseFailed NodeOperationReasonAlreadyProvisionedTarget
                (msgtxt ''Target address is an already provisioned Talos node'')) (ret None)
         else andThen (provisionCond E (msgtxt ''failed to update node provisioned status to unreachable'')
                CFalse NodeReasonNodeUnreachable NodeConditionProvisioned
                (msgtxt ''Node is not reachable and not provisioned (will keep trying): '' @ emsg err))
                (ret (Some RequeueStandardDelay)))
       (\<lambda>_.
     onErr (GenerateMachineConfig E node (NewGenerateMachineConfigOptions E))
       (\<lambda>err. andThen (provisionCond E
           (msgtxt ''failed to update node provisioned status with config generation failure'')
           CFalse NodeReasonConfigGenerationFailed NodeConditionProvisioned
           (msgtxt ''Failed to generate Talos config for node: '' @ emsg err)) (ret None))
       (\<lambda>(cfg, _).
     onErr (lift (EncodeMachineConfig E cfg False))
       (\<lambda>err. andThen (provisionCond E
           (msgtxt ''failed to update node provisioned status with config encoding failure'')
           CFalse NodeReasonConfigSerializationFailed NodeConditionProvisioned
           (msgtxt ''Failed to encode Talos config for node: '' @ emsg err)) (ret None))
       (\<lambda>encodedCfg. sendProvision E client encodedCfg)))))"

text \<open>Lines 368 and 369; unlike Apply this asks only for a schematic that is not empty.\<close>

definition nodeNeedsUpdate ::
    "env \<Rightarrow> Version \<Rightarrow> string \<Rightarrow> string \<Rightarrow> go_error + (Version \<times> string) \<Rightarrow> bool" where
  "nodeNeedsUpdate E talosVersion talosSchematicID desiredImage parsed =
    (case parsed of
       Inl _ \<Rightarrow> False
     | Inr (desiredTalosVersion, desiredSchematicID) \<Rightarrow>
         desiredImage \<noteq> [] \<and>
         (\<not> lib_version_EQ (e_lib E) desiredTalosVersion talosVersion \<or>
          desiredSchematicID \<noteq> [] \<and> desiredSchematicID \<noteq> talosSchematicID))"

text \<open>
  The machine answers with the new certificate (lines 328 to 409). The configuration is
  generated from the node as the write of the finalizer has left it.
\<close>

definition provisioned :: "env \<Rightarrow> TalosClient \<Rightarrow> result ctl" where
  "provisioned E talosClient =
    andThen (wrapE (msgtxt ''failed to add finalizer to node after provisioning'')
      (updateNode E (\<lambda>n. ret (n\<lparr>n_Finalizers := lib_Uniq (e_lib E) (n_Finalizers n @ [NodeFinalizer])\<rparr>)))) (
    bindE (gets st_node) (\<lambda>node.
    bindE (wrapE (msgtxt ''failed to generate machine config for image check'')
      (GenerateMachineConfig E node (NewGenerateMachineConfigOptions E))) (\<lambda>(cfg, _).
    case GetInstallImage E cfg of
      Inl err \<Rightarrow>
        andThen (wrapE (msgtxt ''failed to update operation status after failing to get desired install image'')
          (updateOpStatus E NodeOperationPhaseFailed NodeOperationReasonFailedImageValidation
            (msgtxt ''Failed to get desired install image: '' @ emsg err))) (ret None)
    | Inr desiredImage \<Rightarrow>
        bindE (wrapE (msgtxt ''failed to get node Talos release for image check'')
          (getNodeTalosRelease E talosClient)) (\<lambda>(talosVersion, talosSchematicID).
        andThen (if nodeNeedsUpdate E talosVersion talosSchematicID desiredImage
                      (parseImageTalosRelease E desiredImage)
                 then provisionCond E (msgtxt ''failed to set node condition for initial update needed'')
                        CTrue NodeConditionReasonNodeNeedsInitialUpdate NodeConditionNeedsInitialUpdate
                        (msgtxt ''Node is running an OS image that doesn't match the desired image.  An Apply should be started to resolve this.'')
                 else ret ()) (
        andThen (updateOpStatus E NodeOperationPhaseDone OperationReasonCompleted
          (msgtxt ''Node provisioned'')) (
        andThen (event EventTypeNormal EventReasonCompleted EventActionProvision)
          (ret (Some RequeueShortDelay))))))))"

definition provisionVerifying ::
    "env \<Rightarrow> TalosClient \<Rightarrow> Cluster \<Rightarrow> NodeOperationStatus \<Rightarrow> result ctl" where
  "provisionVerifying E talosClient cluster opStatus =
    (let (phaseTimeout, invalid) = GetPhaseTimeout (cs_Options (c_Spec cluster)) in
     andThen (if invalid then event EventTypeWarning EventReasonValidationError EventActionProvision
              else ret ()) (
     bindE (time_Since E (nos_LastTransitionTime opStatus)) (\<lambda>elapsed.
     if phaseTimeout < elapsed
     then andThen (updateOpStatus E NodeOperationPhaseFailed NodeOperationReasonTimedOutVerifyingProvision
            (msgtxt ''Timed out waiting for node to become provisioned'')) (ret None)
     else onErr (act E (Talos talosClient TDisks))
       (\<lambda>err. andThen (provisionCond E
           (msgtxt ''failed to update node provisioned status while waiting for node to become provisioned'')
           CFalse NodeConditionReasonWaitingForNode NodeConditionReady
           (msgtxt ''Node is still in maintenance mode, waiting to become provisioned: '' @ emsg err))
           (ret (Some RequeueStandardDelay)))
       (\<lambda>_. provisioned E talosClient))))"

section \<open>The handler\<close>

text \<open>
  Without an address and without Skip the operation fails. The condition set on the node
  in memory is overwritten when the status is written from a fresh copy.
\<close>

definition provisionInvalid :: "env \<Rightarrow> Node \<Rightarrow> result ctl" where
  "provisionInvalid E node =
    andThen (bindE (set_cond E NodeConditionProvisioned CFalse NodeConditionReasonInvalidArguments
        (msgtxt ''Provision operation requires a valid address'') node) set_node) (
    andThen (updateOpStatus E NodeOperationPhaseFailed NodeOperationReasonInvalidArguments
      (msgtxt ''Provision operation requires a valid address''))
      (ret None))"

definition provisionBody :: "env \<Rightarrow> Cluster \<Rightarrow> Node \<Rightarrow> NodeOperationStatus \<Rightarrow> result ctl" where
  "provisionBody E cluster node opStatus =
    (if poo_Address (no_Provision (nos_op opStatus)) = [] \<and> \<not> poo_Skip (no_Provision (nos_op opStatus))
     then provisionInvalid E node
     else if nos_Phase opStatus = NodeOperationPhaseProvisioning then provisioning E node opStatus
     else bindE (wrapE (msgtxt ''failed to create Talos client'') (getTalosClient E node cluster)) (\<lambda>talosClient.
       if nos_Phase opStatus = NodeOperationPhasePending then provisionPending E node opStatus
       else if nos_Phase opStatus = NodeOperationPhaseProvisionVerifying
       then provisionVerifying E talosClient cluster opStatus
       else ret (Some RequeueShortDelay)))"

definition handleNodeProvisioning :: "env \<Rightarrow> Cluster \<Rightarrow> result ctl" where
  "handleNodeProvisioning E cluster =
    bindE (gets st_node) (\<lambda>node.
      if isOperationComplete node then ret None
      else (case n_OpStatus node of
          None \<Rightarrow> ret None
        | Some opStatus \<Rightarrow>
            if nos_Type opStatus \<noteq> NodeOperationTypeProvision then ret None
            else provisionBody E cluster node opStatus))"

section \<open>Where the phases lead\<close>

definition provision_next :: "NodeOperationStatus \<Rightarrow> string set" where
  "provision_next os =
    insert NodeOperationPhaseFailed
    (if nos_Phase os = NodeOperationPhasePending
     then {if poo_Skip (no_Provision (nos_op os)) then NodeOperationPhaseProvisionVerifying
           else NodeOperationPhaseProvisioning}
     else if nos_Phase os = NodeOperationPhaseProvisioning then {NodeOperationPhaseProvisionVerifying}
     else if nos_Phase os = NodeOperationPhaseProvisionVerifying then {NodeOperationPhaseDone}
     else {})"

definition provision_does :: "NodeOperationStatus \<Rightarrow> call \<Rightarrow> bool" where
  "provision_does os c \<longleftrightarrow>
    nos_Phase os = NodeOperationPhaseProvisioning \<and>
    (\<exists>cfg. c = Talos (insecureClient (poo_Address (no_Provision (nos_op os)))) (TApplyConfiguration False cfg))"

lemma phases_provisionCond: "emits (allowed Q D) (provisionCond E pre st r ty m)"
  unfolding provisionCond_def
  by (intro em.structural emits_status_phase only_status_set_cond emits_set_cond) simp

lemma keeps_provisionCond: "keeps st_mutex (provisionCond E pre st r ty m)"
  unfolding provisionCond_def by (intro kp.structural keeps_updateNodeStatus keeps_prims) simp

lemma provisionedStatus_ok:
  assumes "provisionedStatus E cfg n s = (Ok n', s')"
  obtains os os' where "n_OpStatus n = Some os" and "n_OpStatus n' = Some os'" and "nos_op os' = nos_op os"
    and "nos_Phase os' = NodeOperationPhaseProvisionVerifying" and "n'\<lparr>n_Status := n_Status n\<rparr> = n"
proof (cases "n_OpStatus n")
  case None
  with assms show ?thesis by (simp add: provisionedStatus_def run_basic)
next
  case (Some os)
  with assms that show ?thesis
    by (auto simp: provisionedStatus_def run_bindE run_now set_cond_def SetStatusCondition_def go_ok map_OpStatus_def)
qed

lemma emits_provisionedStatus: "A (Sys Now) \<Longrightarrow> emits A (provisionedStatus E cfg n)"
  unfolding provisionedStatus_def by (intro em.structural emits_prims)

lemma keeps_provisionedStatus: "hist_free f \<Longrightarrow> keeps f (provisionedStatus E cfg n)"
  unfolding provisionedStatus_def by (intro kp.structural keeps_prims)

lemma phases_provisioned:
  assumes "NodeOperationPhaseProvisionVerifying \<in> Q"
  shows "emits (allowed Q D) (updateNodeStatus E (provisionedStatus E cfg))"
proof (intro emits_updateNodeStatus emits_provisionedStatus)
  fix n n' :: Node and s s' :: st
  assume "provisionedStatus E cfg n s = (Ok n', s')"
  then show "allowed Q D (Api (StatusUpdateNode n n'))"
    by (rule provisionedStatus_ok) (use assms in \<open>simp add: allowed_def phase_writes_def op_step_def\<close>)
qed simp_all

lemma phases_updateNode: "(\<And>n. emits (allowed Q D) (fn n)) \<Longrightarrow> emits (allowed Q D) (updateNode E fn)"
  by (intro emits_updateNode) simp_all

lemmas provision_defs = provisionBody_def provisionInvalid_def provisionPending_def provisioning_def
  sendProvision_def provisionVerifying_def provisioned_def

lemma provisionBody_calls:
  "emits (allowed (provision_next os) (provision_does os)) (provisionBody E cluster node os)"
  unfolding provision_defs
  by (intro em.structural emits_prims phases_reads phases_provisionCond phases_provisioned phases_updateNode
      emits_updateOpStatus)
    (auto simp: provision_next_def provision_does_def)

lemma provisionBody_mutex: "keeps st_mutex (provisionBody E cluster node os)"
  unfolding provision_defs
  by (intro kp.structural keeps_prims keeps_reads keeps_provisionCond keeps_updateNodeStatus
      keeps_provisionedStatus keeps_updateNode keeps_updateOpStatus) simp_all

text \<open>
  A Provision operation moves along its phases only: Pending to Provisioning (or, when
  it is to be skipped, to ProvisionVerifying), Provisioning to ProvisionVerifying, and
  ProvisionVerifying to Done; every phase may fail. The only thing it does to a machine is
  to send a configuration, in Provisioning, without a certificate and to the address of
  the operation.
\<close>

theorem handleNodeProvisioning_phases:
  assumes "n_OpStatus (st_node s) = Some os" and "handleNodeProvisioning E cluster s = (r, s')"
  shows "grows (allowed (provision_next os) (provision_does os)) s s'"
proof -
  have "emits (allowed (provision_next os) (provision_does os))
      (if isOperationComplete (st_node s) then ret None
       else if nos_Type os \<noteq> NodeOperationTypeProvision then ret None
       else provisionBody E cluster (st_node s) os)"
    by (intro em.structural provisionBody_calls)
  moreover have "handleNodeProvisioning E cluster s =
      (if isOperationComplete (st_node s) then ret None
       else if nos_Type os \<noteq> NodeOperationTypeProvision then ret None
       else provisionBody E cluster (st_node s) os) s"
    using assms(1) by (simp add: handleNodeProvisioning_def go_eval)
  ultimately show ?thesis using assms(2) by (metis stepsD)
qed

definition demo_provision_os :: "string \<Rightarrow> NodeOperationStatus" where
  "demo_provision_os phase = (demo_op NodeOperationTypeProvision phase)
    \<lparr>nos_op := NodeOperation_zero\<lparr>no_Type := NodeOperationTypeProvision,
      no_Provision := \<lparr>poo_Address = ''10.0.0.1'', poo_Skip = False\<rparr>\<rparr>\<rparr>"

theorem handleNodeProvisioning_phases_witness:
  "grows (allowed (provision_next (demo_provision_os NodeOperationPhasePending))
      (provision_does (demo_provision_os NodeOperationPhasePending)))
    (demo_op_st (demo_provision_os NodeOperationPhasePending))
    (snd (handleNodeProvisioning (demo_op_env (demo_provision_os NodeOperationPhasePending)) demo_cluster
      (demo_op_st (demo_provision_os NodeOperationPhasePending))))"
  by (rule handleNodeProvisioning_phases [OF _ prod.collapse [symmetric]])
    (simp add: demo_op_st_def demo_op_node_def)

section \<open>Which machine is provisioned\<close>

text \<open>A node that is already provisioned sends nothing.\<close>

lemma provisionPending_provisioned:
  "IsTrue E (n_Conditions node) NodeConditionProvisioned \<Longrightarrow>
   emits (allowed {NodeOperationPhaseFailed} (\<lambda>_. False)) (provisionPending E node os)"
  unfolding provisionPending_def by (auto intro!: em.structural emits_updateOpStatus)

definition sent_unclaimed :: "env \<Rightarrow> call list \<Rightarrow> call \<Rightarrow> bool" where
  "sent_unclaimed E h c \<longleftrightarrow>
    (\<forall>t cfg. c = Talos t (TApplyConfiguration False cfg) \<longrightarrow>
      \<not> tc_secure t \<and> succeeded E h (Talos t TDisks))"

lemma sent_unclaimed_quiet: "\<not> disruptive c \<Longrightarrow> sent_unclaimed E h c"
  by (auto simp: sent_unclaimed_def)

lemma quiet_unclaimed:
  assumes "emits (allowed Q (\<lambda>_. False)) m" and "persists F"
  shows "under F (sent_unclaimed E) m"
  using assms by (rule under_emits) (auto simp: allowed_def intro: sent_unclaimed_quiet)

lemma provisioning_unclaimed: "under (\<lambda>_. True) (sent_unclaimed E) (provisioning E node os)"
  unfolding provisioning_def sendProvision_def Let_def
  by (intro under_onErr_act under_structural under_prims quiet_unclaimed [where Q = UNIV]
      phases_reads phases_provisionCond phases_provisioned emits_updateOpStatus)
    (auto simp: sent_unclaimed_def insecureClient_def)

text \<open>
  C32. Provisioning sends a configuration only over a connection without certificate and
  only after the same connection was used to read the disks of the machine, that is to a
  machine in maintenance mode; a machine that already asks for a certificate is left alone.
\<close>

theorem provisioning_only_maintenance:
  assumes "provisioning E node os s = (r, s')"
    and "st_hist s' = later @ Talos t (TApplyConfiguration False cfg) # before @ st_hist s"
  shows "\<not> tc_secure t \<and> succeeded E (before @ st_hist s) (Talos t TDisks)"
  using justifiedD [OF underD [OF provisioning_unclaimed assms(1)] assms(2)]
  by (simp add: sent_unclaimed_def)


definition demo_provision :: "result outcome \<times> st" where
  "demo_provision = provisioning (demo_op_env (demo_provision_os NodeOperationPhaseProvisioning))
     (demo_op_node (demo_provision_os NodeOperationPhaseProvisioning))
     (demo_provision_os NodeOperationPhaseProvisioning)
     (demo_op_st (demo_provision_os NodeOperationPhaseProvisioning))"

fun sends_config :: "call \<Rightarrow> bool" where
  "sends_config (Talos t (TApplyConfiguration False cfg)) = True"
| "sends_config c = False"

lemma demo_provision_sends: "list_ex sends_config (st_hist (snd demo_provision))"
  by (simp add: demo_provision_def demo_provision_os_def provisioning_def sendProvision_def
      provisionedStatus_def insecureClient_def config_defs demo_defs helper_defs go_eval)

theorem provisioning_only_maintenance_witness:
  "\<exists>t cfg later before. st_hist (snd demo_provision) = later @ Talos t (TApplyConfiguration False cfg) # before \<and>
    \<not> tc_secure t \<and>
    succeeded (demo_op_env (demo_provision_os NodeOperationPhaseProvisioning)) before (Talos t TDisks)"
proof -
  obtain r s' where run: "demo_provision = (r, s')" by (cases demo_provision)
  obtain later c before where h: "st_hist s' = later @ c # before" "sends_config c"
    using list_ex_split [OF demo_provision_sends] unfolding run snd_conv by blast
  obtain t cfg where c: "c = Talos t (TApplyConfiguration False cfg)" using h(2) by (rule sends_config.elims)
  have e: "st_hist (demo_op_st (demo_provision_os NodeOperationPhaseProvisioning)) = []"
    by (simp add: demo_op_st_def demo_st_def)
  from provisioning_only_maintenance [OF run [unfolded demo_provision_def], of later t cfg before] h c e
  show ?thesis unfolding run snd_conv by (metis append_Nil2)
qed

end
