(* ===== verification/NodeStatus.thy ===== *)
theory NodeStatus
  imports K8sHelpers
begin

text \<open>
  \<^verbatim>\<open>internal/controller/node_controller_status.go\<close>: how the node controller finds out
  and records the state of a machine while no operation is under way, and the annotation
  with the next maintenance window that it keeps on the Kubernetes node. The node the code
  points to is the one in the state; it is read again after every write.
\<close>

section \<open>Reachability\<close>

text \<open>At most two more attempts after the first, unless the context ends in between.\<close>

fun tcpPingFrom :: "env \<Rightarrow> string \<Rightarrow> nat \<Rightarrow> bool ctl" where
  "tcpPingFrom E address 0 =
    onErr (act E (Sys (TCPDial address))) (\<lambda>_. ret False) (\<lambda>_. ret True)"
| "tcpPingFrom E address (Suc retries) =
    onErr (act E (Sys (TCPDial address)))
      (\<lambda>_. bindE (ask (\<lambda>h c. Inr (e_ctx_err E h)) (Sys CtxDone)) (\<lambda>cancelled.
         if cancelled then ret False else tcpPingFrom E address retries))
      (\<lambda>_. ret True)"

definition tcpPing :: "env \<Rightarrow> string \<Rightarrow> bool ctl" where
  "tcpPing E address = tcpPingFrom E address 2"

section \<open>The maintenance window annotation\<close>

definition updateKNode :: "env \<Rightarrow> Clientset \<Rightarrow> KNode \<Rightarrow> (string strmap \<Rightarrow> string strmap) \<Rightarrow> unit ctl" where
  "updateKNode E k8sClient k8sNode f =
    retryOnConflict (e_backoff_retries E) (
      bindE (wrapE (msgtxt ''failed to get Kubernetes node for annotation update'')
        (ask (e_knode E) (K8s k8sClient (KGetNode (kn_Name k8sNode))))) (\<lambda>fresh.
      act E (K8s k8sClient (KUpdateNode fresh (fresh\<lparr>kn_Annotations := f (kn_Annotations fresh)\<rparr>)))))"

definition nodeBumpMaintenanceWindowAnnotation :: "env \<Rightarrow> Cluster \<Rightarrow> Clientset \<Rightarrow> KNode \<Rightarrow> unit ctl" where
  "nodeBumpMaintenanceWindowAnnotation E cluster k8sClient k8sNode =
    (let next = cst_NextMaintenanceWindow (c_Status cluster);
         mw = co_MaintenanceWindow (cs_Options (c_Spec cluster));
         value = map_of (kn_Annotations k8sNode) NodeK8sAnnotationNextMaintenanceWindow;
         shouldHaveAnnotation = \<not> IsZero next \<and> IsAnnotationsEnabled mw
     in andThen
          (if \<not> shouldHaveAnnotation \<and> value \<noteq> None
           then wrapE (msgtxt ''failed to remove maintenance window annotation'')
             (updateKNode E k8sClient k8sNode (\<lambda>m. map_delete m NodeK8sAnnotationNextMaintenanceWindow))
           else ret ())
          (if shouldHaveAnnotation
           then if \<not> lib_LoadLocation (e_lib E) (mw_Timezone mw)
                then event EventTypeWarning EventReasonValidationError EventActionStatusReconcile
                else let annotationValue = lib_format_RFC3339 (e_lib E) (mw_Timezone mw) next in
                  if value \<noteq> Some annotationValue
                  then wrapE (msgtxt ''failed to update maintenance window annotation'')
                    (updateKNode E k8sClient k8sNode
                      (\<lambda>m. map_set m NodeK8sAnnotationNextMaintenanceWindow annotationValue))
                  else ret ()
           else ret ()))"

section \<open>Kubernetes status\<close>

text \<open>Lines 383 to 420: the conditions, and whether one of them changed.\<close>

definition readyCondition :: "env \<Rightarrow> bool \<Rightarrow> condition list \<Rightarrow> (condition list \<times> bool) ctl" where
  "readyCondition E nodeReady conditions =
    (if nodeReady \<and> \<not> IsTrue E conditions NodeConditionKubernetesReady
     then bindE (SetStatusCondition E conditions NodeConditionKubernetesReady CTrue
            NodeConditionReasonKubernetesNodeReady (msgtxt ''Kubernetes node is ready'')) (\<lambda>cs. ret (cs, True))
     else if \<not> nodeReady \<and> \<not> IsFalse E conditions NodeConditionKubernetesReady
     then bindE (SetStatusCondition E conditions NodeConditionKubernetesReady CFalse
            NodeConditionReasonKubernetesNodeNotReady (msgtxt ''Kubernetes node is not ready'')) (\<lambda>cs. ret (cs, True))
     else ret (conditions, False))"

definition unschedulableCondition :: "env \<Rightarrow> bool \<Rightarrow> condition list \<Rightarrow> (condition list \<times> bool) ctl" where
  "unschedulableCondition E nodeUnschedulable conditions =
    (if nodeUnschedulable \<and> \<not> IsTrue E conditions NodeConditionKubernetesUnschedulable
     then bindE (SetStatusCondition E conditions NodeConditionKubernetesUnschedulable CTrue
            NodeConditionReasonKubernetesNodeUnschedulable (msgtxt ''Kubernetes node is unschedulable''))
            (\<lambda>cs. ret (cs, True))
     else if \<not> nodeUnschedulable \<and> \<not> IsFalse E conditions NodeConditionKubernetesUnschedulable
     then bindE (SetStatusCondition E conditions NodeConditionKubernetesUnschedulable CFalse
            NodeConditionReasonKubernetesNodeSchedulable (msgtxt ''Kubernetes node is schedulable''))
            (\<lambda>cs. ret (cs, True))
     else ret (conditions, False))"

definition setConditions :: "env \<Rightarrow> condition list \<Rightarrow> unit ctl" where
  "setConditions E conditions =
    updateNodeStatus E (\<lambda>n. ret (upd_status (\<lambda>st. st\<lparr>nst_Conditions := conditions\<rparr>) n))"

definition reconcileNodeKubernetesStatus :: "env \<Rightarrow> Cluster \<Rightarrow> result ctl" where
  "reconcileNodeKubernetesStatus E cluster =
    bindE (gets st_node) (\<lambda>node.
    bindE (wrapE (msgtxt ''failed to get Kubernetes client'') (getKubernetesCRClient E cluster)) (\<lambda>client.
    onErr (ask (e_knode E) (K8s client (KGetNode (GetShortName node))))
      (\<lambda>err. andThen (wrapE (msgtxt ''failed to update node status condition for Kubernetes'')
          (updateNodeStatus E (set_cond E NodeConditionKubernetesReady CFalse
            NodeConditionReasonKubernetesNodeNotFound
            (msgtxt ''Kubernetes node not found (is cluster bootstrapped?): '' @ emsg err)))) (ret None)) (\<lambda>k8sNode.
    bindE (readyCondition E (kubelet_ready k8sNode) (n_Conditions node)) (\<lambda>(cs1, changed1).
    bindE (unschedulableCondition E (kn_Unschedulable k8sNode) cs1) (\<lambda>(cs2, changed2).
    andThen (if changed1 \<or> changed2
             then wrapE (msgtxt ''failed to update node status condition for Kubernetes node status'')
               (setConditions E cs2)
             else ret ()) (
    andThen (wrapE (msgtxt ''failed to bump maintenance window annotation'')
      (nodeBumpMaintenanceWindowAnnotation E cluster client k8sNode))
      (ret None)))))))"

section \<open>Machine status\<close>

text \<open>Lines 101 to 147: boot ID, release and Ready of a machine that answers.\<close>

definition recordBootID :: "env \<Rightarrow> TalosClient \<Rightarrow> unit ctl" where
  "recordBootID E talosClient =
    bindE (wrapE (msgtxt ''failed to get node boot ID'') (getNodeBootID E talosClient)) (\<lambda>bootID.
    bindE (gets st_node) (\<lambda>node.
      if nst_BootID (n_Status node) \<noteq> bootID
      then wrapE (msgtxt ''failed to update node BootID status'')
        (updateNodeStatus E (\<lambda>n. ret (upd_status (\<lambda>st. st\<lparr>nst_BootID := bootID\<rparr>) n)))
      else ret ()))"

definition recordRelease :: "env \<Rightarrow> TalosClient \<Rightarrow> (Version \<times> string) ctl" where
  "recordRelease E talosClient =
    bindE (wrapE (msgtxt ''failed to get node Talos release info'')
      (getNodeTalosRelease E talosClient)) (\<lambda>(talosVersion, talosSchematicID).
    bindE (gets st_node) (\<lambda>node.
      let v = ''v'' @ lib_version_String (e_lib E) talosVersion in
      andThen (if nst_TalosVersion (n_Status node) \<noteq> v \<or> nst_TalosSchematicID (n_Status node) \<noteq> talosSchematicID
               then wrapE (msgtxt ''failed to update node misc status'')
                 (updateNodeStatus E (\<lambda>n. ret (upd_status (\<lambda>st.
                   st\<lparr>nst_TalosVersion := v, nst_TalosSchematicID := talosSchematicID\<rparr>) n)))
               else ret ())
        (ret (talosVersion, talosSchematicID))))"

definition recordReady :: "env \<Rightarrow> unit ctl" where
  "recordReady E =
    bindE (gets st_node) (\<lambda>node.
      if \<not> IsTrue E (n_Conditions node) NodeConditionReady
      then wrapE (msgtxt ''failed to update node status condition for reachable node'')
        (updateNodeStatus E (set_cond E NodeConditionReady CTrue NodeConditionReasonNodeReachable
          (msgtxt ''Node is reachable'')))
      else ret ())"

text \<open>Lines 149 to 184: the configuration the machine should have, and the one it has.\<close>

definition expectedConfig :: "env \<Rightarrow> (Provider \<times> string) ctl" where
  "expectedConfig E =
    bindE (gets st_node) (\<lambda>node.
    bindE (wrapE (msgtxt ''failed to generate expected machine config'')
      (GenerateMachineConfig E node (NewGenerateMachineConfigOptions E))) (\<lambda>(cfg, _).
    bindE (wrapE (msgtxt ''failed to encode expected machine config'')
      (lift (EncodeMachineConfig E cfg False))) (\<lambda>bytes. ret (cfg, bytes))))"

definition runningConfig :: "env \<Rightarrow> TalosClient \<Rightarrow> string ctl" where
  "runningConfig E talosClient =
    andThen (wrapE (msgtxt ''failed to resolve machineconfig RD'')
      (act E (Talos talosClient TResolveMachineConfig))) (
    bindE (wrapE (msgtxt ''failed to get running machine config'')
      (ask (e_text E) (Talos talosClient (TGetMachineConfig ''v1alpha1'')))) (\<lambda>cfg.
    wrapE (msgtxt ''failed to serialize running machine config'')
      (lift (EncodeMachineConfig E cfg False))))"

text \<open>Lines 213 to 222.\<close>

definition runningImageEqual :: "env \<Rightarrow> Version \<Rightarrow> string \<Rightarrow> Version \<Rightarrow> string \<Rightarrow> bool" where
  "runningImageEqual E configuredTalosVersion configuredSchematicID talosVersion talosSchematicID \<longleftrightarrow>
    \<not> (configuredSchematicID \<noteq> [] \<and> configuredSchematicID \<noteq> talosSchematicID) \<and>
    lib_version_EQ (e_lib E) configuredTalosVersion talosVersion"

text \<open>Lines 224 to 275: in sync, out of sync, or drifted.\<close>

definition drifted :: "env \<Rightarrow> Node \<Rightarrow> string \<Rightarrow> bool \<Rightarrow> bool" where
  "drifted E node expectedConfigBytes imageEqual \<longleftrightarrow>
    (nst_AppliedConfigHash (n_Status node) \<noteq> [] \<and>
     nst_AppliedConfigHash (n_Status node) = lib_sha256Sum (e_lib E) expectedConfigBytes) \<and>
    \<not> (\<not> imageEqual \<and> IsTrue E (n_Conditions node) NodeConditionNeedsInitialUpdate)"

definition recordConfigInSync :: "env \<Rightarrow> string \<Rightarrow> bool \<Rightarrow> bool \<Rightarrow> unit ctl" where
  "recordConfigInSync E expectedConfigBytes configEqual imageEqual =
    bindE (gets st_node) (\<lambda>node.
    bindE (if \<not> (configEqual \<and> imageEqual)
           then bindE (if drifted E node expectedConfigBytes imageEqual
                       then SetStatusCondition E (n_Conditions node) NodeConditionConfigDriftDetected CTrue
                         NodeConditionReasonConfigHasDrifted
                         (msgtxt ''Node configuration has drifted since last operator-initiated apply. Refusing to initiate automatic apply.'')
                       else ret (n_Conditions node)) (\<lambda>cs.
                SetStatusCondition E cs NodeConditionConfigInSync CFalse NodeConditionReasonConfigOutOfSync
                  (msgtxt ''Node configuration is out of sync''))
           else SetStatusCondition E (n_Conditions node) NodeConditionConfigInSync CTrue
                  NodeConditionReasonConfigInSync (msgtxt ''Node configuration is in sync'')) (\<lambda>conditions.
    andThen (set_node (upd_status (\<lambda>st. st\<lparr>nst_Conditions := conditions\<rparr>) node))
      (wrapE (msgtxt ''failed to update node status condition for config in sync'')
        (setConditions E conditions))))"

text \<open>Lines 277 to 327.\<close>

definition versionsBehind :: "Node \<Rightarrow> string \<Rightarrow> KubernetesVersions \<Rightarrow> bool" where
  "versionsBehind node target kv \<longleftrightarrow>
    n_Role node = NodeRoleControlplane \<and>
      (kv_APIServer kv \<noteq> target \<or> kv_ControllerManager kv \<noteq> target \<or> kv_Scheduler kv \<noteq> target) \<or>
    kv_Kubelet kv \<noteq> target"

definition recordKubernetesInSync :: "env \<Rightarrow> Cluster \<Rightarrow> unit ctl" where
  "recordKubernetesInSync E cluster =
    bindE (gets st_node) (\<lambda>node.
    case nst_KubernetesVersions (n_Status node) of
      None \<Rightarrow> fail (errorf (msgtxt ''node KubernetesVersions status is nil''))
    | Some kv \<Rightarrow>
        let needsUpgrade = versionsBehind node (cs_KubernetesVersion (c_Spec cluster)) kv in
        if needsUpgrade \<and> \<not> IsFalse E (n_Conditions node) NodeConditionKubernetesInSync
        then wrapE (msgtxt ''failed to update node status condition for Kubernetes needs updates'')
          (updateNodeStatus E (set_cond E NodeConditionKubernetesInSync CFalse
            NodeConditionReasonKubernetesUpgradeNeeded (msgtxt ''Kubernetes components need to be upgraded'')))
        else if \<not> needsUpgrade \<and> \<not> IsTrue E (n_Conditions node) NodeConditionKubernetesInSync
        then wrapE (msgtxt ''failed to update node status condition for Kubernetes up to date'')
          (updateNodeStatus E (set_cond E NodeConditionKubernetesInSync CTrue
            ClusterConditionNodesKubernetesUpToDate (msgtxt ''Kubernetes components are up to date'')))
        else ret ())"

text \<open>Lines 73 to 334, for a node without an operation under way.\<close>

definition reconcileReachable :: "env \<Rightarrow> Cluster \<Rightarrow> Node \<Rightarrow> result ctl" where
  "reconcileReachable E cluster node =
    bindE (wrapE (msgtxt ''failed to get Talos client'') (getTalosClient E node cluster)) (\<lambda>talosClient.
    andThen (recordBootID E talosClient) (
    bindE (recordRelease E talosClient) (\<lambda>(talosVersion, talosSchematicID).
    andThen (recordReady E) (
    bindE (expectedConfig E) (\<lambda>(cfg, expectedConfigBytes).
    bindE (runningConfig E talosClient) (\<lambda>runningConfigBytes.
    let configuredImage = (case GetInstallImage E cfg of Inl _ \<Rightarrow> [] | Inr img \<Rightarrow> img) in
    case parseImageTalosRelease E configuredImage of
      Inl err \<Rightarrow>
        andThen (wrapE (msgtxt ''failed to update node status with invalid install image'')
          (updateNodeStatus E (set_cond E NodeConditionReady CFalse NodeConditionReasonFailedImageValidation
            (msgtxt ''Node install image is invalid or missing: '' @ emsg err))))
          (ret (Some RequeueStandardDelay))
    | Inr (configuredTalosVersion, configuredSchematicID) \<Rightarrow>
        andThen (recordConfigInSync E expectedConfigBytes (expectedConfigBytes = runningConfigBytes)
          (runningImageEqual E configuredTalosVersion configuredSchematicID talosVersion talosSchematicID)) (
        andThen (recordKubernetesInSync E cluster) (
        wrapE (msgtxt ''failed to reconcile Kubernetes status'')
          (reconcileNodeKubernetesStatus E cluster)))))))))"

definition reconcileNodeStatus :: "env \<Rightarrow> Cluster \<Rightarrow> result ctl" where
  "reconcileNodeStatus E cluster =
    bindE (gets st_node) (\<lambda>node.
      if \<not> isOperationComplete node \<and>
         (case n_OpStatus node of Some os \<Rightarrow> nos_Phase os \<noteq> NodeOperationPhasePending | None \<Rightarrow> False)
      then ret None
      else bindE (tcpPing E (GetConnectHost node cluster @ '':50000'')) (\<lambda>ok.
        if \<not> ok
        then andThen (wrapE (msgtxt ''failed to update node status condition for unreachable node'')
               (updateNodeStatus E (set_cond E NodeConditionReady CFalse NodeConditionReasonNodeUnreachable
                 (msgtxt ''Node is unreachable''))))
               (ret (Some RequeueStandardDelay))
        else reconcileReachable E cluster node))"


section \<open>What a status check does\<close>

lemma emits_tcpPingFrom:
  "A (Sys (TCPDial address)) \<Longrightarrow> A (Sys CtxDone) \<Longrightarrow> emits A (tcpPingFrom E address n)"
  by (induction n) (auto intro!: em.structural emits_prims)

lemma keeps_tcpPingFrom: "hist_free f \<Longrightarrow> keeps f (tcpPingFrom E address n)"
  by (induction n) (auto intro!: kp.structural keeps_prims)

lemma only_status_conditions:
  "only_status (\<lambda>n. ret (upd_status (\<lambda>st. st\<lparr>nst_Conditions := f n\<rparr>) n))"
  "only_status (\<lambda>n. ret (upd_status (\<lambda>st. st\<lparr>nst_BootID := b\<rparr>) n))"
  "only_status (\<lambda>n. ret (upd_status (\<lambda>st. st\<lparr>nst_TalosVersion := v, nst_TalosSchematicID := sid\<rparr>) n))"
  by (rule only_status_ret, simp)+

lemmas status_defs = reconcileReachable_def recordBootID_def recordRelease_def recordReady_def
  expectedConfig_def runningConfig_def recordConfigInSync_def recordKubernetesInSync_def
  reconcileNodeKubernetesStatus_def readyCondition_def unschedulableCondition_def setConditions_def
  nodeBumpMaintenanceWindowAnnotation_def updateKNode_def tcpPing_def

lemma reconcileNodeStatus_calls: "emits (allowed {} (\<lambda>_. False)) (reconcileNodeStatus E cluster)"
  unfolding reconcileNodeStatus_def status_defs
  by (intro em.structural emits_prims emits_tcpPingFrom phases_reads emits_status_phase
      only_status_conditions only_status_set_cond) simp_all

lemma reconcileNodeStatus_mutex: "keeps st_mutex (reconcileNodeStatus E cluster)"
  unfolding reconcileNodeStatus_def status_defs
  by (intro kp.structural keeps_prims keeps_tcpPingFrom keeps_reads keeps_updateNodeStatus) simp_all

text \<open>
  Checking the status of a node touches neither the machine nor the workloads of the
  cluster, changes nothing of the node but its status, and leaves the operation of the
  node as it is.
\<close>

lemma reconcileNodeStatus_only_observes:
  assumes "reconcileNodeStatus E cluster s = (r, s')"
  shows "grows (\<lambda>c. \<not> disruptive c \<and>
    (\<forall>b n. c = Api (StatusUpdateNode b n) \<longrightarrow> n\<lparr>n_Status := n_Status b\<rparr> = b \<and> n_OpStatus n = n_OpStatus b)) s s'"
  by (rule stepsD [OF emits_mono [OF reconcileNodeStatus_calls] assms])
    (auto simp: allowed_def phase_writes_def op_step_def)

section \<open>Reachability\<close>

definition dials :: "call list \<Rightarrow> nat" where
  "dials cs = length (filter (\<lambda>c. \<exists>a. c = Sys (TCPDial a)) cs)"

lemma dials_simps [simp]:
  "dials [] = 0" "dials (cs @ ds) = dials cs + dials ds"
  "dials (Sys (TCPDial a) # cs) = Suc (dials cs)" "dials (Sys CtxDone # cs) = dials cs"
  by (simp_all add: dials_def)

lemma tcpPingFrom_run:
  "\<exists>b cs s'. tcpPingFrom E address n s = (Ok b, s') \<and> st_hist s' = cs @ st_hist s \<and>
    1 \<le> dials cs \<and> dials cs \<le> Suc n \<and>
    (b \<longleftrightarrow> (\<exists>us vs. cs = us @ Sys (TCPDial address) # vs \<and> e_unit E (vs @ st_hist s) (Sys (TCPDial address)) = None))"
proof (induction n arbitrary: s)
  case 0
  show ?case
    by (cases "e_unit E (st_hist s) (Sys (TCPDial address))")
      (auto simp: go_run Cons_eq_append_conv intro!: exI [of _ "[Sys (TCPDial address)]"])
next
  case (Suc n)
  let ?d = "Sys (TCPDial address)"
  show ?case
  proof (cases "e_unit E (st_hist s) ?d")
    case None
    then show ?thesis
      by (auto simp: go_run Cons_eq_append_conv intro!: exI [of _ "[?d]"])
  next
    case (Some e)
    show ?thesis
    proof (cases "e_ctx_err E (?d # st_hist s)")
      case True
      with Some show ?thesis
        by (auto simp: go_run ask_def Cons_eq_append_conv append_eq_Cons_conv
            intro!: exI [of _ "[Sys CtxDone, ?d]"])
    next
      case False
      let ?s = "s\<lparr>st_hist := Sys CtxDone # ?d # st_hist s\<rparr>"
      obtain b cs s' where r: "tcpPingFrom E address n ?s = (Ok b, s')" "st_hist s' = cs @ st_hist ?s"
        "1 \<le> dials cs" "dials cs \<le> Suc n"
        "b \<longleftrightarrow> (\<exists>us vs. cs = us @ ?d # vs \<and> e_unit E (vs @ st_hist ?s) ?d = None)"
        using Suc.IH [of ?s] by blast
      have "tcpPingFrom E address (Suc n) s = (Ok b, s')"
        using Some False r(1) by (simp add: go_run ask_def)
      moreover have "(\<exists>us vs. cs @ [Sys CtxDone, ?d] = us @ ?d # vs \<and> e_unit E (vs @ st_hist s) ?d = None) \<longleftrightarrow>
          (\<exists>us vs. cs = us @ ?d # vs \<and> e_unit E (vs @ st_hist ?s) ?d = None)"
        using Some by (fastforce simp: append_eq_append_conv2 Cons_eq_append_conv append_eq_Cons_conv)
      ultimately show ?thesis using r
        by (intro exI [of _ b] exI [of _ "cs @ [Sys CtxDone, ?d]"] exI [of _ s']) simp
    qed
  qed
qed

text \<open>
  A ping always ends, after at least one and at most three attempts to connect, and
  says that the machine is reachable exactly if one of them succeeded.
\<close>

theorem tcpPing_attempts:
  "\<exists>b cs s'. tcpPing E address s = (Ok b, s') \<and> st_hist s' = cs @ st_hist s \<and>
    1 \<le> dials cs \<and> dials cs \<le> 3 \<and>
    (b \<longleftrightarrow> (\<exists>us vs. cs = us @ Sys (TCPDial address) # vs \<and> e_unit E (vs @ st_hist s) (Sys (TCPDial address)) = None))"
  using tcpPingFrom_run [of E address 2 s] by (simp add: tcpPing_def eval_nat_numeral)

section \<open>Configuration in sync\<close>

text \<open>
  The status writes of \<open>recordConfigInSync\<close> put exactly the condition that the two
  comparisons ask for into the list of conditions.
\<close>

definition sync_write :: "env \<Rightarrow> bool \<Rightarrow> call \<Rightarrow> bool" where
  "sync_write E ok c \<longleftrightarrow>
    (\<forall>b n. c = Api (StatusUpdateNode b n) \<longrightarrow>
      (\<exists>t cs cond. n_Conditions n = lib_SetStatusCondition (e_lib E) t cs cond \<and>
        cd_type cond = NodeConditionConfigInSync \<and> cd_status cond = (if ok then CTrue else CFalse)))"

lemma sync_setConditions:
  assumes "stt = (if ok then CTrue else CFalse)"
  shows "emits (sync_write E ok) (setConditions E (lib_SetStatusCondition (e_lib E) t cs
    \<lparr>cd_type = NodeConditionConfigInSync, cd_status = stt, cd_reason = r, cd_message = m, cd_since = z\<rparr>))"
proof -
  let ?c = "\<lparr>cd_type = NodeConditionConfigInSync, cd_status = stt, cd_reason = r, cd_message = m, cd_since = z\<rparr>"
  have w: "sync_write E ok (Api (StatusUpdateNode b n))"
    if "n_Conditions n = lib_SetStatusCondition (e_lib E) t cs ?c" for b n
    unfolding sync_write_def using that assms
    by (auto intro!: exI [of _ t] exI [of _ cs] exI [of _ ?c])
  show ?thesis unfolding setConditions_def
  proof (intro emits_updateNodeStatus em.structural)
    fix n n' :: Node and s s' :: st
    assume "ret (upd_status (\<lambda>st. st\<lparr>nst_Conditions := lib_SetStatusCondition (e_lib E) t cs ?c\<rparr>) n) s = (Ok n', s')"
    then show "sync_write E ok (Api (StatusUpdateNode n n'))" by (intro w) (auto simp: ok_basic)
  qed (simp add: sync_write_def)
qed



end
