(* ===== verification/Triples.thy ===== *)
theory Triples
  imports Effects
begin

text \<open>
  Pre- and postconditions on the state of a controller together with the calls it makes:
  \<open>moves A P Q m\<close> says that \<open>m\<close>, started in a state with \<open>P\<close>, adds only calls with
  \<open>A\<close>, and when it succeeds ends in a state with \<open>Q\<close>.
\<close>

definition moves :: "(call \<Rightarrow> bool) \<Rightarrow> (st \<Rightarrow> bool) \<Rightarrow> (st \<Rightarrow> bool) \<Rightarrow> 'a ctl \<Rightarrow> bool" where
  "moves A P Q m \<longleftrightarrow> (\<forall>s r s'. P s \<longrightarrow> m s = (r, s') \<longrightarrow> grows A s s' \<and> (\<forall>x. r = Ok x \<longrightarrow> Q s'))"

lemma movesI:
  "(\<And>s r s'. P s \<Longrightarrow> m s = (r, s') \<Longrightarrow> grows A s s') \<Longrightarrow>
   (\<And>s x s'. P s \<Longrightarrow> m s = (Ok x, s') \<Longrightarrow> Q s') \<Longrightarrow> moves A P Q m"
  by (auto simp: moves_def)

lemma movesD: "moves A P Q m \<Longrightarrow> P s \<Longrightarrow> m s = (r, s') \<Longrightarrow> grows A s s'"
  by (simp add: moves_def)

lemma moves_okD: "moves A P Q m \<Longrightarrow> P s \<Longrightarrow> m s = (Ok x, s') \<Longrightarrow> Q s'"
  by (simp add: moves_def)

lemma moves_basic: "moves A P P (ret x)" "moves A P Q (fail e)" "moves A P Q (panic p)" "moves A P P (gets f)"
  by (auto simp: moves_def run_basic grows_refl)

text \<open>After an error nothing is known of the state unless it is given, as \<open>P'\<close>.\<close>

lemma moves_onErr_inv:
  assumes "moves A P Q m" and "\<And>s e s'. P s \<Longrightarrow> m s = (Err e, s') \<Longrightarrow> P' s'"
    and "\<And>e. moves A P' R (h e)" and "\<And>x. moves A Q R (k x)"
  shows "moves A P R (onErr m h k)"
  unfolding moves_def
proof (intro allI impI)
  fix s r s' assume P: "P s" and run: "onErr m h k s = (r, s')"
  obtain q t where mt: "m s = (q, t)" by (cases "m s")
  have m: "grows A s t" "\<And>x. q = Ok x \<Longrightarrow> Q t" using assms(1) P mt by (auto simp: moves_def)
  show "grows A s s' \<and> (\<forall>x. r = Ok x \<longrightarrow> R s')"
  proof (cases q)
    case (Ok x)
    then have "k x t = (r, s')" using run mt by (simp add: run_onErr)
    then show ?thesis using assms(4) m Ok unfolding moves_def by (metis grows_trans)
  next
    case (Err e)
    then have "h e t = (r, s')" using run mt by (simp add: run_onErr)
    then show ?thesis using assms(2) [OF P] assms(3) m mt Err unfolding moves_def by (metis grows_trans)
  next
    case (Panic p)
    then show ?thesis using run mt m by (auto simp: run_onErr)
  qed
qed

lemma moves_onErr:
  "moves A P Q m \<Longrightarrow> (\<And>e. moves A (\<lambda>_. True) R (h e)) \<Longrightarrow> (\<And>x. moves A Q R (k x)) \<Longrightarrow> moves A P R (onErr m h k)"
  by (rule moves_onErr_inv [where P' = "\<lambda>_. True"]) simp_all

lemma moves_bindE: "moves A P Q m \<Longrightarrow> (\<And>x. moves A Q R (k x)) \<Longrightarrow> moves A P R (bindE m k)"
  unfolding bindE_def by (rule moves_onErr) (auto simp: moves_basic)

lemma moves_andThen: "moves A P Q m \<Longrightarrow> moves A Q R k \<Longrightarrow> moves A P R (andThen m k)"
  unfolding andThen_def by (rule moves_bindE)

lemma moves_wrapE: "moves A P Q m \<Longrightarrow> moves A P Q (wrapE pre m)"
  unfolding wrapE_def by (rule moves_onErr) (auto simp: moves_basic)

lemma moves_forE: "(\<And>x. x \<in> set xs \<Longrightarrow> moves A P P (f x)) \<Longrightarrow> moves A P P (forE xs f)"
  by (induction xs) (auto intro!: moves_basic moves_andThen moves_bindE)

text \<open>The value read from the state may be used.\<close>

lemma moves_gets: "(\<And>s. P s \<Longrightarrow> moves A (\<lambda>t. P t \<and> t = s) R (k (f s))) \<Longrightarrow> moves A P R (bindE (gets f) k)"
  unfolding moves_def by (simp add: go_eval)

lemma moves_if: "(b \<Longrightarrow> moves A P Q m) \<Longrightarrow> (\<not> b \<Longrightarrow> moves A P Q n) \<Longrightarrow> moves A P Q (if b then m else n)"
  by simp

lemma moves_option:
  "(x = None \<Longrightarrow> moves A P Q m) \<Longrightarrow> (\<And>y. x = Some y \<Longrightarrow> moves A P Q (f y)) \<Longrightarrow>
   moves A P Q (case x of None \<Rightarrow> m | Some y \<Rightarrow> f y)"
  by (cases x) simp_all

lemma moves_sum:
  "(\<And>a. x = Inl a \<Longrightarrow> moves A P Q (f a)) \<Longrightarrow> (\<And>b. x = Inr b \<Longrightarrow> moves A P Q (g b)) \<Longrightarrow>
   moves A P Q (case x of Inl a \<Rightarrow> f a | Inr b \<Rightarrow> g b)"
  by (cases x) simp_all

lemma moves_prod: "(\<And>a b. x = (a, b) \<Longrightarrow> moves A P Q (f a b)) \<Longrightarrow> moves A P Q (case x of (a, b) \<Rightarrow> f a b)"
  by (cases x) simp

lemma moves_let: "moves A P Q (f x) \<Longrightarrow> moves A P Q (let y = x in f y)"
  by simp

lemmas moves_branches = moves_if moves_option moves_sum moves_prod moves_let

lemma moves_cong: "(\<And>s. P s \<Longrightarrow> m s = m' s) \<Longrightarrow> moves A P Q m' \<Longrightarrow> moves A P Q m"
  by (simp add: moves_def)

lemma moves_weaken: "moves A P Q m \<Longrightarrow> moves A P (\<lambda>_. True) m"
  by (simp add: moves_def)

lemma moves_pre: "moves A P Q m \<Longrightarrow> (\<And>s. P' s \<Longrightarrow> P s) \<Longrightarrow> moves A P' Q m"
  unfolding moves_def by blast

lemma moves_emits: "emits A m \<Longrightarrow> moves A P (\<lambda>_. True) m"
  unfolding moves_def by (blast dest: stepsD)

text \<open>What depends on a part of the state that is kept.\<close>

lemma moves_keeps:
  assumes "emits A m" and "keeps f m" and "\<And>s s'. f s' = f s \<Longrightarrow> P s \<Longrightarrow> P s'"
  shows "moves A P P m"
  using assms unfolding moves_def by (metis keepsD stepsD)

end
