(* ===== verification/NodeReconcile.thy ===== *)
theory NodeReconcile
  imports NodeApply NodeK8sUpgrade NodePower NodeReset NodeBootstrap NodeProvision NodeStatus Triples
begin

text \<open>
  \<^verbatim>\<open>internal/controller/node_controller.go\<close>: one reconciliation of a Node, from reading
  it to the handler of its operation. The empty result is \<open>None\<close>; errors are returned to
  the framework. The watches of \<^verbatim>\<open>SetupWithManager\<close> decide only when Reconcile runs.
\<close>

section \<open>Bookkeeping\<close>

definition updateCond :: "env \<Rightarrow> string \<Rightarrow> cond_status \<Rightarrow> string \<Rightarrow> string \<Rightarrow> unit ctl" where
  "updateCond E type status reason message = updateNodeStatus E (set_cond E type status reason message)"

text \<open>Lines 116 to 124.\<close>

definition removeDeprecated :: "env \<Rightarrow> unit ctl" where
  "removeDeprecated E =
    bindE (gets st_node) (\<lambda>node.
      if lib_FindStatusCondition (e_lib E) (n_Conditions node) ''KubernetesNeedsUpdates'' \<noteq> None
      then wrapE (msgtxt ''error removing deprecated status conditions'')
        (updateNodeStatus E (\<lambda>n. ret (upd_status (\<lambda>st. st\<lparr>nst_Conditions :=
          lib_RemoveStatusCondition (e_lib E) (nst_Conditions st) ''KubernetesNeedsUpdates''\<rparr>) n)))
      else ret ())"

text \<open>Lines 126 to 171: the versions to record, and whether anything changed.\<close>

definition defaultTo :: "string \<Rightarrow> string \<Rightarrow> string \<times> bool" where
  "defaultTo v d = (if v = [] then (d, True) else (v, False))"

definition clear :: "string \<Rightarrow> string \<times> bool" where
  "clear v = (if v \<noteq> [] then ([], True) else (v, False))"

definition initVersions :: "Node \<Rightarrow> Cluster \<Rightarrow> KubernetesVersions \<times> bool" where
  "initVersions node cluster =
    (let kv = (case nst_KubernetesVersions (n_Status node) of
                 None \<Rightarrow> KubernetesVersions_zero | Some kv \<Rightarrow> kv);
         d = makeDefaultKubernetesVersions node cluster;
         cp = (n_Role node = NodeRoleControlplane);
         (kubelet, c1) = defaultTo (kv_Kubelet kv) (kv_Kubelet d);
         (apiServer, c2) = (if cp then defaultTo (kv_APIServer kv) (kv_APIServer d) else clear (kv_APIServer kv));
         (cm, c3) = (if cp then defaultTo (kv_ControllerManager kv) (kv_ControllerManager d)
                     else clear (kv_ControllerManager kv));
         (scheduler, c4) = (if cp then defaultTo (kv_Scheduler kv) (kv_Scheduler d)
                            else clear (kv_Scheduler kv))
     in (\<lparr>kv_APIServer = apiServer, kv_ControllerManager = cm, kv_Scheduler = scheduler,
          kv_Kubelet = kubelet\<rparr>, c1 \<or> c2 \<or> c3 \<or> c4))"

definition recordVersions :: "env \<Rightarrow> Cluster \<Rightarrow> unit ctl" where
  "recordVersions E cluster =
    bindE (gets st_node) (\<lambda>node.
      case initVersions node cluster of (kv, changed) \<Rightarrow>
        if changed
        then wrapE (msgtxt ''failed to update Node KubernetesVersions status'')
          (updateNodeStatus E (\<lambda>n. ret (upd_status (\<lambda>st. st\<lparr>nst_KubernetesVersions := Some kv\<rparr>) n)))
        else ret ())"

text \<open>Lines 187 to 263: False when the configuration cannot be generated or encoded.\<close>

definition configFailed :: "env \<Rightarrow> string \<Rightarrow> string \<Rightarrow> string \<Rightarrow> bool ctl" where
  "configFailed E pre reason message =
    andThen (event EventTypeWarning EventReasonValidationError EventActionStatusReconcile) (
    andThen (wrapE pre (updateCond E NodeConditionReady CFalse reason message)) (ret False))"

definition recordEffectiveConfig :: "env \<Rightarrow> bool ctl" where
  "recordEffectiveConfig E =
    bindE (gets st_node) (\<lambda>node.
    onErr (GenerateMachineConfig E node ((NewGenerateMachineConfigOptions E)\<lparr>WithoutSecrets := True\<rparr>))
      (\<lambda>err. configFailed E (msgtxt ''failed to update Node status after config generation failure'')
         NodeReasonConfigGenerationFailed (msgtxt ''Failed to generate machine config: '' @ emsg err))
      (\<lambda>(cfg, patchHierarchy).
    case EncodeMachineConfig E cfg True of
      Inl err \<Rightarrow> configFailed E (msgtxt ''failed to update Node status after config encoding failure'')
        NodeReasonConfigSerializationFailed (msgtxt ''Failed to encode machine config: '' @ emsg err)
    | Inr encodedCfg \<Rightarrow>
        let encodedCfgStr = RedactMachineConfig encodedCfg in
        andThen (if nst_EffectiveConfig (n_Status node) \<noteq> encodedCfgStr
                 then wrapE (msgtxt ''failed to update Node EffectiveConfig status'')
                   (updateNodeStatus E (\<lambda>n. ret (upd_status (\<lambda>st.
                     st\<lparr>nst_EffectiveConfig := encodedCfgStr, nst_PatchHierarchy := patchHierarchy\<rparr>) n)))
                 else ret ()) (ret True)))"

section \<open>Accepting a request\<close>

text \<open>
  Lines 269 to 298. The request is read from the node as it was read again for the write:
  a request that has disappeared meanwhile is a nil pointer.
\<close>

definition acceptedStatus :: "env \<Rightarrow> Node \<Rightarrow> Node ctl" where
  "acceptedStatus E n =
    (case n_Operation n of
       None \<Rightarrow> panic (msgtxt ''nil pointer dereference: node.Operation'')
     | Some op \<Rightarrow> bindE (now E) (\<lambda>t.
         ret (upd_status (\<lambda>st. st\<lparr>nst_Operation := Some
           \<lparr>nos_op = op, nos_Phase = NodeOperationPhasePending, nos_Reason = OperationReasonInitialized,
            nos_Message = msgtxt ''Node operation initialized'', nos_LastTransitionTime = t\<rparr>\<rparr>) n)))"

definition acceptOperation :: "env \<Rightarrow> result ctl" where
  "acceptOperation E =
    andThen (wrapE (msgtxt ''failed to update Node Operation status'')
      (updateNodeStatus E (acceptedStatus E))) (
    bindE (gets st_node) (\<lambda>node.
    andThen (set_node (node\<lparr>n_Operation := None\<rparr>)) (
    bindE (wrapE (msgtxt ''failed to clear Node Operation'')
      (ask (e_node E) (Api (PatchClearOperation (node\<lparr>n_Operation := None\<rparr>))))) (\<lambda>patched.
    andThen (set_node patched) (ret (Some (1 * Second)))))))"

section \<open>Not provisioned, deleted\<close>

text \<open>Lines 318 to 343.\<close>

definition notProvisioned :: "env \<Rightarrow> unit ctl" where
  "notProvisioned E =
    updateNodeStatus E (\<lambda>n.
      bindE (set_cond E NodeConditionProvisioned CFalse NodeConditionReasonNodeNotProvisioned
        (msgtxt ''Node is not yet provisioned'') n)
      (set_cond E NodeConditionReady CFalse NodeConditionReasonNodeNotProvisioned
        (msgtxt ''Node is not yet provisioned'')))"

text \<open>Lines 345 to 367: a deleted node is reset first.\<close>

definition cleanupOperation :: "env \<Rightarrow> Node \<Rightarrow> Node ctl" where
  "cleanupOperation E n =
    bindE (now E) (\<lambda>t.
      ret (upd_status (\<lambda>st. st\<lparr>nst_Operation := Some
        \<lparr>nos_op = NodeOperation_zero\<lparr>no_Type := NodeOperationTypeReset\<rparr>,
         nos_Phase = NodeOperationPhasePending, nos_Reason = NodeOperationReasonNodeDeletionCleanup,
         nos_Message = msgtxt ''Node deletion detected, performing cleanup operation'',
         nos_LastTransitionTime = t\<rparr>\<rparr>) n))"

definition startCleanup :: "env \<Rightarrow> unit ctl" where
  "startCleanup E =
    bindE (gets st_node) (\<lambda>node.
      if isOperationComplete node \<and> n_DeletionTimestamp node \<noteq> None \<and> NodeFinalizer \<in> set (n_Finalizers node)
      then wrapE (msgtxt ''failed to update Node Operation status for deletion cleanup'')
        (updateNodeStatus E (cleanupOperation E))
      else ret ())"

section \<open>Dispatch\<close>

text \<open>Lines 406 to 433.\<close>

definition runHandler :: "env \<Rightarrow> Cluster \<Rightarrow> string \<Rightarrow> result ctl" where
  "runHandler E cluster type =
    (if type = NodeOperationTypeProvision then ret None
     else if type = NodeOperationTypeBootstrap then handleNodeBootstrap E cluster
     else if type = NodeOperationTypeApply then handleNodeApply E cluster
     else if type = NodeOperationTypeUpgrade then handleNodeUpgrade E cluster
     else if type = NodeOperationTypeKubernetesComponentUpgrade then handleKubernetesComponentUpgrade E cluster
     else if type = NodeOperationTypeReboot \<or> type = NodeOperationTypeShutdown then handleNodePower E cluster
     else if type = NodeOperationTypeReset then handleNodeReset E cluster
     else ret None)"

definition knownTypes :: "string list" where
  "knownTypes = [NodeOperationTypeProvision, NodeOperationTypeBootstrap, NodeOperationTypeApply,
    NodeOperationTypeUpgrade, NodeOperationTypeKubernetesComponentUpgrade, NodeOperationTypeReboot,
    NodeOperationTypeShutdown, NodeOperationTypeReset]"

text \<open>
  The result of the handler is looked at after the operation status is dereferenced once
  more for the log, which panics when the node has lost it.
\<close>

definition finishOperation :: "env \<Rightarrow> go_error + result \<Rightarrow> result ctl" where
  "finishOperation E res =
    bindE (gets st_node) (\<lambda>node.
    case n_OpStatus node of
      None \<Rightarrow> panic (msgtxt ''nil pointer dereference: node.Status.Operation'')
    | Some _ \<Rightarrow>
        (case res of
           Inl _ \<Rightarrow> ret (Some RequeueShortDelay)
         | Inr (Some r) \<Rightarrow> ret (Some r)
         | Inr None \<Rightarrow> bindE (defaultRefreshInterval E) (\<lambda>d. ret (Some d))))"

definition runOperation :: "env \<Rightarrow> Cluster \<Rightarrow> result ctl" where
  "runOperation E cluster =
    bindE (gets st_node) (\<lambda>node.
      if isOperationComplete node then bindE (defaultRefreshInterval E) (\<lambda>d. ret (Some d))
      else (case n_OpStatus node of
          None \<Rightarrow> panic (msgtxt ''nil pointer dereference: node.Status.Operation'')
        | Some os \<Rightarrow>
            if nos_Type os \<notin> set knownTypes
            then andThen (wrapE (msgtxt ''failed to update Node Operation status for unknown operation type'')
                   (updateOpStatus E NodeOperationPhaseFailed NodeOperationReasonProgramError
                     (msgtxt ''Unknown operation type '' @ quoted (nos_Type os))))
                   (finishOperation E (Inr None))
            else bindE (attempt (runHandler E cluster (nos_Type os))) (finishOperation E)))"

section \<open>Reconcile\<close>

text \<open>Lines 369 to 450.\<close>

definition reconcileStatusAndRun :: "env \<Rightarrow> Cluster \<Rightarrow> result ctl" where
  "reconcileStatusAndRun E cluster =
    bindE (ctx_err E) (\<lambda>cancelled.
    if cancelled then ret (Some RequeueImmediate)
    else onErr (reconcileNodeStatus E cluster)
      (\<lambda>err. andThen (updateCond E NodeConditionReady CFalse NodeConditionReasonNodeStatusFailed
          (msgtxt ''Failed to check node status: '' @ emsg err)) (ret (Some RequeueStandardDelay)))
      (\<lambda>res. case res of
          Some r \<Rightarrow> ret (Some r)
        | None \<Rightarrow> bindE (ctx_err E) (\<lambda>cancelled.
            if cancelled then ret (Some RequeueImmediate) else runOperation E cluster)))"

text \<open>Lines 300 to 367.\<close>

definition reconcileWork :: "env \<Rightarrow> Cluster \<Rightarrow> result ctl" where
  "reconcileWork E cluster =
    bindE (ctx_err E) (\<lambda>cancelled.
    if cancelled then ret (Some RequeueImmediate)
    else bindE (handleNodeProvisioning E cluster) (\<lambda>res.
      case res of
        Some r \<Rightarrow> ret (Some r)
      | None \<Rightarrow>
          bindE (gets st_node) (\<lambda>node.
          let resetInProgress = \<not> isOperationComplete node \<and>
                (case n_OpStatus node of Some os \<Rightarrow> nos_Type os = NodeOperationTypeReset | None \<Rightarrow> False)
          in if \<not> IsTrue E (n_Conditions node) NodeConditionProvisioned \<and> \<not> resetInProgress
             then andThen (notProvisioned E) (ret None)
             else andThen (startCleanup E) (reconcileStatusAndRun E cluster))))"

text \<open>Lines 116 to 298.\<close>

definition reconcileInCluster :: "env \<Rightarrow> Cluster \<Rightarrow> result ctl" where
  "reconcileInCluster E cluster =
    andThen (removeDeprecated E) (
    andThen (recordVersions E cluster) (
    bindE (recordEffectiveConfig E) (\<lambda>ok.
    if \<not> ok then ret None
    else bindE (gets st_node) (\<lambda>node.
      if n_Operation node \<noteq> None then acceptOperation E
      else reconcileWork E cluster))))"

definition clusterNotFound :: "env \<Rightarrow> result ctl" where
  "clusterNotFound E =
    andThen (updateCond E ''Ready'' CFalse NodeConditionReasonClusterNotFound
      (msgtxt ''Referenced Cluster not found'')) (ret None)"

definition Reconcile :: "env \<Rightarrow> string \<Rightarrow> string \<Rightarrow> result ctl" where
  "Reconcile E namespace name =
    onErr (ask (e_node E) (Api (ReadNode namespace name)))
      (\<lambda>err. if IsNotFound err then ret None else fail err) (\<lambda>node.
    if n_Name node = [] then ret None
    else andThen (set_node node) (
      onErr (ask (e_cluster E) (Api (ReadCluster namespace (ns_ClusterRef (n_Spec node)))))
        (\<lambda>err. if IsNotFound err then clusterNotFound E
               else fail (errorf_w (msgtxt ''failed to get referenced Cluster '' @ ns_ClusterRef (n_Spec node)) err))
        (\<lambda>cluster.
          if c_Name cluster = [] then clusterNotFound E
          else andThen (set_cluster cluster) (reconcileInCluster E cluster))))"


section \<open>Without an operation\<close>

text \<open>
  \<open>quietly P Q m\<close>: started in a state with \<open>P\<close>, \<open>m\<close> touches neither machine nor
  workloads, and when it succeeds it ends in a state with \<open>Q\<close>.
\<close>

abbreviation quietly :: "(st \<Rightarrow> bool) \<Rightarrow> (st \<Rightarrow> bool) \<Rightarrow> 'a ctl \<Rightarrow> bool" where
  "quietly \<equiv> moves (\<lambda>c. \<not> disruptive c)"

text \<open>The operation of the node is complete; and a world in which that is so for every answer.\<close>

definition idle :: "st \<Rightarrow> bool" where
  "idle s \<longleftrightarrow> isOperationComplete (st_node s)"

definition idle_world :: "env \<Rightarrow> bool" where
  "idle_world E \<longleftrightarrow> (\<forall>h c n. e_node E h c = Inr n \<longrightarrow> isOperationComplete n)"

lemma quietly_updateNodeStatus:
  assumes "idle_world E" and "\<And>n. emits (\<lambda>c. \<not> disruptive c) (fn n)"
  shows "quietly P idle (updateNodeStatus E fn)"
proof -
  let ?m = "bindE (refreshNode E) (\<lambda>n. bindE (fn n) (\<lambda>n'. andThen (set_node n')
      (bindE (ask (e_node E) (Api (StatusUpdateNode n n'))) set_node)))"
  have "idle s'" if "?m s = (Ok x, s')" for s x s'
    using that assms(1) by (auto simp: go_ok set_node_def modify_def idle_def idle_world_def)
  then have ok: "idle s'" if "retryOnConflict k ?m s = (Ok x, s')" for k s x s'
    using ok_retryOnConflict [OF that] by blast
  have "emits (\<lambda>c. \<not> disruptive c) (updateNodeStatus E fn)" using assms(2) by (rule quiet_updateNodeStatus)
  then show ?thesis unfolding moves_def
    by (intro allI impI conjI) (auto dest: stepsD simp: updateNodeStatus_def intro: ok)
qed

lemma idle_keeps: "emits (\<lambda>c. \<not> disruptive c) m \<Longrightarrow> keeps st_node m \<Longrightarrow> quietly idle idle m"
  by (rule moves_keeps [where f = st_node]) (simp_all add: idle_def)

text \<open>The rules for programs that keep the node idle between their statements.\<close>

lemmas idle_onErr = moves_onErr [where Q = idle]
lemmas idle_bindE = moves_bindE [where Q = idle]
lemmas idle_andThen = moves_andThen [where Q = idle]

lemmas idle_structural = moves_basic moves_branches idle_onErr idle_bindE idle_andThen moves_wrapE

text \<open>Reads leave the node alone.\<close>

lemma idle_reads:
  "quietly idle idle (getTalosClient E node cluster)" "quietly idle idle (getNodeBootID E t)"
  "quietly idle idle (getNodeTalosRelease E t)" "quietly idle idle (GenerateMachineConfig E node opts)"
  "quietly idle idle (getKubernetesCRClient E cluster)" "quietly idle idle (tcpPing E address)"
  by (intro idle_keeps phases_reads keeps_reads; simp add: is_read_not_disruptive tcpPing_def
      emits_tcpPingFrom keeps_tcpPingFrom)+

lemma idle_calls:
  "\<not> disruptive c \<Longrightarrow> quietly idle idle (ask f c)" "\<not> disruptive c \<Longrightarrow> quietly idle idle (act E c)"
  "quietly idle idle (event t r a)" "quietly idle idle (ctx_err E)" "quietly idle idle (lift x)"
  "quietly idle idle (SetStatusCondition E cs ty stt r m)" "quietly idle idle (defaultRefreshInterval E)"
  by (intro idle_keeps emits_prims keeps_prims; simp)+

lemma idle_update:
  "idle_world E \<Longrightarrow> quietly P idle (updateNodeStatus E (set_cond E ty stt r m))"
  "idle_world E \<Longrightarrow> quietly P idle (updateNodeStatus E (\<lambda>n. ret (f n)))"
  by (intro quietly_updateNodeStatus emits_prims em.structural; simp)+

lemma idle_bump: "quietly idle idle (nodeBumpMaintenanceWindowAnnotation E cluster cs k)"
  by (rule idle_keeps; unfold nodeBumpMaintenanceWindowAnnotation_def updateKNode_def)
    (intro em.structural emits_prims kp.structural keeps_prims; simp)+

lemma idle_recordConfigInSync:
  assumes "idle_world E"
  shows "quietly idle idle (recordConfigInSync E bytes b1 b2)"
proof -
  have set: "quietly idle (\<lambda>_. True) (set_node n)" for n
    by (auto simp: moves_def set_node_def run_basic grows_def)
  show ?thesis
    unfolding recordConfigInSync_def setConditions_def
    by (intro idle_bindE moves_basic moves_if idle_calls moves_andThen [OF set] moves_wrapE
        idle_update [OF assms])
qed

lemma idle_reconcileNodeStatus:
  assumes "idle_world E"
  shows "quietly idle idle (reconcileNodeStatus E cluster)"
  unfolding reconcileNodeStatus_def reconcileReachable_def recordBootID_def recordRelease_def
    recordReady_def expectedConfig_def runningConfig_def recordKubernetesInSync_def
    reconcileNodeKubernetesStatus_def readyCondition_def unschedulableCondition_def setConditions_def
  by (intro idle_structural idle_reads idle_calls idle_update [OF assms] idle_bump
      idle_recordConfigInSync [OF assms]) simp_all

lemma idle_handleNodeProvisioning: "quietly idle idle (handleNodeProvisioning E cluster)"
  by (rule moves_cong [where m' = "ret None"])
    (simp_all add: handleNodeProvisioning_def go_eval idle_def moves_basic)

lemma idle_runOperation: "quietly idle idle (runOperation E cluster)"
  by (rule moves_cong [where m' = "bindE (defaultRefreshInterval E) (\<lambda>d. ret (Some d))"])
    (auto simp: runOperation_def go_eval idle_def intro!: idle_bindE moves_basic idle_calls)

lemma idle_startCleanup:
  assumes "idle_world E"
  shows "quietly idle idle (startCleanup E)"
  unfolding startCleanup_def cleanupOperation_def
  by (intro idle_structural quietly_updateNodeStatus [OF assms] em.structural emits_prims) simp

lemma idle_reconcileStatusAndRun:
  assumes "idle_world E"
  shows "quietly idle idle (reconcileStatusAndRun E cluster)"
  unfolding reconcileStatusAndRun_def updateCond_def
  by (intro idle_structural idle_calls idle_reconcileNodeStatus idle_runOperation idle_update assms)

lemma idle_reconcileWork:
  assumes "idle_world E"
  shows "quietly idle idle (reconcileWork E cluster)"
  unfolding reconcileWork_def notProvisioned_def
  by (intro idle_structural idle_calls idle_handleNodeProvisioning idle_startCleanup
      idle_reconcileStatusAndRun quietly_updateNodeStatus em.structural emits_prims assms) simp_all

lemma quiet_acceptOperation: "emits (\<lambda>c. \<not> disruptive c) (acceptOperation E)"
  unfolding acceptOperation_def acceptedStatus_def
  by (intro em.structural emits_prims quiet_updateNodeStatus) simp_all

lemma idle_reconcileInCluster:
  assumes "idle_world E"
  shows "quietly idle (\<lambda>_. True) (reconcileInCluster E cluster)"
proof -
  have "quietly idle idle (recordEffectiveConfig E)"
    unfolding recordEffectiveConfig_def configFailed_def updateCond_def
    by (intro idle_structural idle_calls idle_reads idle_update assms
        moves_andThen [where Q = "\<lambda>_. True"] moves_emits emits_event) simp_all
  then show ?thesis
    unfolding reconcileInCluster_def removeDeprecated_def recordVersions_def
    by (intro idle_andThen idle_bindE moves_if moves_weaken [OF moves_basic(1)]
        moves_weaken [OF idle_reconcileWork] moves_emits [OF quiet_acceptOperation]
        idle_structural idle_update assms)
qed

text \<open>
  C7. As long as the API server reports no operation in progress for a node, reconciling
  it touches neither the machine nor the workloads of the cluster, whatever else happens:
  errors, conflicts, a cancelled context, a machine or cluster that does not answer.
\<close>

theorem Reconcile_idle_is_quiet:
  assumes "idle_world E" and "Reconcile E namespace name s = (r, s')"
  shows "grows (\<lambda>c. \<not> disruptive c) s s'"
proof -
  let ?c = "Api (ReadNode namespace name)"
  let ?s1 = "s\<lparr>st_hist := ?c # st_hist s\<rparr>"
  have s1: "grows (\<lambda>c. \<not> disruptive c) s ?s1" by (auto simp: grows_def)
  show ?thesis
  proof (cases "e_node E (st_hist s) ?c")
    case (Inl e)
    then have "st_hist s' = st_hist ?s1" using assms(2) by (auto simp: Reconcile_def go_run split: if_splits)
    then show ?thesis by (auto simp: grows_def)
  next
    case (Inr node)
    let ?s2 = "?s1\<lparr>st_node := node\<rparr>"
    define rest where "rest =
      onErr (ask (e_cluster E) (Api (ReadCluster namespace (ns_ClusterRef (n_Spec node)))))
        (\<lambda>err. if IsNotFound err then clusterNotFound E
               else fail (errorf_w (msgtxt ''failed to get referenced Cluster '' @ ns_ClusterRef (n_Spec node)) err))
        (\<lambda>cluster. if c_Name cluster = [] then clusterNotFound E
          else andThen (set_cluster cluster) (reconcileInCluster E cluster))"
    have nf: "quietly P (\<lambda>_. True) (clusterNotFound E)" for P
      unfolding clusterNotFound_def updateCond_def
      by (intro moves_emits em.structural quiet_updateNodeStatus emits_prims) simp
    have sc: "quietly idle idle (set_cluster c)" for c
      by (auto simp: moves_def set_cluster_def run_basic grows_def idle_def)
    have q: "quietly idle (\<lambda>_. True) rest"
      unfolding rest_def
      by (intro idle_onErr idle_calls moves_if nf moves_basic idle_andThen sc idle_reconcileInCluster assms) simp
    have "Reconcile E namespace name s = (if n_Name node = [] then (Ok None, ?s1) else rest ?s2)"
      using Inr by (simp add: Reconcile_def rest_def go_run)
    moreover have "idle ?s2" using Inr assms(1) by (auto simp: idle_def idle_world_def)
    moreover have "grows (\<lambda>c. \<not> disruptive c) s ?s2" by (auto simp: grows_def)
    ultimately show ?thesis using assms(2) s1 movesD [OF q] by (metis grows_trans prod.inject)
  qed
qed

theorem Reconcile_idle_is_quiet_witness:
  "grows (\<lambda>c. \<not> disruptive c) demo_st (snd (Reconcile (demo_env\<lparr>e_node := \<lambda>h c. Inr (demo_node ''n1'' NodeRoleWorker)\<rparr>)
    ''talos'' ''n1'' demo_st))"
  by (rule Reconcile_idle_is_quiet [OF _ prod.collapse [symmetric]])
    (simp add: idle_world_def isOperationComplete_def demo_node_def demo_status_def)

section \<open>Taking over a request\<close>

text \<open>
  C33. A requested operation is copied to the status of the node in phase Pending, exactly
  as it was requested, before it is removed from the node: when both writes succeed, the
  history holds, oldest first, the read, the clock, the status write with the operation,
  and the removal; a request that is gone when the node is read again is a panic.
\<close>

theorem acceptOperation_takes_over:
  assumes "e_node E (st_hist s) (Api (GetNode (n_Namespace (st_node s)) (n_Name (st_node s)))) = Inr n"
  shows "(n_Operation n = None \<longrightarrow> (\<exists>p s'. acceptOperation E s = (Panic p, s'))) \<and>
    (\<forall>op. n_Operation n = Some op \<longrightarrow>
      (let h1 = Api (GetNode (n_Namespace (st_node s)) (n_Name (st_node s))) # st_hist s;
           h2 = Sys Now # h1;
           n' = upd_status (\<lambda>st. st\<lparr>nst_Operation := Some
             \<lparr>nos_op = op, nos_Phase = NodeOperationPhasePending, nos_Reason = OperationReasonInitialized,
              nos_Message = msgtxt ''Node operation initialized'', nos_LastTransitionTime = e_now E h1\<rparr>\<rparr>) n;
           w = Api (StatusUpdateNode n n')
       in \<forall>m p. e_node E h2 w = Inr m \<longrightarrow>
            e_node E (w # h2) (Api (PatchClearOperation (m\<lparr>n_Operation := None\<rparr>))) = Inr p \<longrightarrow>
            (\<exists>s'. acceptOperation E s = (Ok (Some (1 * Second)), s') \<and> st_node s' = p \<and>
               st_hist s' = Api (PatchClearOperation (m\<lparr>n_Operation := None\<rparr>)) # w # h2)))"
  using assms
  by (cases "e_retries E")
    (auto simp: acceptOperation_def acceptedStatus_def updateNodeStatus_def refreshNode_def Let_def go_eval)

definition demo_requested :: env where
  "demo_requested = demo_env\<lparr>e_node := \<lambda>h c.
    Inr ((demo_node ''n1'' NodeRoleWorker)\<lparr>n_Operation := Some (NodeOperation_zero\<lparr>no_Type := NodeOperationTypeReboot\<rparr>)\<rparr>)\<rparr>"

theorem acceptOperation_takes_over_witness:
  "\<exists>s'. acceptOperation demo_requested demo_st = (Ok (Some (1 * Second)), s') \<and>
    length (st_hist s') = length (st_hist demo_st) + 4"
  using acceptOperation_takes_over [of demo_requested demo_st
      "(demo_node ''n1'' NodeRoleWorker)\<lparr>n_Operation := Some (NodeOperation_zero\<lparr>no_Type := NodeOperationTypeReboot\<rparr>)\<rparr>"]
  by (auto simp: demo_requested_def Let_def)

section \<open>Versions\<close>

text \<open>
  The initialisation of the recorded Kubernetes versions keeps every version that was
  recorded, fills the missing ones with the version of the cluster, leaves a worker without
  control plane versions, asks for a write exactly if something changed, and settles (when
  the cluster names a version): a second pass changes nothing.
\<close>

lemma initVersions_settles:
  assumes "cs_KubernetesVersion (c_Spec cluster) \<noteq> []"
    and "initVersions node cluster = (kv, changed)"
  shows "let recorded = (case nst_KubernetesVersions (n_Status node) of
           None \<Rightarrow> KubernetesVersions_zero | Some old \<Rightarrow> old);
         settled = (\<lambda>v. if v = [] then cs_KubernetesVersion (c_Spec cluster) else v);
         cp = (n_Role node = NodeRoleControlplane)
     in kv_Kubelet kv = settled (kv_Kubelet recorded) \<and>
        kv_APIServer kv = (if cp then settled (kv_APIServer recorded) else []) \<and>
        kv_ControllerManager kv = (if cp then settled (kv_ControllerManager recorded) else []) \<and>
        kv_Scheduler kv = (if cp then settled (kv_Scheduler recorded) else []) \<and>
        (changed \<longleftrightarrow> kv \<noteq> recorded) \<and>
        initVersions (upd_status (\<lambda>st. st\<lparr>nst_KubernetesVersions := Some kv\<rparr>) node) cluster = (kv, False)"
  using assms
  by (cases "nst_KubernetesVersions (n_Status node)")
    (auto simp: initVersions_def defaultTo_def clear_def makeDefaultKubernetesVersions_def
      KubernetesVersions_zero_def Let_def split: if_splits)

end
