(* ===== verification/Watches.thy ===== *)
theory Watches
  imports NodeReconcile
begin

text \<open>
  The map functions of the watches in \<^verbatim>\<open>NodeReconciler.SetupWithManager\<close>: which nodes are
  reconciled when a Cluster or a ConfigMap changes. A request is a namespace and a name. How
  controller-runtime delivers changes and requests is not modelled.
\<close>

type_synonym request = "string \<times> string"

definition nodeRequests :: "Node list \<Rightarrow> request list" where
  "nodeRequests nodes = map (\<lambda>node. (n_Namespace node, n_Name node)) nodes"

text \<open>The nodes that refer to a cluster of this name, in all namespaces.\<close>

definition clusterRequests :: "env \<Rightarrow> string \<Rightarrow> request list ctl" where
  "clusterRequests E name =
    onErr (ask (e_nodes E) (Api (ListNodes None (Some name) None)))
      (\<lambda>_. ret [])
      (\<lambda>nodes. ret (nodeRequests nodes))"

text \<open>The nodes in the namespace of a ConfigMap.\<close>

definition configMapRequests :: "env \<Rightarrow> string \<Rightarrow> request list ctl" where
  "configMapRequests E namespace =
    onErr (ask (e_nodes E) (Api (ListNodes (Some namespace) None None)))
      (\<lambda>_. ret [])
      (\<lambda>nodes. ret (nodeRequests nodes))"

text \<open>
  The functions never fail; every listed node is requested once, in the order of the listing,
  and a listing that fails requests nothing: the change is then seen with the next poll only.
\<close>

lemma watch_requests:
  "fst (clusterRequests E name s) =
    Ok (case e_nodes E (st_hist s) (Api (ListNodes None (Some name) None)) of
          Inl _ \<Rightarrow> [] | Inr nodes \<Rightarrow> nodeRequests nodes)"
  "fst (configMapRequests E namespace s) =
    Ok (case e_nodes E (st_hist s) (Api (ListNodes (Some namespace) None None)) of
          Inl _ \<Rightarrow> [] | Inr nodes \<Rightarrow> nodeRequests nodes)"
  by (simp_all add: clusterRequests_def configMapRequests_def onErr_def ask_def run_basic Let_def split: sum.split)

text \<open>
  When an inline or referenced patch of a node may have changed the node is requested: a change
  of the Cluster it belongs to, or of a ConfigMap of its own namespace, requests the node
  provided that the listing has it. References to other namespaces are not watched.
\<close>

lemma watch_requests_node:
  assumes "node \<in> set nodes"
  shows "e_nodes E (st_hist s) (Api (ListNodes None (Some name) None)) = Inr nodes \<Longrightarrow>
      \<exists>reqs t. clusterRequests E name s = (Ok reqs, t) \<and> (n_Namespace node, n_Name node) \<in> set reqs"
    and "e_nodes E (st_hist s) (Api (ListNodes (Some namespace) None None)) = Inr nodes \<Longrightarrow>
      \<exists>reqs t. configMapRequests E namespace s = (Ok reqs, t) \<and> (n_Namespace node, n_Name node) \<in> set reqs"
  using assms
  by (auto simp: clusterRequests_def configMapRequests_def onErr_def ask_def run_basic nodeRequests_def)

end
