(* ===== verification/ClusterHelpers.thy ===== *)
theory ClusterHelpers
  imports K8sHelpers
begin

text \<open>
  \<^verbatim>\<open>internal/controller/helpers_cluster_controller.go\<close>: how the cluster controller writes
  a cluster (always from a fresh copy, again on a conflict), which nodes it works on and
  in which order, and when a node has an operation of its own. The methods of the two
  reconcilers that have the same name carry the suffix \<open>_cluster\<close> here.
\<close>

section \<open>Writing a cluster\<close>

abbreviation c_OpStatus :: "Cluster \<Rightarrow> ClusterOperationStatus option" where
  "c_OpStatus c \<equiv> cst_Operation (c_Status c)"

abbreviation c_Conditions :: "Cluster \<Rightarrow> condition list" where
  "c_Conditions c \<equiv> cst_Conditions (c_Status c)"

abbreviation cos_Type :: "ClusterOperationStatus \<Rightarrow> string" where
  "cos_Type os \<equiv> cop_Type (cos_op os)"

abbreviation upd_cstatus :: "(ClusterStatus \<Rightarrow> ClusterStatus) \<Rightarrow> Cluster \<Rightarrow> Cluster" where
  "upd_cstatus f c \<equiv> c\<lparr>c_Status := f (c_Status c)\<rparr>"

definition refreshCluster :: "env \<Rightarrow> Cluster ctl" where
  "refreshCluster E =
    bindE (gets st_cluster) (\<lambda>cluster.
    bindE (ask (e_cluster E) (Api (GetCluster (c_Namespace cluster) (c_Name cluster)))) (\<lambda>fresh.
    andThen (set_cluster fresh) (ret fresh)))"

definition updateClusterStatus :: "env \<Rightarrow> (Cluster \<Rightarrow> Cluster ctl) \<Rightarrow> unit ctl" where
  "updateClusterStatus E updateFn =
    retryOnConflict (e_retries E) (
      bindE (refreshCluster E) (\<lambda>c.
      bindE (updateFn c) (\<lambda>c'.
      andThen (set_cluster c') (
      bindE (ask (e_cluster E) (Api (StatusUpdateCluster c c'))) set_cluster))))"

definition updateCluster :: "env \<Rightarrow> (Cluster \<Rightarrow> Cluster ctl) \<Rightarrow> unit ctl" where
  "updateCluster E updateFn =
    retryOnConflict (e_retries E) (
      bindE (refreshCluster E) (\<lambda>c.
      bindE (updateFn c) (\<lambda>c'.
      andThen (set_cluster c') (
      bindE (ask (e_cluster E) (Api (UpdateCluster c c'))) set_cluster))))"

text \<open>The fields of the operation status; assigning through a nil pointer panics.\<close>

definition set_op_fields_cluster ::
    "env \<Rightarrow> string \<Rightarrow> string \<Rightarrow> string \<Rightarrow> ClusterManagedNodeOperationStatus list \<Rightarrow> Cluster \<Rightarrow> Cluster ctl" where
  "set_op_fields_cluster E phase reason message subOps c =
    (case c_OpStatus c of
       None \<Rightarrow> panic (msgtxt ''nil pointer dereference: cluster.Status.Operation'')
     | Some os \<Rightarrow> bindE (now E) (\<lambda>t.
         ret (upd_cstatus (\<lambda>st. st\<lparr>cst_Operation := Some (os\<lparr>cos_Phase := phase,
           cos_LastTransitionTime := t, cos_Reason := reason, cos_Message := message,
           cos_SubOperations := subOps\<rparr>)\<rparr>) c)))"

definition updateOpStatus_cluster ::
    "env \<Rightarrow> string \<Rightarrow> string \<Rightarrow> string \<Rightarrow> ClusterManagedNodeOperationStatus list \<Rightarrow> unit ctl" where
  "updateOpStatus_cluster E phase reason message subOps =
    wrapE (msgtxt ''failed to update operation status'')
      (updateClusterStatus E (set_op_fields_cluster E phase reason message subOps))"

section \<open>The nodes of a cluster\<close>

text \<open>The comparison function given to \<^verbatim>\<open>slices.SortFunc\<close> returns a negative number.\<close>

definition node_before :: "Node \<Rightarrow> Node \<Rightarrow> bool" where
  "node_before a b \<longleftrightarrow>
    (if n_Role a = NodeRoleControlplane \<and> n_Role b \<noteq> NodeRoleControlplane then True
     else if n_Role a \<noteq> NodeRoleControlplane \<and> n_Role b = NodeRoleControlplane then False
     else str_less (n_Name a) (n_Name b))"

text \<open>
  \<open>role\<close> is the optional role the callers give. The names of the nodes of a namespace
  are different, so the order of equal elements, which the library leaves open, does not
  matter.
\<close>

definition listEligibleNodes :: "env \<Rightarrow> Cluster \<Rightarrow> string option \<Rightarrow> Node list ctl" where
  "listEligibleNodes E cluster role =
    bindE (wrapE (case role of
          Some r \<Rightarrow> msgtxt ''error listing '' @ r @ msgtxt '' nodes for cluster '' @ c_Name cluster
        | None \<Rightarrow> msgtxt ''error listing nodes for cluster '' @ c_Name cluster)
      (ask (e_nodes E) (Api (ListNodes (Some (c_Namespace cluster)) (Some (c_Name cluster)) role))))
    (\<lambda>items. ret (sort_func node_before
      (filter (\<lambda>node. IsTrue E (n_Conditions node) NodeConditionProvisioned) items)))"

text \<open>The name of the first node with an operation that is neither done nor failed.\<close>

fun otherOpsInProgress :: "Node list \<Rightarrow> string" where
  "otherOpsInProgress [] = []"
| "otherOpsInProgress (node # nodes) =
    (case n_OpStatus node of
       Some os \<Rightarrow>
         if nos_Phase os \<noteq> NodeOperationPhaseDone \<and> nos_Phase os \<noteq> NodeOperationPhaseFailed
         then n_Name node else otherOpsInProgress nodes
     | None \<Rightarrow> otherOpsInProgress nodes)"

definition isOperationComplete_cluster :: "Cluster \<Rightarrow> bool" where
  "isOperationComplete_cluster cluster =
    (case c_OpStatus cluster of
       None \<Rightarrow> True
     | Some os \<Rightarrow> cos_Phase os = ClusterOperationPhaseDone \<or> cos_Phase os = ClusterOperationPhaseFailed)"

section \<open>Effects of the writes\<close>

text \<open>With what is known of the answers to a call.\<close>

lemma emits_onErr_ask:
  assumes "A c" and "\<And>e. emits A (h e)" and "\<And>hs x. f hs c = Inr x \<Longrightarrow> emits A (k x)"
  shows "emits A (onErr (ask f c) h k)"
proof (rule stepsI)
  fix s :: st
  let ?t = "s\<lparr>st_hist := c # st_hist s\<rparr>"
  have st: "grows A s ?t" using assms(1) by (auto simp: grows_def)
  show "grows A s (snd (onErr (ask f c) h k s))"
  proof (cases "f (st_hist s) c")
    case (Inl e)
    have "grows A ?t (snd (h e ?t))" using assms(2) by (simp add: steps_def)
    with Inl st show ?thesis by (auto simp: go_eval intro: grows_trans)
  next
    case (Inr x)
    have "grows A ?t (snd (k x ?t))" using assms(3) [OF Inr] by (simp add: steps_def)
    with Inr st show ?thesis by (auto simp: go_eval intro: grows_trans)
  qed
qed

lemma emits_refreshCluster:
  "(\<And>ns n. A (Api (GetCluster ns n))) \<Longrightarrow> emits A (refreshCluster E)"
  unfolding refreshCluster_def by (intro em.structural emits_prims)

lemma emits_updateClusterStatus:
  assumes "\<And>ns n. A (Api (GetCluster ns n))" and "\<And>c. emits A (fn c)"
    and "\<And>c c' s s'. fn c s = (Ok c', s') \<Longrightarrow> A (Api (StatusUpdateCluster c c'))"
  shows "emits A (updateClusterStatus E fn)"
  unfolding updateClusterStatus_def
proof (rule em.retryOnConflict, rule em.bindE)
  show "emits A (refreshCluster E)" using assms(1) by (rule emits_refreshCluster)
  show "emits A (bindE (fn c) (\<lambda>c'. andThen (set_cluster c')
      (bindE (ask (e_cluster E) (Api (StatusUpdateCluster c c'))) set_cluster)))" for c
    by (rule em.bindE_value) (use assms(2,3) in \<open>auto intro!: em.structural emits_prims\<close>)
qed

lemma emits_updateCluster:
  assumes "\<And>ns n. A (Api (GetCluster ns n))" and "\<And>c. emits A (fn c)"
    and "\<And>c c' s s'. fn c s = (Ok c', s') \<Longrightarrow> A (Api (UpdateCluster c c'))"
  shows "emits A (updateCluster E fn)"
  unfolding updateCluster_def
proof (rule em.retryOnConflict, rule em.bindE)
  show "emits A (refreshCluster E)" using assms(1) by (rule emits_refreshCluster)
  show "emits A (bindE (fn c) (\<lambda>c'. andThen (set_cluster c')
      (bindE (ask (e_cluster E) (Api (UpdateCluster c c'))) set_cluster)))" for c
    by (rule em.bindE_value) (use assms(2,3) in \<open>auto intro!: em.structural emits_prims\<close>)
qed

lemma emits_set_op_fields_cluster: "A (Sys Now) \<Longrightarrow> emits A (set_op_fields_cluster E p r m subs c)"
  unfolding set_op_fields_cluster_def by (intro em.structural emits_prims)

text \<open>What a write of the operation status writes.\<close>

lemma set_op_fields_cluster_ok:
  "set_op_fields_cluster E p r m subs c s = (Ok c', s') \<Longrightarrow>
   \<exists>os os'. c_OpStatus c = Some os \<and> c_OpStatus c' = Some os' \<and> cos_op os' = cos_op os \<and>
     cos_Phase os' = p \<and> cos_Reason os' = r \<and> cos_Message os' = m \<and> cos_SubOperations os' = subs \<and>
     c'\<lparr>c_Status := c_Status c\<rparr> = c"
  by (auto simp: set_op_fields_cluster_def go_ok split: option.splits)

lemma emits_updateOpStatus_cluster:
  assumes "\<And>ns n. A (Api (GetCluster ns n))" and "A (Sys Now)"
    and "\<And>c c' os os'. c_OpStatus c = Some os \<Longrightarrow> c_OpStatus c' = Some os' \<Longrightarrow> cos_op os' = cos_op os \<Longrightarrow>
      cos_Phase os' = p \<Longrightarrow> cos_SubOperations os' = subs \<Longrightarrow> c'\<lparr>c_Status := c_Status c\<rparr> = c \<Longrightarrow>
      A (Api (StatusUpdateCluster c c'))"
  shows "emits A (updateOpStatus_cluster E p r m subs)"
  unfolding updateOpStatus_cluster_def
  by (intro em.wrapE emits_updateClusterStatus emits_set_op_fields_cluster assms(1,2))
    (use assms(3) in \<open>blast dest!: set_op_fields_cluster_ok\<close>)

text \<open>The API server answers a status write with the status written.\<close>

definition echoes :: "env \<Rightarrow> bool" where
  "echoes E \<longleftrightarrow> (\<forall>h b n m. e_cluster E h (Api (StatusUpdateCluster b n)) = Inr m \<longrightarrow> c_Status m = c_Status n)"

lemma updateOpStatus_cluster_ok:
  assumes "echoes E" and "updateOpStatus_cluster E p r m subs s = (Ok x, s')"
  shows "\<exists>os. c_OpStatus (st_cluster s') = Some os \<and> cos_Phase os = p \<and> cos_SubOperations os = subs"
proof -
  let ?w = "\<lambda>c. bindE (set_op_fields_cluster E p r m subs c) (\<lambda>c'. andThen (set_cluster c')
      (bindE (ask (e_cluster E) (Api (StatusUpdateCluster c c'))) set_cluster))"
  obtain t where "bindE (refreshCluster E) ?w t = (Ok x, s')"
    using assms(2) unfolding updateOpStatus_cluster_def updateClusterStatus_def ok_wrapE
    by (blast dest: ok_retryOnConflict)
  then obtain c t1 where "?w c t1 = (Ok x, s')" by (auto simp: ok_bindE)
  then obtain c' t2 m' where c: "set_op_fields_cluster E p r m subs c t1 = (Ok c', t2)"
    and a: "e_cluster E (st_hist t2) (Api (StatusUpdateCluster c c')) = Inr m'"
    and s': "st_cluster s' = m'"
    by (auto simp: go_ok set_cluster_def modify_def)
  show ?thesis
    using set_op_fields_cluster_ok [OF c] a s' assms(1) unfolding echoes_def by metis
qed

text \<open>The clock was read, and showed a time with \<open>P\<close>.\<close>

definition clocked :: "env \<Rightarrow> (int \<Rightarrow> bool) \<Rightarrow> call list \<Rightarrow> bool" where
  "clocked E P h \<longleftrightarrow> (\<exists>later before. h = later @ Sys Now # before \<and> P (e_now E before))"

lemma persists_clocked [simp]: "persists (clocked E P)"
  unfolding persists_def clocked_def by (metis append.assoc)

lemma clocked_Cons: "P (e_now E h) \<Longrightarrow> clocked E P (Sys Now # h)"
  by (auto simp: clocked_def)

section \<open>Order of the nodes\<close>

interpretation node_order: sort_order node_before
proof unfold_locales
  fix x y z :: Node
  show "node_before x y \<Longrightarrow> \<not> node_before y x"
    by (auto simp: node_before_def dest: str_less_asym split: if_splits)
  assume "\<not> node_before y x" "\<not> node_before z y"
  then show "\<not> node_before z x"
    using str_less_linear str_less_trans by (auto simp: node_before_def split: if_splits; metis)
qed

text \<open>Control plane nodes first, by name within each group.\<close>

definition by_name :: "Node list \<Rightarrow> bool" where
  "by_name ns \<longleftrightarrow> sorted_wrt (\<lambda>a b. \<not> str_less (n_Name b) (n_Name a)) ns"

lemma sorted_split:
  assumes "sorted_wrt (\<lambda>a b. \<not> node_before b a) ns"
  shows "ns = filter (\<lambda>n. n_Role n = NodeRoleControlplane) ns @ filter (\<lambda>n. n_Role n \<noteq> NodeRoleControlplane) ns"
  using assms
proof (induction ns)
  case (Cons n ns)
  show ?case
  proof (cases "n_Role n = NodeRoleControlplane")
    case False
    then have "\<forall>m\<in>set ns. n_Role m \<noteq> NodeRoleControlplane"
      using Cons.prems by (auto simp: node_before_def split: if_splits)
    then have "filter (\<lambda>n. n_Role n = NodeRoleControlplane) ns = []"
      "filter (\<lambda>n. n_Role n \<noteq> NodeRoleControlplane) ns = ns" by (simp_all add: filter_empty_conv)
    with False show ?thesis by simp
  qed (use Cons in auto)
qed simp

lemma sorted_group:
  assumes "sorted_wrt (\<lambda>a b. \<not> node_before b a) ns" and "\<And>a b. P a \<Longrightarrow> P b \<Longrightarrow>
    (n_Role a = NodeRoleControlplane) = (n_Role b = NodeRoleControlplane)"
  shows "by_name (filter P ns)"
proof -
  have "\<not> str_less (n_Name b) (n_Name a)" if "P a" "P b" "\<not> node_before b a" for a b
    using assms(2) [OF that(1,2)] that(3) by (simp add: node_before_def split: if_splits)
  with sorted_wrt_filter [OF assms(1), of P] show ?thesis
    unfolding by_name_def by (elim sorted_wrt_mono_rel [rotated]) simp
qed

lemma listEligibleNodes_ok:
  "listEligibleNodes E cluster role s = (Ok nodes, s') \<longleftrightarrow>
    (\<exists>items. e_nodes E (st_hist s) (Api (ListNodes (Some (c_Namespace cluster)) (Some (c_Name cluster)) role)) = Inr items \<and>
      nodes = sort_func node_before (filter (\<lambda>node. IsTrue E (n_Conditions node) NodeConditionProvisioned) items) \<and>
      s' = s\<lparr>st_hist := Api (ListNodes (Some (c_Namespace cluster)) (Some (c_Name cluster)) role) # st_hist s\<rparr>)"
  by (auto simp: listEligibleNodes_def go_ok)

text \<open>
  The nodes a cluster operation works on are exactly the provisioned ones of those the
  API server lists, each as often as it is listed; the control plane nodes come first, and
  within each of the two groups the nodes are in the order of their names.
\<close>

theorem listEligibleNodes_sorted:
  assumes "listEligibleNodes E cluster role s = (Ok nodes, s')"
  shows "\<exists>items cps ws.
    e_nodes E (st_hist s) (Api (ListNodes (Some (c_Namespace cluster)) (Some (c_Name cluster)) role)) = Inr items \<and>
    mset nodes = mset (filter (\<lambda>node. IsTrue E (n_Conditions node) NodeConditionProvisioned) items) \<and>
    nodes = cps @ ws \<and> by_name cps \<and> by_name ws \<and>
    (\<forall>n\<in>set cps. n_Role n = NodeRoleControlplane) \<and> (\<forall>n\<in>set ws. n_Role n \<noteq> NodeRoleControlplane)"
proof -
  let ?cp = "\<lambda>n. n_Role n = NodeRoleControlplane"
  obtain items where items:
    "e_nodes E (st_hist s) (Api (ListNodes (Some (c_Namespace cluster)) (Some (c_Name cluster)) role)) = Inr items"
    "nodes = sort_func node_before (filter (\<lambda>node. IsTrue E (n_Conditions node) NodeConditionProvisioned) items)"
    using assms by (auto simp: listEligibleNodes_ok)
  have sorted: "sorted_wrt (\<lambda>a b. \<not> node_before b a) nodes"
    unfolding items(2) by (rule node_order.sort_func_sorted)
  show ?thesis
  proof (intro exI conjI)
    show "nodes = filter ?cp nodes @ filter (\<lambda>n. \<not> ?cp n) nodes" by (rule sorted_split [OF sorted])
    show "by_name (filter ?cp nodes)" "by_name (filter (\<lambda>n. \<not> ?cp n) nodes)"
      by (rule sorted_group [OF sorted], simp)+
    show "mset nodes = mset (filter (\<lambda>node. IsTrue E (n_Conditions node) NodeConditionProvisioned) items)"
      unfolding items(2) by (simp only: mset_sort_func)
  qed (use items(1) in simp_all)
qed

definition demo_nodes :: "Node list" where
  "demo_nodes = map (\<lambda>(n, r). (demo_node n r)\<lparr>n_Status := demo_status\<lparr>nst_Conditions :=
      [\<lparr>cd_type = NodeConditionProvisioned, cd_status = CTrue, cd_reason = [], cd_message = [], cd_since = 0\<rparr>]\<rparr>\<rparr>)
    [(''w1'', NodeRoleWorker), (''c2'', NodeRoleControlplane), (''c1'', NodeRoleControlplane)]"

definition demo_nodes_env :: env where
  "demo_nodes_env = demo_env\<lparr>e_nodes := \<lambda>h c. Inr demo_nodes\<rparr>"

lemma demo_listed:
  "\<exists>s'. listEligibleNodes demo_nodes_env demo_cluster None demo_st = (Ok (rev demo_nodes), s')"
  by (simp add: listEligibleNodes_ok demo_nodes_env_def demo_nodes_def node_before_def demo_defs const_defs)

theorem listEligibleNodes_sorted_witness:
  "\<exists>cps ws. rev demo_nodes = cps @ ws \<and> by_name cps \<and> by_name ws \<and>
    (\<forall>n\<in>set cps. n_Role n = NodeRoleControlplane) \<and> (\<forall>n\<in>set ws. n_Role n \<noteq> NodeRoleControlplane)"
  using demo_listed listEligibleNodes_sorted [of demo_nodes_env demo_cluster None demo_st "rev demo_nodes"] by blast

section \<open>Nodes with an operation\<close>

lemma otherOpsInProgress_none:
  assumes "\<And>n. n \<in> set nodes \<Longrightarrow> n_Name n \<noteq> []"
  shows "otherOpsInProgress nodes = [] \<longleftrightarrow> (\<forall>n\<in>set nodes. isOperationComplete n)"
  using assms by (induction nodes) (auto simp: isOperationComplete_def split: option.splits)

end
