(* ===== verification/ClusterSubop.thy ===== *)
theory ClusterSubop
  imports ClusterHelpers
begin

text \<open>
  \<^verbatim>\<open>internal/controller/cluster_controller_subop.go\<close>: how the plan of a cluster operation
  is carried out, one operation on one node after the other.
\<close>

section \<open>The sub-operation to work on\<close>

definition SubOpPhaseApplying :: string where
  "SubOpPhaseApplying = ''Applying''"

abbreviation sub_Phase :: "ClusterManagedNodeOperationStatus \<Rightarrow> string" where
  "sub_Phase subOp \<equiv> nos_Phase (sub_op subOp)"

abbreviation sub_Type :: "ClusterManagedNodeOperationStatus \<Rightarrow> string" where
  "sub_Type subOp \<equiv> nos_Type (sub_op subOp)"

text \<open>
  The first one that is not done, with its index. Without one the loop leaves the zero
  value, whose type is empty, so that a sub-operation without a type counts as none.
\<close>

fun find_subOp :: "nat \<Rightarrow> ClusterManagedNodeOperationStatus list \<Rightarrow> (nat \<times> ClusterManagedNodeOperationStatus) option" where
  "find_subOp i [] = None"
| "find_subOp i (subOp # subOps) =
    (if sub_Phase subOp \<noteq> NodeOperationPhaseDone
     then (if sub_Type subOp = [] then None else Some (i, subOp))
     else find_subOp (Suc i) subOps)"

section \<open>Steps of the loop\<close>

text \<open>The operation status of the cluster as it is now; nil is dereferenced.\<close>

definition currentOp :: "ClusterOperationStatus ctl" where
  "currentOp = bindE (gets st_cluster) (\<lambda>c. case c_OpStatus c of
     None \<Rightarrow> panic (msgtxt ''nil pointer dereference: cluster.Status.Operation'')
   | Some os \<Rightarrow> ret os)"

definition updateOp :: "env \<Rightarrow> string \<Rightarrow> string \<Rightarrow> string \<Rightarrow> ClusterManagedNodeOperationStatus list \<Rightarrow> unit ctl" where
  "updateOp E phase reason message subOps =
    wrapE (msgtxt ''error updating cluster operation status'')
      (updateOpStatus_cluster E phase reason message subOps)"

text \<open>Lines 109 to 130: the operation of the plan becomes the operation status of the node.\<close>

definition startNodeOperation :: "env \<Rightarrow> Node \<Rightarrow> ClusterManagedNodeOperationStatus \<Rightarrow> unit ctl" where
  "startNodeOperation E node subOp =
    wrapE (msgtxt ''error starting node operation on node `'' @ n_Name node @ ''`'')
      (retryOnConflict (e_retries E) (
        bindE (ask (e_node E) (Api (GetNode (n_Namespace node) (n_Name node)))) (\<lambda>n.
        bindE (now E) (\<lambda>t.
        bindE (ask (e_node E) (Api (StatusUpdateNode n (upd_status (\<lambda>st. st\<lparr>nst_Operation := Some
          \<lparr>nos_op = nos_op (sub_op subOp), nos_Phase = NodeOperationPhasePending,
           nos_Reason = OperationReasonInitialized,
           nos_Message = msgtxt ''Node operation has been initialized by cluster controller'',
           nos_LastTransitionTime = t\<rparr>\<rparr>) n)))) (\<lambda>_. ret ())))))"

text \<open>
  Writing a sub-operation back (lines 136 to 146 and 160 to 170). The slice belongs to the
  operation status of the cluster in memory, which changes before the write does.
\<close>

definition set_subOp :: "env \<Rightarrow> ClusterOperationStatus \<Rightarrow> nat \<Rightarrow> ClusterManagedNodeOperationStatus \<Rightarrow> unit ctl" where
  "set_subOp E opStatus i subOp =
    (if i < length (cos_SubOperations opStatus) then
       let subOps = (cos_SubOperations opStatus)[i := subOp] in
       bindE (gets st_cluster) (\<lambda>c.
       andThen (set_cluster (upd_cstatus (\<lambda>st. st\<lparr>cst_Operation := Some (opStatus\<lparr>cos_SubOperations := subOps\<rparr>)\<rparr>) c)) (
       updateOp E (cos_Phase opStatus) (cos_Reason opStatus) (cos_Message opStatus) subOps))
     else panic (msgtxt ''index out of range: opStatus.SubOperations''))"

definition startSubOp ::
    "env \<Rightarrow> Node \<Rightarrow> nat \<Rightarrow> ClusterManagedNodeOperationStatus \<Rightarrow> ClusterOperationStatus \<Rightarrow> result ctl" where
  "startSubOp E node i subOp opStatus =
    andThen (startNodeOperation E node subOp) (
    bindE (now E) (\<lambda>t.
    andThen (set_subOp E opStatus i (subOp\<lparr>sub_op := (sub_op subOp)\<lparr>nos_Phase := SubOpPhaseApplying,
      nos_LastTransitionTime := t, nos_Reason := OperationReasonStarted,
      nos_Message := msgtxt ''Node operation has been started''\<rparr>\<rparr>))
      (ret (Some RequeueShortDelay))))"

text \<open>Lines 214 to 233.\<close>

definition checkFailure :: "env \<Rightarrow> ClusterManagedNodeOperationStatus \<Rightarrow> ClusterOperationStatus \<Rightarrow> result ctl" where
  "checkFailure E subOp opStatus =
    (if sub_Phase subOp = NodeOperationPhaseFailed
     then andThen (updateOp E ClusterOperationPhaseFailed ClusterOperationReasonSubOperationFailed
            (msgtxt ''Node operation on node `'' @ sub_NodeName subOp @ msgtxt ''` failed: ''
             @ nos_Message (sub_op subOp)) (cos_SubOperations opStatus)) (ret None)
     else ret (Some RequeueShortDelay))"

text \<open>Lines 173 to 211: the node is still at work; the timeout is added up in int64.\<close>

definition waitSubOp ::
    "env \<Rightarrow> ClusterManagedNodeOperationStatus \<Rightarrow> ClusterOperationStatus \<Rightarrow> result ctl" where
  "waitSubOp E subOp opStatus =
    bindE (gets st_cluster) (\<lambda>cluster.
    let (d, invalid) = GetPhaseTimeout (cs_Options (c_Spec cluster));
        phaseTimeout = wrap64 (d + 2 * Minute)
    in andThen (if invalid then event EventTypeWarning EventReasonValidationError EventActionRunningOperation
                else ret ()) (
       bindE (time_Since E (nos_LastTransitionTime (sub_op subOp))) (\<lambda>elapsed.
       if phaseTimeout < elapsed
       then andThen (updateOp E ClusterOperationPhaseFailed OperationReasonTimedOut
              (msgtxt ''Node operation on node `'' @ sub_NodeName subOp @ msgtxt ''` timed out'')
              (cos_SubOperations opStatus)) (ret None)
       else ret (Some RequeueShortDelay))))"

text \<open>Lines 150 to 212.\<close>

definition watchSubOp ::
    "env \<Rightarrow> Node \<Rightarrow> nat \<Rightarrow> ClusterManagedNodeOperationStatus \<Rightarrow> ClusterOperationStatus \<Rightarrow> result ctl" where
  "watchSubOp E node i subOp opStatus =
    (case n_OpStatus node of
       Some os \<Rightarrow>
         if nos_Phase os = NodeOperationPhaseDone \<or> nos_Phase os = NodeOperationPhaseFailed
         then bindE (now E) (\<lambda>t.
           let subOp' = subOp\<lparr>sub_op := (sub_op subOp)\<lparr>nos_Phase := nos_Phase os, nos_Reason := nos_Reason os,
                 nos_Message := nos_Message os, nos_LastTransitionTime := t\<rparr>\<rparr>
           in andThen (set_subOp E opStatus i subOp') (bindE currentOp (checkFailure E subOp')))
         else waitSubOp E subOp opStatus
     | None \<Rightarrow> waitSubOp E subOp opStatus)"

definition runSubOp ::
    "env \<Rightarrow> nat \<Rightarrow> ClusterManagedNodeOperationStatus \<Rightarrow> ClusterOperationStatus \<Rightarrow> result ctl" where
  "runSubOp E i subOp opStatus =
    bindE (gets st_cluster) (\<lambda>cluster.
    onErr (ask (e_node E) (Api (GetNode (c_Namespace cluster) (sub_NodeName subOp))))
      (\<lambda>err. andThen (updateOp E ClusterOperationPhaseFailed ClusterOperationReasonNodeGetFailed
          (msgtxt ''Failed to fetch node `'' @ sub_NodeName subOp @ ''`: '' @ emsg err)
          (cos_SubOperations opStatus)) (ret None)) (\<lambda>node.
    if sub_Phase subOp = NodeOperationPhasePending then startSubOp E node i subOp opStatus
    else if sub_Phase subOp = SubOpPhaseApplying then watchSubOp E node i subOp opStatus
    else checkFailure E subOp opStatus))"

text \<open>Lines 59 to 78: the message of the cluster names the sub-operation.\<close>

definition announceSubOp ::
    "env \<Rightarrow> nat \<Rightarrow> ClusterManagedNodeOperationStatus \<Rightarrow> ClusterOperationStatus \<Rightarrow> ClusterOperationStatus ctl" where
  "announceSubOp E i subOp opStatus =
    (let statusMessage = msgtxt ''Running operation '' @ itoa (int i + 1) @ msgtxt '' of ''
           @ itoa (int (length (cos_SubOperations opStatus))) @ msgtxt '' on node `''
           @ sub_NodeName subOp @ ''`''
     in if cos_Message opStatus \<noteq> statusMessage
        then andThen (updateOp E ClusterOperationPhaseInProgress (cos_Reason opStatus)
               statusMessage (cos_SubOperations opStatus)) currentOp
        else ret opStatus)"

definition runPlan :: "env \<Rightarrow> ClusterOperationStatus \<Rightarrow> result ctl" where
  "runPlan E opStatus =
    (if cos_Phase opStatus = ClusterOperationPhaseInProgress
     then (case find_subOp 0 (cos_SubOperations opStatus) of
         None \<Rightarrow>
           andThen (updateOp E ClusterOperationPhasePostflight OperationReasonCompleted
             (cos_Type opStatus @ msgtxt '' sub-operations are complete'') (cos_SubOperations opStatus))
             (ret None)
       | Some (i, subOp) \<Rightarrow> bindE (announceSubOp E i subOp opStatus) (runSubOp E i subOp))
     else ret None)"

definition runSubOperations :: "env \<Rightarrow> result ctl" where
  "runSubOperations E = bindE currentOp (runPlan E)"

section \<open>Plans\<close>

lemma find_subOp_skip:
  "\<forall>d\<in>set ds. sub_Phase d = NodeOperationPhaseDone \<Longrightarrow> find_subOp k (ds @ xs) = find_subOp (k + length ds) xs"
  by (induction ds arbitrary: k) simp_all

lemma find_subOp_found:
  "find_subOp k subs = Some (i, x) \<Longrightarrow>
    \<exists>ds ps. subs = ds @ x # ps \<and> i = k + length ds \<and> (\<forall>d\<in>set ds. sub_Phase d = NodeOperationPhaseDone) \<and>
      sub_Phase x \<noteq> NodeOperationPhaseDone \<and> sub_Type x \<noteq> []"
proof (induction subs arbitrary: k)
  case (Cons a subs)
  show ?case
  proof (cases "sub_Phase a = NodeOperationPhaseDone")
    case True
    with Cons obtain ds ps where "subs = ds @ x # ps" "i = Suc k + length ds"
        "\<forall>d\<in>set ds. sub_Phase d = NodeOperationPhaseDone" "sub_Phase x \<noteq> NodeOperationPhaseDone" "sub_Type x \<noteq> []"
      by (auto dest!: Cons.IH)
    with True show ?thesis by (intro exI [of _ "a # ds"] exI [of _ ps]) simp
  next
    case False
    with Cons.prems show ?thesis by (intro exI [of _ "[]"] exI [of _ subs]) (auto split: if_splits)
  qed
qed simp

lemma find_subOp_split:
  "find_subOp k subs = Some (i, x) \<longleftrightarrow>
    (\<exists>ds ps. subs = ds @ x # ps \<and> i = k + length ds \<and> (\<forall>d\<in>set ds. sub_Phase d = NodeOperationPhaseDone) \<and>
      sub_Phase x \<noteq> NodeOperationPhaseDone \<and> sub_Type x \<noteq> [])"
  by (rule iffI, erule find_subOp_found) (auto simp: find_subOp_skip)

lemma find_subOp_None:
  assumes "\<And>x. x \<in> set subs \<Longrightarrow> sub_Type x \<noteq> []"
  shows "find_subOp k subs = None \<longleftrightarrow> (\<forall>x\<in>set subs. sub_Phase x = NodeOperationPhaseDone)"
  using assms by (induction subs arbitrary: k) auto

text \<open>What a sub-operation asks for: the operation and the node.\<close>

definition task :: "ClusterManagedNodeOperationStatus \<Rightarrow> NodeOperation \<times> string" where
  "task x = (nos_op (sub_op x), sub_NodeName x)"

text \<open>
  The abstract plan: the first sub-operation that is not done is started or ends, and
  nothing else changes.
\<close>

inductive subop_step ::
    "ClusterManagedNodeOperationStatus list \<Rightarrow> ClusterManagedNodeOperationStatus list \<Rightarrow> bool" where
  start: "find_subOp 0 subs = Some (i, x) \<Longrightarrow> sub_Phase x = NodeOperationPhasePending \<Longrightarrow>
    task y = task x \<Longrightarrow> sub_Phase y = SubOpPhaseApplying \<Longrightarrow> subop_step subs (subs[i := y])"
| finish: "find_subOp 0 subs = Some (i, x) \<Longrightarrow> sub_Phase x = SubOpPhaseApplying \<Longrightarrow>
    task y = task x \<Longrightarrow> sub_Phase y \<in> {NodeOperationPhaseDone, NodeOperationPhaseFailed} \<Longrightarrow>
    subop_step subs (subs[i := y])"

inductive_cases subop_stepE: "subop_step subs subs'"

lemma SubOpPhaseApplying_simps [simp]:
  "SubOpPhaseApplying \<noteq> NodeOperationPhaseDone" "SubOpPhaseApplying \<noteq> NodeOperationPhaseFailed"
  "SubOpPhaseApplying \<noteq> NodeOperationPhasePending" "NodeOperationPhaseFailed \<noteq> SubOpPhaseApplying"
  "NodeOperationPhaseDone \<noteq> SubOpPhaseApplying" "NodeOperationPhasePending \<noteq> SubOpPhaseApplying"
  by (simp_all add: SubOpPhaseApplying_def const_defs)

lemma subop_step_split:
  assumes "subop_step subs subs'"
  obtains ds x y ps where "subs = ds @ x # ps" and "subs' = ds @ y # ps" and "task y = task x"
    and "\<forall>d\<in>set ds. sub_Phase d = NodeOperationPhaseDone"
    and "sub_Phase x \<in> {NodeOperationPhasePending, SubOpPhaseApplying}"
    and "sub_Phase y \<in> {SubOpPhaseApplying, NodeOperationPhaseDone, NodeOperationPhaseFailed}"
  using assms by (elim subop_stepE) (force simp: find_subOp_split)+

text \<open>Done ones, at most one that is at work or has failed, and pending ones, in this order.\<close>

definition in_order :: "ClusterManagedNodeOperationStatus list \<Rightarrow> bool" where
  "in_order subs \<longleftrightarrow>
    (\<exists>ds rs ps. subs = ds @ rs @ ps \<and> length rs \<le> 1 \<and>
      (\<forall>x\<in>set ds. sub_Phase x = NodeOperationPhaseDone) \<and>
      (\<forall>x\<in>set rs. sub_Phase x \<in> {SubOpPhaseApplying, NodeOperationPhaseFailed}) \<and>
      (\<forall>x\<in>set ps. sub_Phase x = NodeOperationPhasePending))"

lemma in_orderI:
  assumes "\<forall>d\<in>set ds. sub_Phase d = NodeOperationPhaseDone"
    and "sub_Phase y \<in> {SubOpPhaseApplying, NodeOperationPhaseDone, NodeOperationPhaseFailed}"
    and "\<forall>p\<in>set ps. sub_Phase p = NodeOperationPhasePending"
  shows "in_order (ds @ y # ps)"
proof (cases "sub_Phase y = NodeOperationPhaseDone")
  case True
  with assms show ?thesis
    unfolding in_order_def by (intro exI [of _ "ds @ [y]"] exI [of _ "[]"] exI [of _ ps]) auto
next
  case False
  with assms show ?thesis
    unfolding in_order_def by (intro exI [of _ ds] exI [of _ "[y]"] exI [of _ ps]) auto
qed

lemma in_order_tail:
  assumes "in_order (ds @ x # ps)" and "\<forall>d\<in>set ds. sub_Phase d = NodeOperationPhaseDone"
    and "sub_Phase x \<noteq> NodeOperationPhaseDone"
  shows "\<forall>p\<in>set ps. sub_Phase p = NodeOperationPhasePending"
proof -
  obtain ds' rs ps' where s: "ds @ x # ps = ds' @ rs @ ps'" "length rs \<le> 1"
      "\<forall>x\<in>set ds'. sub_Phase x = NodeOperationPhaseDone" "\<forall>x\<in>set ps'. sub_Phase x = NodeOperationPhasePending"
    using assms(1) by (auto simp: in_order_def)
  have "length ds' \<le> length ds"
  proof (rule ccontr)
    assume "\<not> length ds' \<le> length ds"
    then have "x \<in> set ds'" using arg_cong [OF s(1), of "\<lambda>xs. xs ! length ds"]
      by (simp add: nth_append)
    with s(3) assms(3) show False by simp
  qed
  then have "set ps \<subseteq> set (drop (Suc (length ds)) (ds' @ rs @ ps'))" "Suc (length ds) \<ge> length (ds' @ rs)"
    using s(2) unfolding s(1) [symmetric] by simp_all
  then have "set ps \<subseteq> set ps'" by (force dest: in_set_dropD)
  with s(4) show ?thesis by auto
qed

lemma in_order_step: "subop_step subs subs' \<Longrightarrow> in_order subs \<Longrightarrow> in_order subs'"
  by (elim subop_step_split) (auto intro!: in_orderI dest: in_order_tail)

lemma step_tasks: "subop_step subs subs' \<Longrightarrow> map task subs' = map task subs"
  by (elim subop_step_split) simp

lemma in_order_Pending: "\<forall>x\<in>set plan. sub_Phase x = NodeOperationPhasePending \<Longrightarrow> in_order plan"
  unfolding in_order_def by (intro exI [of _ "[]"] exI [of _ plan]) simp

lemma in_order_running:
  assumes "in_order subs" and "i < length subs" and "j < length subs"
    and "sub_Phase (subs ! i) = SubOpPhaseApplying" and "sub_Phase (subs ! j) = SubOpPhaseApplying"
  shows "i = j"
proof -
  obtain ds rs ps where s: "subs = ds @ rs @ ps" "length rs \<le> 1"
      "\<forall>x\<in>set ds. sub_Phase x = NodeOperationPhaseDone" "\<forall>x\<in>set ps. sub_Phase x = NodeOperationPhasePending"
    using assms(1) by (auto simp: in_order_def)
  have "length ds \<le> k \<and> k < length ds + length rs"
    if "k < length subs" "sub_Phase (subs ! k) = SubOpPhaseApplying" for k
    using that s by (auto simp: nth_append split: if_splits)
  from this [OF assms(2,4)] this [OF assms(3,5)] s(2) show ?thesis by simp
qed

text \<open>
  A plan is carried out one node at a time and in its order: whatever steps the
  sub-operations of a plan of pending ones have taken, they are still those of the plan,
  first done ones, then at most one that is at work or has failed, then pending ones, and
  never are two of them at work; after a failure no further step is taken.
\<close>

lemma subop_plan_in_order:
  assumes "\<forall>x\<in>set plan. sub_Phase x = NodeOperationPhasePending" and "subop_step\<^sup>*\<^sup>* plan subs"
  shows "map task subs = map task plan \<and> in_order subs \<and>
    (\<forall>i<length subs. \<forall>j<length subs. sub_Phase (subs ! i) = SubOpPhaseApplying \<longrightarrow>
      sub_Phase (subs ! j) = SubOpPhaseApplying \<longrightarrow> i = j) \<and>
    ((\<exists>x\<in>set subs. sub_Phase x = NodeOperationPhaseFailed) \<longrightarrow> (\<nexists>subs'. subop_step subs subs'))"
proof -
  from assms(2) have inv: "map task subs = map task plan \<and> in_order subs"
  proof (induction rule: rtranclp_induct)
    case base
    then show ?case using in_order_Pending [OF assms(1)] by simp
  next
    case (step subs subs')
    then show ?case by (simp add: in_order_step step_tasks)
  qed
  have "\<not> subop_step subs subs'" if failed: "\<exists>x\<in>set subs. sub_Phase x = NodeOperationPhaseFailed" for subs'
  proof
    assume "subop_step subs subs'"
    then obtain ds x ps where "subs = ds @ x # ps" "\<forall>d\<in>set ds. sub_Phase d = NodeOperationPhaseDone"
      "sub_Phase x \<in> {NodeOperationPhasePending, SubOpPhaseApplying}"
      by (auto elim: subop_step_split)
    moreover from this inv have "\<forall>p\<in>set ps. sub_Phase p = NodeOperationPhasePending"
      by (auto dest: in_order_tail)
    ultimately show False using failed by auto
  qed
  with inv show ?thesis by (auto dest: in_order_running)
qed

text \<open>A cluster with an operation, and a world that has it.\<close>

definition demo_sub :: "string \<Rightarrow> string \<Rightarrow> string \<Rightarrow> ClusterManagedNodeOperationStatus" where
  "demo_sub type phase name = \<lparr>sub_op = demo_op type phase, sub_NodeName = name\<rparr>"

definition demo_cop :: "string \<Rightarrow> string \<Rightarrow> ClusterManagedNodeOperationStatus list \<Rightarrow> ClusterOperationStatus" where
  "demo_cop type phase subs =
    \<lparr>cos_op = \<lparr>cop_Type = type\<rparr>, cos_Phase = phase, cos_Reason = [], cos_Message = [],
     cos_LastTransitionTime = 1000 * Hour, cos_SubOperations = subs\<rparr>"

definition demo_cop_cluster :: "ClusterOperationStatus \<Rightarrow> Cluster" where
  "demo_cop_cluster os = upd_cstatus (\<lambda>st. st\<lparr>cst_Operation := Some os\<rparr>) demo_cluster"

definition demo_cop_env :: "ClusterOperationStatus \<Rightarrow> env" where
  "demo_cop_env os = demo_env\<lparr>
    e_node := \<lambda>h c. (case c of Api (GetNode ns nm) \<Rightarrow> Inr (demo_node nm NodeRoleWorker)
      | Api (StatusUpdateNode b n) \<Rightarrow> Inr n | _ \<Rightarrow> Inr (demo_node ''n1'' NodeRoleWorker)),
    e_cluster := \<lambda>h c. (case cluster_status_write c of Some (b, n) \<Rightarrow> Inr n | None \<Rightarrow> Inr (demo_cop_cluster os))\<rparr>"

definition demo_cop_st :: "ClusterOperationStatus \<Rightarrow> st" where
  "demo_cop_st os = demo_st\<lparr>st_cluster := demo_cop_cluster os\<rparr>"

lemmas demo_cop_defs = demo_sub_def demo_cop_def demo_cop_cluster_def demo_cop_env_def demo_cop_st_def

section \<open>The controller carries out the plan\<close>

lemma andThen_assoc: "andThen m (bindE n k) = bindE (andThen m n) k"
  by (rule ext) (auto simp: go_eval split: prod.splits outcome.splits)

lemma currentOp_ok: "currentOp s = (Ok os, s') \<longleftrightarrow> c_OpStatus (st_cluster s) = Some os \<and> s' = s"
  by (auto simp: currentOp_def go_ok split: option.splits)

lemma updateOp_ok:
  "echoes E \<Longrightarrow> andThen (updateOp E p r m subs) currentOp s = (Ok os, s') \<Longrightarrow>
   cos_Phase os = p \<and> cos_SubOperations os = subs"
  by (auto simp: updateOp_def go_ok currentOp_ok dest: updateOpStatus_cluster_ok)

text \<open>The API server answers with the object it was asked for.\<close>

definition named :: "env \<Rightarrow> bool" where
  "named E \<longleftrightarrow> (\<forall>h ns nm n. e_node E h (Api (GetNode ns nm)) = Inr n \<longrightarrow> n_Name n = nm)"

text \<open>
  What working on the sub-operations \<open>subs\<close> may do: a write of the cluster changes its
  status only, takes at most one step of the plan, and declares the plan complete only
  when nothing is left of it; a write of a node starts, on the node it names, exactly the
  pending sub-operation whose turn it is; machines and workloads are not touched.
\<close>

definition subop_call :: "ClusterManagedNodeOperationStatus list \<Rightarrow> call \<Rightarrow> bool" where
  "subop_call subs c \<longleftrightarrow>
    (case c of
       Api (StatusUpdateCluster b n) \<Rightarrow>
         n\<lparr>c_Status := c_Status b\<rparr> = b \<and>
         (\<exists>os. c_OpStatus n = Some os \<and> subop_step\<^sup>=\<^sup>= subs (cos_SubOperations os) \<and>
           (cos_Phase os = ClusterOperationPhaseInProgress \<or> cos_Phase os = ClusterOperationPhaseFailed \<or>
            cos_Phase os = ClusterOperationPhasePostflight \<and> find_subOp 0 subs = None))
     | Api (StatusUpdateNode b n) \<Rightarrow>
         n\<lparr>n_Status := n_Status b\<rparr> = b \<and>
         (\<exists>i x os. find_subOp 0 subs = Some (i, x) \<and> sub_Phase x = NodeOperationPhasePending \<and>
           n_Name b = sub_NodeName x \<and> n_OpStatus n = Some os \<and>
           nos_op os = nos_op (sub_op x) \<and> nos_Phase os = NodeOperationPhasePending)
     | Event t r a \<Rightarrow> True
     | _ \<Rightarrow> is_read c)"

lemma subop_call_simps [simp]:
  "subop_call subs (Sys y)" "subop_call subs (Event t r a)" "subop_call subs (Api (GetNode ns nm))"
  "subop_call subs (Api (GetCluster ns nm))"
  by (simp_all add: subop_call_def)

lemma emits_updateOp:
  assumes "subop_step\<^sup>=\<^sup>= subs subs'" and "p = ClusterOperationPhaseInProgress \<or> p = ClusterOperationPhaseFailed \<or>
    p = ClusterOperationPhasePostflight \<and> find_subOp 0 subs = None"
  shows "emits (subop_call subs) (updateOp E p r m subs')"
  unfolding updateOp_def
  by (intro em.wrapE emits_updateOpStatus_cluster) (use assms in \<open>auto simp: subop_call_def\<close>)

lemma emits_currentOp: "emits A currentOp"
  unfolding currentOp_def by (intro em.structural)

lemma emits_startNodeOperation:
  assumes "named E" and "find_subOp 0 subs = Some (i, x)" and "sub_Phase x = NodeOperationPhasePending"
    and "n_Name node = sub_NodeName x"
  shows "emits (subop_call subs) (startNodeOperation E node x)"
  unfolding startNodeOperation_def
proof (rule em.wrapE, rule em.retryOnConflict, rule em.bindE_value)
  show "emits (subop_call subs) (ask (e_node E) (Api (GetNode (n_Namespace node) (n_Name node))))"
    by (rule emits_ask) simp
  fix n s s'
  assume "ask (e_node E) (Api (GetNode (n_Namespace node) (n_Name node))) s = (Ok n, s')"
  then have "n_Name n = sub_NodeName x" using assms(1,4) by (auto simp: go_ok named_def)
  then show "emits (subop_call subs) (bindE (now E) (\<lambda>t.
      bindE (ask (e_node E) (Api (StatusUpdateNode n (upd_status (\<lambda>st. st\<lparr>nst_Operation := Some
        \<lparr>nos_op = nos_op (sub_op x), nos_Phase = NodeOperationPhasePending,
         nos_Reason = OperationReasonInitialized,
         nos_Message = msgtxt ''Node operation has been initialized by cluster controller'',
         nos_LastTransitionTime = t\<rparr>\<rparr>) n)))) (\<lambda>_. ret ())))"
    by (intro em.structural emits_prims) (use assms in \<open>simp_all add: subop_call_def\<close>)
qed

lemma emits_set_subOp:
  assumes "subop_step subs (subs[i := y])" and "cos_SubOperations os = subs"
    and "cos_Phase os = ClusterOperationPhaseInProgress"
  shows "emits (subop_call subs) (set_subOp E os i y)"
  unfolding set_subOp_def Let_def
  by (intro em.structural emits_prims emits_updateOp) (use assms in simp_all)

lemma set_subOp_currentOp:
  assumes "echoes E" and "andThen (set_subOp E os i y) currentOp s = (Ok os', s')"
  shows "cos_SubOperations os' = (cos_SubOperations os)[i := y]"
proof -
  obtain t where "set_subOp E os i y s = (Ok (), t)" "currentOp t = (Ok os', s')"
    using assms(2) by (auto simp: go_ok)
  then show ?thesis using updateOpStatus_cluster_ok [OF assms(1)]
    by (fastforce simp: set_subOp_def Let_def go_ok updateOp_def currentOp_ok split: if_splits)
qed

lemma emits_checkFailure:
  assumes "subop_step\<^sup>=\<^sup>= subs (cos_SubOperations os)"
  shows "emits (subop_call subs) (checkFailure E x os)"
  unfolding checkFailure_def by (intro em.structural emits_updateOp) (use assms in simp_all)

lemma emits_waitSubOp:
  assumes "cos_SubOperations os = subs"
  shows "emits (subop_call subs) (waitSubOp E x os)"
  unfolding waitSubOp_def Let_def
  by (intro em.structural emits_prims emits_updateOp) (use assms in simp_all)

lemma emits_runSubOp:
  assumes "echoes E" and "named E" and f: "find_subOp 0 subs = Some (i, x)" and os: "cos_SubOperations os = subs"
    and ph: "cos_Phase os = ClusterOperationPhaseInProgress"
  shows "emits (subop_call subs) (runSubOp E i x os)"
proof -
  have finish: "emits (subop_call subs) (bindE (andThen (set_subOp E os i y) currentOp) (checkFailure E y))"
    if "sub_Phase x = SubOpPhaseApplying" "task y = task x"
      "sub_Phase y \<in> {NodeOperationPhaseDone, NodeOperationPhaseFailed}" for y
  proof (rule em.bindE_value)
    have step: "subop_step subs (subs[i := y])" using f that by (rule finish)
    show "emits (subop_call subs) (andThen (set_subOp E os i y) currentOp)"
      by (intro em.andThen emits_currentOp emits_set_subOp step os ph)
    show "emits (subop_call subs) (checkFailure E y os')"
      if "andThen (set_subOp E os i y) currentOp s = (Ok os', s')" for os' s s'
      using set_subOp_currentOp [OF assms(1) that] step os by (intro emits_checkFailure) simp
  qed
  have watch: "emits (subop_call subs) (watchSubOp E node i x os)" if "sub_Phase x = SubOpPhaseApplying" for node
    unfolding watchSubOp_def Let_def andThen_assoc
    by (intro em.structural emits_prims finish emits_waitSubOp os) (use that in \<open>auto simp: task_def\<close>)
  have start: "emits (subop_call subs) (startSubOp E node i x os)"
    if "sub_Phase x = NodeOperationPhasePending" "n_Name node = sub_NodeName x" for node
    unfolding startSubOp_def
    by (intro em.structural emits_prims emits_startNodeOperation [OF assms(2) f that] emits_set_subOp
        subop_step.start [OF f that(1)] os ph) (simp_all add: task_def)
  show ?thesis
    unfolding runSubOp_def
    by (intro em.bindE em.basic emits_onErr_ask em.andThen emits_updateOp em.if_step watch start
        emits_checkFailure) (use assms(2) os in \<open>auto simp: named_def\<close>)
qed

lemma emits_announceSubOp: "emits (subop_call (cos_SubOperations os)) (announceSubOp E i x os)"
  unfolding announceSubOp_def Let_def by (intro em.structural emits_updateOp emits_currentOp) simp_all

lemma announceSubOp_ok:
  assumes "echoes E" and "announceSubOp E i x os s = (Ok os', s')" and "cos_Phase os = ClusterOperationPhaseInProgress"
  shows "cos_Phase os' = ClusterOperationPhaseInProgress \<and> cos_SubOperations os' = cos_SubOperations os"
  using assms updateOp_ok [OF assms(1)] by (auto simp: announceSubOp_def Let_def ok_basic split: if_splits)

lemma emits_runPlan:
  assumes "echoes E" and "named E"
  shows "emits (subop_call (cos_SubOperations os)) (runPlan E os)"
  unfolding runPlan_def
proof (intro em.if_step em.option_step em.prod_step em.basic)
  assume ph: "cos_Phase os = ClusterOperationPhaseInProgress"
  show "emits (subop_call (cos_SubOperations os)) (andThen (updateOp E ClusterOperationPhasePostflight
      OperationReasonCompleted (cos_Type os @ msgtxt '' sub-operations are complete'') (cos_SubOperations os)) (ret None))"
    if "find_subOp 0 (cos_SubOperations os) = None"
    using that by (intro em.andThen em.basic emits_updateOp) simp_all
  show "emits (subop_call (cos_SubOperations os)) (bindE (announceSubOp E i x os) (runSubOp E i x))"
    if "find_subOp 0 (cos_SubOperations os) = Some y" "y = (i, x)" for y i x
    by (rule em.bindE_value [OF emits_announceSubOp])
      (use that announceSubOp_ok [OF assms(1) _ ph] assms in \<open>blast intro: emits_runSubOp\<close>)
qed


lemma demo_world [simp]: "echoes (demo_cop_env os)" "named (demo_cop_env os)"
  by (simp_all add: echoes_def named_def demo_cop_env_def demo_node_def)

definition demo_plan :: ClusterOperationStatus where
  "demo_plan = demo_cop ClusterOperationTypeRollingReboot ClusterOperationPhaseInProgress
    [demo_sub NodeOperationTypeReboot NodeOperationPhaseDone ''n1'',
     demo_sub NodeOperationTypeReboot NodeOperationPhasePending ''n2'']"

lemma demo_plan_starts:
  "list_ex (\<lambda>c. case node_status_write c of Some (b, n) \<Rightarrow> n_Name b = ''n2'' | None \<Rightarrow> False)
    (st_hist (snd (runSubOperations (demo_cop_env demo_plan) (demo_cop_st demo_plan))))"
  by (simp add: runSubOperations_def runPlan_def announceSubOp_def runSubOp_def startSubOp_def startNodeOperation_def
      set_subOp_def updateOp_def updateOpStatus_cluster_def updateClusterStatus_def refreshCluster_def
      set_op_fields_cluster_def currentOp_def demo_plan_def demo_cop_defs demo_defs go_eval Let_def)


end
