(* ===== verification/ClusterOps.thy ===== *)
theory ClusterOps
  imports ClusterSubop
begin

text \<open>
  The cluster operations: \<^verbatim>\<open>cluster_controller_apply.go\<close>, \<^verbatim>\<open>cluster_controller_reboot.go\<close>,
  \<^verbatim>\<open>cluster_controller_bootstrap.go\<close> and \<^verbatim>\<open>cluster_controller_kubernetesupgrade.go\<close>. Each
  makes a plan in Pending, works on it in InProgress and finishes in Postflight.
\<close>

section \<open>Common steps\<close>

text \<open>The places that fail the operation without sub-operations and return nil, nil.\<close>

definition failCluster :: "env \<Rightarrow> string \<Rightarrow> string \<Rightarrow> result ctl" where
  "failCluster E reason message =
    andThen (updateOp E ClusterOperationPhaseFailed reason message []) (ret None)"

definition refuse :: "env \<Rightarrow> string \<Rightarrow> string \<Rightarrow> result ctl" where
  "refuse E reason inProgressName =
    failCluster E reason (msgtxt ''Another node operation is in progress on node `'' @ inProgressName
      @ msgtxt ''`, refusing to start cluster operation'')"

definition plan_step :: "NodeOperation \<Rightarrow> Node \<Rightarrow> ClusterManagedNodeOperationStatus" where
  "plan_step op node =
    \<lparr>sub_op = \<lparr>nos_op = op, nos_Phase = NodeOperationPhasePending, nos_Reason = [], nos_Message = [],
               nos_LastTransitionTime = 0\<rparr>,
     sub_NodeName = n_Name node\<rparr>"

definition startPlan :: "env \<Rightarrow> string \<Rightarrow> ClusterManagedNodeOperationStatus list \<Rightarrow> result ctl" where
  "startPlan E message plan =
    andThen (updateOp E ClusterOperationPhaseInProgress OperationReasonStarted message plan)
      (ret (Some RequeueShortDelay))"

definition inProgress :: "env \<Rightarrow> result ctl" where
  "inProgress E =
    bindE (wrapE (msgtxt ''error running sub-operations'') (runSubOperations E)) (\<lambda>res.
    case res of Some r \<Rightarrow> ret (Some r) | None \<Rightarrow> ret (Some RequeueShortDelay))"

definition finishCluster :: "env \<Rightarrow> string \<Rightarrow> ClusterOperationStatus \<Rightarrow> result ctl" where
  "finishCluster E message opStatus =
    andThen (updateOp E ClusterOperationPhaseDone OperationReasonCompleted message
      (cos_SubOperations opStatus)) (ret (Some RequeueShortDelay))"

text \<open>The switch over the phase; any other phase comes back later.\<close>

definition clusterPhases ::
    "(Cluster \<Rightarrow> result ctl) \<Rightarrow> result ctl \<Rightarrow> (Cluster \<Rightarrow> ClusterOperationStatus \<Rightarrow> result ctl) \<Rightarrow> result ctl" where
  "clusterPhases pending working postflight =
    bindE currentOp (\<lambda>opStatus.
    bindE (gets st_cluster) (\<lambda>cluster.
      if cos_Phase opStatus = ClusterOperationPhasePending then pending cluster
      else if cos_Phase opStatus = ClusterOperationPhaseInProgress then working
      else if cos_Phase opStatus = ClusterOperationPhasePostflight then postflight cluster opStatus
      else ret (Some RequeueShortDelay)))"

section \<open>Rolling apply\<close>

text \<open>Lines 49 to 97: the plan, or why a node does not allow it.\<close>

fun planApply ::
    "env \<Rightarrow> ClusterManagedNodeOperationStatus list \<Rightarrow> Node list
      \<Rightarrow> (string \<times> string) + ClusterManagedNodeOperationStatus list" where
  "planApply E plan [] = Inr plan"
| "planApply E plan (node # nodes) =
    (if \<not> IsTrue E (n_Conditions node) NodeConditionReady
     then Inl (ClusterOperationReasonNodeNotReady,
            msgtxt ''Node `'' @ n_Name node @ msgtxt ''` is not Ready, cannot proceed with rolling apply'')
     else if IsTrue E (n_Conditions node) NodeConditionConfigDriftDetected
     then Inl (ClusterOperationReasonNodeConfigDrift,
            msgtxt ''Node `'' @ n_Name node @ msgtxt ''` has configuration drift detected, please run the Apply operation on the node individually before running a rolling apply'')
     else planApply E (plan @ [plan_step (NodeOperation_zero\<lparr>no_Type := NodeOperationTypeApply\<rparr>) node]) nodes)"

definition rollingApplyPending :: "env \<Rightarrow> Cluster \<Rightarrow> result ctl" where
  "rollingApplyPending E cluster =
    bindE (listEligibleNodes E cluster None) (\<lambda>nodes.
      if otherOpsInProgress nodes \<noteq> [] then refuse E OperationReasonConflict (otherOpsInProgress nodes)
      else (case planApply E [] nodes of
          Inl (reason, message) \<Rightarrow> failCluster E reason message
        | Inr plan \<Rightarrow> startPlan E (msgtxt ''Rolling apply operation has started'') plan))"

definition handleRollingApplyOperation :: "env \<Rightarrow> result ctl" where
  "handleRollingApplyOperation E =
    clusterPhases (rollingApplyPending E) (inProgress E)
      (\<lambda>_. finishCluster E (msgtxt ''Rolling apply operation is complete''))"

section \<open>Rolling reboot\<close>

definition rollingRebootPending :: "env \<Rightarrow> Cluster \<Rightarrow> result ctl" where
  "rollingRebootPending E cluster =
    bindE (listEligibleNodes E cluster None) (\<lambda>nodes.
      if otherOpsInProgress nodes \<noteq> [] then refuse E OperationReasonConflict (otherOpsInProgress nodes)
      else startPlan E (msgtxt ''Rolling reboot operation has started'')
        (map (plan_step (NodeOperation_zero\<lparr>no_Type := NodeOperationTypeReboot\<rparr>)) nodes))"

definition handleRollingRebootOperation :: "env \<Rightarrow> result ctl" where
  "handleRollingRebootOperation E =
    clusterPhases (rollingRebootPending E) (inProgress E)
      (\<lambda>_. finishCluster E (msgtxt ''Rolling reboot operation is complete''))"

section \<open>Bootstrap\<close>

definition bootstrapOutOfSync :: "env \<Rightarrow> Node \<Rightarrow> bool" where
  "bootstrapOutOfSync E node \<longleftrightarrow>
    IsFalse E (n_Conditions node) NodeConditionConfigInSync \<and>
    \<not> IsTrue E (n_Conditions node) NodeConditionNeedsInitialUpdate"

definition startBootstrap :: "env \<Rightarrow> Node \<Rightarrow> result ctl" where
  "startBootstrap E bootstrapNode =
    bindE (now E) (\<lambda>t.
    let subOp = \<lparr>sub_op = \<lparr>nos_op = NodeOperation_zero\<lparr>no_Type := NodeOperationTypeBootstrap\<rparr>,
                   nos_Phase = NodeOperationPhasePending, nos_Reason = OperationReasonInitialized,
                   nos_Message = msgtxt ''Bootstrap operation initialized by cluster controller'',
                   nos_LastTransitionTime = t\<rparr>,
                 sub_NodeName = n_Name bootstrapNode\<rparr>
    in andThen (updateOp E ClusterOperationPhaseInProgress OperationReasonStarted
         (msgtxt ''Bootstrapping cluster on node `'' @ n_Name bootstrapNode @ ''`'') [subOp]) (
       andThen (event EventTypeNormal EventReasonStarted EventActionBootstrap)
         (ret (Some RequeueShortDelay))))"

definition bootstrapClusterPending :: "env \<Rightarrow> Cluster \<Rightarrow> result ctl" where
  "bootstrapClusterPending E cluster =
    bindE (listEligibleNodes E cluster (Some NodeRoleControlplane)) (\<lambda>nodes.
      case nodes of
        [] \<Rightarrow> failCluster E ClusterOperationReasonNoControlPlanes (msgtxt ''No provisioned controlplane nodes found'')
      | bootstrapNode # _ \<Rightarrow>
          if otherOpsInProgress nodes \<noteq> [] then refuse E OperationReasonConflict (otherOpsInProgress nodes)
          else (case find (\<lambda>n. \<not> IsTrue E (n_Conditions n) NodeConditionReady) nodes of
              Some node \<Rightarrow> failCluster E ClusterOperationReasonNodeNotReady
                (msgtxt ''Node `'' @ n_Name node @ msgtxt ''` is not Ready, cannot proceed with bootstrap'')
            | None \<Rightarrow>
                (case find (bootstrapOutOfSync E) nodes of
                   Some node \<Rightarrow> failCluster E ClusterOperationReasonNodeConfigOutOfSync
                     (msgtxt ''Node `'' @ n_Name node @ msgtxt ''` has configuration out of sync, cannot proceed with bootstrap'')
                 | None \<Rightarrow> startBootstrap E bootstrapNode)))"

definition handleBootstrapOperation :: "env \<Rightarrow> result ctl" where
  "handleBootstrapOperation E =
    clusterPhases (bootstrapClusterPending E) (inProgress E)
      (\<lambda>_ opStatus. andThen (updateOp E ClusterOperationPhaseDone OperationReasonCompleted
          (msgtxt ''Cluster bootstrap completed successfully'') (cos_SubOperations opStatus)) (
        andThen (event EventTypeNormal EventReasonCompleted EventActionBootstrap)
          (ret (Some RequeueShortDelay))))"

section \<open>Kubernetes upgrade\<close>

text \<open>Lines 65 to 105: why a node does not allow the upgrade.\<close>

fun k8sPreflight :: "env \<Rightarrow> Node list \<Rightarrow> (string \<times> string) option" where
  "k8sPreflight E [] = None"
| "k8sPreflight E (node # nodes) =
    (if \<not> IsTrue E (n_Conditions node) NodeConditionReady
     then Some (''NodeNotReady'',
            msgtxt ''Node `'' @ n_Name node @ msgtxt ''` is not Ready, cannot proceed with rolling apply'')
     else if IsTrue E (n_Conditions node) NodeConditionConfigDriftDetected
     then Some (''NodeConfigDriftDetected'',
            msgtxt ''Node `'' @ n_Name node @ msgtxt ''` has configuration drift detected, please run the Apply operation on the node individually before running a rolling apply'')
     else k8sPreflight E nodes)"

text \<open>The step for one component on one node, and the four stages (lines 107 to 156).\<close>

definition component_op :: "string \<Rightarrow> NodeOperation" where
  "component_op componentName =
    NodeOperation_zero\<lparr>no_Type := NodeOperationTypeKubernetesComponentUpgrade,
      no_KubernetesComponentUpgrade := \<lparr>kcu_ComponentName = componentName\<rparr>\<rparr>"

definition component_step :: "string \<Rightarrow> Node \<Rightarrow> ClusterManagedNodeOperationStatus" where
  "component_step componentName node =
    (plan_step (component_op componentName) node)\<lparr>sub_op :=
      (sub_op (plan_step (component_op componentName) node))\<lparr>nos_Phase := ClusterOperationPhasePending\<rparr>\<rparr>"

definition upgradePlan :: "Node list \<Rightarrow> Node list \<Rightarrow> ClusterManagedNodeOperationStatus list" where
  "upgradePlan controlPlaneNodes workerNodes =
    map (component_step KubernetesComponentAPIServer) controlPlaneNodes
    @ map (component_step KubernetesComponentControllerManager) controlPlaneNodes
    @ map (component_step KubernetesComponentScheduler) controlPlaneNodes
    @ map (component_step KubernetesComponentKubelet) (controlPlaneNodes @ workerNodes)"

definition k8sUpgradePending :: "env \<Rightarrow> Cluster \<Rightarrow> result ctl" where
  "k8sUpgradePending E cluster =
    bindE (listEligibleNodes E cluster (Some NodeRoleControlplane)) (\<lambda>controlPlaneNodes.
    bindE (listEligibleNodes E cluster (Some NodeRoleWorker)) (\<lambda>workerNodes.
    let allNodes = controlPlaneNodes @ workerNodes in
      if otherOpsInProgress allNodes \<noteq> [] then refuse E ''Conflict'' (otherOpsInProgress allNodes)
      else (case k8sPreflight E allNodes of
          Some (reason, message) \<Rightarrow> failCluster E reason message
        | None \<Rightarrow> startPlan E (msgtxt ''Kubernetes upgrade operation has started'')
            (upgradePlan controlPlaneNodes workerNodes))))"

text \<open>Lines 240 to 286: empty manifests and those without a kind are skipped.\<close>

fun applyManifests :: "env \<Rightarrow> Clientset \<Rightarrow> Clientset \<Rightarrow> Manifest list \<Rightarrow> unit ctl" where
  "applyManifests E clientset dynClient [] = ret ()"
| "applyManifests E clientset dynClient (obj # objs) =
    (if mf_empty obj then applyManifests E clientset dynClient objs
     else if mf_gvk obj = [] then applyManifests E clientset dynClient objs
     else bindE (wrapE (msgtxt ''failed to get REST mapping for '' @ mf_gvk obj)
            (ask (e_scope E) (K8s clientset (KRESTMapping (mf_gvk obj))))) (\<lambda>namespaced.
          andThen (wrapE (if namespaced
              then msgtxt ''failed to apply namespaced resource '' @ mf_Namespace obj @ ''/'' @ mf_Name obj
              else msgtxt ''failed to apply cluster-scoped resource '' @ mf_Name obj)
            (act E (K8s dynClient (KApplyManifest obj namespaced))))
            (applyManifests E clientset dynClient objs)))"

text \<open>Lines 198 to 306.\<close>

definition syncManifests :: "env \<Rightarrow> Cluster \<Rightarrow> Node \<Rightarrow> result ctl" where
  "syncManifests E cluster controllerNode =
    bindE (wrapE (msgtxt ''failed to get talos client'') (getTalosClient E controllerNode cluster)) (\<lambda>talosClient.
    bindE (wrapE (msgtxt ''error fetching manifests from Talos'')
      (ask (e_manifests E) (Talos talosClient TListManifests))) (\<lambda>plainManifests.
    bindE (wrapE (msgtxt ''failed to get kubernetes client'') (getKubernetesClient E cluster)) (\<lambda>clientset.
    bindE (wrapE (msgtxt ''failed to get kubeconfig'') (getKubeconfig E cluster)) (\<lambda>kubeconfig.
    bindE (wrapE (msgtxt ''failed to create dynamic kubernetes client'')
      (ask (e_text E) (Sys (NewDynamicClient kubeconfig)))) (\<lambda>dynClient.
    andThen (applyManifests E clientset dynClient plainManifests) (
    andThen (event EventTypeNormal EventReasonCompleted EventActionKubernetesApply) (
    andThen (updateOp E ClusterOperationPhaseDone OperationReasonCompleted
      (msgtxt ''Kubernetes upgrade operation has completed successfully'') [])
      (ret (Some RequeueShortDelay)))))))))"

definition k8sUpgradePostflight :: "env \<Rightarrow> Cluster \<Rightarrow> result ctl" where
  "k8sUpgradePostflight E cluster =
    bindE (listEligibleNodes E cluster (Some NodeRoleControlplane)) (\<lambda>controllerNodes.
      case controllerNodes of
        [] \<Rightarrow> failCluster E ClusterOperationReasonNoControlPlanes
               (msgtxt ''No control plane nodes found for postflight checks'')
      | controllerNode # _ \<Rightarrow> syncManifests E cluster controllerNode)"

definition handleKubernetesUpgrade :: "env \<Rightarrow> result ctl" where
  "handleKubernetesUpgrade E =
    clusterPhases (k8sUpgradePending E) (inProgress E) (\<lambda>cluster _. k8sUpgradePostflight E cluster)"

section \<open>The contract of a planned operation\<close>

text \<open>
  What a planned operation may do in Pending: fail without a plan, or start with a plan
  that \<open>P\<close> allows; in Postflight: end, keeping or dropping the plan, and do \<open>D\<close>.
\<close>

definition pending_call :: "(call list \<Rightarrow> ClusterManagedNodeOperationStatus list \<Rightarrow> bool) \<Rightarrow> call list \<Rightarrow> call \<Rightarrow> bool" where
  "pending_call P h c \<longleftrightarrow>
    (case c of
       Api (StatusUpdateCluster b n) \<Rightarrow>
         n\<lparr>c_Status := c_Status b\<rparr> = b \<and>
         (\<exists>os. c_OpStatus n = Some os \<and>
           (cos_Phase os = ClusterOperationPhaseFailed \<and> cos_SubOperations os = [] \<or>
            cos_Phase os = ClusterOperationPhaseInProgress \<and> P h (cos_SubOperations os)))
     | Event t r a \<Rightarrow> True
     | _ \<Rightarrow> is_read c)"

definition postflight_call :: "ClusterManagedNodeOperationStatus list \<Rightarrow> (call \<Rightarrow> bool) \<Rightarrow> call \<Rightarrow> bool" where
  "postflight_call subs D c \<longleftrightarrow>
    (case c of
       Api (StatusUpdateCluster b n) \<Rightarrow>
         n\<lparr>c_Status := c_Status b\<rparr> = b \<and>
         (\<exists>os. c_OpStatus n = Some os \<and> cos_SubOperations os \<in> {subs, []} \<and>
           (cos_Phase os = ClusterOperationPhaseDone \<or> cos_Phase os = ClusterOperationPhaseFailed))
     | Event t r a \<Rightarrow> True
     | _ \<Rightarrow> is_read c \<or> D c)"

lemma pending_call_simps [simp]:
  "pending_call P h (Sys y)" "pending_call P h (Event t r a)" "pending_call P h (Api (GetCluster ns nm))"
  "pending_call P h (Api (ListNodes x cl ro))"
  by (simp_all add: pending_call_def)

lemma postflight_call_simps [simp]:
  "postflight_call subs D (Sys y)" "postflight_call subs D (Event t r a)"
  "postflight_call subs D (Api (GetCluster ns nm))" "postflight_call subs D (Api (ListNodes x cl ro))"
  by (simp_all add: postflight_call_def)

lemma postflight_call_read [simp]: "is_read c \<Longrightarrow> postflight_call subs D c"
  by (auto simp: postflight_call_def split: call.splits api_call.splits)

text \<open>What the handler of a planned operation may do, by phase.\<close>

definition planned_call ::
    "(Cluster \<Rightarrow> call list \<Rightarrow> ClusterManagedNodeOperationStatus list \<Rightarrow> bool) \<Rightarrow> (call \<Rightarrow> bool)
      \<Rightarrow> Cluster \<Rightarrow> ClusterOperationStatus \<Rightarrow> call list \<Rightarrow> call \<Rightarrow> bool" where
  "planned_call P D cluster os h c \<longleftrightarrow>
    (if cos_Phase os = ClusterOperationPhasePending then pending_call (P cluster) h c
     else if cos_Phase os = ClusterOperationPhaseInProgress then subop_call (cos_SubOperations os) c
     else if cos_Phase os = ClusterOperationPhasePostflight then postflight_call (cos_SubOperations os) D c
     else False)"

text \<open>A status write whose sub-operations are in order.\<close>

definition writes_in_order :: "call \<Rightarrow> bool" where
  "writes_in_order c \<longleftrightarrow>
    (case cluster_status_write c of
       Some (b, n) \<Rightarrow> (\<exists>os. c_OpStatus n = Some os \<and> in_order (cos_SubOperations os))
     | None \<Rightarrow> True)"

lemma in_order_Nil [simp]: "in_order []"
  by (simp add: in_order_Pending)

lemma emits_inProgress:
  assumes "echoes E" and "named E" and "c_OpStatus (st_cluster s) = Some os" and "inProgress E s = (r, s')"
  shows "grows (subop_call (cos_SubOperations os)) s s'"
proof -
  obtain r1 s1 where run: "runSubOperations E s = (r1, s1)" by (cases "runSubOperations E s")
  have "s' = s1" using assms(4) run by (cases r1) (auto simp: inProgress_def go_eval split: option.splits)
  with run show ?thesis using emits_runPlan [OF assms(1,2), of os] assms(3)
    by (auto simp: runSubOperations_def currentOp_def go_eval intro: stepsD)
qed

locale planned_operation =
  fixes E :: env and handler :: "result ctl" and pending :: "Cluster \<Rightarrow> result ctl"
    and postflight :: "Cluster \<Rightarrow> ClusterOperationStatus \<Rightarrow> result ctl"
    and plan_ok :: "Cluster \<Rightarrow> call list \<Rightarrow> ClusterManagedNodeOperationStatus list \<Rightarrow> bool"
    and post_does :: "call \<Rightarrow> bool"
  assumes handler: "handler = clusterPhases pending (inProgress E) postflight"
    and pending_starts: "under (\<lambda>h. True) (pending_call (plan_ok cluster)) (pending cluster)"
    and plan_pending: "plan_ok cluster h plan \<Longrightarrow> x \<in> set plan \<Longrightarrow>
      sub_Phase x = NodeOperationPhasePending \<and> sub_Type x \<noteq> []"
    and postflight_calls: "emits (postflight_call (cos_SubOperations os) post_does) (postflight cluster os)"
    and post_does_write: "post_does c \<Longrightarrow> cluster_status_write c = None"
begin

lemma calls:
  assumes "echoes E" and "named E" and "c_OpStatus (st_cluster s) = Some os" and "handler s = (r, s')"
  shows "justified (planned_call plan_ok post_does (st_cluster s) os) s s'"
proof -
  let ?c = "st_cluster s"
  have h: "handler s = (if cos_Phase os = ClusterOperationPhasePending then pending ?c
      else if cos_Phase os = ClusterOperationPhaseInProgress then inProgress E
      else if cos_Phase os = ClusterOperationPhasePostflight then postflight ?c os
      else ret (Some RequeueShortDelay)) s"
    using assms(3) by (simp add: handler clusterPhases_def currentOp_def go_eval)
  consider "cos_Phase os = ClusterOperationPhasePending" | "cos_Phase os = ClusterOperationPhaseInProgress"
    | "cos_Phase os = ClusterOperationPhasePostflight"
    | "cos_Phase os \<notin> {ClusterOperationPhasePending, ClusterOperationPhaseInProgress, ClusterOperationPhasePostflight}"
    by blast
  then show ?thesis
  proof cases
    case 1
    then have "pending ?c s = (r, s')" using h assms(4) by simp
    then have "justified (pending_call (plan_ok ?c)) s s'" by (rule underD [OF pending_starts]) simp
    then show ?thesis by (rule justified_mono) (simp add: planned_call_def 1)
  next
    case 2
    then have "inProgress E s = (r, s')" using h assms(4) by simp
    with assms(1-3) have "grows (subop_call (cos_SubOperations os)) s s'" by (rule emits_inProgress)
    then have "justified (\<lambda>h c. subop_call (cos_SubOperations os) c) s s'" by (simp add: justified_grows)
    then show ?thesis by (rule justified_mono) (simp add: planned_call_def 2)
  next
    case 3
    then have "postflight ?c os s = (r, s')" using h assms(4) by simp
    then have "grows (postflight_call (cos_SubOperations os) post_does) s s'" by (rule stepsD [OF postflight_calls])
    then have "justified (\<lambda>h c. postflight_call (cos_SubOperations os) post_does c) s s'"
      by (simp add: justified_grows)
    then show ?thesis by (rule justified_mono) (simp add: planned_call_def 3)
  next
    case 4
    then have "s' = s" using h assms(4) by (simp add: run_basic)
    then show ?thesis by (simp add: justified_def)
  qed
qed

lemma starts:
  assumes "c_OpStatus (st_cluster s) = Some os" and "cos_Phase os = ClusterOperationPhasePending"
    and "handler s = (r, s')"
  shows "justified (pending_call (plan_ok (st_cluster s))) s s'"
proof -
  have "pending (st_cluster s) s = (r, s')"
    using assms by (simp add: handler clusterPhases_def currentOp_def go_eval)
  then show ?thesis by (rule underD [OF pending_starts]) simp
qed

lemma planned_in_order:
  assumes "planned_call plan_ok post_does cluster os h c" and "in_order (cos_SubOperations os)"
  shows "writes_in_order c"
proof (cases "cluster_status_write c")
  case (Some y)
  then obtain b n where c: "c = Api (StatusUpdateCluster b n)" by (cases c rule: cluster_status_write.cases) auto
  have "plan_ok cluster h plan \<Longrightarrow> in_order plan" for plan using plan_pending by (intro in_order_Pending) blast
  with assms c show ?thesis
    by (auto simp: planned_call_def writes_in_order_def pending_call_def subop_call_def postflight_call_def
        is_read_no_write post_does_write dest: in_order_step split: if_splits)
qed (simp add: writes_in_order_def)

lemma keeps_in_order:
  assumes "echoes E" and "named E" and "c_OpStatus (st_cluster s) = Some os" and "handler s = (r, s')"
    and "in_order (cos_SubOperations os)"
  shows "grows writes_in_order s s'"
  using justified_mono [OF calls [OF assms(1-4)], of "\<lambda>h c. writes_in_order c"] planned_in_order assms(5)
  by (simp add: justified_grows)

end

section \<open>The four operations\<close>

text \<open>\<open>nodes\<close> are the eligible nodes of a listing that was made before.\<close>

definition listed :: "env \<Rightarrow> Cluster \<Rightarrow> string option \<Rightarrow> Node list \<Rightarrow> call list \<Rightarrow> bool" where
  "listed E cluster role nodes h \<longleftrightarrow>
    (\<exists>items. answered (e_nodes E) (Api (ListNodes (Some (c_Namespace cluster)) (Some (c_Name cluster)) role)) items h \<and>
      nodes = sort_func node_before (filter (\<lambda>n. IsTrue E (n_Conditions n) NodeConditionProvisioned) items))"

lemma persists_listed [simp]: "persists (listed E cluster role nodes)"
  unfolding listed_def by (intro persists_ex persists_conj) simp_all

lemma under_listEligibleNodes:
  assumes "persists F" and "\<And>nodes. under (\<lambda>h. F h \<and> listed E cluster role nodes h) (pending_call P) (k nodes)"
  shows "under F (pending_call P) (bindE (listEligibleNodes E cluster role) k)"
proof (rule under_bindE_value [where G = "listed E cluster role", OF assms(1) _ _ assms(2)])
  show "under F (pending_call P) (listEligibleNodes E cluster role)"
    unfolding listEligibleNodes_def by (intro under_structural under_prims assms(1)) simp
  show "listed E cluster role nodes (st_hist s')" if "listEligibleNodes E cluster role s = (Ok nodes, s')" for nodes s s'
    using that unfolding listEligibleNodes_ok listed_def
    by (elim exE conjE, intro exI conjI) (simp_all add: answered_Cons)
qed

lemma under_updateOp:
  assumes "persists F" and "p = ClusterOperationPhaseFailed \<and> subs = [] \<or>
    p = ClusterOperationPhaseInProgress \<and> (\<forall>h. F h \<longrightarrow> P h subs)"
  shows "under F (pending_call P) (updateOp E p r m subs)"
proof (rule under_emits [OF _ assms(1)])
  let ?B = "\<lambda>c. case c of
      Api (StatusUpdateCluster b n) \<Rightarrow> n\<lparr>c_Status := c_Status b\<rparr> = b \<and>
        (\<exists>os. c_OpStatus n = Some os \<and> cos_Phase os = p \<and> cos_SubOperations os = subs)
    | _ \<Rightarrow> is_read c"
  show "emits ?B (updateOp E p r m subs)"
    unfolding updateOp_def by (intro em.wrapE emits_updateOpStatus_cluster) auto
  show "F h \<Longrightarrow> ?B c \<Longrightarrow> pending_call P h c" for h c
    using assms(2) by (auto simp: pending_call_def split: call.splits api_call.splits)
qed

lemma under_failCluster: "persists F \<Longrightarrow> under F (pending_call P) (failCluster E r m)"
  unfolding failCluster_def by (intro under_andThen under_updateOp under_basic) simp_all

lemma under_startPlan:
  "persists F \<Longrightarrow> (\<And>h. F h \<Longrightarrow> P h plan) \<Longrightarrow> under F (pending_call P) (startPlan E m plan)"
  unfolding startPlan_def by (intro under_andThen under_updateOp under_basic) simp_all

lemmas under_pending = under_listEligibleNodes under_failCluster under_startPlan under_updateOp under_branches
  under_basic under_andThen under_event under_bindE under_now

lemma postflight_updateOp:
  "p = ClusterOperationPhaseDone \<or> p = ClusterOperationPhaseFailed \<Longrightarrow> subs' \<in> {subs, []} \<Longrightarrow>
   emits (postflight_call subs D) (updateOp E p r m subs')"
  unfolding updateOp_def
  by (intro em.wrapE emits_updateOpStatus_cluster) (auto simp: postflight_call_def)

lemma postflight_finish: "emits (postflight_call (cos_SubOperations os) D) (finishCluster E m os)"
  unfolding finishCluster_def by (intro em.structural postflight_updateOp) simp_all

text \<open>Rolling apply: every eligible node is ready, without drift and without an operation.\<close>

definition apply_plan :: "env \<Rightarrow> Cluster \<Rightarrow> call list \<Rightarrow> ClusterManagedNodeOperationStatus list \<Rightarrow> bool" where
  "apply_plan E cluster h plan \<longleftrightarrow>
    (\<exists>nodes. listed E cluster None nodes h \<and> otherOpsInProgress nodes = [] \<and>
      (\<forall>n\<in>set nodes. IsTrue E (n_Conditions n) NodeConditionReady \<and>
        \<not> IsTrue E (n_Conditions n) NodeConditionConfigDriftDetected) \<and>
      plan = map (plan_step (NodeOperation_zero\<lparr>no_Type := NodeOperationTypeApply\<rparr>)) nodes)"

lemma planApply_Inr:
  "planApply E plan nodes = Inr plan' \<longleftrightarrow>
    (\<forall>n\<in>set nodes. IsTrue E (n_Conditions n) NodeConditionReady \<and>
      \<not> IsTrue E (n_Conditions n) NodeConditionConfigDriftDetected) \<and>
    plan' = plan @ map (plan_step (NodeOperation_zero\<lparr>no_Type := NodeOperationTypeApply\<rparr>)) nodes"
  by (induction nodes arbitrary: plan) auto

interpretation rolling_apply: planned_operation E "handleRollingApplyOperation E" "rollingApplyPending E"
  "\<lambda>_. finishCluster E (msgtxt ''Rolling apply operation is complete'')" "apply_plan E" "\<lambda>_. False" for E
proof unfold_locales
  show "under (\<lambda>h. True) (pending_call (apply_plan E cluster)) (rollingApplyPending E cluster)" for cluster
    unfolding rollingApplyPending_def refuse_def
    by (intro under_pending) (auto simp: apply_plan_def planApply_Inr)
qed (auto simp: handleRollingApplyOperation_def apply_plan_def plan_step_def postflight_finish)

text \<open>Rolling reboot: every eligible node, none with an operation.\<close>

definition reboot_plan :: "env \<Rightarrow> Cluster \<Rightarrow> call list \<Rightarrow> ClusterManagedNodeOperationStatus list \<Rightarrow> bool" where
  "reboot_plan E cluster h plan \<longleftrightarrow>
    (\<exists>nodes. listed E cluster None nodes h \<and> otherOpsInProgress nodes = [] \<and>
      plan = map (plan_step (NodeOperation_zero\<lparr>no_Type := NodeOperationTypeReboot\<rparr>)) nodes)"

interpretation rolling_reboot: planned_operation E "handleRollingRebootOperation E" "rollingRebootPending E"
  "\<lambda>_. finishCluster E (msgtxt ''Rolling reboot operation is complete'')" "reboot_plan E" "\<lambda>_. False" for E
proof unfold_locales
  show "under (\<lambda>h. True) (pending_call (reboot_plan E cluster)) (rollingRebootPending E cluster)" for cluster
    unfolding rollingRebootPending_def refuse_def
    by (intro under_pending) (auto simp: reboot_plan_def)
qed (auto simp: handleRollingRebootOperation_def reboot_plan_def plan_step_def postflight_finish)

text \<open>Bootstrap: one bootstrap, of the first control plane node, when all of them are ready.\<close>

definition bootstrap_plan :: "env \<Rightarrow> Cluster \<Rightarrow> call list \<Rightarrow> ClusterManagedNodeOperationStatus list \<Rightarrow> bool" where
  "bootstrap_plan E cluster h plan \<longleftrightarrow>
    (\<exists>node rest x. listed E cluster (Some NodeRoleControlplane) (node # rest) h \<and>
      otherOpsInProgress (node # rest) = [] \<and>
      (\<forall>n\<in>set (node # rest). IsTrue E (n_Conditions n) NodeConditionReady \<and> \<not> bootstrapOutOfSync E n) \<and>
      plan = [x] \<and> sub_NodeName x = n_Name node \<and> sub_Phase x = NodeOperationPhasePending \<and>
      nos_op (sub_op x) = NodeOperation_zero\<lparr>no_Type := NodeOperationTypeBootstrap\<rparr>)"

lemma bootstrap_planI:
  assumes "listed E cluster (Some NodeRoleControlplane) (node # rest) h" and "otherOpsInProgress (node # rest) = []"
    and "find (\<lambda>n. \<not> IsTrue E (n_Conditions n) NodeConditionReady) (node # rest) = None"
    and "find (bootstrapOutOfSync E) (node # rest) = None"
    and "sub_NodeName x = n_Name node" and "sub_Phase x = NodeOperationPhasePending"
    and "nos_op (sub_op x) = NodeOperation_zero\<lparr>no_Type := NodeOperationTypeBootstrap\<rparr>"
  shows "bootstrap_plan E cluster h [x]"
  unfolding bootstrap_plan_def
  using assms(3,4) [unfolded find_None_all]
  by (intro exI [of _ node] exI [of _ rest] exI [of _ x] conjI assms(1,2,5-7)) auto

interpretation cluster_bootstrap: planned_operation E "handleBootstrapOperation E" "bootstrapClusterPending E"
  "\<lambda>_ opStatus. andThen (updateOp E ClusterOperationPhaseDone OperationReasonCompleted
      (msgtxt ''Cluster bootstrap completed successfully'') (cos_SubOperations opStatus)) (
    andThen (event EventTypeNormal EventReasonCompleted EventActionBootstrap)
      (ret (Some RequeueShortDelay)))" "bootstrap_plan E" "\<lambda>_. False" for E
proof unfold_locales
  show "under (\<lambda>h. True) (pending_call (bootstrap_plan E cluster)) (bootstrapClusterPending E cluster)" for cluster
    unfolding bootstrapClusterPending_def startBootstrap_def refuse_def Let_def
    by (intro under_pending) (auto intro!: bootstrap_planI simp del: otherOpsInProgress.simps find.simps)
  show "emits (postflight_call (cos_SubOperations os) (\<lambda>_. False)) (andThen (updateOp E ClusterOperationPhaseDone
      OperationReasonCompleted (msgtxt ''Cluster bootstrap completed successfully'') (cos_SubOperations os)) (
    andThen (event EventTypeNormal EventReasonCompleted EventActionBootstrap) (ret (Some RequeueShortDelay))))" for os
    by (intro em.structural emits_prims postflight_updateOp) simp_all
qed (auto simp: handleBootstrapOperation_def bootstrap_plan_def)

text \<open>Kubernetes upgrade: the four stages over the control plane and worker nodes.\<close>

definition k8s_plan :: "env \<Rightarrow> Cluster \<Rightarrow> call list \<Rightarrow> ClusterManagedNodeOperationStatus list \<Rightarrow> bool" where
  "k8s_plan E cluster h plan \<longleftrightarrow>
    (\<exists>cps ws. listed E cluster (Some NodeRoleControlplane) cps h \<and> listed E cluster (Some NodeRoleWorker) ws h \<and>
      otherOpsInProgress (cps @ ws) = [] \<and>
      (\<forall>n\<in>set (cps @ ws). IsTrue E (n_Conditions n) NodeConditionReady \<and>
        \<not> IsTrue E (n_Conditions n) NodeConditionConfigDriftDetected) \<and>
      plan = upgradePlan cps ws)"

fun applies_manifest :: "call \<Rightarrow> bool" where
  "applies_manifest (K8s c (KApplyManifest m b)) = True"
| "applies_manifest c = False"

lemma k8sPreflight_None:
  "k8sPreflight E nodes = None \<longleftrightarrow>
    (\<forall>n\<in>set nodes. IsTrue E (n_Conditions n) NodeConditionReady \<and>
      \<not> IsTrue E (n_Conditions n) NodeConditionConfigDriftDetected)"
  by (induction nodes) auto

lemma Pending_same: "ClusterOperationPhasePending = NodeOperationPhasePending"
  by (simp add: const_defs)

lemma emits_applyManifests: "emits (postflight_call subs applies_manifest) (applyManifests E cs dyn ms)"
  by (induction ms) (auto intro!: em.structural emits_prims simp: postflight_call_def)

lemma emits_k8sUpgradePostflight: "emits (postflight_call subs applies_manifest) (k8sUpgradePostflight E cluster)"
  unfolding k8sUpgradePostflight_def syncManifests_def failCluster_def listEligibleNodes_def
  by (intro em.structural emits_prims postflight_updateOp emits_applyManifests emits_getKubeconfig
      emits_getKubernetesClient setup_is_read [OF emits_getTalosClient]) simp_all

interpretation kubernetes_upgrade: planned_operation E "handleKubernetesUpgrade E" "k8sUpgradePending E"
  "\<lambda>cluster _. k8sUpgradePostflight E cluster" "k8s_plan E" applies_manifest for E
proof unfold_locales
  show "under (\<lambda>h. True) (pending_call (k8s_plan E cluster)) (k8sUpgradePending E cluster)" for cluster
    unfolding k8sUpgradePending_def refuse_def Let_def
    by (intro under_pending) (auto simp: k8s_plan_def k8sPreflight_None)
  show "applies_manifest c \<Longrightarrow> cluster_status_write c = None" for c
    by (cases c rule: applies_manifest.cases) simp_all
qed (auto simp: handleKubernetesUpgrade_def k8s_plan_def upgradePlan_def component_step_def plan_step_def
    component_op_def Pending_same emits_k8sUpgradePostflight)

section \<open>Which plans are started\<close>

text \<open>A status write that puts the cluster operation into InProgress, with its plan.\<close>

definition starts_with :: "ClusterManagedNodeOperationStatus list \<Rightarrow> call \<Rightarrow> bool" where
  "starts_with plan c \<longleftrightarrow>
    (\<exists>b n os. c = Api (StatusUpdateCluster b n) \<and> c_OpStatus n = Some os \<and>
      cos_Phase os = ClusterOperationPhaseInProgress \<and> cos_SubOperations os = plan)"

lemma starts_plan_ok: "pending_call P h c \<Longrightarrow> starts_with plan c \<Longrightarrow> P h plan"
  by (auto simp: starts_with_def pending_call_def)

lemma pending_quiet: "pending_call P h c \<Longrightarrow> \<not> disruptive c \<and> node_status_write c = None"
  by (auto simp: pending_call_def split: call.splits api_call.splits)

text \<open>The stage of a step of a Kubernetes upgrade.\<close>

definition stage :: "ClusterManagedNodeOperationStatus \<Rightarrow> nat" where
  "stage x =
    (let componentName = kcu_ComponentName (no_KubernetesComponentUpgrade (nos_op (sub_op x))) in
     if componentName = KubernetesComponentAPIServer then 0
     else if componentName = KubernetesComponentControllerManager then 1
     else if componentName = KubernetesComponentScheduler then 2 else 3)"

lemma stage_component_step [simp]:
  "stage (component_step KubernetesComponentAPIServer n) = 0"
  "stage (component_step KubernetesComponentControllerManager n) = 1"
  "stage (component_step KubernetesComponentScheduler n) = 2"
  "stage (component_step KubernetesComponentKubelet n) = 3"
  by (simp_all add: stage_def component_step_def component_op_def plan_step_def)

lemma sorted_const: "sorted (map (\<lambda>_. k :: nat) xs)"
  by (induction xs) simp_all

lemma upgradePlan_sorted: "sorted (map stage (upgradePlan cps ws))"
  by (auto simp: upgradePlan_def sorted_append comp_def sorted_const)

lemma k8s_plan_sorted: "k8s_plan E cluster h plan \<Longrightarrow> sorted (map stage plan)"
  by (auto simp: k8s_plan_def upgradePlan_sorted)


text \<open>
  A rolling apply starts only when every provisioned node is ready, without
  configuration drift and without an operation of its own, and then with one Apply per
  node, in the order in which the nodes are listed.
\<close>

theorem handleRollingApplyOperation_plan:
  assumes "c_OpStatus (st_cluster s) = Some os" and "cos_Phase os = ClusterOperationPhasePending"
    and "handleRollingApplyOperation E s = (r, s')"
  shows "justified (\<lambda>h c. \<not> disruptive c \<and> node_status_write c = None \<and>
    (\<forall>plan. starts_with plan c \<longrightarrow> apply_plan E (st_cluster s) h plan)) s s'"
  using rolling_apply.starts [OF assms]
  by (rule justified_mono) (auto simp: pending_quiet dest: starts_plan_ok)


text \<open>A world with three ready nodes.\<close>

definition demo_ready :: "string \<Rightarrow> string \<Rightarrow> Node" where
  "demo_ready n r = (demo_node n r)\<lparr>n_Status := demo_status\<lparr>nst_Conditions :=
      [\<lparr>cd_type = NodeConditionProvisioned, cd_status = CTrue, cd_reason = [], cd_message = [], cd_since = 0\<rparr>,
       \<lparr>cd_type = NodeConditionReady, cd_status = CTrue, cd_reason = [], cd_message = [], cd_since = 0\<rparr>]\<rparr>\<rparr>"

definition demo_ops_env :: "ClusterOperationStatus \<Rightarrow> env" where
  "demo_ops_env os = (demo_cop_env os)\<lparr>e_nodes := \<lambda>h c. (case c of
      Api (ListNodes ns cl role) \<Rightarrow> Inr (if role = Some NodeRoleWorker then [demo_ready ''w1'' NodeRoleWorker]
        else [demo_ready ''c2'' NodeRoleControlplane, demo_ready ''c1'' NodeRoleControlplane])
    | _ \<Rightarrow> Inr [])\<rparr>"

definition demo_pending :: "string \<Rightarrow> ClusterOperationStatus" where
  "demo_pending type = demo_cop type ClusterOperationPhasePending []"

definition starts_nonempty :: "call \<Rightarrow> bool" where
  "starts_nonempty c = (case cluster_status_write c of
     Some (b, n) \<Rightarrow> (case c_OpStatus n of
       Some os \<Rightarrow> cos_Phase os = ClusterOperationPhaseInProgress \<and> cos_SubOperations os \<noteq> [] | None \<Rightarrow> False)
   | None \<Rightarrow> False)"

lemma starts_nonemptyD: "starts_nonempty c \<Longrightarrow> \<exists>plan. plan \<noteq> [] \<and> starts_with plan c"
  by (cases c rule: cluster_status_write.cases)
    (auto simp: starts_nonempty_def starts_with_def split: option.splits)

lemmas cluster_op_defs = updateOp_def updateOpStatus_cluster_def updateClusterStatus_def refreshCluster_def
  set_op_fields_cluster_def currentOp_def clusterPhases_def listEligibleNodes_def startPlan_def failCluster_def
  refuse_def node_before_def

lemmas demo_ops_defs = demo_ops_env_def demo_pending_def demo_ready_def demo_cop_defs demo_defs

lemma demo_starts:
  "list_ex starts_nonempty (st_hist (snd (handleKubernetesUpgrade (demo_ops_env (demo_pending t)) (demo_cop_st (demo_pending t)))))"
  "list_ex starts_nonempty (st_hist (snd (handleRollingApplyOperation (demo_ops_env (demo_pending t)) (demo_cop_st (demo_pending t)))))"
  "list_ex starts_nonempty (st_hist (snd (handleBootstrapOperation (demo_ops_env (demo_pending t)) (demo_cop_st (demo_pending t)))))"
  by (simp_all add: handleKubernetesUpgrade_def k8sUpgradePending_def handleRollingApplyOperation_def
      rollingApplyPending_def handleBootstrapOperation_def bootstrapClusterPending_def bootstrapOutOfSync_def startBootstrap_def
      upgradePlan_def starts_nonempty_def cluster_op_defs demo_ops_defs go_eval Let_def const_defs)

lemma justified_ex:
  assumes "justified A s s'" and "st_hist s = []" and "list_ex starts_nonempty (st_hist s')"
  shows "\<exists>h c plan. A h c \<and> plan \<noteq> [] \<and> starts_with plan c"
proof -
  obtain us c vs where h: "st_hist s' = us @ c # vs" and c: "starts_nonempty c"
    using assms(3) by (meson list_ex_iff split_list)
  have "A vs c" using justifiedD [OF assms(1), of us c vs] h assms(2) by simp
  with starts_nonemptyD [OF c] show ?thesis by blast
qed

lemma demo_cop_st_simps [simp]:
  "st_hist (demo_cop_st os) = []" "c_OpStatus (st_cluster (demo_cop_st os)) = Some os"
  "cos_Phase (demo_pending t) = ClusterOperationPhasePending"
  by (simp_all add: demo_cop_st_def demo_cop_cluster_def demo_st_def demo_pending_def demo_cop_def)


theorem handleRollingApplyOperation_plan_witness:
  "\<exists>h plan. plan \<noteq> [] \<and>
    apply_plan (demo_ops_env (demo_pending [])) (st_cluster (demo_cop_st (demo_pending []))) h plan"
  using justified_ex [OF handleRollingApplyOperation_plan [OF _ _ prod.collapse [symmetric]] _ demo_starts(2) [of "[]"]]
  by auto


end
