(* ===== verification/ClusterStatus.thy ===== *)
theory ClusterStatus
  imports ClusterHelpers
begin

text \<open>
  \<^verbatim>\<open>internal/controller/cluster_controller_status.go\<close>: the conditions of a cluster, whether
  it is bootstrapped, and its next maintenance window.
\<close>

section \<open>Maintenance window\<close>

definition clearMaintenanceWindow :: "bool ctl" where
  "clearMaintenanceWindow =
    bindE (gets st_cluster) (\<lambda>cluster.
      if \<not> IsZero (cst_NextMaintenanceWindow (c_Status cluster))
      then andThen (set_cluster (upd_cstatus (\<lambda>st. st\<lparr>cst_NextMaintenanceWindow := 0\<rparr>) cluster)) (ret True)
      else ret False)"

definition invalidMaintenanceWindow :: "bool ctl" where
  "invalidMaintenanceWindow =
    andThen (event EventTypeWarning EventReasonValidationError EventActionStatusReconcile) clearMaintenanceWindow"

definition mwEnabled :: "env \<Rightarrow> ClusterMaintenanceWindow \<Rightarrow> bool" where
  "mwEnabled E mw \<longleftrightarrow> \<not> lib_IsEmpty (e_lib E) mw \<and> (mw_Enabled mw = None \<or> mw_Enabled mw = Some True)"

definition mwLocation :: "ClusterMaintenanceWindow \<Rightarrow> string" where
  "mwLocation mw = (if mw_Timezone mw = [] then ''UTC'' else mw_Timezone mw)"

text \<open>
  The window that is recorded is the next activation after the time one window length ago,
  so that a window that has begun and not yet ended is still the next one.
\<close>

definition updateMaintenanceStatus :: "env \<Rightarrow> bool ctl" where
  "updateMaintenanceStatus E =
    bindE (gets st_cluster) (\<lambda>cluster.
    let mw = co_MaintenanceWindow (cs_Options (c_Spec cluster)) in
    if \<not> mwEnabled E mw \<or> mw_Cron mw = [] \<or> mw_Duration mw = [] then clearMaintenanceWindow
    else (case ParseDuration (mw_Duration mw) of
        None \<Rightarrow> invalidMaintenanceWindow
      | Some dur \<Rightarrow>
          if \<not> lib_cron_Parse (e_lib E) (mw_Cron mw) then invalidMaintenanceWindow
          else if \<not> lib_LoadLocation (e_lib E) (mwLocation mw) then invalidMaintenanceWindow
          else bindE (now E) (\<lambda>t.
            let next = lib_cron_Next (e_lib E) (mw_Cron mw) (mwLocation mw) (t + wrap64 (- dur)) in
            if IsZero (cst_NextMaintenanceWindow (c_Status cluster))
               \<or> cst_NextMaintenanceWindow (c_Status cluster) \<noteq> next
            then andThen (set_cluster (upd_cstatus (\<lambda>st. st\<lparr>cst_NextMaintenanceWindow := next\<rparr>) cluster)) (ret True)
            else ret False)))"

section \<open>Conditions\<close>

definition setClusterCond :: "env \<Rightarrow> string \<Rightarrow> cond_status \<Rightarrow> string \<Rightarrow> string \<Rightarrow> unit ctl" where
  "setClusterCond E type status reason message =
    bindE (gets st_cluster) (\<lambda>cluster.
    bindE (SetStatusCondition E (c_Conditions cluster) type status reason message) (\<lambda>conds.
    set_cluster (upd_cstatus (\<lambda>st. st\<lparr>cst_Conditions := conds\<rparr>) cluster)))"

text \<open>
  A condition is set to the value \<open>found\<close> unless it has it; the result is whether
  it was set.
\<close>

definition recordClusterCond ::
    "env \<Rightarrow> string \<Rightarrow> bool \<Rightarrow> string \<times> string \<Rightarrow> string \<times> string \<Rightarrow> bool ctl" where
  "recordClusterCond E type found whenTrue whenFalse =
    bindE (gets st_cluster) (\<lambda>cluster.
      if \<not> found \<and> \<not> IsFalse E (c_Conditions cluster) type
      then andThen (setClusterCond E type CFalse (fst whenFalse) (snd whenFalse)) (ret True)
      else if found \<and> \<not> IsTrue E (c_Conditions cluster) type
      then andThen (setClusterCond E type CTrue (fst whenTrue) (snd whenTrue)) (ret True)
      else ret False)"

section \<open>Bootstrapped\<close>

text \<open>Lines 204 to 219: the entries below the etcd directory, as the stream delivers them.\<close>

fun countEntries :: "string option list \<Rightarrow> go_error \<Rightarrow> go_error + nat" where
  "countEntries [] err =
    (if ekind err = EOF then Inr 0
     else Inl (errorf_w (msgtxt ''error receiving file info for cluster status update'') err))"
| "countEntries (None # infos) err = Inl (errorf (msgtxt ''received nil file info for cluster status update''))"
| "countEntries (Some name # infos) err =
    (case countEntries infos err of
       Inl e \<Rightarrow> Inl e
     | Inr n \<Rightarrow> Inr (if name = ''/var/lib/etcd'' then n else Suc n))"

text \<open>Lines 192 to 224: the first control plane node with such entries.\<close>

fun anyBootstrapped :: "env \<Rightarrow> Cluster \<Rightarrow> Node list \<Rightarrow> bool ctl" where
  "anyBootstrapped E cluster [] = ret False"
| "anyBootstrapped E cluster (node # nodes) =
    bindE (wrapE (msgtxt ''error creating Talos client for cluster status update'')
      (getTalosClient E node cluster)) (\<lambda>talosClient.
    bindE (wrapE (msgtxt ''error listing machines for cluster status update'')
      (ask (e_files E) (Talos talosClient TListEtcd))) (\<lambda>(infos, err).
    bindE (lift (countEntries infos err)) (\<lambda>nEntries.
      if 0 < nEntries then ret True else anyBootstrapped E cluster nodes)))"

section \<open>Status of a cluster\<close>

text \<open>Lines 113 to 248: the result is whether the status in memory has changed.\<close>

definition checkStatus :: "env \<Rightarrow> Cluster \<Rightarrow> bool ctl" where
  "checkStatus E cluster =
    bindE (wrapE (msgtxt ''error listing nodes for cluster '' @ c_Name cluster)
      (listEligibleNodes E cluster None)) (\<lambda>clusterNodes.
    let clusterNodesNeedApply = (\<exists>node\<in>set clusterNodes. IsFalse E (n_Conditions node) NodeConditionConfigInSync);
        clusterNodesNeedK8sUpdates = (\<exists>node\<in>set clusterNodes. IsFalse E (n_Conditions node) NodeConditionKubernetesInSync);
        controlPlaneNodes = filter (\<lambda>node. n_Role node = NodeRoleControlplane) clusterNodes
    in
    bindE (recordClusterCond E ClusterConditionNodesInSync (\<not> clusterNodesNeedApply)
      (ClusterConditionReasonAllNodesInSync, msgtxt ''All cluster nodes have configuration in sync'')
      (ClusterConditionReasonNodesOutOfSync, msgtxt ''One or more cluster nodes have configuration out of sync'')) (\<lambda>u1.
    bindE (recordClusterCond E ClusterConditionNodesKubernetesUpToDate (\<not> clusterNodesNeedK8sUpdates)
      (ClusterConditionReasonAllNodesK8sUpToDate, msgtxt ''All cluster nodes are up to date'')
      (ClusterConditionReasonNodesK8sUpdateNeeded, msgtxt ''One or more cluster nodes need Kubernetes updates'')) (\<lambda>u2.
    bindE (anyBootstrapped E cluster controlPlaneNodes) (\<lambda>bootstrapped.
    bindE (recordClusterCond E ClusterConditionBootstrapped bootstrapped
      (ClusterConditionReasonBootstrapped, msgtxt ''Cluster is bootstrapped'')
      (ClusterConditionReasonNotBootstrapped, msgtxt ''Cluster is not bootstrapped'')) (\<lambda>u3.
    bindE (updateMaintenanceStatus E) (\<lambda>u4.
      ret (u1 \<or> u2 \<or> u3 \<or> u4)))))))"

definition updateStatus :: "env \<Rightarrow> unit ctl" where
  "updateStatus E =
    bindE (gets st_cluster) (\<lambda>cluster.
    bindE (checkStatus E cluster) (\<lambda>statusUpdate.
      if statusUpdate
      then bindE (gets st_cluster) (\<lambda>cluster'.
           bindE (wrapE (msgtxt ''error updating cluster status'')
             (ask (e_cluster E) (Api (StatusUpdateCluster cluster cluster')))) set_cluster)
      else ret ()))"

section \<open>What a status update leaves alone\<close>

text \<open>Everything of a cluster but its conditions and its next maintenance window.\<close>

definition core :: "Cluster \<Rightarrow> Cluster" where
  "core c = upd_cstatus (\<lambda>st. st\<lparr>cst_Conditions := [], cst_NextMaintenanceWindow := 0\<rparr>) c"

abbreviation keeps_core :: "'a ctl \<Rightarrow> bool" where
  "keeps_core \<equiv> keeps (\<lambda>s. core (st_cluster s))"

lemma hist_free_core [simp]: "hist_free (\<lambda>s. core (st_cluster s))"
  by (simp add: hist_free_def)

lemma keeps_core_setClusterCond: "keeps_core (setClusterCond E type status reason message)"
  by (rule stepsI) (simp add: setClusterCond_def SetStatusCondition_def go_eval same_def core_def)

lemma keeps_core_clear: "keeps_core clearMaintenanceWindow"
  by (rule stepsI) (simp add: clearMaintenanceWindow_def go_eval same_def core_def)

lemma keeps_core_invalid: "keeps_core invalidMaintenanceWindow"
  unfolding invalidMaintenanceWindow_def by (intro kp.structural keeps_prims keeps_core_clear) simp

lemma keeps_core_maintenance: "keeps_core (updateMaintenanceStatus E)"
proof (rule stepsI)
  fix s :: st
  have "core (st_cluster (snd (clearMaintenanceWindow s))) = core (st_cluster s)"
    "core (st_cluster (snd (invalidMaintenanceWindow s))) = core (st_cluster s)"
    using keeps_core_clear keeps_core_invalid by (simp_all add: steps_def same_def)
  then show "same (\<lambda>s. core (st_cluster s)) s (snd (updateMaintenanceStatus E s))"
    by (simp add: updateMaintenanceStatus_def go_eval same_def Let_def core_def split: option.split)
qed

lemma keeps_core_record: "keeps_core (recordClusterCond E type found t f)"
  unfolding recordClusterCond_def by (intro kp.structural keeps_core_setClusterCond)

lemma keeps_core_anyBootstrapped: "keeps_core (anyBootstrapped E cluster nodes)"
  by (induction nodes) (auto intro!: kp.structural keeps_prims keeps_getTalosClient)

lemma keeps_core_checkStatus: "keeps_core (checkStatus E cluster)"
  unfolding checkStatus_def listEligibleNodes_def Let_def
  by (intro kp.structural keeps_prims keeps_core_record keeps_core_anyBootstrapped keeps_core_maintenance) simp_all

text \<open>Events, and calls that only read.\<close>

fun observes :: "call \<Rightarrow> bool" where
  "observes (Event t r a) = True"
| "observes c = is_read c"

lemma observes_read: "is_read c \<Longrightarrow> observes c"
  by (cases c) simp_all

lemma emits_checkStatus: "emits observes (checkStatus E cluster)"
proof -
  have b: "emits observes (anyBootstrapped E cluster nodes)" for nodes
    by (induction nodes)
      (auto intro!: em.structural emits_prims setup_is_read [OF emits_getTalosClient] simp: observes_read)
  show ?thesis
    unfolding checkStatus_def listEligibleNodes_def recordClusterCond_def setClusterCond_def
      updateMaintenanceStatus_def invalidMaintenanceWindow_def clearMaintenanceWindow_def Let_def
    by (intro em.structural emits_prims b) simp_all
qed

text \<open>
  Updating the status of a cluster only observes: it reads, it reports events, and it
  writes at most the status of the cluster it started from, of which it changes nothing but
  the conditions and the next maintenance window.
\<close>

definition status_call :: "Cluster \<Rightarrow> call \<Rightarrow> bool" where
  "status_call cluster c \<longleftrightarrow> observes c \<or> (\<exists>n. c = Api (StatusUpdateCluster cluster n) \<and> core n = core cluster)"

lemma updateStatus_grows:
  assumes "updateStatus E s = (r, s')"
  shows "grows (status_call (st_cluster s)) s s'" (is "grows ?A s s'")
proof -
  obtain r1 t where c: "checkStatus E (st_cluster s) s = (r1, t)" by (cases "checkStatus E (st_cluster s) s")
  have st: "grows ?A s t"
    using stepsD [OF emits_checkStatus c] by (auto simp: grows_def status_call_def)
  have core: "core (st_cluster t) = core (st_cluster s)" using keepsD [OF keeps_core_checkStatus c] .
  show ?thesis
  proof (cases "r1 = Ok True")
    case True
    have "grows ?A t s'"
      using assms c True core
      by (auto simp: updateStatus_def go_eval grows_def status_call_def split: sum.splits)
    with st show ?thesis by (rule grows_trans)
  next
    case False
    with assms c have "s' = t" by (cases r1) (auto simp: updateStatus_def go_eval)
    with st show ?thesis by simp
  qed
qed

lemma updateStatus_core:
  assumes "echoes E" and "updateStatus E s = (Ok x, s')"
  shows "c_OpStatus (st_cluster s') = c_OpStatus (st_cluster s)"
proof -
  have "c_OpStatus (core c) = c_OpStatus c" for c by (simp add: core_def)
  then have op: "core c = core d \<Longrightarrow> c_OpStatus c = c_OpStatus d" for c d by metis
  obtain b t where c: "checkStatus E (st_cluster s) s = (Ok b, t)"
    and w: "(if b then bindE (gets st_cluster) (\<lambda>cluster'. bindE (wrapE (msgtxt ''error updating cluster status'')
        (ask (e_cluster E) (Api (StatusUpdateCluster (st_cluster s) cluster')))) set_cluster) else ret ()) t = (Ok x, s')"
    using assms(2) by (auto simp: updateStatus_def go_ok)
  have "c_OpStatus (st_cluster t) = c_OpStatus (st_cluster s)" by (rule op) (rule keepsD [OF keeps_core_checkStatus c])
  moreover have "c_OpStatus (st_cluster s') = c_OpStatus (st_cluster t)"
    using w assms(1) by (cases b) (auto simp: go_ok set_cluster_def modify_def echoes_def)
  ultimately show ?thesis by simp
qed

section \<open>When a window is open\<close>

text \<open>
  The documented behaviour of the cron library: the next activation is later than the time
  given, or there is none and the zero time is returned.
\<close>

definition cron_later :: "env \<Rightarrow> bool" where
  "cron_later E \<longleftrightarrow> (\<forall>cr tz t. lib_cron_Next (e_lib E) cr tz t = 0 \<or> t < lib_cron_Next (e_lib E) cr tz t)"

text \<open>The window \<open>n\<close> is put on record, unless it is there already.\<close>

definition recorded :: "st \<Rightarrow> int \<Rightarrow> bool outcome \<times> st \<Rightarrow> bool" where
  "recorded s n x \<longleftrightarrow>
    (let c = st_cluster s in \<exists>b. fst x = Ok b \<and> (\<not> b \<longrightarrow> cst_NextMaintenanceWindow (c_Status c) = n) \<and>
      st_cluster (snd x) = (if b then upd_cstatus (\<lambda>st. st\<lparr>cst_NextMaintenanceWindow := n\<rparr>) c else c))"

lemma recorded_result:
  assumes "recorded s n (r, s')"
  shows "core (st_cluster s') = core (st_cluster s) \<and> c_Conditions (st_cluster s') = c_Conditions (st_cluster s) \<and>
    cst_NextMaintenanceWindow (c_Status (st_cluster s')) = n \<and> (\<exists>b. r = Ok b \<and> (\<not> b \<longrightarrow> st_cluster s' = st_cluster s))"
proof -
  obtain b where b: "r = Ok b" "\<not> b \<longrightarrow> cst_NextMaintenanceWindow (c_Status (st_cluster s)) = n"
    "st_cluster s' = (if b then upd_cstatus (\<lambda>st. st\<lparr>cst_NextMaintenanceWindow := n\<rparr>) (st_cluster s) else st_cluster s)"
    using assms unfolding recorded_def Let_def fst_conv snd_conv by blast
  then show ?thesis by (cases b) (simp_all add: core_def ex_bool_eq)
qed

lemma clear_runs: "recorded s 0 (clearMaintenanceWindow s)"
  by (simp add: recorded_def clearMaintenanceWindow_def run_bindE run_andThen run_basic run_set_cluster IsZero_def Let_def ex_bool_eq)

lemma invalid_runs: "recorded s 0 (invalidMaintenanceWindow s)"
  using clear_runs [of "s\<lparr>st_hist := h\<rparr>" for h]
  by (simp add: recorded_def invalidMaintenanceWindow_def run_andThen run_event Let_def)

text \<open>A window that is enabled, with a valid duration, schedule and time zone.\<close>

definition valid_window :: "env \<Rightarrow> ClusterMaintenanceWindow \<Rightarrow> int \<Rightarrow> bool" where
  "valid_window E mw dur \<longleftrightarrow>
    mwEnabled E mw \<and> mw_Cron mw \<noteq> [] \<and> mw_Duration mw \<noteq> [] \<and> ParseDuration (mw_Duration mw) = Some dur \<and>
    lib_cron_Parse (e_lib E) (mw_Cron mw) \<and> lib_LoadLocation (e_lib E) (mwLocation mw)"

abbreviation window_of :: "st \<Rightarrow> ClusterMaintenanceWindow" where
  "window_of s \<equiv> co_MaintenanceWindow (cs_Options (c_Spec (st_cluster s)))"

lemma updateMaintenanceStatus_valid:
  assumes "valid_window E (window_of s) dur"
  shows "recorded s (lib_cron_Next (e_lib E) (mw_Cron (window_of s)) (mwLocation (window_of s))
    (e_now E (st_hist s) + wrap64 (- dur))) (updateMaintenanceStatus E s)"
  using assms by (simp add: updateMaintenanceStatus_def go_eval Let_def valid_window_def recorded_def IsZero_def ex_bool_eq)

lemma updateMaintenanceStatus_invalid:
  assumes "\<nexists>dur. valid_window E (window_of s) dur"
  shows "recorded s 0 (updateMaintenanceStatus E s)"
proof -
  have "updateMaintenanceStatus E s = clearMaintenanceWindow s \<or> updateMaintenanceStatus E s = invalidMaintenanceWindow s"
    using assms by (auto simp: updateMaintenanceStatus_def go_eval Let_def valid_window_def split: option.splits)
  then show ?thesis using clear_runs invalid_runs by metis
qed

text \<open>
  C18. The maintenance window that is recorded is one that has not ended: it is recorded
  only when the feature is enabled with a valid duration, schedule and time zone, and it
  begins less than one window length before the time of the update, so that a window that
  has begun is still open; otherwise none is recorded. Nothing else of the cluster changes,
  and a change is always reported, so that it is written.
\<close>

theorem updateMaintenanceStatus_window:
  assumes "cron_later E" and "updateMaintenanceStatus E s = (r, s')"
  shows "let mw = co_MaintenanceWindow (cs_Options (c_Spec (st_cluster s)));
             next = cst_NextMaintenanceWindow (c_Status (st_cluster s'))
    in core (st_cluster s') = core (st_cluster s) \<and>
       c_Conditions (st_cluster s') = c_Conditions (st_cluster s) \<and>
       (\<exists>b. r = Ok b \<and> (\<not> b \<longrightarrow> st_cluster s' = st_cluster s)) \<and>
       (next \<noteq> 0 \<longrightarrow>
         mwEnabled E mw \<and> lib_cron_Parse (e_lib E) (mw_Cron mw) \<and> lib_LoadLocation (e_lib E) (mwLocation mw) \<and>
         (\<exists>dur. ParseDuration (mw_Duration mw) = Some dur \<and>
           (- (2 ^ 63) < dur \<longrightarrow> e_now E (st_hist s) - dur < next)))"
proof (cases "\<exists>dur. valid_window E (window_of s) dur")
  case True
  then obtain dur where dur: "valid_window E (window_of s) dur" ..
  define n where "n = lib_cron_Next (e_lib E) (mw_Cron (window_of s)) (mwLocation (window_of s)) (e_now E (st_hist s) + wrap64 (- dur))"
  have late: "e_now E (st_hist s) - dur < n" if "n \<noteq> 0" "- (2 ^ 63) < dur"
  proof -
    have "wrap64 (- dur) = - dur"
      using ParseDuration_range [of "mw_Duration (window_of s)" dur] dur that by (intro wrap64_id) (simp_all add: valid_window_def)
    moreover have "e_now E (st_hist s) + wrap64 (- dur) < n"
      using assms(1) that(1) unfolding cron_later_def n_def by blast
    ultimately show ?thesis by simp
  qed
  have "recorded s n (r, s')" using updateMaintenanceStatus_valid [OF dur] unfolding assms(2) n_def .
  from recorded_result [OF this] dur late show ?thesis unfolding Let_def valid_window_def by blast
next
  case False
  from recorded_result [OF updateMaintenanceStatus_invalid [OF this, unfolded assms(2)]]
  show ?thesis unfolding Let_def by simp
qed

definition demo_window :: Cluster where
  "demo_window = demo_cluster\<lparr>c_Spec := (c_Spec demo_cluster)\<lparr>cs_Options := (cs_Options (c_Spec demo_cluster))\<lparr>
    co_MaintenanceWindow := \<lparr>mw_Enabled = Some True, mw_AnnotationsEnabled = None, mw_Cron = ''@daily'',
      mw_Duration = ''10m'', mw_Timezone = []\<rparr>\<rparr>\<rparr>\<rparr>"

definition demo_window_env :: env where
  "demo_window_env = demo_env\<lparr>e_lib := demo_lib\<lparr>lib_IsEmpty := \<lambda>mw. False, lib_cron_Parse := \<lambda>c. True,
    lib_LoadLocation := \<lambda>z. True, lib_cron_Next := \<lambda>c z t. t + 1\<rparr>\<rparr>"

definition demo_window_run :: "bool outcome \<times> st" where
  "demo_window_run = updateMaintenanceStatus demo_window_env (demo_st\<lparr>st_cluster := demo_window\<rparr>)"

lemma demo_window_next: "cst_NextMaintenanceWindow (c_Status (st_cluster (snd demo_window_run))) = 1000 * Hour - 10 * Minute + 1"
  by (simp add: demo_window_run_def updateMaintenanceStatus_def demo_window_def demo_window_env_def mwEnabled_def
      demo_texts wrap64_def demo_defs go_eval Let_def Hour_def Minute_def Second_def Millisecond_def Microsecond_def
      Nanosecond_def IsZero_def)

theorem updateMaintenanceStatus_window_witness:
  "\<exists>dur. ParseDuration ''10m'' = Some dur \<and> 1000 * Hour - dur < cst_NextMaintenanceWindow (c_Status (st_cluster (snd demo_window_run)))"
proof -
  have "cron_later demo_window_env" by (simp add: cron_later_def demo_window_env_def)
  from updateMaintenanceStatus_window [OF this prod.collapse [symmetric], of "demo_st\<lparr>st_cluster := demo_window\<rparr>"]
  show ?thesis
    using demo_window_next
    by (simp add: Let_def demo_window_run_def demo_texts demo_window_def demo_window_env_def demo_env_def demo_cluster_def
        demo_st_def Hour_def Minute_def Second_def Millisecond_def Microsecond_def Nanosecond_def)
qed

end
