(* ===== verification/ClusterSecrets.thy ===== *)
theory ClusterSecrets
  imports ClusterHelpers
begin

text \<open>
  \<^verbatim>\<open>internal/controller/cluster_controller_secrets.go\<close>: the secrets the operator derives
  from a cluster (kubeconfig, talosconfig, Argo CD cluster), which are made again once a
  day.
\<close>

section \<open>Refreshing a secret\<close>

type_synonym mutator = "Cluster \<Rightarrow> Secret \<Rightarrow> Secret ctl"

definition errNothingToDoHere :: go_error where
  "errNothingToDoHere = Error NothingToDoHere (msgtxt ''can't do anything here yet'')"

definition getFirstProvisionedControllerNode :: "env \<Rightarrow> Cluster \<Rightarrow> Node ctl" where
  "getFirstProvisionedControllerNode E cluster =
    bindE (listEligibleNodes E cluster (Some NodeRoleControlplane)) (\<lambda>nodes.
      case nodes of
        [] \<Rightarrow> fail (errorf_w (msgtxt ''no provisioned controller nodes'') errNothingToDoHere)
      | node # _ \<Rightarrow> ret node)"

abbreviation secret_at :: "string \<Rightarrow> string \<Rightarrow> string" where
  "secret_at ns name \<equiv> ns @ ''/'' @ name"

text \<open>
  Lines 55 to 72: the secret, or an empty one with its name when there is none, and
  whether there is one.
\<close>

definition fetchSecret :: "env \<Rightarrow> string \<Rightarrow> string \<Rightarrow> (bool \<times> Secret) ctl" where
  "fetchSecret E ns name =
    onErr (ask (e_secret E) (Api (GetSecret ns name)))
      (\<lambda>getErr. if IsNotFound getErr
         then ret (False, \<lparr>sec_Namespace = ns, sec_Name = name, sec_Labels = [], sec_Annotations = [],
           sec_OwnerReferences = [], sec_Immutable = False, sec_Data = []\<rparr>)
         else fail (errorf_w (msgtxt ''failed to get secret '' @ secret_at ns name) getErr))
      (\<lambda>secret. ret (True, secret))"

text \<open>Lines 74 to 83.\<close>

definition secretFresh :: "env \<Rightarrow> Secret \<Rightarrow> bool ctl" where
  "secretFresh E secret =
    (case map_of (sec_Annotations secret) ''last-refresh-time'' of
       None \<Rightarrow> ret False
     | Some ts \<Rightarrow>
         (case lib_parse_RFC3339 (e_lib E) ts of
            None \<Rightarrow> ret False
          | Some lastRefreshTime \<Rightarrow>
              bindE (time_Since E lastRefreshTime) (\<lambda>age. ret (age < 24 * Hour))))"

text \<open>\<^verbatim>\<open>maps.Copy\<close>, or one assignment after the other.\<close>

definition maps_Copy :: "'v strmap \<Rightarrow> 'v strmap \<Rightarrow> 'v strmap" where
  "maps_Copy dst src = foldl (\<lambda>m (k, v). map_set m k v) dst src"

text \<open>
  Lines 86 to 110: the time of the refresh, and the owner, as a reference in the namespace
  of the cluster and as labels elsewhere. A controller reference names its owner by UID.
\<close>

definition ownSecret :: "env \<Rightarrow> Cluster \<Rightarrow> int \<Rightarrow> Secret \<Rightarrow> Secret" where
  "ownSecret E cluster t secret =
    (let stamped = secret\<lparr>sec_Annotations :=
           map_set (sec_Annotations secret) ''last-refresh-time'' (lib_format_RFC3339 (e_lib E) ''Local'' t)\<rparr>;
         owned = (if sec_Namespace secret = c_Namespace cluster \<and> sec_OwnerReferences secret = []
           then stamped\<lparr>sec_OwnerReferences := [c_UID cluster]\<rparr> else stamped)
     in if sec_Namespace secret \<noteq> c_Namespace cluster \<and> map_of (sec_Labels secret) ''ownerName'' = None
        then (case lib_GroupVersionKind (e_clib E) cluster of (grp, version, kind) \<Rightarrow>
          owned\<lparr>sec_Labels := maps_Copy (sec_Labels secret)
            [(''ownerGroup'', grp), (''ownerVersion'', version), (''ownerKind'', kind),
             (''ownerName'', c_Name cluster), (''ownerNamespace'', c_Namespace cluster)]\<rparr>)
        else owned)"

text \<open>Lines 112 to 147.\<close>

definition writeSecret :: "env \<Rightarrow> string \<Rightarrow> string \<Rightarrow> mutator \<Rightarrow> Cluster \<Rightarrow> bool \<Rightarrow> Secret \<Rightarrow> unit ctl" where
  "writeSecret E ns name mutateFn cluster found secret =
    onErr (mutateFn cluster secret)
      (\<lambda>err. if ekind err = NothingToDoHere then ret ()
             else fail (errorf_w (msgtxt ''failed secret mutation '' @ secret_at ns name) err))
      (\<lambda>secret'.
        andThen (wrapE (msgtxt ''failed to create/update secret '' @ secret_at ns name)
          (act E (Api (if found then UpdateSecret secret' else CreateSecret secret'))))
          (event EventTypeNormal EventReasonUpdated EventActionSecretReconcile))"

definition updateSecret :: "env \<Rightarrow> Cluster \<Rightarrow> string \<times> string \<Rightarrow> mutator \<Rightarrow> unit ctl" where
  "updateSecret E cluster key mutateFn =
    (case key of (ns, name) \<Rightarrow>
      bindE (fetchSecret E ns name) (\<lambda>(found, secret).
      bindE (if found then secretFresh E secret else ret False) (\<lambda>fresh.
        if fresh then ret ()
        else bindE (now E) (\<lambda>t.
          writeSecret E ns name mutateFn cluster found (ownSecret E cluster t secret)))))"

section \<open>What the secrets hold\<close>

definition mutateKubeconfigSecret :: "env \<Rightarrow> mutator" where
  "mutateKubeconfigSecret E cluster secret =
    bindE (getFirstProvisionedControllerNode E cluster) (\<lambda>node.
    bindE (getTalosClient E node cluster) (\<lambda>talosClient.
    bindE (ask (e_text E) (Talos talosClient TKubeconfig)) (\<lambda>kubeconfigBytes.
    ret (secret\<lparr>sec_Data := [(''kubeconfig'', kubeconfigBytes)]\<rparr>))))"

definition mutateTalosconfigSecret :: "env \<Rightarrow> mutator" where
  "mutateTalosconfigSecret E cluster secret =
    bindE (getFirstProvisionedControllerNode E cluster) (\<lambda>node.
    bindE (getTalosClientConfig E node cluster) (\<lambda>cfg.
    bindE (lift (lib_talosconfig_Bytes (e_clib E) (tcf_Context cfg) (tcf_Endpoints cfg) (tcf_Cert cfg))) (\<lambda>bytes.
    ret (secret\<lparr>sec_Data := [(''talosconfig'', bytes)]\<rparr>))))"

text \<open>Lines 230 to 247: the server, CA, certificate and key of the current context.\<close>

definition currentCredentials :: "KubeConfigFile \<Rightarrow> go_error + (string \<times> string) \<times> (string \<times> string)" where
  "currentCredentials kubeconfig =
    (if kc_CurrentContext kubeconfig = [] then Inl (errorf (msgtxt ''kubeconfig has no current context''))
     else (case map_of (kc_Contexts kubeconfig) (kc_CurrentContext kubeconfig) of
         None \<Rightarrow> Inl (errorf (msgtxt ''kubeconfig is missing expected context: '' @ kc_CurrentContext kubeconfig))
       | Some (clusterName, authInfoName) \<Rightarrow>
           (case (map_of (kc_Clusters kubeconfig) clusterName, map_of (kc_AuthInfos kubeconfig) authInfoName) of
              (Some clusterData, Some authInfoData) \<Rightarrow> Inr (clusterData, authInfoData)
            | _ \<Rightarrow> Inl (errorf (msgtxt ''kubeconfig is missing expected data'')))))"

definition mutateArgoCDSecret :: "env \<Rightarrow> mutator" where
  "mutateArgoCDSecret E cluster secret =
    bindE (getFirstProvisionedControllerNode E cluster) (\<lambda>node.
    bindE (getTalosClient E node cluster) (\<lambda>talosClient.
    bindE (wrapE (msgtxt ''failed to generate kubeconfig'')
      (ask (e_text E) (Talos talosClient TKubeconfig))) (\<lambda>kubeconfigBytes.
    bindE (wrapE (msgtxt ''failed to parse kubeconfig'')
      (lift (lib_clientcmd_Load (e_clib E) kubeconfigBytes))) (\<lambda>kubeconfig.
    bindE (lift (currentCredentials kubeconfig)) (\<lambda>((server, ca), (cert, key)).
    bindE (wrapE (msgtxt ''failed to serialize Argo CD config'') (lift (lib_json_argo (e_clib E) ca cert key))) (\<lambda>config.
    let featureOptions = co_ArgoCDSecret (cs_Options (c_Spec cluster));
        labels = maps_Copy (sec_Labels secret) (argo_ExtraLabels featureOptions)
    in ret (secret\<lparr>sec_Labels := map_set labels ''argocd.argoproj.io/secret-type'' ''cluster'',
         sec_Data := [(''name'', lib_CoalesceOrEmpty (e_lib E) (argo_ClusterNameOverride featureOptions) (c_Name cluster)),
           (''server'', server), (''config'', config)]\<rparr>)))))))"

section \<open>The contract of a mutator\<close>

text \<open>
  A mutator reads, and sets the data and the labels of the secret it is given; the rest of
  the metadata is up to \<open>updateSecret\<close>.
\<close>

locale secret_mutator =
  fixes mutateFn :: mutator
  assumes reads: "emits is_read (mutateFn cluster secret)"
    and keeps_meta: "mutateFn cluster secret s = (Ok secret', s') \<Longrightarrow>
      secret'\<lparr>sec_Labels := l, sec_Data := d\<rparr> = secret\<lparr>sec_Labels := l, sec_Data := d\<rparr>"
    and keeps_cluster: "keeps st_cluster (mutateFn cluster secret)"

text \<open>There is no such secret, or there is and it is not fresh.\<close>

definition missing :: "env \<Rightarrow> string \<Rightarrow> string \<Rightarrow> call list \<Rightarrow> bool" where
  "missing E ns name h \<longleftrightarrow>
    (\<exists>later before e. h = later @ Api (GetSecret ns name) # before \<and>
      e_secret E before (Api (GetSecret ns name)) = Inl e \<and> IsNotFound e)"

definition stale :: "env \<Rightarrow> Secret \<Rightarrow> call list \<Rightarrow> bool" where
  "stale E secret h \<longleftrightarrow>
    (\<forall>ts t. map_of (sec_Annotations secret) ''last-refresh-time'' = Some ts \<longrightarrow> lib_parse_RFC3339 (e_lib E) ts = Some t \<longrightarrow>
      clocked E (\<lambda>n. 24 * Hour \<le> time_Sub n t) h)"

text \<open>The annotation is the time of a reading of the clock.\<close>

definition stamped :: "env \<Rightarrow> Secret \<Rightarrow> call list \<Rightarrow> bool" where
  "stamped E secret h \<longleftrightarrow>
    clocked E (\<lambda>n. map_of (sec_Annotations secret) ''last-refresh-time'' = Some (lib_format_RFC3339 (e_lib E) ''Local'' n)) h"

definition secret_call :: "env \<Rightarrow> Cluster \<Rightarrow> string \<times> string \<Rightarrow> call list \<Rightarrow> call \<Rightarrow> bool" where
  "secret_call E cluster key h c \<longleftrightarrow>
    (case c of
       Api (CreateSecret new) \<Rightarrow>
         missing E (fst key) (snd key) h \<and> stamped E new h \<and> (sec_Namespace new, sec_Name new) = key \<and>
         sec_OwnerReferences new = (if fst key = c_Namespace cluster then [c_UID cluster] else [])
     | Api (UpdateSecret new) \<Rightarrow>
         (\<exists>old. answered (e_secret E) (Api (GetSecret (fst key) (snd key))) old h \<and> stale E old h \<and> stamped E new h \<and>
           sec_Namespace new = sec_Namespace old \<and> sec_Name new = sec_Name old \<and> sec_Immutable new = sec_Immutable old \<and>
           sec_OwnerReferences new = (if sec_OwnerReferences old = [] \<and> sec_Namespace old = c_Namespace cluster
             then [c_UID cluster] else sec_OwnerReferences old))
     | Event t r a \<Rightarrow> True
     | _ \<Rightarrow> is_read c)"

lemma secret_call_simps [simp]:
  "is_read c \<Longrightarrow> secret_call E cluster key h c" "secret_call E cluster key h (Event t r a)"
  by (auto simp: secret_call_def split: call.splits api_call.splits)

lemma persists_secret [simp]:
  "persists (missing E ns name)" "persists (stale E secret)" "persists (stamped E secret)"
  using persists_clocked [of E] unfolding persists_def missing_def stale_def stamped_def by (metis append.assoc, blast+)

text \<open>What is known of the secret to write.\<close>

definition known :: "env \<Rightarrow> string \<times> string \<Rightarrow> bool \<Rightarrow> Secret \<Rightarrow> call list \<Rightarrow> bool" where
  "known E key found secret h \<longleftrightarrow>
    (if found then answered (e_secret E) (Api (GetSecret (fst key) (snd key))) secret h
     else missing E (fst key) (snd key) h \<and> (sec_Namespace secret, sec_Name secret) = key \<and> sec_OwnerReferences secret = [])"

lemma persists_known [simp]: "persists (known E key found secret)"
  using persists_secret(1) [of E "fst key" "snd key"]
    persists_answered [of "e_secret E" "Api (GetSecret (fst key) (snd key))" secret]
  unfolding persists_def known_def by auto

lemma missing_Cons:
  "e_secret E h (Api (GetSecret ns name)) = Inl e \<Longrightarrow> IsNotFound e \<Longrightarrow> missing E ns name (Api (GetSecret ns name) # h)"
  unfolding missing_def by (intro exI [of _ "[]"] exI [of _ h] exI [of _ e]) simp

lemma fetchSecret_known: "fetchSecret E ns name s = (Ok (found, secret), s') \<Longrightarrow> known E (ns, name) found secret (st_hist s')"
  by (cases "e_secret E (st_hist s) (Api (GetSecret ns name))")
    (auto simp: fetchSecret_def go_eval known_def answered_Cons missing_Cons split: if_splits)

lemma secretFresh_stale: "secretFresh E secret s = (Ok False, s') \<Longrightarrow> stale E secret (st_hist s')"
  by (auto simp: secretFresh_def time_Since_def go_eval stale_def not_less clocked_Cons split: option.splits)

lemma ownSecret_meta:
  "sec_Namespace (ownSecret E cluster t secret) = sec_Namespace secret"
  "sec_Name (ownSecret E cluster t secret) = sec_Name secret"
  "sec_Immutable (ownSecret E cluster t secret) = sec_Immutable secret"
  "sec_OwnerReferences (ownSecret E cluster t secret) =
    (if sec_OwnerReferences secret = [] \<and> sec_Namespace secret = c_Namespace cluster
     then [c_UID cluster] else sec_OwnerReferences secret)"
  "map_of (sec_Annotations (ownSecret E cluster t secret)) ''last-refresh-time'' = Some (lib_format_RFC3339 (e_lib E) ''Local'' t)"
  by (auto simp: ownSecret_def Let_def split: prod.split)

text \<open>Reads, events and the writes of secrets.\<close>

fun on_secrets :: "call \<Rightarrow> bool" where
  "on_secrets (Api (CreateSecret s)) = True"
| "on_secrets (Api (UpdateSecret s)) = True"
| "on_secrets (Event t r a) = True"
| "on_secrets c = is_read c"

lemma on_secrets_read [simp]: "is_read c \<Longrightarrow> on_secrets c"
  by (cases c rule: on_secrets.cases) simp_all

context secret_mutator
begin

lemma only_secrets: "emits on_secrets (updateSecret E cluster key mutateFn)"
  unfolding updateSecret_def fetchSecret_def secretFresh_def writeSecret_def
  by (intro em.structural emits_prims emits_mono [OF reads]) simp_all

lemma same_cluster: "keeps st_cluster (updateSecret E cluster key mutateFn)"
  unfolding updateSecret_def fetchSecret_def secretFresh_def writeSecret_def
  by (intro kp.structural keeps_prims keeps_cluster) simp_all

lemma meta:
  assumes "mutateFn cluster secret s = (Ok secret', s')"
  shows "sec_Namespace secret' = sec_Namespace secret" "sec_Name secret' = sec_Name secret"
    "sec_Immutable secret' = sec_Immutable secret" "sec_OwnerReferences secret' = sec_OwnerReferences secret"
    "sec_Annotations secret' = sec_Annotations secret"
  using arg_cong [OF keeps_meta [OF assms], of sec_Namespace] arg_cong [OF keeps_meta [OF assms], of sec_Name]
    arg_cong [OF keeps_meta [OF assms], of sec_Immutable] arg_cong [OF keeps_meta [OF assms], of sec_OwnerReferences]
    arg_cong [OF keeps_meta [OF assms], of sec_Annotations] by simp_all

lemma writes:
  assumes "persists F" and "\<And>h. F h \<Longrightarrow> known E (ns, name) found secret h" and "\<And>h. F h \<Longrightarrow> found \<Longrightarrow> stale E secret h"
    and "\<And>h. F h \<Longrightarrow> clocked E (\<lambda>n. n = t) h"
  shows "under F (secret_call E cluster (ns, name)) (writeSecret E ns name mutateFn cluster found (ownSecret E cluster t secret))"
proof -
  let ?own = "ownSecret E cluster t secret"
  let ?G = "\<lambda>new h. sec_Namespace new = sec_Namespace ?own \<and> sec_Name new = sec_Name ?own \<and>
    sec_Immutable new = sec_Immutable ?own \<and> sec_OwnerReferences new = sec_OwnerReferences ?own \<and>
    sec_Annotations new = sec_Annotations ?own"
  have "secret_call E cluster (ns, name) h (Api (if found then UpdateSecret new else CreateSecret new))"
    if "F h" "?G new h" for h new
  proof -
    have "stamped E new h" using assms(4) [OF that(1)] that(2) by (auto simp: stamped_def ownSecret_meta clocked_def)
    with assms(2,3) [OF that(1)] that(2) show ?thesis
      by (cases found) (auto simp: secret_call_def known_def ownSecret_meta)
  qed
  then have "under (\<lambda>h. F h \<and> ?G new h) (secret_call E cluster (ns, name))
      (andThen (wrapE e (act E (Api (if found then UpdateSecret new else CreateSecret new))))
        (event EventTypeNormal EventReasonUpdated EventActionSecretReconcile))" for new e
    by (intro under_andThen under_wrapE under_act under_event persists_conj assms(1) persists_const) simp_all
  moreover have "under F (secret_call E cluster (ns, name)) (mutateFn cluster ?own)"
    by (rule under_emits [OF reads assms(1)]) simp
  ultimately show ?thesis
    unfolding writeSecret_def
    by (intro under_onErr_value [where G = ?G, OF assms(1)] under_if under_basic) (simp_all add: meta)
qed

lemma updates: "under (\<lambda>h. True) (secret_call E cluster (ns, name)) (updateSecret E cluster (ns, name) mutateFn)"
proof -
  have fetch: "under F (secret_call E cluster (ns, name)) (fetchSecret E ns name)" if "persists F" for F
    unfolding fetchSecret_def by (intro under_structural under_prims that) simp
  have fresh: "under F (secret_call E cluster (ns, name)) (if found then secretFresh E secret else ret False)"
    if "persists F" for F found secret
    unfolding secretFresh_def by (intro under_structural under_prims that) simp_all
  let ?F = "\<lambda>found secret fresh h. known E (ns, name) found secret h \<and> (\<not> fresh \<longrightarrow> found \<longrightarrow> stale E secret h)"
  have writing: "under (?F found secret fresh) (secret_call E cluster (ns, name)) (if fresh then ret () else bindE (now E) (\<lambda>t.
        writeSecret E ns name mutateFn cluster found (ownSecret E cluster t secret)))" for found secret fresh
  proof (intro under_if under_basic, rule under_bindE_value)
    let ?G = "\<lambda>t h. clocked E (\<lambda>n. n = t) h"
    show F: "persists (?F found secret fresh)" by simp
    show "under (?F found secret fresh) (secret_call E cluster (ns, name)) (now E)" by (rule under_now) simp
    show "?G t (st_hist s')" if "now E s = (Ok t, s')" for t s s'
      using that by (auto simp: run_now clocked_Cons)
    from F have "persists (\<lambda>h. ?F found secret fresh h \<and> ?G t h)" for t by (rule persists_conj) simp
    then show "under (\<lambda>h. ?F found secret fresh h \<and> ?G t h) (secret_call E cluster (ns, name))
        (writeSecret E ns name mutateFn cluster found (ownSecret E cluster t secret))" if "\<not> fresh" for t
      using that by (intro writes) auto
  qed
  have "under (known E (ns, name) found secret) (secret_call E cluster (ns, name))
      (bindE (if found then secretFresh E secret else ret False) (\<lambda>fresh. if fresh then ret () else bindE (now E) (\<lambda>t.
        writeSecret E ns name mutateFn cluster found (ownSecret E cluster t secret))))" for found secret
    by (rule under_bindE_value [OF _ fresh _ writing]) (auto dest: secretFresh_stale)
  then show ?thesis
    unfolding updateSecret_def prod.case
    by (intro under_bindE_value [where G = "\<lambda>x. known E (ns, name) (fst x) (snd x)"] under_prod fetch)
      (auto dest: fetchSecret_known intro: under_weaken)
qed

end

interpretation kubeconfig_secret: secret_mutator "mutateKubeconfigSecret E" for E
  by unfold_locales
    (auto simp: mutateKubeconfigSecret_def getFirstProvisionedControllerNode_def listEligibleNodes_def go_ok
      intro!: em.structural emits_prims setup_is_read [OF emits_getTalosClient] kp.structural keeps_prims keeps_getTalosClient)

interpretation talosconfig_secret: secret_mutator "mutateTalosconfigSecret E" for E
  by unfold_locales
    (auto simp: mutateTalosconfigSecret_def getFirstProvisionedControllerNode_def listEligibleNodes_def go_ok
      intro!: em.structural emits_prims setup_is_read [OF emits_getTalosClientConfig] kp.structural keeps_prims keeps_getTalosClientConfig)

interpretation argocd_secret: secret_mutator "mutateArgoCDSecret E" for E
  by unfold_locales
    (auto simp: mutateArgoCDSecret_def getFirstProvisionedControllerNode_def listEligibleNodes_def Let_def go_ok
      intro!: em.structural emits_prims setup_is_read [OF emits_getTalosClient] kp.structural keeps_prims keeps_getTalosClient split: prod.splits)


definition demo_secret_run :: "unit outcome \<times> st" where
  "demo_secret_run = updateSecret demo_nodes_env demo_cluster (''talos'', ''c1-talosconfig'')
    (mutateTalosconfigSecret demo_nodes_env) demo_st"

fun updates_secret :: "call \<Rightarrow> bool" where
  "updates_secret (Api (UpdateSecret new)) = True"
| "updates_secret c = False"

lemma demo_secret_written: "list_ex updates_secret (st_hist (snd demo_secret_run))"
  by (simp add: demo_secret_run_def updateSecret_def fetchSecret_def secretFresh_def writeSecret_def mutateTalosconfigSecret_def
      getFirstProvisionedControllerNode_def listEligibleNodes_def getTalosClientConfig_def getSecrets_def
      demo_nodes_env_def demo_nodes_def node_before_def demo_defs go_eval Let_def const_defs)


end
