(* ===== verification/ClusterReconcile.thy ===== *)
theory ClusterReconcile
  imports ClusterOps ClusterStatus ClusterSecrets Triples
begin

text \<open>
  \<^verbatim>\<open>internal/controller/cluster_controller.go\<close>: one reconciliation of a Cluster, from reading
  it to the handler of its operation. As for nodes, the empty result is \<open>None\<close>, and the
  watches of \<^verbatim>\<open>SetupWithManager\<close> decide only when Reconcile runs.
\<close>

section \<open>Defaults\<close>

definition DefaultKubernetesVersion :: "env \<Rightarrow> string" where
  "DefaultKubernetesVersion E = ''v'' @ lib_default_kubernetes (e_clib E)"

abbreviation upd_cspec :: "(ClusterSpec \<Rightarrow> ClusterSpec) \<Rightarrow> Cluster \<Rightarrow> Cluster" where
  "upd_cspec f c \<equiv> c\<lparr>c_Spec := f (c_Spec c)\<rparr>"

text \<open>Lines 84 to 106 and 108 to 130.\<close>

definition setDefaultKubernetes :: "env \<Rightarrow> unit ctl" where
  "setDefaultKubernetes E =
    bindE (gets st_cluster) (\<lambda>cluster.
      if cs_KubernetesVersion (c_Spec cluster) = []
      then andThen (updateCluster E (\<lambda>c. ret (upd_cspec (\<lambda>sp. sp\<lparr>cs_KubernetesVersion := DefaultKubernetesVersion E\<rparr>) c)))
        (event EventTypeWarning EventReasonUpdated EventActionClusterReconcile)
      else ret ())"

definition setDefaultContract :: "env \<Rightarrow> unit ctl" where
  "setDefaultContract E =
    bindE (gets st_cluster) (\<lambda>cluster.
      if cs_TalosVersionContract (c_Spec cluster) = []
      then andThen (updateCluster E (\<lambda>c. ret (upd_cspec (\<lambda>sp. sp\<lparr>cs_TalosVersionContract :=
          lib_contract_String (e_clib E) (lib_default_contract (e_clib E))\<rparr>) c)))
        (event EventTypeWarning EventReasonUpdated EventActionClusterReconcile)
      else ret ())"

text \<open>Lines 132 to 141, when the reference is empty.\<close>

definition setSecretsRef :: "env \<Rightarrow> result ctl" where
  "setSecretsRef E =
    andThen (updateCluster E (\<lambda>c. ret (upd_cspec (\<lambda>sp. sp\<lparr>cs_SecretsRef := c_Name c @ ''-secrets''\<rparr>) c)))
      (ret (Some RequeueShortDelay))"

text \<open>Lines 143 to 179.\<close>

definition generateSecrets :: "env \<Rightarrow> Cluster \<Rightarrow> unit ctl" where
  "generateSecrets E cluster =
    bindE (wrapE (msgtxt ''error generating new secrets bundle'') (ask (e_text E) (Sys NewSecretsBundle))) (\<lambda>bundle.
    bindE (wrapE (msgtxt ''error marshalling generated secrets bundle'') (lift (lib_yaml_marshal (e_lib E) bundle))) (\<lambda>secretsYaml.
    andThen (wrapE (msgtxt ''error saving generated talos secrets bundle'')
      (act E (Api (CreateSecret \<lparr>sec_Namespace = c_Namespace cluster, sec_Name = cs_SecretsRef (c_Spec cluster),
        sec_Labels = [], sec_Annotations = [], sec_OwnerReferences = [], sec_Immutable = True,
        sec_Data = [(''secrets.yaml'', secretsYaml)]\<rparr>))))
      (event EventTypeNormal EventReasonCreated EventActionSecretReconcile)))"

definition ensureSecrets :: "env \<Rightarrow> unit ctl" where
  "ensureSecrets E =
    bindE (gets st_cluster) (\<lambda>cluster.
    onErr (ask (e_secret E) (Api (GetSecret (c_Namespace cluster) (cs_SecretsRef (c_Spec cluster)))))
      (\<lambda>err. if IsNotFound err then generateSecrets E cluster
             else fail (errorf_w (msgtxt ''error fetching cluster secrets bundle'') err))
      (\<lambda>_. ret ()))"

section \<open>Derived secrets\<close>

text \<open>
  Lines 187 to 202: the secrets to keep, with their names, namespaces and mutators. The
  struct \<^verbatim>\<open>secretMutator\<close> is a triple.
\<close>

definition secretHelpers :: "env \<Rightarrow> Cluster \<Rightarrow> (string \<times> string \<times> mutator) list" where
  "secretHelpers E cluster =
    (let argoCDSecret = co_ArgoCDSecret (cs_Options (c_Spec cluster)) in
     [(''kubeconfig'', c_Namespace cluster, mutateKubeconfigSecret E),
      (''talosconfig'', c_Namespace cluster, mutateTalosconfigSecret E)]
     @ (if argo_Enabled argoCDSecret = Some True
        then [(c_Namespace cluster @ ''-argocd-cluster'', argo_Namespace argoCDSecret, mutateArgoCDSecret E)]
        else []))"

definition updateSecrets :: "env \<Rightarrow> unit ctl" where
  "updateSecrets E =
    bindE (gets st_cluster) (\<lambda>cluster.
    forE (secretHelpers E cluster) (\<lambda>(name, namespace, helper).
      wrapE (msgtxt ''error updating '' @ name @ msgtxt '' secret'')
        (updateSecret E cluster (namespace, c_Name cluster @ ''-'' @ name) helper)))"

section \<open>Automatic operations\<close>

text \<open>No request, and no operation or one that is done; a failed one counts as unfinished.\<close>

definition lastOpDone :: "Cluster \<Rightarrow> bool" where
  "lastOpDone cluster \<longleftrightarrow>
    c_Operation cluster = None \<and>
    (case c_OpStatus cluster of None \<Rightarrow> True | Some os \<Rightarrow> cos_Phase os = ClusterOperationPhaseDone)"

definition autoBootstrapEnabled :: "Cluster \<Rightarrow> bool" where
  "autoBootstrapEnabled cluster \<longleftrightarrow>
    (case co_AutoBootstrap (cs_Options (c_Spec cluster)) of None \<Rightarrow> True | Some b \<Rightarrow> b)"

text \<open>Lines 232 to 250.\<close>

definition bootstrapReady :: "env \<Rightarrow> Node \<Rightarrow> bool" where
  "bootstrapReady E node \<longleftrightarrow>
    IsTrue E (n_Conditions node) NodeConditionReady \<and>
    (case n_OpStatus node of
       None \<Rightarrow> True
     | Some os \<Rightarrow> nos_Phase os = NodeOperationPhaseDone \<and> nos_Type os = NodeOperationTypeProvision)"

definition readyForBootstrap :: "env \<Rightarrow> Node list \<Rightarrow> bool" where
  "readyForBootstrap E nodes \<longleftrightarrow> 0 < length nodes \<and> list_all (bootstrapReady E) nodes"

text \<open>The operation status of a new operation.\<close>

definition newOperation :: "env \<Rightarrow> ClusterOperation \<Rightarrow> string \<Rightarrow> string \<Rightarrow> Cluster \<Rightarrow> Cluster ctl" where
  "newOperation E op reason message c =
    bindE (now E) (\<lambda>t. ret (upd_cstatus (\<lambda>st. st\<lparr>cst_Operation := Some
      \<lparr>cos_op = op, cos_Phase = ClusterOperationPhasePending, cos_Reason = reason, cos_Message = message,
       cos_LastTransitionTime = t, cos_SubOperations = []\<rparr>\<rparr>) c))"

definition triggerBootstrap :: "env \<Rightarrow> unit ctl" where
  "triggerBootstrap E =
    andThen (wrapE (msgtxt ''failed to set automatic bootstrap operation status'')
      (updateClusterStatus E (newOperation E \<lparr>cop_Type = ClusterOperationTypeBootstrap\<rparr>
        OperationReasonAutomaticallyTriggered (msgtxt ''Triggered automatic cluster bootstrap''))))
      (event EventTypeNormal EventReasonStarted EventActionBootstrap)"

definition autoBootstrap :: "env \<Rightarrow> Cluster \<Rightarrow> unit ctl" where
  "autoBootstrap E cluster =
    (if lastOpDone cluster \<and> IsFalse E (c_Conditions cluster) ClusterConditionBootstrapped \<and> autoBootstrapEnabled cluster
     then bindE (wrapE (msgtxt ''error listing controlplane nodes for cluster '' @ c_Name cluster)
         (listEligibleNodes E cluster (Some NodeRoleControlplane))) (\<lambda>controlplaneNodes.
       if readyForBootstrap E controlplaneNodes then triggerBootstrap E else ret ())
     else ret ())"

text \<open>Lines 285 to 286; the clock is read only when there is a window.\<close>

definition inMaintenanceWindow :: "env \<Rightarrow> Cluster \<Rightarrow> bool ctl" where
  "inMaintenanceWindow E cluster =
    (if IsZero (cst_NextMaintenanceWindow (c_Status cluster)) then ret False
     else bindE (now E) (\<lambda>t. ret (cst_NextMaintenanceWindow (c_Status cluster) < t)))"

text \<open>Lines 290 to 321: the operation a window calls for and the action of its event.\<close>

definition windowOperation :: "env \<Rightarrow> Cluster \<Rightarrow> (string \<times> string) option" where
  "windowOperation E cluster =
    (if IsFalse E (c_Conditions cluster) ClusterConditionNodesInSync
     then Some (ClusterOperationTypeRollingApply, EventActionRollingApply)
     else if IsFalse E (c_Conditions cluster) ClusterConditionNodesKubernetesUpToDate
     then Some (ClusterOperationTypeKubernetesUpgrade, EventActionKubernetesUpgrade)
     else None)"

text \<open>Lines 281 to 341: whether an operation has been triggered.\<close>

definition triggerOperation :: "env \<Rightarrow> string \<times> string \<Rightarrow> bool ctl" where
  "triggerOperation E op =
    andThen (event EventTypeNormal EventReasonStarted (snd op)) (
    andThen (wrapE (msgtxt ''failed to set automatic Cluster Operation status'')
      (updateClusterStatus E (newOperation E \<lparr>cop_Type = fst op\<rparr> OperationReasonAutomaticallyTriggered
        (msgtxt ''Triggered automatic operation due to maintenance window''))))
      (ret True))"

definition maintenanceTrigger :: "env \<Rightarrow> Cluster \<Rightarrow> bool ctl" where
  "maintenanceTrigger E cluster =
    bindE (inMaintenanceWindow E cluster) (\<lambda>inWindow.
      if inWindow \<and> lastOpDone cluster
      then (case windowOperation E cluster of None \<Rightarrow> ret False | Some op \<Rightarrow> triggerOperation E op)
      else ret False)"

section \<open>Requested operations\<close>

text \<open>
  Lines 343 to 371: the closure reads the request from the cluster it has just read again,
  through the same pointer.
\<close>

definition acceptedStatus_cluster :: "env \<Rightarrow> Cluster \<Rightarrow> Cluster ctl" where
  "acceptedStatus_cluster E c =
    (case c_Operation c of
       None \<Rightarrow> panic (msgtxt ''nil pointer dereference: cluster.Operation'')
     | Some op \<Rightarrow> newOperation E op OperationReasonInitialized (msgtxt ''Cluster operation has been initialized'') c)"

definition acceptOperation_cluster :: "env \<Rightarrow> result ctl" where
  "acceptOperation_cluster E =
    andThen (wrapE (msgtxt ''failed to initialize Cluster Operation status'')
      (updateClusterStatus E (acceptedStatus_cluster E))) (
    andThen (wrapE (msgtxt ''failed to clear Cluster Operation'')
      (updateCluster E (\<lambda>c. ret (c\<lparr>c_Operation := None\<rparr>))))
      (ret (Some RequeueShortDelay)))"

section \<open>Running the operation\<close>

text \<open>Lines 378 to 390: an unknown type is neither an error nor a result.\<close>

definition dispatch_cluster :: "env \<Rightarrow> string \<Rightarrow> result ctl" where
  "dispatch_cluster E type =
    (if type = ClusterOperationTypeRollingReboot then handleRollingRebootOperation E
     else if type = ClusterOperationTypeRollingApply then handleRollingApplyOperation E
     else if type = ClusterOperationTypeKubernetesUpgrade then handleKubernetesUpgrade E
     else if type = ClusterOperationTypeBootstrap then handleBootstrapOperation E
     else ret None)"

text \<open>
  Lines 373 to 406. The type of the operation is read again, from the cluster as it is
  after the handler, for the error and for the log message of a result.
\<close>

definition runOperation_cluster :: "env \<Rightarrow> result ctl" where
  "runOperation_cluster E =
    bindE (gets st_cluster) (\<lambda>cluster.
    if isOperationComplete_cluster cluster then bindE (defaultRefreshInterval E) (\<lambda>d. ret (Some d))
    else bindE currentOp (\<lambda>opStatus.
      onErr (dispatch_cluster E (cos_Type opStatus))
        (\<lambda>err. bindE currentOp (\<lambda>os.
          fail (errorf_w (msgtxt ''error performing '' @ cos_Type os @ msgtxt '' operation'') err)))
        (\<lambda>res. case res of
            Some d \<Rightarrow> andThen currentOp (ret (Some d))
          | None \<Rightarrow> bindE (defaultRefreshInterval E) (\<lambda>d. ret (Some d)))))"

text \<open>Lines 213 to 406.\<close>

definition reconcileOperation :: "env \<Rightarrow> result ctl" where
  "reconcileOperation E =
    andThen (bindE (gets st_cluster) (autoBootstrap E)) (
    bindE (bindE (gets st_cluster) (maintenanceTrigger E)) (\<lambda>triggered.
      if triggered then ret (Some RequeueShortDelay)
      else bindE (gets st_cluster) (\<lambda>cluster.
        if c_Operation cluster \<noteq> None then acceptOperation_cluster E
        else runOperation_cluster E)))"

definition Reconcile_cluster :: "env \<Rightarrow> string \<Rightarrow> string \<Rightarrow> result ctl" where
  "Reconcile_cluster E namespace name =
    onErr (ask (e_cluster E) (Api (ReadCluster namespace name)))
      (\<lambda>err. if IsNotFound err then ret None else fail err)
      (\<lambda>cluster.
        andThen (set_cluster cluster) (
        andThen (setDefaultKubernetes E) (
        andThen (setDefaultContract E) (
        bindE (gets st_cluster) (\<lambda>cluster.
          if cs_SecretsRef (c_Spec cluster) = [] then setSecretsRef E
          else andThen (ensureSecrets E) (
            andThen (wrapE (msgtxt ''error updating cluster status'') (updateStatus E)) (
            andThen (updateSecrets E) (reconcileOperation E))))))))"

section \<open>Plans stay in order\<close>

text \<open>The plan of the operation of a cluster is in order, if there is one.\<close>

definition ordered :: "Cluster \<Rightarrow> bool" where
  "ordered c \<longleftrightarrow> (\<forall>os. c_OpStatus c = Some os \<longrightarrow> in_order (cos_SubOperations os))"

fun orderly :: "call \<Rightarrow> bool" where
  "orderly (Api (StatusUpdateCluster b n)) = ordered n"
| "orderly c = True"

definition ordered_world :: "env \<Rightarrow> bool" where
  "ordered_world E \<longleftrightarrow> (\<forall>h c m. e_cluster E h c = Inr m \<longrightarrow> cluster_status_write c = None \<longrightarrow> ordered m)"

abbreviation inOrder :: "st \<Rightarrow> bool" where
  "inOrder s \<equiv> ordered (st_cluster s)"

lemma orderly_simps [simp]: "is_read c \<Longrightarrow> orderly c" "on_secrets c \<Longrightarrow> orderly c"
  by (cases c rule: orderly.cases; simp)+

lemma orderly_writes: "writes_in_order c \<Longrightarrow> orderly c"
  by (cases c rule: orderly.cases) (auto simp: writes_in_order_def ordered_def)

lemma orderly_keeps: "emits orderly m \<Longrightarrow> keeps st_cluster m \<Longrightarrow> moves orderly inOrder inOrder m"
  by (rule moves_keeps [where f = st_cluster]) simp_all

lemma orderly_calls:
  "orderly c \<Longrightarrow> moves orderly inOrder inOrder (ask f c)" "orderly c \<Longrightarrow> moves orderly inOrder inOrder (act E c)"
  "moves orderly inOrder inOrder (event t r a)" "moves orderly inOrder inOrder (now E)"
  "moves orderly inOrder inOrder (lift x)" "moves orderly inOrder inOrder (defaultRefreshInterval E)"
  "moves orderly inOrder inOrder (listEligibleNodes E cluster role)" "moves orderly inOrder inOrder currentOp"
  unfolding listEligibleNodes_def currentOp_def
  by (intro orderly_keeps em.structural emits_prims kp.structural keeps_prims; simp)+

lemma orderly_updateCluster:
  assumes "ordered_world E" and "\<And>c. emits orderly (fn c)"
  shows "moves orderly P inOrder (updateCluster E fn)"
proof (rule movesI)
  show "grows orderly s s'" if "updateCluster E fn s = (r, s')" for s r s'
    by (rule stepsD [OF emits_updateCluster that]) (simp_all add: assms(2))
  show "inOrder s'" if "updateCluster E fn s = (Ok x, s')" for s x s'
    using that assms(1) unfolding updateCluster_def
    by (auto dest!: ok_retryOnConflict simp: go_ok set_cluster_def modify_def ordered_world_def)
qed

lemma orderly_updateClusterStatus:
  assumes "echoes E" and "\<And>c. emits orderly (fn c)" and "\<And>c c' s s'. fn c s = (Ok c', s') \<Longrightarrow> ordered c'"
  shows "moves orderly P inOrder (updateClusterStatus E fn)"
proof (rule movesI)
  show "grows orderly s s'" if "updateClusterStatus E fn s = (r, s')" for s r s'
    by (rule stepsD [OF emits_updateClusterStatus that]) (simp_all add: assms(2,3))
  fix s x s' assume "updateClusterStatus E fn s = (Ok x, s')"
  then obtain c t c' t' m where "fn c t = (Ok c', t')" "e_cluster E (st_hist t') (Api (StatusUpdateCluster c c')) = Inr m"
      "st_cluster s' = m"
    unfolding updateClusterStatus_def
    by (auto dest!: ok_retryOnConflict simp: go_ok set_cluster_def modify_def)
  with assms(1,3) show "inOrder s'" unfolding echoes_def ordered_def by metis
qed

lemma orderly_newOperation:
  "emits orderly (newOperation E op r m c)" "newOperation E op r m c s = (Ok c', s') \<Longrightarrow> ordered c'"
  unfolding newOperation_def by (intro em.structural emits_prims, simp) (auto simp: go_ok ordered_def)

lemma orderly_updateStatus:
  assumes "echoes E"
  shows "moves orderly inOrder inOrder (updateStatus E)"
proof (rule movesI)
  fix s r s' assume s: "inOrder s" and run: "updateStatus E s = (r, s')"
  have "c_OpStatus (core c) = c_OpStatus c" for c by (simp add: core_def)
  then have "core n = core (st_cluster s) \<Longrightarrow> ordered n" for n using s unfolding ordered_def by metis
  then have "status_call (st_cluster s) c \<Longrightarrow> orderly c" for c
    by (cases c rule: orderly.cases) (auto simp: status_call_def)
  then show "grows orderly s s'" using updateStatus_grows [OF run] by (auto simp: grows_def)
next
  show "inOrder s'" if "inOrder s" "updateStatus E s = (Ok x, s')" for s x s'
    using updateStatus_core [OF assms that(2)] that(1) by (simp add: ordered_def)
qed

lemmas secret_effects = kubeconfig_secret.only_secrets talosconfig_secret.only_secrets argocd_secret.only_secrets
  kubeconfig_secret.same_cluster talosconfig_secret.same_cluster argocd_secret.same_cluster

lemma orderly_updateSecrets: "moves orderly inOrder inOrder (updateSecrets E)"
proof -
  have s: "emits on_secrets (updateSecret E cluster key helper)" "keeps st_cluster (updateSecret E cluster key helper)"
    if "(name, ns, helper) \<in> set (secretHelpers E cl)" for cluster key helper name ns cl
    using that by (auto simp: secretHelpers_def Let_def secret_effects split: if_splits)
  have "moves orderly inOrder inOrder (updateSecret E cluster key helper)"
    if "(name, ns, helper) \<in> set (secretHelpers E cl)" for cluster key helper name ns cl
    using emits_mono [OF s(1) [OF that]] s(2) [OF that] by (intro orderly_keeps) simp_all
  then show ?thesis
    unfolding updateSecrets_def
    by (intro moves_bindE [where Q = inOrder] moves_basic moves_forE moves_prod moves_wrapE) blast
qed

lemma orderly_dispatch:
  assumes "echoes E" and "named E"
  shows "moves orderly (\<lambda>s. inOrder s \<and> c_OpStatus (st_cluster s) = Some os) (\<lambda>_. True) (dispatch_cluster E type)"
proof (rule movesI)
  fix s r s' assume s: "inOrder s \<and> c_OpStatus (st_cluster s) = Some os" and run: "dispatch_cluster E type s = (r, s')"
  then have "in_order (cos_SubOperations os)" by (simp add: ordered_def)
  then have "grows writes_in_order s s'"
    using run s assms rolling_apply.keeps_in_order rolling_reboot.keeps_in_order cluster_bootstrap.keeps_in_order
      kubernetes_upgrade.keeps_in_order
    by (auto simp: dispatch_cluster_def run_basic grows_refl split: if_splits)
  then show "grows orderly s s'" by (auto simp: grows_def orderly_writes)
qed simp

lemma orderly_runOperation:
  assumes "echoes E" and "named E"
  shows "moves orderly inOrder (\<lambda>_. True) (runOperation_cluster E)"
proof -
  let ?d = "\<lambda>os. onErr (dispatch_cluster E (cos_Type os))
        (\<lambda>err. bindE currentOp (\<lambda>os. fail (errorf_w (msgtxt ''error performing '' @ cos_Type os @ msgtxt '' operation'') err)))
        (\<lambda>res. case res of Some d \<Rightarrow> andThen currentOp (ret (Some d))
          | None \<Rightarrow> bindE (defaultRefreshInterval E) (\<lambda>d. ret (Some d)))"
  have "moves orderly (\<lambda>s. inOrder s \<and> c_OpStatus (st_cluster s) = Some os) (\<lambda>_. True) (?d os)" for os
    by (rule moves_onErr [OF orderly_dispatch [OF assms]])
      (intro moves_emits em.structural emits_currentOp emits_prims; simp)+
  then have run: "moves orderly inOrder (\<lambda>_. True) (bindE currentOp ?d)"
    by (auto simp: moves_def currentOp_def go_eval grows_refl split: option.splits)
  show ?thesis
    unfolding runOperation_cluster_def
    by (rule moves_bindE [OF moves_basic(4)], rule moves_if,
        rule moves_weaken [OF moves_bindE [OF orderly_calls(6) moves_basic(1)]], rule run)
qed

lemma orderly_accept:
  assumes "echoes E" and "ordered_world E"
  shows "moves orderly P inOrder (acceptOperation_cluster E)"
  unfolding acceptOperation_cluster_def
  by (intro moves_andThen [where Q = inOrder] moves_wrapE orderly_updateCluster orderly_updateClusterStatus assms
      moves_basic em.structural)
    (auto simp: acceptedStatus_cluster_def ok_basic orderly_newOperation intro: em.structural split: option.splits)

lemmas orderly_structural = moves_branches moves_andThen [where Q = inOrder] moves_bindE [where Q = inOrder] moves_wrapE moves_basic

lemma orderly_triggers:
  assumes "echoes E"
  shows "moves orderly inOrder inOrder (autoBootstrap E cluster)"
    "moves orderly inOrder inOrder (maintenanceTrigger E cluster)"
  unfolding autoBootstrap_def triggerBootstrap_def maintenanceTrigger_def triggerOperation_def inMaintenanceWindow_def
  by (intro orderly_structural orderly_calls orderly_updateClusterStatus orderly_newOperation assms;
      simp add: orderly_newOperation(2))+

lemma orderly_reconcileOperation:
  assumes "echoes E" and "named E" and "ordered_world E"
  shows "moves orderly inOrder (\<lambda>_. True) (reconcileOperation E)"
  unfolding reconcileOperation_def
  by (intro moves_andThen [OF moves_bindE [OF moves_basic(4) orderly_triggers(1)]]
      moves_bindE [OF moves_bindE [OF moves_basic(4) orderly_triggers(2)]] moves_bindE [OF moves_basic(4)] moves_if moves_weaken [OF moves_basic(1)] moves_weaken [OF orderly_accept] orderly_runOperation assms)

lemma orderly_ensureSecrets: "moves orderly inOrder inOrder (ensureSecrets E)"
  unfolding ensureSecrets_def generateSecrets_def
  by (intro orderly_keeps em.structural emits_prims kp.structural keeps_prims) simp_all

lemma orderly_defaults:
  assumes "ordered_world E"
  shows "moves orderly inOrder inOrder (setDefaultKubernetes E)" "moves orderly inOrder inOrder (setDefaultContract E)"
    "moves orderly inOrder (\<lambda>_. True) (setSecretsRef E)"
  unfolding setDefaultKubernetes_def setDefaultContract_def setSecretsRef_def
  by (intro orderly_structural orderly_calls orderly_updateCluster assms em.structural moves_andThen [where Q = "\<lambda>_. True"]
      moves_weaken [OF orderly_updateCluster] moves_basic)+

text \<open>
  C10. Plans stay in order across reconciliations: if every cluster the API server hands
  out has a plan in order (done sub-operations, at most one at work or failed, pending
  ones) and a status write is answered with the status written, then every status that a
  reconciliation of the cluster writes has a plan in order again.
\<close>

theorem Reconcile_cluster_keeps_order:
  assumes "echoes E" and "named E" and "ordered_world E" and "Reconcile_cluster E namespace name s = (r, s')"
  shows "grows orderly s s'"
proof -
  have "moves orderly inOrder (\<lambda>_. True) (bindE (gets st_cluster) (\<lambda>cluster.
      if cs_SecretsRef (c_Spec cluster) = [] then setSecretsRef E
      else andThen (ensureSecrets E) (
        andThen (wrapE (msgtxt ''error updating cluster status'') (updateStatus E)) (
        andThen (updateSecrets E) (reconcileOperation E)))))" (is "moves _ _ _ ?rest")
    by (intro orderly_structural orderly_defaults orderly_ensureSecrets orderly_updateStatus orderly_updateSecrets
        orderly_reconcileOperation assms)
  then have m: "moves orderly inOrder (\<lambda>_. True) (andThen (setDefaultKubernetes E) (andThen (setDefaultContract E) ?rest))"
    (is "moves _ _ _ ?all") by (intro moves_andThen [where Q = inOrder] orderly_defaults assms)
  let ?c = "Api (ReadCluster namespace name)"
  have step: "grows orderly s (s\<lparr>st_hist := ?c # st_hist s\<rparr>)" by (auto simp: grows_def)
  show ?thesis
  proof (cases "e_cluster E (st_hist s) ?c")
    case (Inl e)
    with assms(4) step show ?thesis by (auto simp: Reconcile_cluster_def go_eval split: if_splits)
  next
    case (Inr cl)
    let ?t = "s\<lparr>st_hist := ?c # st_hist s, st_cluster := cl\<rparr>"
    have "?all ?t = (r, s')" using assms(4) Inr by (simp add: Reconcile_cluster_def go_eval)
    moreover have "inOrder ?t" using Inr assms(3) by (auto simp: ordered_world_def)
    ultimately have "grows orderly ?t s'" by (metis movesD [OF m])
    moreover have "grows orderly s ?t" by (auto simp: grows_def)
    ultimately show ?thesis by (metis grows_trans)
  qed
qed

lemmas reconcile_defs = Reconcile_cluster_def setDefaultKubernetes_def setDefaultContract_def setSecretsRef_def ensureSecrets_def
  generateSecrets_def updateStatus_def checkStatus_def recordClusterCond_def setClusterCond_def SetStatusCondition_def
  updateMaintenanceStatus_def clearMaintenanceWindow_def mwEnabled_def listEligibleNodes_def updateSecrets_def
  secretHelpers_def updateSecret_def fetchSecret_def secretFresh_def writeSecret_def mutateKubeconfigSecret_def
  mutateTalosconfigSecret_def getFirstProvisionedControllerNode_def errNothingToDoHere_def reconcileOperation_def
  autoBootstrap_def maintenanceTrigger_def inMaintenanceWindow_def runOperation_cluster_def isOperationComplete_cluster_def
  lastOpDone_def autoBootstrapEnabled_def readyForBootstrap_def bootstrapReady_def

definition demo_named_env :: env where
  "demo_named_env = demo_env\<lparr>e_node := \<lambda>h c. (case c of
      Api (GetNode ns nm) \<Rightarrow> Inr (demo_node nm NodeRoleWorker) | _ \<Rightarrow> Inr (demo_node ''n1'' NodeRoleWorker))\<rparr>"

definition demo_reconcile :: "result outcome \<times> st" where
  "demo_reconcile = Reconcile_cluster demo_named_env ''talos'' ''c1'' demo_st"

lemma demo_reconcile_writes:
  "list_ex (\<lambda>c. cluster_status_write c \<noteq> None) (st_hist (snd demo_reconcile))"
  by (simp add: demo_reconcile_def reconcile_defs defaultRefreshInterval_def jitter_def demo_named_env_def
      demo_defs go_eval Let_def const_defs IsZero_def)

theorem Reconcile_cluster_keeps_order_witness:
  "\<exists>b n. Api (StatusUpdateCluster b n) \<in> set (st_hist (snd demo_reconcile)) \<and> ordered n"
proof -
  have "grows orderly demo_st (snd demo_reconcile)"
    unfolding demo_reconcile_def
    by (rule Reconcile_cluster_keeps_order [OF _ _ _ prod.collapse [symmetric]])
      (auto simp: echoes_def named_def ordered_world_def ordered_def demo_named_env_def demo_defs)
  moreover obtain c where "c \<in> set (st_hist (snd demo_reconcile))" "cluster_status_write c \<noteq> None"
    using demo_reconcile_writes by (auto simp: list_ex_iff)
  moreover from this(2) obtain b n where "c = Api (StatusUpdateCluster b n)"
    by (cases c rule: cluster_status_write.cases) simp_all
  ultimately have "Api (StatusUpdateCluster b n) \<in> set (st_hist (snd demo_reconcile)) \<and> ordered n"
    by (auto simp: grows_def demo_st_def dest!: bspec)
  then show ?thesis by blast
qed

section \<open>What the cluster controller does to machines\<close>

text \<open>
  The calls of the cluster controller: machines are only read; a write of a node gives it
  an operation in phase Pending and changes nothing else; manifests are applied to the
  managed cluster, whose nodes and pods are otherwise left alone.
\<close>

fun through_nodes :: "call \<Rightarrow> bool" where
  "through_nodes (Api (StatusUpdateNode b n)) =
    (\<exists>os. n = upd_status (\<lambda>st. st\<lparr>nst_Operation := Some os\<rparr>) b \<and> nos_Phase os = NodeOperationPhasePending)"
| "through_nodes (Api (UpdateNode b n)) = False"
| "through_nodes (Api (PatchClearOperation n)) = False"
| "through_nodes (Talos c t) = (\<not> mutates_machine t)"
| "through_nodes (K8s c (KApplyManifest m b)) = True"
| "through_nodes (K8s c k) = is_read (K8s c k)"
| "through_nodes c = True"

lemma through_read [simp]: "is_read c \<Longrightarrow> through_nodes c"
  by (cases c rule: through_nodes.cases) simp_all

lemma through_secrets: "on_secrets c \<Longrightarrow> through_nodes c"
  by (cases c rule: on_secrets.cases) simp_all

lemma through_observes: "observes c \<Longrightarrow> through_nodes c"
  by (cases c) simp_all

lemmas through_structural = em.structural emits_prims emits_currentOp emits_updateCluster emits_updateClusterStatus

lemma through_updateOp: "emits through_nodes (updateOp E p r m subs)"
  unfolding updateOp_def by (intro em.wrapE emits_updateOpStatus_cluster) simp_all

lemma through_startNodeOperation: "emits through_nodes (startNodeOperation E node subOp)"
  unfolding startNodeOperation_def by (intro em.structural emits_prims) auto

lemma through_inProgress: "emits through_nodes (inProgress E)"
  unfolding inProgress_def runSubOperations_def runPlan_def announceSubOp_def runSubOp_def watchSubOp_def waitSubOp_def
    startSubOp_def set_subOp_def checkFailure_def Let_def
  by (intro em.structural emits_prims emits_currentOp through_updateOp through_startNodeOperation) simp_all

lemma through_clusterPhases:
  "(\<And>c. emits through_nodes (pending c)) \<Longrightarrow> (\<And>c os. emits through_nodes (postflight c os)) \<Longrightarrow>
   emits through_nodes (clusterPhases pending (inProgress E) postflight)"
  unfolding clusterPhases_def by (intro em.structural emits_currentOp through_inProgress)

lemma through_applyManifests: "emits through_nodes (applyManifests E cs dyn ms)"
  by (induction ms) (auto intro!: em.structural emits_prims)

lemma through_dispatch: "emits through_nodes (dispatch_cluster E type)"
  unfolding dispatch_cluster_def handleRollingApplyOperation_def handleRollingRebootOperation_def
    handleBootstrapOperation_def handleKubernetesUpgrade_def rollingApplyPending_def rollingRebootPending_def
    bootstrapClusterPending_def startBootstrap_def k8sUpgradePending_def k8sUpgradePostflight_def syncManifests_def
    startPlan_def refuse_def failCluster_def finishCluster_def listEligibleNodes_def Let_def
  by (intro em.structural through_clusterPhases emits_prims through_updateOp through_applyManifests emits_getKubeconfig
      emits_getKubernetesClient setup_is_read [OF emits_getTalosClient]) simp_all

lemma through_reconcileOperation: "emits through_nodes (reconcileOperation E)"
  unfolding reconcileOperation_def autoBootstrap_def triggerBootstrap_def maintenanceTrigger_def triggerOperation_def inMaintenanceWindow_def runOperation_cluster_def
    acceptOperation_cluster_def acceptedStatus_cluster_def newOperation_def listEligibleNodes_def
  by (intro through_structural through_dispatch) simp_all

lemma through_updateSecrets: "emits through_nodes (updateSecrets E)"
  unfolding updateSecrets_def secretHelpers_def Let_def
  by (intro em.structural) (auto intro!: em.structural emits_mono [OF _ through_secrets] simp: secret_effects)

lemma through_updateStatus: "emits through_nodes (updateStatus E)"
  unfolding updateStatus_def
  by (intro em.structural emits_prims emits_mono [OF emits_checkStatus through_observes]) simp_all

text \<open>
  C9. The cluster controller acts on machines only through its nodes: whatever the world
  answers, a reconciliation of a cluster makes no call that changes a machine, cordons,
  evicts or deletes nothing in the managed cluster (it applies manifests there), and writes
  a node only to give it an operation in phase Pending, which the node controller then
  carries out under its own checks.
\<close>

theorem Reconcile_cluster_through_nodes:
  "grows through_nodes s (snd (Reconcile_cluster E namespace name s))"
proof -
  have "emits through_nodes (Reconcile_cluster E namespace name)"
    unfolding Reconcile_cluster_def setDefaultKubernetes_def setDefaultContract_def setSecretsRef_def ensureSecrets_def
      generateSecrets_def
    by (intro through_structural through_updateStatus through_updateSecrets through_reconcileOperation) simp_all
  then show ?thesis by (simp add: steps_def)
qed

section \<open>Automatic operations\<close>

text \<open>A status write that starts an operation of its own accord, and changes nothing else.\<close>

definition triggers :: "string \<Rightarrow> call \<Rightarrow> bool" where
  "triggers type c \<longleftrightarrow>
    (\<exists>b os. c = Api (StatusUpdateCluster b (upd_cstatus (\<lambda>st. st\<lparr>cst_Operation := Some os\<rparr>) b)) \<and>
      cos_op os = \<lparr>cop_Type = type\<rparr> \<and> cos_Phase os = ClusterOperationPhasePending \<and>
      cos_Reason os = OperationReasonAutomaticallyTriggered \<and> cos_SubOperations os = [])"

lemma emits_trigger:
  "emits (\<lambda>c. is_read c \<or> triggers type c)
    (updateClusterStatus E (newOperation E \<lparr>cop_Type = type\<rparr> OperationReasonAutomaticallyTriggered m))"
proof (rule emits_updateClusterStatus)
  show "emits (\<lambda>c. is_read c \<or> triggers type c) (newOperation E \<lparr>cop_Type = type\<rparr> OperationReasonAutomaticallyTriggered m c)"
    for c unfolding newOperation_def by (intro em.structural emits_prims) simp
qed (auto simp: newOperation_def go_ok triggers_def)

definition auto_bootstrap_call :: "env \<Rightarrow> Cluster \<Rightarrow> call list \<Rightarrow> call \<Rightarrow> bool" where
  "auto_bootstrap_call E cluster h c \<longleftrightarrow>
    observes c \<or>
    triggers ClusterOperationTypeBootstrap c \<and> lastOpDone cluster \<and> autoBootstrapEnabled cluster \<and>
    IsFalse E (c_Conditions cluster) ClusterConditionBootstrapped \<and>
    (\<exists>nodes. listed E cluster (Some NodeRoleControlplane) nodes h \<and> nodes \<noteq> [] \<and> (\<forall>n\<in>set nodes. bootstrapReady E n))"

text \<open>
  C16. A cluster is bootstrapped of the controller's own accord only if nothing is
  requested, the last operation (if any) is done, the cluster is known not to be
  bootstrapped, the option does not forbid it, and the API server listed at least one
  provisioned control plane node, all of them ready and with no operation but a finished
  Provision. The only write is the new operation, Bootstrap in phase Pending.
\<close>

theorem autoBootstrap_guarded:
  assumes "autoBootstrap E cluster s = (r, s')"
  shows "justified (auto_bootstrap_call E cluster) s s'"
proof -
  let ?A = "auto_bootstrap_call E cluster"
  let ?L = "\<lambda>nodes. listed E cluster (Some NodeRoleControlplane) nodes"
  have trigger: "under (?L nodes) ?A (triggerBootstrap E)"
    if "lastOpDone cluster" "IsFalse E (c_Conditions cluster) ClusterConditionBootstrapped" "autoBootstrapEnabled cluster"
      "readyForBootstrap E nodes" for nodes
    unfolding triggerBootstrap_def
    by (intro under_structural under_event under_emits [OF emits_trigger])
      (use that in \<open>auto simp: auto_bootstrap_call_def readyForBootstrap_def list_all_iff observes_read\<close>)
  have list: "under (\<lambda>h. True) ?A (wrapE e (listEligibleNodes E cluster (Some NodeRoleControlplane)))" for e
    unfolding listEligibleNodes_def by (intro under_structural under_prims) (simp_all add: auto_bootstrap_call_def)
  have ok: "?L nodes (st_hist t')" if "wrapE e (listEligibleNodes E cluster (Some NodeRoleControlplane)) t = (Ok nodes, t')" for nodes e t t'
    using that unfolding ok_wrapE listEligibleNodes_ok listed_def
    by (elim exE conjE, intro exI conjI) (simp_all add: answered_Cons)
  have "under (\<lambda>h. True) ?A (autoBootstrap E cluster)"
    unfolding autoBootstrap_def
    by (intro under_if under_basic, rule under_bindE_value [where G = ?L, OF _ list])
      (auto simp: ok intro: trigger under_basic)
  then show ?thesis using assms by (rule underD) simp
qed

text \<open>A justified status write of a concrete run.\<close>

lemma justified_write:
  assumes "justified A s s'" and "st_hist s = []" and "list_ex (\<lambda>c. cluster_status_write c \<noteq> None) (st_hist s')"
  shows "\<exists>h b n. Api (StatusUpdateCluster b n) \<in> set (st_hist s') \<and> A h (Api (StatusUpdateCluster b n))"
proof -
  obtain us c vs where h: "st_hist s' = us @ c # vs" and c: "cluster_status_write c \<noteq> None"
    using list_ex_split [OF assms(3)] by blast
  from c obtain b n where "c = Api (StatusUpdateCluster b n)" by (cases c rule: cluster_status_write.cases) simp_all
  moreover have "A vs c" using justifiedD [OF assms(1), of us c vs] h assms(2) by simp
  ultimately show ?thesis using h by (metis in_set_conv_decomp)
qed

definition demo_conditions :: "int \<Rightarrow> (string \<times> cond_status) list \<Rightarrow> Cluster" where
  "demo_conditions start cs = upd_cstatus (\<lambda>st. st\<lparr>cst_Conditions := map (\<lambda>(t, v).
    \<lparr>cd_type = t, cd_status = v, cd_reason = [], cd_message = [], cd_since = 0\<rparr>) cs, cst_NextMaintenanceWindow := start\<rparr>) demo_cluster"

definition demo_auto :: "unit outcome \<times> st" where
  "demo_auto = autoBootstrap (demo_ops_env (demo_pending [])) (demo_conditions 0 [(ClusterConditionBootstrapped, CFalse)]) demo_st"

lemma demo_auto_writes: "list_ex (\<lambda>c. cluster_status_write c \<noteq> None) (st_hist (snd demo_auto))"
  by (simp add: demo_auto_def autoBootstrap_def triggerBootstrap_def newOperation_def lastOpDone_def autoBootstrapEnabled_def
      readyForBootstrap_def bootstrapReady_def demo_conditions_def cluster_op_defs demo_ops_defs go_eval const_defs)

theorem autoBootstrap_guarded_witness:
  "\<exists>h b n. Api (StatusUpdateCluster b n) \<in> set (st_hist (snd demo_auto)) \<and>
    auto_bootstrap_call (demo_ops_env (demo_pending [])) (demo_conditions 0 [(ClusterConditionBootstrapped, CFalse)]) h
      (Api (StatusUpdateCluster b n))"
proof (rule justified_write [OF _ _ demo_auto_writes])
  show "justified (auto_bootstrap_call (demo_ops_env (demo_pending [])) (demo_conditions 0 [(ClusterConditionBootstrapped, CFalse)]))
      demo_st (snd demo_auto)"
    unfolding demo_auto_def by (rule autoBootstrap_guarded [OF prod.collapse [symmetric]])
qed (simp add: demo_st_def)

definition window_call :: "env \<Rightarrow> Cluster \<Rightarrow> call list \<Rightarrow> call \<Rightarrow> bool" where
  "window_call E cluster h c \<longleftrightarrow>
    observes c \<or>
    (\<exists>type. triggers type c \<and> lastOpDone cluster \<and>
      (let start = cst_NextMaintenanceWindow (c_Status cluster) in
        start \<noteq> 0 \<and> clocked E (\<lambda>n. start < n) h) \<and>
      (if IsFalse E (c_Conditions cluster) ClusterConditionNodesInSync then type = ClusterOperationTypeRollingApply
       else IsFalse E (c_Conditions cluster) ClusterConditionNodesKubernetesUpToDate \<and>
         type = ClusterOperationTypeKubernetesUpgrade))"

text \<open>
  C17. In a maintenance window the controller starts at most one operation, and only if
  nothing is requested, the last operation (if any) is done and not failed, and the clock
  has passed the recorded start of the window: a rolling apply if a node is out of sync,
  and a Kubernetes upgrade only if none is.
\<close>

theorem maintenanceTrigger_guarded:
  assumes "maintenanceTrigger E cluster s = (r, s')"
  shows "justified (window_call E cluster) s s'"
proof -
  let ?A = "window_call E cluster"
  let ?W = "\<lambda>h. let start = cst_NextMaintenanceWindow (c_Status cluster) in start \<noteq> 0 \<and> clocked E (\<lambda>n. start < n) h"
  have W: "persists ?W" unfolding Let_def by simp
  have start: "under ?W ?A (triggerOperation E op)" if "windowOperation E cluster = Some op" "lastOpDone cluster" for op
    unfolding triggerOperation_def
  proof (intro under_andThen under_wrapE under_event under_basic W under_emits [OF emits_trigger])
    show "?A h (Event EventTypeNormal EventReasonStarted (snd op))" for h by (simp add: window_call_def)
    show "?A h c" if "?W h" "is_read c \<or> triggers (fst op) c" for h c
      using that \<open>windowOperation E cluster = _\<close> \<open>lastOpDone cluster\<close>
      by (auto simp: window_call_def windowOperation_def observes_read split: if_splits)
  qed
  have win: "under (\<lambda>h. True) ?A (inMaintenanceWindow E cluster)"
    unfolding inMaintenanceWindow_def by (intro under_structural under_prims) (simp_all add: window_call_def)
  have ok: "b \<longrightarrow> ?W (st_hist t')" if "inMaintenanceWindow E cluster t = (Ok b, t')" for b t t'
    using that unfolding inMaintenanceWindow_def Let_def
    by (auto simp: go_eval IsZero_def clocked_Cons split: if_splits)
  have "under (\<lambda>h. True) ?A (maintenanceTrigger E cluster)"
    unfolding maintenanceTrigger_def
    by (rule under_bindE_value [where G = "\<lambda>b h. b \<longrightarrow> ?W h", OF _ win])
      (use start in \<open>auto simp: ok under_basic split: option.split\<close>)
  then show ?thesis using assms by (rule underD) simp
qed

definition demo_windowed :: "bool outcome \<times> st" where
  "demo_windowed = maintenanceTrigger demo_env (demo_conditions 1 [(ClusterConditionNodesInSync, CFalse)]) demo_st"

lemma demo_windowed_writes: "list_ex (\<lambda>c. cluster_status_write c \<noteq> None) (st_hist (snd demo_windowed))"
  by (simp add: demo_windowed_def maintenanceTrigger_def inMaintenanceWindow_def windowOperation_def triggerOperation_def
      newOperation_def lastOpDone_def demo_conditions_def IsZero_def Hour_def cluster_op_defs demo_defs go_eval const_defs)

theorem maintenanceTrigger_guarded_witness:
  "\<exists>h b n. Api (StatusUpdateCluster b n) \<in> set (st_hist (snd demo_windowed)) \<and>
    window_call demo_env (demo_conditions 1 [(ClusterConditionNodesInSync, CFalse)]) h (Api (StatusUpdateCluster b n))"
proof (rule justified_write [OF _ _ demo_windowed_writes])
  show "justified (window_call demo_env (demo_conditions 1 [(ClusterConditionNodesInSync, CFalse)])) demo_st (snd demo_windowed)"
    unfolding demo_windowed_def by (rule maintenanceTrigger_guarded [OF prod.collapse [symmetric]])
qed (simp add: demo_st_def)

section \<open>Taking over a request\<close>

text \<open>
  A requested cluster operation is copied to the status in phase Pending, without
  sub-operations and exactly as it was requested, before it is removed from the cluster:
  when the calls succeed, the history holds, oldest first, the read, the clock, the status
  write with the operation, a second read, and the write without the request; a request
  that is gone when the cluster is read again is a panic.
\<close>

lemma acceptOperation_cluster_takes_over:
  assumes "e_cluster E (st_hist s) (Api (GetCluster (c_Namespace (st_cluster s)) (c_Name (st_cluster s)))) = Inr c"
  shows "(c_Operation c = None \<longrightarrow> (\<exists>p s'. acceptOperation_cluster E s = (Panic p, s'))) \<and>
    (\<forall>op. c_Operation c = Some op \<longrightarrow>
      (let h1 = Api (GetCluster (c_Namespace (st_cluster s)) (c_Name (st_cluster s))) # st_hist s;
           h2 = Sys Now # h1;
           c' = upd_cstatus (\<lambda>st. st\<lparr>cst_Operation := Some
             \<lparr>cos_op = op, cos_Phase = ClusterOperationPhasePending, cos_Reason = OperationReasonInitialized,
              cos_Message = msgtxt ''Cluster operation has been initialized'', cos_LastTransitionTime = e_now E h1,
              cos_SubOperations = []\<rparr>\<rparr>) c;
           w = Api (StatusUpdateCluster c c')
       in \<forall>m d p. e_cluster E h2 w = Inr m \<longrightarrow>
            e_cluster E (w # h2) (Api (GetCluster (c_Namespace m) (c_Name m))) = Inr d \<longrightarrow>
            e_cluster E (Api (GetCluster (c_Namespace m) (c_Name m)) # w # h2) (Api (UpdateCluster d (d\<lparr>c_Operation := None\<rparr>))) = Inr p \<longrightarrow>
            (\<exists>s'. acceptOperation_cluster E s = (Ok (Some RequeueShortDelay), s') \<and> st_cluster s' = p \<and>
               st_hist s' = Api (UpdateCluster d (d\<lparr>c_Operation := None\<rparr>)) # Api (GetCluster (c_Namespace m) (c_Name m)) # w # h2)))"
  using assms
  by (cases "e_retries E")
    (auto simp: acceptOperation_cluster_def acceptedStatus_cluster_def newOperation_def updateClusterStatus_def
      updateCluster_def refreshCluster_def Let_def go_eval)

section \<open>A control plane that does not answer\<close>

lemma andThen_stops:
  assumes "m s = (r, s')" and "\<And>x. r \<noteq> Ok x"
  shows "snd (andThen m k s) = s'" and "fst (andThen m k s) \<noteq> Ok y"
  using assms by (cases r; auto simp: run_andThen)+


text \<open>A cluster of two control planes and a worker, whose machines do not list their files.\<close>

definition demo_dead_env :: env where
  "demo_dead_env = demo_nodes_env\<lparr>e_files := \<lambda>h c. Inl (errorf (msgtxt ''unavailable''))\<rparr>"


end
