(* ===== verification/Json.thy ===== *)
theory Json
  imports GoStd
begin

text \<open>
  What the kubectl plugin uses of \<^verbatim>\<open>encoding/json\<close>, \<^verbatim>\<open>unicode/utf8\<close>,
  \<^verbatim>\<open>encoding/base64\<close> and \<^verbatim>\<open>strconv.Atoi\<close>: the values that its type
  \<^verbatim>\<open>KV map[string]any\<close> is built from, \<open>Marshal\<close>, which writes them as
  \<^verbatim>\<open>json.Marshal\<close> does (keys sorted, HTML characters escaped, bytes that are not UTF-8
  replaced), a reader \<open>Unmarshal\<close> for JSON texts, and the round trip between the two.
  The reader knows whole numbers only, and no escapes of surrogates.
\<close>

section \<open>Values\<close>

datatype json =
    JNull
  | JBool bool
  | JInt int
  | JStr string
  | JArr "json list"
  | JObj "(string \<times> json) list"

type_synonym KV = "json strmap"

section \<open>UTF-8\<close>

definition within :: "nat \<Rightarrow> nat \<Rightarrow> char \<Rightarrow> bool" where
  "within lo hi c \<longleftrightarrow> lo \<le> of_char c \<and> of_char c \<le> hi"

abbreviation continues :: "char \<Rightarrow> bool" where
  "continues \<equiv> within 0x80 0xBF"

text \<open>
  \<^verbatim>\<open>utf8.DecodeRuneInString\<close>: the number of bytes of the character a string begins with;
  \<open>None\<close> is the result \<^verbatim>\<open>RuneError, 1\<close>.
\<close>

fun rune_len :: "string \<Rightarrow> nat option" where
  "rune_len [] = None"
| "rune_len (a # s) =
    (if of_char a < (0x80 :: nat) then Some 1
     else case s of
       [] \<Rightarrow> None
     | b # s' \<Rightarrow>
        if within 0xC2 0xDF a then (if continues b then Some 2 else None)
        else (case s' of
          [] \<Rightarrow> None
        | c # s'' \<Rightarrow>
           if within 0xE0 0xEF a then
             (if within (if a = CHR 0xE0 then 0xA0 else 0x80) (if a = CHR 0xED then 0x9F else 0xBF) b
                 \<and> continues c then Some 3 else None)
           else (case s'' of
             [] \<Rightarrow> None
           | d # _ \<Rightarrow>
              if within 0xF0 0xF4 a
                 \<and> within (if a = CHR 0xF0 then 0x90 else 0x80) (if a = CHR 0xF4 then 0x8F else 0xBF) b
                 \<and> continues c \<and> continues d
              then Some 4 else None)))"

lemma rune_len_pos: "rune_len s = Some n \<Longrightarrow> 0 < n \<and> n \<le> length s"
  by (cases s) (auto split: if_splits list.splits)

text \<open>The string with every byte that is no part of a character replaced by U+FFFD.\<close>

function utf8_clean :: "string \<Rightarrow> string" where
  "utf8_clean s =
    (if s = [] then []
     else case rune_len s of
       None \<Rightarrow> [CHR 0xEF, CHR 0xBF, CHR 0xBD] @ utf8_clean (drop 1 s)
     | Some n \<Rightarrow> take n s @ utf8_clean (drop n s))"
  by pat_completeness auto
termination utf8_clean
  by (relation "measure length") (auto dest: rune_len_pos)

declare utf8_clean.simps [simp del]

text \<open>UTF-8 encoding of a code point below 0x10000.\<close>

definition utf8 :: "nat \<Rightarrow> string" where
  "utf8 n =
    (if n < 0x80 then [byte n]
     else if n < 0x800 then [byte (0xC0 + n div 64), byte (0x80 + n mod 64)]
     else [byte (0xE0 + n div 4096), byte (0x80 + n div 64 mod 64), byte (0x80 + n mod 64)])"

section \<open>json.Marshal\<close>

abbreviation quote_char :: char where "quote_char \<equiv> CHR 0x22"
abbreviation backslash :: char where "backslash \<equiv> CHR 0x5C"

definition hex_digit :: "nat \<Rightarrow> char" where
  "hex_digit n = byte (if n < 10 then 48 + n else 87 + n)"

text \<open>The characters below 0x80, \<^verbatim>\<open>appendString\<close> with HTML escaping.\<close>

definition short_escapes :: "(char \<times> char) list" where
  "short_escapes =
    [(backslash, backslash), (quote_char, quote_char), (CHR 0x08, CHR ''b''), (CHR 0x0C, CHR ''f''),
     (CHR 0x0A, CHR ''n''), (CHR 0x0D, CHR ''r''), (CHR 0x09, CHR ''t'')]"

definition escape_ascii :: "char \<Rightarrow> string" where
  "escape_ascii c =
    (case map_of short_escapes c of
       Some e \<Rightarrow> [backslash, e]
     | None \<Rightarrow>
        if of_char c < (0x20 :: nat) \<or> c \<in> {CHR ''<'', CHR ''>'', CHR ''&''} then
          [backslash, CHR ''u'', CHR ''0'', CHR ''0'', hex_digit (of_char c div 16), hex_digit (of_char c mod 16)]
        else [c])"

definition escape_rune :: "string \<Rightarrow> string" where
  "escape_rune w =
    (case w of
       [c] \<Rightarrow> escape_ascii c
     | _ \<Rightarrow>
        if w = [CHR 0xE2, CHR 0x80, CHR 0xA8] then backslash # ''u2028''
        else if w = [CHR 0xE2, CHR 0x80, CHR 0xA9] then backslash # ''u2029''
        else w)"

function json_escape :: "string \<Rightarrow> string" where
  "json_escape s =
    (if s = [] then []
     else case rune_len s of
       None \<Rightarrow> (backslash # ''ufffd'') @ json_escape (drop 1 s)
     | Some n \<Rightarrow> escape_rune (take n s) @ json_escape (drop n s))"
  by pat_completeness auto
termination json_escape
  by (relation "measure length") (auto dest: rune_len_pos)

declare json_escape.simps [simp del]

definition json_string :: "string \<Rightarrow> string" where
  "json_string s = quote_char # json_escape s @ [quote_char]"

definition key_before :: "string \<times> 'a \<Rightarrow> string \<times> 'a \<Rightarrow> bool" where
  "key_before p q \<longleftrightarrow> str_less (fst p) (fst q)"

fun Marshal :: "json \<Rightarrow> string" where
  "Marshal JNull = ''null''"
| "Marshal (JBool b) = (if b then ''true'' else ''false'')"
| "Marshal (JInt i) = itoa i"
| "Marshal (JStr s) = json_string s"
| "Marshal (JArr js) = ''['' @ join_with CHR '','' (map Marshal js) @ '']''"
| "Marshal (JObj m) =
    ''{'' @ join_with CHR '',''
      (map (\<lambda>(k, t). json_string k @ CHR '':'' # t) (sort_func key_before (map (\<lambda>(k, v). (k, Marshal v)) m)))
    @ ''}''"

section \<open>Reading\<close>

definition json_space :: "char \<Rightarrow> bool" where
  "json_space c \<longleftrightarrow> c \<in> {CHR '' '', CHR 0x09, CHR 0x0A, CHR 0x0D}"

abbreviation skip_space :: "string \<Rightarrow> string" where
  "skip_space \<equiv> dropWhile json_space"

definition hex_val :: "char \<Rightarrow> nat option" where
  "hex_val c =
    (if within 48 57 c then Some (of_char c - 48)
     else if within 97 102 c then Some (of_char c - 87)
     else if within 65 70 c then Some (of_char c - 55)
     else None)"

definition hex4 :: "char \<Rightarrow> char \<Rightarrow> char \<Rightarrow> char \<Rightarrow> nat option" where
  "hex4 a b c d =
    (case (hex_val a, hex_val b, hex_val c, hex_val d) of
       (Some w, Some x, Some y, Some z) \<Rightarrow> Some (w * 4096 + x * 256 + y * 16 + z)
     | _ \<Rightarrow> None)"

definition unescape :: "char \<Rightarrow> char option" where
  "unescape e =
    (if e = CHR ''/'' then Some e else map_of (map (\<lambda>(c, e). (e, c)) short_escapes) e)"

text \<open>The rest of a string after the opening quote, and what follows the closing one.\<close>

fun read_chars :: "string \<Rightarrow> (string \<times> string) option" where
  "read_chars [] = None"
| "read_chars (c # s) =
    (if c = quote_char then Some ([], s)
     else if c = backslash then
       (case s of
          [] \<Rightarrow> None
        | e # t \<Rightarrow>
           if e = CHR ''u'' then
             (case t of
                h1 # h2 # h3 # h4 # u \<Rightarrow>
                  (case hex4 h1 h2 h3 h4 of
                     None \<Rightarrow> None
                   | Some n \<Rightarrow> map_option (\<lambda>(w, r). (utf8 n @ w, r)) (read_chars u))
              | _ \<Rightarrow> None)
           else
             (case unescape e of
                None \<Rightarrow> None
              | Some d \<Rightarrow> map_option (\<lambda>(w, r). (d # w, r)) (read_chars t)))
     else if of_char c < (0x20 :: nat) then None
     else map_option (\<lambda>(w, r). (c # w, r)) (read_chars s))"

definition digits_val :: "string \<Rightarrow> nat" where
  "digits_val s = foldl (\<lambda>n c. 10 * n + digit_val c) 0 s"

definition read_int :: "string \<Rightarrow> (int \<times> string) option" where
  "read_int s =
    (case s of
       c # t \<Rightarrow>
         (let u = (if c = CHR ''-'' then t else s); ds = takeWhile is_digit u in
          if ds = [] then None
          else Some (if c = CHR ''-'' then - int (digits_val ds) else int (digits_val ds), dropWhile is_digit u))
     | [] \<Rightarrow> None)"

text \<open>
  A value, the elements of an array after its bracket, the members of an object after its
  brace; the last value of a repeated key counts. The fuel is the length of the text.
\<close>

fun read_value :: "nat \<Rightarrow> string \<Rightarrow> (json \<times> string) option"
  and read_elems :: "nat \<Rightarrow> json list \<Rightarrow> string \<Rightarrow> (json \<times> string) option"
  and read_members :: "nat \<Rightarrow> KV \<Rightarrow> string \<Rightarrow> (json \<times> string) option"
where
  "read_value 0 s = None"
| "read_value (Suc n) s =
    (case skip_space s of
       [] \<Rightarrow> None
     | c # t \<Rightarrow>
        if c = quote_char then map_option (\<lambda>(w, r). (JStr w, r)) (read_chars t)
        else if c = CHR ''['' then
          (case skip_space t of
             [] \<Rightarrow> None
           | d # u \<Rightarrow> if d = CHR '']'' then Some (JArr [], u) else read_elems n [] t)
        else if c = CHR ''{'' then
          (case skip_space t of
             [] \<Rightarrow> None
           | d # u \<Rightarrow> if d = CHR ''}'' then Some (JObj [], u) else read_members n [] t)
        else if HasPrefix (c # t) ''null'' then Some (JNull, drop 4 (c # t))
        else if HasPrefix (c # t) ''true'' then Some (JBool True, drop 4 (c # t))
        else if HasPrefix (c # t) ''false'' then Some (JBool False, drop 5 (c # t))
        else map_option (\<lambda>(i, r). (JInt i, r)) (read_int (c # t)))"
| "read_elems 0 acc s = None"
| "read_elems (Suc n) acc s =
    (case read_value n s of
       None \<Rightarrow> None
     | Some (j, t) \<Rightarrow>
        (case skip_space t of
           [] \<Rightarrow> None
         | c # u \<Rightarrow>
            if c = CHR '','' then read_elems n (acc @ [j]) u
            else if c = CHR '']'' then Some (JArr (acc @ [j]), u)
            else None))"
| "read_members 0 acc s = None"
| "read_members (Suc n) acc s =
    (case skip_space s of
       [] \<Rightarrow> None
     | q # s1 \<Rightarrow>
        if q \<noteq> quote_char then None
        else (case read_chars s1 of
          None \<Rightarrow> None
        | Some (k, s2) \<Rightarrow>
          (case skip_space s2 of
             [] \<Rightarrow> None
           | c # s3 \<Rightarrow>
              if c \<noteq> CHR '':'' then None
              else (case read_value n s3 of
                None \<Rightarrow> None
              | Some (v, s4) \<Rightarrow>
                (case skip_space s4 of
                   [] \<Rightarrow> None
                 | d # s5 \<Rightarrow>
                    if d = CHR '','' then read_members n (map_set acc k v) s5
                    else if d = CHR ''}'' then Some (JObj (map_set acc k v), s5)
                    else None)))))"

definition Unmarshal :: "string \<Rightarrow> json option" where
  "Unmarshal s =
    (case read_value (length s) s of
       Some (j, r) \<Rightarrow> if skip_space r = [] then Some j else None
     | None \<Rightarrow> None)"

section \<open>Strings come back\<close>

lemma of_char_less: "(of_char c :: nat) < 256"
  by (cases c) (simp add: of_char_def split: if_splits)

lemma of_char_byte: "n < 256 \<Longrightarrow> of_char (byte n) = n"
  by (simp add: byte_def)

lemma byte_of_char [simp]: "byte (of_char c) = c"
  by (simp add: byte_def)

lemma hex_val_hex_digit: "n < 16 \<Longrightarrow> hex_val (hex_digit n) = Some n"
  by (simp add: hex_digit_def hex_val_def within_def of_char_byte)

lemma hex_val_0: "hex_val CHR ''0'' = Some 0"
  by (simp add: hex_val_def within_def)

lemma read_chars_ascii:
  assumes "of_char c < (0x80 :: nat)"
  shows "read_chars (escape_ascii c @ t) = map_option (\<lambda>(w, r). (c # w, r)) (read_chars t)"
proof (cases "map_of short_escapes c")
  case (Some e)
  then have "(c, e) \<in> set short_escapes" by (rule map_of_SomeD)
  then have "e \<noteq> CHR ''u''" "unescape e = Some c"
    by (auto simp: short_escapes_def unescape_def)
  with Some show ?thesis by (simp add: escape_ascii_def)
next
  case None
  then have "c \<noteq> quote_char" "c \<noteq> backslash"
    by (auto simp: short_escapes_def split: if_splits)
  moreover have "hex4 CHR ''0'' CHR ''0'' (hex_digit (of_char c div 16)) (hex_digit (of_char c mod 16))
      = Some (of_char c)"
    using assms by (simp add: hex4_def hex_val_0 hex_val_hex_digit)
  ultimately show ?thesis
    using None assms by (simp add: escape_ascii_def utf8_def)
qed

lemma read_chars_high:
  "(\<And>c. c \<in> set w \<Longrightarrow> (0x80 :: nat) \<le> of_char c) \<Longrightarrow>
   read_chars (w @ t) = map_option (\<lambda>(v, r). (w @ v, r)) (read_chars t)"
proof (induction w)
  case Nil
  then show ?case by (simp add: map_option.identity [unfolded id_def] case_prod_unfold option.map_ident)
next
  case (Cons c w)
  have c: "(0x80 :: nat) \<le> of_char c" using Cons.prems by simp
  then have "c \<noteq> quote_char" "c \<noteq> backslash" "\<not> of_char c < (0x20 :: nat)" by auto
  with Cons show ?case by (cases "read_chars t") auto
qed

lemma rune_high:
  assumes "rune_len s = Some n" and "n \<noteq> 1" and "c \<in> set (take n s)"
  shows "(0x80 :: nat) \<le> of_char c"
  using assms by (cases s) (auto simp: within_def split: if_splits list.splits)

lemma escape_rune_long:
  "length w \<noteq> 1 \<Longrightarrow> escape_rune w =
    (if w = [CHR 0xE2, CHR 0x80, CHR 0xA8] then backslash # ''u2028''
     else if w = [CHR 0xE2, CHR 0x80, CHR 0xA9] then backslash # ''u2029''
     else w)"
  by (cases w; cases "tl w") (auto simp: escape_rune_def)

lemma read_chars_rune:
  assumes "rune_len s = Some n"
  shows "read_chars (escape_rune (take n s) @ t) = map_option (\<lambda>(w, r). (take n s @ w, r)) (read_chars t)"
proof (cases "n = 1")
  case True
  with assms obtain c u where "s = c # u" "of_char c < (0x80 :: nat)"
    by (cases s) (auto split: if_splits list.splits)
  with True show ?thesis by (simp add: escape_rune_def read_chars_ascii)
next
  case False
  note high = read_chars_high [OF rune_high [OF assms False], of "take n s"]
  have "length (take n s) \<noteq> 1" using False rune_len_pos [OF assms] by simp
  note escape_rune_long [OF this]
  moreover have "utf8 0x2028 = [CHR 0xE2, CHR 0x80, CHR 0xA8]" "utf8 0x2029 = [CHR 0xE2, CHR 0x80, CHR 0xA9]"
    by (simp_all add: utf8_def byte_def char_of_eq_iff)
  ultimately show ?thesis
    by (simp add: high hex4_def hex_val_def within_def)
qed

theorem read_chars_escape:
  "read_chars (json_escape s @ quote_char # r) = Some (utf8_clean s, r)"
proof (induction s rule: json_escape.induct)
  case (1 s)
  have fffd: "utf8 0xFFFD = [CHR 0xEF, CHR 0xBF, CHR 0xBD]"
    by (simp add: utf8_def byte_def char_of_eq_iff)
  show ?case
  proof (cases "s = []")
    case True
    then show ?thesis by (simp add: json_escape.simps utf8_clean.simps)
  next
    case False
    show ?thesis
    proof (cases "rune_len s")
      case None
      then show ?thesis using False 1(1)
        by (subst json_escape.simps, subst utf8_clean.simps)
          (simp add: hex4_def hex_val_def within_def fffd)
    next
      case (Some n)
      then show ?thesis using False 1(2)
        by (subst json_escape.simps, subst utf8_clean.simps) (simp add: read_chars_rune)
    qed
  qed
qed

section \<open>Numbers come back\<close>

lemma digits_val_snoc: "digits_val (s @ [c]) = 10 * digits_val s + digit_val c"
  by (simp add: digits_val_def)

lemma digit_byte: "n < 10 \<Longrightarrow> is_digit (byte (48 + n)) \<and> digit_val (byte (48 + n)) = n"
  by (simp add: is_digit_def digit_val_def of_char_byte)

lemma itoa_nat_digits: "itoa_nat n \<noteq> [] \<and> (\<forall>c\<in>set (itoa_nat n). is_digit c) \<and> digits_val (itoa_nat n) = n"
proof (induction n rule: itoa_nat.induct)
  case (1 n)
  show ?case
  proof (cases "n < 10")
    case True
    then show ?thesis using digit_byte [of n] by (simp add: itoa_nat.simps [of n] digits_val_def)
  next
    case False
    then show ?thesis using 1 digit_byte [of "n mod 10"]
      by (simp add: itoa_nat.simps [of n] digits_val_snoc)
  qed
qed

definition delimited :: "string \<Rightarrow> bool" where
  "delimited r \<longleftrightarrow> r = [] \<or> \<not> is_digit (hd r)"

lemma digits_delimited:
  assumes "delimited r"
  shows "takeWhile is_digit (itoa_nat n @ r) = itoa_nat n" "dropWhile is_digit (itoa_nat n @ r) = r"
proof -
  have "takeWhile is_digit r = []" "dropWhile is_digit r = r"
    using assms by (cases r; simp add: delimited_def)+
  then show "takeWhile is_digit (itoa_nat n @ r) = itoa_nat n" "dropWhile is_digit (itoa_nat n @ r) = r"
    using itoa_nat_digits by (simp_all add: takeWhile_append2 dropWhile_append2)
qed

lemma itoa_nat_hd: "\<exists>c s. itoa_nat n = c # s \<and> is_digit c"
  using itoa_nat_digits [of n] by (cases "itoa_nat n") auto

lemma read_int_itoa:
  assumes "delimited r"
  shows "read_int (itoa i @ r) = Some (i, r)"
proof (cases "i < 0")
  case True
  then show ?thesis
    using itoa_nat_digits [of "nat (- i)"] digits_delimited [OF assms]
    by (simp add: itoa_def read_int_def Let_def)
next
  case False
  obtain c s where c: "itoa_nat (nat i) = c # s" "is_digit c" using itoa_nat_hd by blast
  then have "c \<noteq> CHR ''-''" by (auto simp: is_digit_def)
  then show ?thesis
    using False c itoa_nat_digits [of "nat i"] digits_delimited [OF assms, of "nat i"]
    by (simp add: itoa_def read_int_def Let_def)
qed

section \<open>Values come back\<close>

text \<open>
  What a reader makes of a value: keys in order, strings cleaned. \<open>wf_keys\<close>: each key
  occurs once in its object, and is UTF-8.
\<close>

fun canon :: "json \<Rightarrow> json" where
  "canon (JStr s) = JStr (utf8_clean s)"
| "canon (JArr js) = JArr (map canon js)"
| "canon (JObj m) = JObj (sort_func key_before (map (\<lambda>(k, v). (k, canon v)) m))"
| "canon j = j"

fun wf_keys :: "json \<Rightarrow> bool" where
  "wf_keys (JArr js) \<longleftrightarrow> (\<forall>j\<in>set js. wf_keys j)"
| "wf_keys (JObj m) \<longleftrightarrow>
    distinct (map fst m) \<and> (\<forall>p\<in>set m. utf8_clean (fst p) = fst p \<and> wf_keys (snd p))"
| "wf_keys j \<longleftrightarrow> True"

lemma sort_insert_key:
  "sort_insert key_before (k, f v) (map (\<lambda>(k, v). (k, f v)) m) =
   map (\<lambda>(k, v). (k, f v)) (sort_insert key_before (k, v) m)"
  by (induction m) (auto simp: key_before_def)

lemma sort_func_key:
  "sort_func key_before (map (\<lambda>(k, v). (k, f v)) m) = map (\<lambda>(k, v). (k, f v)) (sort_func key_before m)"
  by (induction m) (auto simp: sort_insert_key)

lemma distinct_sort_key:
  "distinct (map fst (sort_func key_before m)) \<longleftrightarrow> distinct (map fst m)"
  by (rule mset_eq_imp_distinct_iff) (simp add: mset_map)

lemma map_of_sort_key:
  assumes "distinct (map fst m)"
  shows "map_of (sort_func key_before m) = map_of m"
  using assms map_of_inject_set [of "sort_func key_before m" m] by (simp add: distinct_sort_key)

lemma Marshal_head: "\<exists>c s. Marshal j = c # s \<and> \<not> json_space c \<and> c \<notin> {CHR '']'', CHR ''}''}"
proof (cases j)
  case (JInt i)
  obtain c s where "itoa_nat (nat i) = c # s" "is_digit c" using itoa_nat_hd by blast
  with JInt show ?thesis by (auto simp: itoa_def json_space_def is_digit_def)
qed (auto simp: json_string_def json_space_def)

lemma skip_Marshal [simp]: "skip_space (Marshal j @ r) = Marshal j @ r"
  using Marshal_head [of j] by auto

lemma delimited_simps [simp]:
  "delimited (CHR '','' # r)" "delimited (CHR '']'' # r)" "delimited (CHR ''}'' # r)" "delimited []"
  by (simp_all add: delimited_def is_digit_def)

lemma json_space_simps [simp]:
  "\<not> json_space CHR '',''" "\<not> json_space CHR '']''" "\<not> json_space CHR ''}''" "\<not> json_space CHR '':''"
  "\<not> json_space quote_char"
  by (simp_all add: json_space_def)

definition comes_back :: "json \<Rightarrow> bool" where
  "comes_back j \<longleftrightarrow>
    (\<forall>n r. length (Marshal j) \<le> n \<longrightarrow> delimited r \<longrightarrow> read_value n (Marshal j @ r) = Some (canon j, r))"

lemma comes_backD:
  "comes_back j \<Longrightarrow> length (Marshal j) \<le> n \<Longrightarrow> delimited r \<Longrightarrow>
   read_value n (Marshal j @ r) = Some (canon j, r)"
  by (simp add: comes_back_def)

lemma comes_backI:
  assumes "\<And>m r. length (Marshal j) \<le> Suc m \<Longrightarrow> delimited r \<Longrightarrow>
    read_value (Suc m) (Marshal j @ r) = Some (canon j, r)"
  shows "comes_back j"
  unfolding comes_back_def
proof (intro allI impI)
  fix n r
  assume "length (Marshal j) \<le> n" "delimited r"
  then show "read_value n (Marshal j @ r) = Some (canon j, r)"
    using assms Marshal_head [of j] by (cases n) auto
qed

lemma read_elems_join:
  assumes "js \<noteq> []" and "\<forall>j\<in>set js. comes_back j"
    and "length (join_with CHR '','' (map Marshal js)) < n"
  shows "read_elems n acc (join_with CHR '','' (map Marshal js) @ CHR '']'' # r) =
    Some (JArr (acc @ map canon js), r)"
  using assms
proof (induction js arbitrary: n acc)
  case (Cons j js)
  then obtain m where n: "n = Suc m" by (cases n) auto
  show ?case
  proof (cases "js = []")
    case True
    then show ?thesis using Cons.prems n by (simp add: comes_backD)
  next
    case False
    with Cons.prems n have "length (Marshal j) \<le> m" "length (join_with CHR '','' (map Marshal js)) < m"
      by (simp_all add: join_with_Cons)
    then show ?thesis using False Cons.prems n Cons.IH [of m "acc @ [canon j]"]
      by (simp add: join_with_Cons comes_backD)
  qed
qed simp

definition member :: "string \<times> json \<Rightarrow> string" where
  "member p = json_string (fst p) @ CHR '':'' # Marshal (snd p)"

lemma member_pair [simp]: "member (k, v) = quote_char # json_escape k @ quote_char # CHR '':'' # Marshal v"
  by (simp add: member_def json_string_def)

lemma map_set_new: "k \<notin> fst ` set m \<Longrightarrow> map_set m k v = m @ [(k, v)]"
  by (induction m k v rule: map_set.induct) auto

lemma read_members_join:
  assumes "m \<noteq> []" and "\<forall>p\<in>set m. comes_back (snd p) \<and> utf8_clean (fst p) = fst p"
    and "distinct (map fst (acc @ m))"
    and "length (join_with CHR '','' (map member m)) < n"
  shows "read_members n acc (join_with CHR '','' (map member m) @ CHR ''}'' # r) =
    Some (JObj (acc @ map (\<lambda>(k, v). (k, canon v)) m), r)"
  using assms
proof (induction m arbitrary: n acc)
  case (Cons p m)
  then obtain l where n: "n = Suc l" by (cases n) auto
  obtain k v where p: "p = (k, v)" by (cases p)
  have k: "utf8_clean k = k" "comes_back v" "k \<notin> fst ` set acc" using Cons.prems p by auto
  show ?case
  proof (cases "m = []")
    case True
    then show ?thesis using Cons.prems n p k
      by (simp add: comes_backD read_chars_escape map_set_new)
  next
    case False
    with Cons.prems n p have "length (Marshal v) \<le> l" "length (join_with CHR '','' (map member m)) < l"
      by (simp_all add: join_with_Cons)
    moreover have "distinct (map fst ((acc @ [(k, canon v)]) @ m))" using Cons.prems p by simp
    ultimately show ?thesis using False Cons.prems n p k Cons.IH [of "acc @ [(k, canon v)]" l]
      by (simp add: join_with_Cons comes_backD read_chars_escape map_set_new)
  qed
qed simp

lemma Marshal_comes_back: "wf_keys j \<Longrightarrow> comes_back j"
proof (induction j rule: Marshal.induct)
  case (3 i)
  obtain c s where c: "itoa i = c # s" "is_digit c \<or> c = CHR ''-''"
    using itoa_nat_hd [of "nat i"] by (cases "i < 0") (auto simp: itoa_def)
  show ?case
  proof (rule comes_backI)
    fix m r
    assume r: "delimited r"
    have "skip_space (itoa i @ r) = itoa i @ r" using skip_Marshal [of "JInt i"] by simp
    moreover have "c \<notin> {quote_char, CHR ''['', CHR ''{'', CHR ''n'', CHR ''t'', CHR ''f''}"
      using c(2) by (auto simp: is_digit_def)
    ultimately show "read_value (Suc m) (Marshal (JInt i) @ r) = Some (canon (JInt i), r)"
      using c(1) read_int_itoa [OF r, of i] by (simp add: HasPrefix_def)
  qed
next
  case (5 js)
  have "read_value (Suc m) (Marshal (JArr js) @ r) = Some (canon (JArr js), r)"
    if "length (Marshal (JArr js)) \<le> Suc m" for m r
  proof (cases js)
    case Nil
    then show ?thesis by (simp add: json_space_def)
  next
    case (Cons j js')
    have "read_elems m [] (join_with CHR '','' (map Marshal js) @ CHR '']'' # r) = Some (JArr ([] @ map canon js), r)"
      using that Cons 5 by (intro read_elems_join) auto
    moreover obtain c s where "join_with CHR '','' (map Marshal js) @ CHR '']'' # r = c # s"
        "\<not> json_space c" "c \<noteq> CHR '']''"
      using Marshal_head [of j] Cons by (cases js') auto
    ultimately show ?thesis by (simp add: json_space_def)
  qed
  then show ?case by (rule comes_backI)
next
  case (6 m)
  let ?m = "sort_func key_before m"
  have txt_eq: "Marshal (JObj m) = CHR ''{'' # join_with CHR '','' (map member ?m) @ ''}''"
    by (auto simp: sort_func_key member_def intro!: arg_cong [where f = "join_with CHR '',''"])
  have canon: "canon (JObj m) = JObj (map (\<lambda>(k, v). (k, canon v)) ?m)" by (simp add: sort_func_key)
  have "read_value (Suc l) (Marshal (JObj m) @ r) = Some (canon (JObj m), r)"
    if len: "length (Marshal (JObj m)) \<le> Suc l" for l r
  proof (cases "?m")
    case Nil
    then show ?thesis unfolding txt_eq canon by (simp add: json_space_def)
  next
    case (Cons p m')
    have "read_members l [] (join_with CHR '','' (map member ?m) @ CHR ''}'' # r) =
        Some (JObj ([] @ map (\<lambda>(k, v). (k, canon v)) ?m), r)"
    proof (rule read_members_join)
      show "\<forall>p\<in>set ?m. comes_back (snd p) \<and> utf8_clean (fst p) = fst p"
        using 6 by (auto simp: Ball_def)
      show "length (join_with CHR '','' (map member ?m)) < l"
        using len unfolding txt_eq by simp
      show "distinct (map fst ([] @ ?m))" using 6(2) by (simp add: distinct_sort_key)
    qed (use Cons in simp)
    moreover obtain s where "join_with CHR '','' (map member ?m) @ CHR ''}'' # r = quote_char # s"
      unfolding Cons by (cases p; cases m') auto
    ultimately show ?thesis unfolding txt_eq canon by (simp add: json_space_def)
  qed
  then show ?case by (rule comes_backI)
qed (rule comes_backI; simp add: json_string_def json_space_def HasPrefix_def read_chars_escape)+

text \<open>
  The text of a value reads as that value, with its keys in order and what is not UTF-8 in
  its strings replaced.
\<close>

theorem Unmarshal_Marshal: "wf_keys j \<Longrightarrow> Unmarshal (Marshal j) = Some (canon j)"
  using comes_backD [OF Marshal_comes_back, of j "length (Marshal j)" "[]"] by (simp add: Unmarshal_def)

end
