(* ===== verification/Codecs.thy ===== *)
theory Codecs
  imports Json
begin

text \<open>
  What the kubectl plugin uses of \<^verbatim>\<open>strconv\<close> and \<^verbatim>\<open>encoding/base64\<close>: \<open>Atoi\<close>
  reads a decimal int64, and the decoder of \<^verbatim>\<open>base64.StdEncoding\<close> reads what the
  API server writes for the data of a secret.
\<close>

section \<open>strconv.Atoi\<close>

text \<open>A sign, at least one digit, and a value in the range of int64; \<open>None\<close> is the error.\<close>

definition Atoi :: "string \<Rightarrow> int option" where
  "Atoi s =
    (case s of
       [] \<Rightarrow> None
     | c # t \<Rightarrow>
        (let ds = (if c = CHR ''-'' \<or> c = CHR ''+'' then t else s);
             i = (if c = CHR ''-'' then - int (digits_val ds) else int (digits_val ds))
         in if ds \<noteq> [] \<and> list_all is_digit ds \<and> - (2 ^ 63) \<le> i \<and> i < 2 ^ 63 then Some i else None))"

lemma Atoi_itoa:
  assumes "- (2 ^ 63) \<le> i" and "i < 2 ^ 63"
  shows "Atoi (itoa i) = Some i"
proof (cases "i < 0")
  case True
  then show ?thesis
    using assms itoa_nat_digits [of "nat (- i)"] by (simp add: Atoi_def itoa_def list_all_iff)
next
  case False
  obtain c s where c: "itoa_nat (nat i) = c # s" "is_digit c" using itoa_nat_hd by blast
  then have "c \<noteq> CHR ''-''" "c \<noteq> CHR ''+''" by (auto simp: is_digit_def)
  then show ?thesis
    using False assms c itoa_nat_digits [of "nat i"] by (simp add: Atoi_def itoa_def list_all_iff)
qed

lemma Atoi_range: "Atoi s = Some i \<Longrightarrow> - (2 ^ 63) \<le> i \<and> i < 2 ^ 63"
  by (auto simp: Atoi_def Let_def split: list.splits if_splits)

section \<open>base64.StdEncoding\<close>

definition b64_alphabet :: string where
  "b64_alphabet = ''ABCDEFGHIJKLMNOPQRSTUVWXYZabcdefghijklmnopqrstuvwxyz0123456789+/''"

definition b64_char :: "nat \<Rightarrow> char" where
  "b64_char n = b64_alphabet ! n"

definition b64_val :: "char \<Rightarrow> nat option" where
  "b64_val c = map_of (zip b64_alphabet [0..<64]) c"

fun b64_encode :: "string \<Rightarrow> string" where
  "b64_encode [] = []"
| "b64_encode [a] = [b64_char (of_char a div 4), b64_char (of_char a mod 4 * 16), CHR ''='', CHR ''='']"
| "b64_encode [a, b] =
    [b64_char (of_char a div 4), b64_char (of_char a mod 4 * 16 + of_char b div 16),
     b64_char (of_char b mod 16 * 4), CHR ''='']"
| "b64_encode (a # b # c # s) =
    [b64_char (of_char a div 4), b64_char (of_char a mod 4 * 16 + of_char b div 16),
     b64_char (of_char b mod 16 * 4 + of_char c div 64), b64_char (of_char c mod 64)] @ b64_encode s"

text \<open>
  The bytes of the text, four characters at a time, up to the first error, and whether there
  was none. The decoder skips line ends, and wants padding and nothing behind it.
\<close>

fun b64_quanta :: "string \<Rightarrow> string \<times> bool" where
  "b64_quanta [] = ([], True)"
| "b64_quanta (a # b # c # d # s) =
    (case (b64_val a, b64_val b) of
       (Some w, Some x) \<Rightarrow>
         (let b1 = byte (w * 4 + x div 16) in
          if c = CHR ''='' then (if d = CHR ''='' then ([b1], s = []) else ([], False))
          else (case b64_val c of
            None \<Rightarrow> ([], False)
          | Some y \<Rightarrow>
             (let b2 = byte (x mod 16 * 16 + y div 4) in
              if d = CHR ''='' then ([b1, b2], s = [])
              else (case b64_val d of
                None \<Rightarrow> ([], False)
              | Some z \<Rightarrow>
                 (case b64_quanta s of (r, ok) \<Rightarrow> (b1 # b2 # byte (y mod 4 * 64 + z) # r, ok))))))
     | _ \<Rightarrow> ([], False))"
| "b64_quanta _ = ([], False)"

definition b64_decode :: "string \<Rightarrow> string \<times> bool" where
  "b64_decode s = b64_quanta (filter (\<lambda>c. c \<noteq> CHR 0x0A \<and> c \<noteq> CHR 0x0D) s)"

lemma b64_distinct: "distinct b64_alphabet"
  by code_simp

lemma b64_val_char: "n < 64 \<Longrightarrow> b64_val (b64_char n) = Some n"
  using map_of_zip_nth [OF _ b64_distinct, of "[0..<64]" n]
  by (simp add: b64_val_def b64_char_def b64_alphabet_def)

lemma b64_char_set: "n < 64 \<Longrightarrow> b64_char n \<in> set b64_alphabet"
  unfolding b64_char_def by (rule nth_mem) (simp add: b64_alphabet_def)

lemma b64_char_plain:
  assumes "n < 64"
  shows "b64_char n \<noteq> CHR ''=''" "b64_char n \<noteq> CHR 0x0A" "b64_char n \<noteq> CHR 0x0D"
proof -
  have "CHR ''='' \<notin> set b64_alphabet" "CHR 0x0A \<notin> set b64_alphabet" "CHR 0x0D \<notin> set b64_alphabet"
    by (simp_all add: b64_alphabet_def)
  with b64_char_set [OF assms]
  show "b64_char n \<noteq> CHR ''=''" "b64_char n \<noteq> CHR 0x0A" "b64_char n \<noteq> CHR 0x0D" by metis+
qed

lemma div_mod_pack:
  fixes x y k :: nat
  assumes "y < k"
  shows "(x * k + y) div k = x" "(x * k + y) mod k = y"
  using assms by simp_all

lemma b64_parts:
  fixes a b c :: nat
  assumes "a < 256" "b < 256" "c < 256"
  shows "a div 4 < 64" "a mod 4 * 16 < 64" "a mod 4 * 16 + b div 16 < 64" "b mod 16 * 4 < 64"
    "b mod 16 * 4 + c div 64 < 64" "c mod 64 < 64"
    "a div 4 * 4 + (a mod 4 * 16 + b div 16) div 16 = a" "a div 4 * 4 + a mod 4 * 16 div 16 = a"
    "(a mod 4 * 16 + b div 16) mod 16 * 16 + (b mod 16 * 4 + c div 64) div 4 = b"
    "(a mod 4 * 16 + b div 16) mod 16 * 16 + b mod 16 * 4 div 4 = b"
    "(b mod 16 * 4 + c div 64) mod 4 * 64 + c mod 64 = c"
proof -
  have small: "a mod 4 < 4" "b mod 16 < 16" "c mod 64 < 64" by simp_all
  have high: "a div 4 < 64" "b div 16 < 16" "c div 64 < 4"
    using assms by (simp_all add: less_mult_imp_div_less)
  note pack = div_mod_pack [OF high(2), of "a mod 4"] div_mod_pack [OF high(3), of "b mod 16"]
  show "a div 4 < 64" "a mod 4 * 16 < 64" "a mod 4 * 16 + b div 16 < 64" "b mod 16 * 4 < 64"
    "b mod 16 * 4 + c div 64 < 64" "c mod 64 < 64"
    using small high by linarith+
  show "a div 4 * 4 + (a mod 4 * 16 + b div 16) div 16 = a" "a div 4 * 4 + a mod 4 * 16 div 16 = a"
    "(a mod 4 * 16 + b div 16) mod 16 * 16 + (b mod 16 * 4 + c div 64) div 4 = b"
    "(a mod 4 * 16 + b div 16) mod 16 * 16 + b mod 16 * 4 div 4 = b"
    "(b mod 16 * 4 + c div 64) mod 4 * 64 + c mod 64 = c"
    unfolding pack by simp_all
qed

lemma b64_quanta_encode: "b64_quanta (b64_encode s) = (s, True)"
proof (induction s rule: b64_encode.induct)
  case (2 a)
  show ?case
    using b64_parts [OF of_char_less [of a] of_char_less of_char_less]
    by (simp add: b64_val_char Let_def)
next
  case (3 a b)
  show ?case
    using b64_parts [OF of_char_less [of a] of_char_less [of b] of_char_less]
    by (simp add: b64_val_char b64_char_plain Let_def)
next
  case (4 a b c s)
  then show ?case
    using b64_parts [OF of_char_less [of a] of_char_less [of b] of_char_less [of c]]
    by (simp add: b64_val_char b64_char_plain Let_def)
qed simp

lemma b64_encode_lines: "filter (\<lambda>c. c \<noteq> CHR 0x0A \<and> c \<noteq> CHR 0x0D) (b64_encode s) = b64_encode s"
proof (induction s rule: b64_encode.induct)
  case (2 a)
  show ?case
    using b64_parts [OF of_char_less [of a] of_char_less of_char_less] by (simp add: b64_char_plain)
next
  case (3 a b)
  show ?case
    using b64_parts [OF of_char_less [of a] of_char_less [of b] of_char_less] by (simp add: b64_char_plain)
next
  case (4 a b c s)
  then show ?case
    using b64_parts [OF of_char_less [of a] of_char_less [of b] of_char_less [of c]]
    by (simp add: b64_char_plain)
qed simp

theorem b64_decode_encode: "b64_decode (b64_encode s) = (s, True)"
  by (simp add: b64_decode_def b64_encode_lines b64_quanta_encode)

end
