(* ===== verification/Plugin.thy ===== *)
theory Plugin
  imports Codecs Api_Types
begin

text \<open>
  The kubectl plugin \<^verbatim>\<open>cmd/kubectl-talos\<close>: its environment, and \<^verbatim>\<open>helpers.go\<close>
  with the loop that watches an operation. A command is a program over the state of the
  process; the loop of \<^verbatim>\<open>watchResource\<close> may run forever, so that a command returns an
  option, and \<open>None\<close> is a command that does not return.
\<close>

section \<open>What leaves the process\<close>

text \<open>
  \<open>Exec prog args env\<close> runs a program with additions to its environment. \<open>TempFile f\<close>
  records the name that the creation of a temporary file was answered with. The other calls
  are those of the Kubernetes client, of temporary files, of the YAML encoder, the sleep of
  the watch loop and output.
\<close>

datatype pcall =
    Exec string "string list" "string list"
  | PAddToScheme string
  | PClientConfig
  | PNewClient
  | PNamespace
  | PGetNode string string
  | PGetCluster string string
  | PGetSecret string string
  | CreateTemp string
  | TempFile string
  | WriteTemp string string
  | EncodeYaml string json
  | CloseEncoder string
  | CloseTemp string
  | RemoveTemp string
  | Sleep int
  | Print string

text \<open>How a program ended, and its output: success, \<^verbatim>\<open>*exec.ExitError\<close>, any other error.\<close>

datatype exec_result =
    ExitOk (exec_out: string)
  | ExitError go_error (exec_out: string)
  | StartError go_error (exec_out: string)

record penv =
  pe_watch :: bool
  pe_programStart :: int
  pe_exec :: "pcall list \<Rightarrow> pcall \<Rightarrow> exec_result"
  pe_unit :: "pcall list \<Rightarrow> pcall \<Rightarrow> go_error + unit"
  pe_text :: "pcall list \<Rightarrow> pcall \<Rightarrow> go_error + string"
  pe_node :: "pcall list \<Rightarrow> pcall \<Rightarrow> go_error + Node"
  pe_cluster :: "pcall list \<Rightarrow> pcall \<Rightarrow> go_error + Cluster"
  pe_secret :: "pcall list \<Rightarrow> pcall \<Rightarrow> go_error + string strmap"
  pe_yaml :: "json \<Rightarrow> go_error + string"

text \<open>The calls so far, the latest first, and the package variables that change.\<close>

record pst =
  ps_hist :: "pcall list"
  ps_namespace :: string
  ps_spinnerTick :: nat

type_synonym 'a plug = "(pst, 'a) go"
type_synonym 'a plugin_loop = "pst \<Rightarrow> ('a outcome \<times> pst) option"

definition record_call :: "pcall \<Rightarrow> pst \<Rightarrow> pst" where
  "record_call c s = s\<lparr>ps_hist := c # ps_hist s\<rparr>"

definition pask :: "(pcall list \<Rightarrow> pcall \<Rightarrow> go_error + 'a) \<Rightarrow> pcall \<Rightarrow> 'a plug" where
  "pask f c = (\<lambda>s.
    (case f (ps_hist s) c of Inl e \<Rightarrow> Err e | Inr x \<Rightarrow> Ok x, record_call c s))"

definition pdo :: "pcall \<Rightarrow> unit plug" where
  "pdo c = modify (record_call c)"

definition plift :: "go_error + 'a \<Rightarrow> 'a plug" where
  "plift r = (case r of Inl e \<Rightarrow> fail e | Inr x \<Rightarrow> ret x)"

definition prun :: "penv \<Rightarrow> string \<Rightarrow> string list \<Rightarrow> string list \<Rightarrow> exec_result plug" where
  "prun E prog args env = (\<lambda>s.
    (Ok (pe_exec E (ps_hist s) (Exec prog args env)), record_call (Exec prog args env) s))"

text \<open>\<^verbatim>\<open>cmd.Run()\<close> and \<^verbatim>\<open>cmd.Output()\<close>.\<close>

definition exec_err :: "exec_result \<Rightarrow> go_error option" where
  "exec_err r = (case r of ExitOk _ \<Rightarrow> None | ExitError e _ \<Rightarrow> Some e | StartError e _ \<Rightarrow> Some e)"

definition Output :: "penv \<Rightarrow> string \<Rightarrow> string list \<Rightarrow> string list \<Rightarrow> string plug" where
  "Output E prog args env = bindE (prun E prog args env) (\<lambda>r.
    case exec_err r of None \<Rightarrow> ret (exec_out r) | Some e \<Rightarrow> fail e)"

definition Run :: "penv \<Rightarrow> string \<Rightarrow> string list \<Rightarrow> string list \<Rightarrow> unit plug" where
  "Run E prog args env = andThen (Output E prog args env) (ret ())"

text \<open>\<^verbatim>\<open>args[i]\<close>, and \<^verbatim>\<open>append([]string{"-n", *namespace}, args...)\<close> if there is a namespace.\<close>

definition arg :: "string list \<Rightarrow> nat \<Rightarrow> string plug" where
  "arg args i = (if i < length args then ret (args ! i) else panic ''index out of range'')"

definition in_namespace :: "string \<Rightarrow> string list \<Rightarrow> string list" where
  "in_namespace ns args = (if ns \<noteq> [] then [''-n'', ns] @ args else args)"

text \<open>Programs in front of a loop, and the errors of a loop.\<close>

definition once :: "'a plug \<Rightarrow> 'a plugin_loop" where
  "once m = (\<lambda>s. Some (m s))"

definition bindL :: "'a plug \<Rightarrow> ('a \<Rightarrow> 'b plugin_loop) \<Rightarrow> 'b plugin_loop" where
  "bindL m k = (\<lambda>s. case m s of
      (Ok x, s') \<Rightarrow> k x s'
    | (Err e, s') \<Rightarrow> Some (Err e, s')
    | (Panic p, s') \<Rightarrow> Some (Panic p, s'))"

definition wrapL :: "string \<Rightarrow> 'a plugin_loop \<Rightarrow> 'a plugin_loop" where
  "wrapL pre m = (\<lambda>s. map_option (\<lambda>(r, s').
    (case r of Err e \<Rightarrow> Err (errorf_w pre e) | _ \<Rightarrow> r, s')) (m s))"

section \<open>helpers.go\<close>

definition ansiReset :: string where "ansiReset = CHR 0x1B # ''[0m''"
definition ansiYellow :: string where "ansiYellow = CHR 0x1B # ''[33m''"
definition ansiGreen :: string where "ansiGreen = CHR 0x1B # ''[32m''"
definition ansiRed :: string where "ansiRed = CHR 0x1B # ''[31m''"

definition colorCode :: "string \<Rightarrow> string" where
  "colorCode name =
    (if name = ''green'' then ansiGreen else if name = ''red'' then ansiRed else ansiYellow)"

definition spinnerFrames :: "string list" where
  "spinnerFrames =
    [[CHR 0xE2, CHR 0x97, CHR 0xB0], [CHR 0xE2, CHR 0x97, CHR 0xB3],
     [CHR 0xE2, CHR 0x97, CHR 0xB2], [CHR 0xE2, CHR 0x97, CHR 0xB1]]"

definition renderSpinnerLine :: "string \<Rightarrow> string \<Rightarrow> unit plug" where
  "renderSpinnerLine text' color =
    bindE (gets ps_spinnerTick) (\<lambda>tick.
    let frame = spinnerFrames ! (tick mod length spinnerFrames) in
    andThen (modify (\<lambda>s. s\<lparr>ps_spinnerTick := Suc tick\<rparr>))
    (andThen (pdo (Print ([CHR 0x0D, CHR 0x1B] @ ''[2K'')))
    (pdo (Print (colorCode color @ frame @ ''  '' @ text' @ ansiReset)))))"

text \<open>The default namespace; the client itself is the calls \<open>PGetNode\<close> and so on.\<close>

definition getKubernetesClient_plugin :: "penv \<Rightarrow> string plug" where
  "getKubernetesClient_plugin E =
    andThen (wrapE ''failed to add client-go scheme'' (pask (pe_unit E) (PAddToScheme ''client-go'')))
    (andThen (wrapE ''failed to add talosv1alpha1 scheme'' (pask (pe_unit E) (PAddToScheme ''talosv1alpha1'')))
    (andThen (wrapE ''failed to get REST config'' (pask (pe_unit E) PClientConfig))
    (andThen (wrapE ''failed to create Kubernetes client'' (pask (pe_unit E) PNewClient))
    (wrapE ''failed to get default namespace from kubeconfig'' (pask (pe_text E) PNamespace)))))"

definition nodesResource :: string where "nodesResource = ''nodes.talos.rtl.de''"
definition clustersResource :: string where "clustersResource = ''clusters.talos.rtl.de''"

text \<open>
  One look at the status of an operation (type, phase, message and time of the last
  transition), the same for nodes and clusters: whether it is done, or its failure.
\<close>

definition watchOperation ::
    "penv \<Rightarrow> (string \<times> string \<times> string \<times> int) option \<Rightarrow> string \<Rightarrow> string \<Rightarrow> bool plug" where
  "watchOperation E op phaseDone phaseFailed =
    (let waiting = andThen (renderSpinnerLine ''waiting for operation to start...'' ''yellow'') (ret False)
     in case op of
       None \<Rightarrow> waiting
     | Some (type, phase, message, lastTransitionTime) \<Rightarrow>
        if lastTransitionTime < pe_programStart E then waiting
        else
          (let lineText = ''operation '' @ type @ '' in phase '' @ phase @ '': '' @ message in
           if phase = phaseDone then
             andThen (renderSpinnerLine (lineText @ [CHR 0x0A]) ''green'') (ret True)
           else if phase = phaseFailed then
             andThen (renderSpinnerLine (lineText @ [CHR 0x0A]) ''red'')
               (fail (errorf (''operation '' @ type @ '' failed: '' @ message)))
           else andThen (renderSpinnerLine lineText ''yellow'') (ret False)))"

definition nodeOp :: "Node \<Rightarrow> (string \<times> string \<times> string \<times> int) option" where
  "nodeOp node =
    map_option (\<lambda>os. (nos_Type os, nos_Phase os, nos_Message os, nos_LastTransitionTime os)) (n_OpStatus node)"

definition clusterOp :: "Cluster \<Rightarrow> (string \<times> string \<times> string \<times> int) option" where
  "clusterOp cluster =
    map_option (\<lambda>os. (cop_Type (cos_op os), cos_Phase os, cos_Message os, cos_LastTransitionTime os))
      (cst_Operation (c_Status cluster))"

definition watchStep :: "penv \<Rightarrow> string \<Rightarrow> string \<Rightarrow> string \<Rightarrow> bool plug" where
  "watchStep E resourceType ns name =
    andThen (pdo (Sleep (200 * Millisecond)))
    (if resourceType = nodesResource then
       bindE (wrapE ''failed to get node resource'' (pask (pe_node E) (PGetNode ns name))) (\<lambda>node.
       watchOperation E (nodeOp node) NodeOperationPhaseDone NodeOperationPhaseFailed)
     else if resourceType = clustersResource then
       bindE (wrapE ''failed to get cluster resource'' (pask (pe_cluster E) (PGetCluster ns name))) (\<lambda>cluster.
       watchOperation E (clusterOp cluster) ClusterOperationPhaseDone ClusterOperationPhaseFailed)
     else fail (errorf (''unsupported resource type for watch: '' @ resourceType)))"

partial_function (option) watchLoop ::
    "penv \<Rightarrow> string \<Rightarrow> string \<Rightarrow> string \<Rightarrow> pst \<Rightarrow> (unit outcome \<times> pst) option" where
  "watchLoop E resourceType ns name s =
    (case watchStep E resourceType ns name s of (r, s') \<Rightarrow>
      (case r of
         Ok finished \<Rightarrow> if finished then Some (Ok (), s') else watchLoop E resourceType ns name s'
       | Err e \<Rightarrow> Some (Err e, s')
       | Panic p \<Rightarrow> Some (Panic p, s')))"

definition watchResource :: "penv \<Rightarrow> string \<Rightarrow> string \<Rightarrow> string \<Rightarrow> unit plugin_loop" where
  "watchResource E resourceType ns name =
    bindL (wrapE ''failed to get Kubernetes client'' (getKubernetesClient_plugin E)) (\<lambda>defaultNamespace.
    watchLoop E resourceType (if ns = [] then defaultNamespace else ns) name)"

section \<open>Running these programs\<close>

lemma run_pask [go_run]:
  "pask f c s = (case f (ps_hist s) c of Inl e \<Rightarrow> Err e | Inr x \<Rightarrow> Ok x, record_call c s)"
  "pdo c s = (Ok (), record_call c s)"
  by (simp_all add: pask_def pdo_def run_basic)

lemma run_prun [go_run]:
  "prun E prog args env s =
    (Ok (pe_exec E (ps_hist s) (Exec prog args env)), record_call (Exec prog args env) s)"
  by (simp add: prun_def)

lemma record_call_simps [simp]:
  "ps_hist (record_call c s) = c # ps_hist s" "ps_namespace (record_call c s) = ps_namespace s"
  "ps_spinnerTick (record_call c s) = ps_spinnerTick s"
  by (simp_all add: record_call_def)

lemma run_Output:
  "Output E prog args env s =
    (let r = pe_exec E (ps_hist s) (Exec prog args env) in
     (case exec_err r of None \<Rightarrow> Ok (exec_out r) | Some e \<Rightarrow> Err e, record_call (Exec prog args env) s))"
  by (simp add: Output_def bindE_def onErr_def run_prun run_basic Let_def split: option.split)

lemma run_Run:
  "Run E prog args env s =
    (case exec_err (pe_exec E (ps_hist s) (Exec prog args env)) of None \<Rightarrow> Ok () | Some e \<Rightarrow> Err e,
     record_call (Exec prog args env) s)"
  by (simp add: Run_def eval_andThen run_Output run_basic Let_def split: option.split)

lemma renderSpinnerLine_ok: "\<exists>s'. renderSpinnerLine t c s = (Ok (), s')"
  by (simp add: renderSpinnerLine_def go_eval run_pask Let_def)

section \<open>What the watch loop returns\<close>

text \<open>
  What a look at the object says about the command: nothing yet, success, or an error.
  \<open>reading\<close> is the look that the loop takes after the calls \<open>h\<close>.
\<close>

definition op_verdict ::
    "penv \<Rightarrow> (string \<times> string \<times> string \<times> int) option \<Rightarrow> string \<Rightarrow> string \<Rightarrow> unit outcome option" where
  "op_verdict E op phaseDone phaseFailed =
    (case op of
       None \<Rightarrow> None
     | Some (type, phase, message, lastTransitionTime) \<Rightarrow>
        if lastTransitionTime < pe_programStart E then None
        else if phase = phaseDone then Some (Ok ())
        else if phase = phaseFailed then Some (Err (errorf (''operation '' @ type @ '' failed: '' @ message)))
        else None)"

definition reading :: "penv \<Rightarrow> string \<Rightarrow> string \<Rightarrow> string \<Rightarrow> pcall list \<Rightarrow> unit outcome option" where
  "reading E rt ns name h =
    (if rt = nodesResource then
       (case pe_node E h (PGetNode ns name) of
          Inl e \<Rightarrow> Some (Err (errorf_w ''failed to get node resource'' e))
        | Inr n \<Rightarrow> op_verdict E (nodeOp n) NodeOperationPhaseDone NodeOperationPhaseFailed)
     else if rt = clustersResource then
       (case pe_cluster E h (PGetCluster ns name) of
          Inl e \<Rightarrow> Some (Err (errorf_w ''failed to get cluster resource'' e))
        | Inr c \<Rightarrow> op_verdict E (clusterOp c) ClusterOperationPhaseDone ClusterOperationPhaseFailed)
     else Some (Err (errorf (''unsupported resource type for watch: '' @ rt))))"

definition polled :: "penv \<Rightarrow> string \<Rightarrow> string \<Rightarrow> string \<Rightarrow> nat \<Rightarrow> pst \<Rightarrow> pst" where
  "polled E rt ns name k s = ((\<lambda>s. snd (watchStep E rt ns name s)) ^^ k) s"

definition verdict_at :: "penv \<Rightarrow> string \<Rightarrow> string \<Rightarrow> string \<Rightarrow> nat \<Rightarrow> pst \<Rightarrow> unit outcome option" where
  "verdict_at E rt ns name k s =
    reading E rt ns name (Sleep (200 * Millisecond) # ps_hist (polled E rt ns name k s))"

lemma polled_simps:
  "polled E rt ns name 0 s = s"
  "polled E rt ns name (Suc k) s = polled E rt ns name k (snd (watchStep E rt ns name s))"
  by (simp_all add: polled_def funpow_Suc_right del: funpow.simps(2))

lemma verdict_at_Suc:
  "verdict_at E rt ns name (Suc k) s = verdict_at E rt ns name k (snd (watchStep E rt ns name s))"
  by (simp add: verdict_at_def polled_simps)

lemma watchOperation_verdict:
  "fst (watchOperation E op d f s) =
    (case op_verdict E op d f of None \<Rightarrow> Ok False | Some (Ok _) \<Rightarrow> Ok True | Some (Err e) \<Rightarrow> Err e | Some (Panic p) \<Rightarrow> Panic p)"
proof -
  have step: "fst (andThen (renderSpinnerLine t c) m s) = r" if "\<And>s. fst (m s) = r" for t c r and m :: "bool plug"
    using renderSpinnerLine_ok [of t c s] that by (auto simp: eval_andThen)
  show ?thesis
    by (simp add: watchOperation_def op_verdict_def Let_def step run_basic split: option.split prod.split)
qed

lemma watchStep_verdict:
  "fst (watchStep E rt ns name s) =
    (case verdict_at E rt ns name 0 s of None \<Rightarrow> Ok False | Some (Ok _) \<Rightarrow> Ok True | Some (Err e) \<Rightarrow> Err e | Some (Panic p) \<Rightarrow> Panic p)"
  by (simp add: watchStep_def verdict_at_def reading_def polled_simps go_eval run_pask watchOperation_verdict
      split: sum.split)

lemma watchLoop_step:
  "watchLoop E rt ns name s =
    (case verdict_at E rt ns name 0 s of
       None \<Rightarrow> watchLoop E rt ns name (polled E rt ns name 1 s)
     | Some r \<Rightarrow> Some (r, polled E rt ns name 1 s))"
  using watchStep_verdict [of E rt ns name s]
  by (subst watchLoop.simps)
    (auto simp: polled_def split: prod.split option.splits outcome.splits)

lemma watchLoop_returns:
  "(\<And>i. i < k \<Longrightarrow> verdict_at E rt ns name i s = None) \<Longrightarrow> verdict_at E rt ns name k s = Some r \<Longrightarrow>
   watchLoop E rt ns name s = Some (r, polled E rt ns name (Suc k) s)"
proof (induction k arbitrary: s)
  case 0
  then show ?case by (simp add: watchLoop_step)
next
  case (Suc k)
  then have "verdict_at E rt ns name i (polled E rt ns name 1 s) = None" if "i < k" for i
    using Suc.prems(1) [of "Suc i"] that by (simp add: verdict_at_Suc polled_simps)
  moreover have "verdict_at E rt ns name k (polled E rt ns name 1 s) = Some r"
    using Suc.prems(2) by (simp add: verdict_at_Suc polled_simps)
  moreover have "verdict_at E rt ns name 0 s = None" using Suc.prems(1) [of 0] by simp
  ultimately show ?case
    using Suc.IH [of "polled E rt ns name 1 s"] by (subst watchLoop_step) (simp add: polled_simps)
qed

lemma watchLoop_verdict:
  assumes "watchLoop E rt ns name s = Some r"
  shows "\<exists>i. verdict_at E rt ns name i s \<noteq> None"
proof (rule watchLoop.raw_induct [where P = "\<lambda>E rt ns name s r. \<exists>i. verdict_at E rt ns name i s \<noteq> None", OF _ assms])
  fix f :: "penv \<Rightarrow> string \<Rightarrow> string \<Rightarrow> string \<Rightarrow> pst \<Rightarrow> (unit outcome \<times> pst) option"
  fix E rt ns name s r
  assume IH: "\<And>E rt ns name s r. f E rt ns name s = Some r \<Longrightarrow> \<exists>i. verdict_at E rt ns name i s \<noteq> None"
    and eq: "(case watchStep E rt ns name s of (r, s') \<Rightarrow>
      (case r of
         Ok finished \<Rightarrow> if finished then Some (Ok (), s') else f E rt ns name s'
       | Err e \<Rightarrow> Some (Err e, s')
       | Panic p \<Rightarrow> Some (Panic p, s'))) = Some r"
  show "\<exists>i. verdict_at E rt ns name i s \<noteq> None"
  proof (cases "verdict_at E rt ns name 0 s")
    case None
    then have "f E rt ns name (snd (watchStep E rt ns name s)) = Some r"
      using eq watchStep_verdict [of E rt ns name s] by (cases "watchStep E rt ns name s") auto
    then obtain i where "verdict_at E rt ns name i (snd (watchStep E rt ns name s)) \<noteq> None" using IH by blast
    then show ?thesis by (metis verdict_at_Suc)
  qed blast
qed

text \<open>A loop that returns does so with the first verdict.\<close>

lemma watchLoop_Some:
  assumes "watchLoop E rt ns name s = Some (r, s')"
  shows "\<exists>k. verdict_at E rt ns name k s = Some r \<and> s' = polled E rt ns name (Suc k) s"
proof -
  define k where "k = (LEAST i. verdict_at E rt ns name i s \<noteq> None)"
  have "verdict_at E rt ns name k s \<noteq> None"
    unfolding k_def using watchLoop_verdict [OF assms] by (rule LeastI_ex)
  moreover have "verdict_at E rt ns name i s = None" if "i < k" for i
    using not_less_Least [OF that [unfolded k_def]] by simp
  ultimately show ?thesis
    using assms watchLoop_returns [of k E rt ns name s] by auto
qed

text \<open>
  C21. \<^verbatim>\<open>watchResource\<close> polls until the first look that settles the operation, and returns
  what that look says: nil for an operation that is done, an error for one that failed or an
  object that cannot be read. Looks at an operation that is missing, unfinished, or whose
  last transition is before the start of the program do not settle anything: as long as there
  are only such looks the command does not return, also when the operation is done.
\<close>

theorem watchResource_first_verdict:
  assumes "getKubernetesClient_plugin E s = (Ok defaultNamespace, t)"
    and "ns' = (if ns = [] then defaultNamespace else ns)"
  shows "((\<forall>i<k. verdict_at E rt ns' name i t = None) \<and> verdict_at E rt ns' name k t = Some r \<longrightarrow>
      watchResource E rt ns name s = Some (r, polled E rt ns' name (Suc k) t)) \<and>
    ((\<forall>i. verdict_at E rt ns' name i t = None) \<longrightarrow> watchResource E rt ns name s = None)"
proof -
  have run: "watchResource E rt ns name s = watchLoop E rt ns' name t"
    using assms by (simp add: watchResource_def bindL_def wrapE_def onErr_def run_basic)
  have "watchLoop E rt ns' name t = None" if "\<forall>i. verdict_at E rt ns' name i t = None"
    using watchLoop_verdict [of E rt ns' name t] that by (cases "watchLoop E rt ns' name t") auto
  then show ?thesis unfolding run using watchLoop_returns by blast
qed

text \<open>A server on which the operation of a node is pending at the first look and done at the second.\<close>

definition demo_watch_node :: "string \<Rightarrow> Node" where
  "demo_watch_node phase =
    \<lparr>n_Namespace = ''talos'', n_Name = ''n1'', n_rv = [], n_Annotations = [], n_Finalizers = [],
     n_DeletionTimestamp = None,
     n_Spec = \<lparr>ns_ClusterRef = ''c1'', ns_Role = NodeRoleWorker, ns_Patches = [], ns_PatchRefs = []\<rparr>,
     n_Operation = None,
     n_Status = \<lparr>nst_Conditions = [],
       nst_Operation = Some \<lparr>nos_op = NodeOperation_zero\<lparr>no_Type := ''Reboot''\<rparr>, nos_Phase = phase,
         nos_Reason = [], nos_Message = [], nos_LastTransitionTime = 5\<rparr>,
       nst_BootID = [], nst_AppliedConfigHash = [], nst_TalosVersion = [], nst_TalosSchematicID = [],
       nst_KubernetesVersions = None, nst_EffectiveConfig = [], nst_PatchHierarchy = []\<rparr>\<rparr>"

definition demo_penv :: penv where
  "demo_penv =
    \<lparr>pe_watch = True, pe_programStart = 5, pe_exec = (\<lambda>h c. ExitOk []), pe_unit = (\<lambda>h c. Inr ()),
     pe_text = (\<lambda>h c. Inr ''talos''),
     pe_node = (\<lambda>h c. Inr (demo_watch_node (if c \<in> set h then NodeOperationPhaseDone else ''Pending''))),
     pe_cluster = (\<lambda>h c. Inl (errorf ''none'')), pe_secret = (\<lambda>h c. Inl (errorf ''none'')),
     pe_yaml = (\<lambda>j. Inr (Marshal j))\<rparr>"

definition demo_pst :: pst where
  "demo_pst = \<lparr>ps_hist = [], ps_namespace = [], ps_spinnerTick = 0\<rparr>"

definition demo_pclient :: pst where
  "demo_pclient = snd (getKubernetesClient_plugin demo_penv demo_pst)"

lemma demo_looks:
  "getKubernetesClient_plugin demo_penv demo_pst = (Ok ''talos'', demo_pclient)"
  "verdict_at demo_penv nodesResource ''talos'' ''n1'' 0 demo_pclient = None"
  "verdict_at demo_penv nodesResource ''talos'' ''n1'' 1 demo_pclient = Some (Ok ())"
proof -
  show c: "getKubernetesClient_plugin demo_penv demo_pst = (Ok ''talos'', demo_pclient)"
    by (simp add: demo_pclient_def getKubernetesClient_plugin_def demo_penv_def go_eval run_pask)
  have h: "PGetNode ''talos'' ''n1'' \<notin> set (ps_hist demo_pclient)"
    by (simp add: demo_pclient_def getKubernetesClient_plugin_def demo_penv_def demo_pst_def go_eval run_pask)
  then show "verdict_at demo_penv nodesResource ''talos'' ''n1'' 0 demo_pclient = None"
    by (simp add: verdict_at_def polled_simps reading_def demo_penv_def op_verdict_def nodeOp_def
        demo_watch_node_def const_defs)
  have "PGetNode ''talos'' ''n1'' \<in> set (ps_hist (snd (watchStep demo_penv nodesResource ''talos'' ''n1'' demo_pclient)))"
    using h by (simp add: watchStep_def watchOperation_def renderSpinnerLine_def nodeOp_def demo_penv_def
        demo_watch_node_def const_defs go_eval run_pask Let_def)
  then show "verdict_at demo_penv nodesResource ''talos'' ''n1'' 1 demo_pclient = Some (Ok ())"
    by (simp add: verdict_at_def polled_simps reading_def demo_penv_def op_verdict_def nodeOp_def
        demo_watch_node_def const_defs)
qed

theorem watchResource_first_verdict_witness:
  "\<exists>s'. watchResource demo_penv nodesResource [] ''n1'' demo_pst = Some (Ok (), s')"
  using watchResource_first_verdict [OF demo_looks(1) refl, where rt = nodesResource and ns = "[]" and k = "Suc 0"
      and name = "''n1''" and r = "Ok ()"] demo_looks(2,3)
  by (simp add: less_Suc_eq)

section \<open>Temporary files\<close>

text \<open>\<^verbatim>\<open>os.CreateTemp\<close>, with the name it is answered with on record.\<close>

definition createTemp :: "penv \<Rightarrow> string \<Rightarrow> string plug" where
  "createTemp E pattern =
    bindE (pask (pe_text E) (CreateTemp pattern)) (\<lambda>f. andThen (pdo (TempFile f)) (ret f))"

text \<open>
  The temporary files that are left after some calls, if those of \<open>F\<close> were there before.
  \<open>tidy\<close>: the calls in between leave no file that was not there before, whatever was
  there; \<open>closes f\<close>: nor the file \<open>f\<close>.
\<close>

fun track :: "pcall \<Rightarrow> string set \<Rightarrow> string set" where
  "track (TempFile f) F = insert f F"
| "track (RemoveTemp f) F = F - {f}"
| "track _ F = F"

definition left_over :: "pcall list \<Rightarrow> string set \<Rightarrow> string set" where
  "left_over = foldr track"

definition tidy :: "pst \<Rightarrow> pst \<Rightarrow> bool" where
  "tidy s s' \<longleftrightarrow> (\<exists>cs. ps_hist s' = cs @ ps_hist s \<and> (\<forall>F. left_over cs F \<subseteq> F))"

definition closes :: "string \<Rightarrow> pst \<Rightarrow> pst \<Rightarrow> bool" where
  "closes f s s' \<longleftrightarrow> (\<exists>cs. ps_hist s' = cs @ ps_hist s \<and> (\<forall>F. left_over cs F \<subseteq> F - {f}))"

lemma left_over_simps [simp]:
  "left_over [] F = F" "left_over (c # cs) F = track c (left_over cs F)"
  "left_over (as @ bs) F = left_over as (left_over bs F)"
  by (simp_all add: left_over_def)

lemma tidyI: "ps_hist s' = cs @ ps_hist s \<Longrightarrow> (\<And>F. left_over cs F \<subseteq> F) \<Longrightarrow> tidy s s'"
  by (auto simp: tidy_def)

interpretation tidy: preorder_steps tidy
proof
  show "tidy s s" for s by (rule tidyI [of _ "[]"]) simp_all
next
  fix s t u
  assume "tidy s t" "tidy t u"
  then obtain as bs where cs: "ps_hist u = bs @ as @ ps_hist s" "\<And>F. left_over as F \<subseteq> F" "\<And>F. left_over bs F \<subseteq> F"
    by (auto simp: tidy_def)
  show "tidy s u" by (rule tidyI [of _ "bs @ as"]) (use cs in \<open>auto dest: subsetD\<close>)
qed

lemma closes_tidy: "closes f s t \<Longrightarrow> tidy t u \<Longrightarrow> closes f s u"
proof -
  assume "closes f s t" "tidy t u"
  then obtain as bs where cs: "ps_hist u = (bs @ as) @ ps_hist s" "\<And>F. left_over as F \<subseteq> F - {f}" "\<And>F. left_over bs F \<subseteq> F"
    by (auto simp: tidy_def closes_def)
  then show ?thesis unfolding closes_def by (intro exI [of _ "bs @ as"]) (auto dest!: subsetD)
qed

lemma tidy_closes: "tidy s t \<Longrightarrow> closes f t u \<Longrightarrow> closes f s u"
proof -
  assume "tidy s t" "closes f t u"
  then obtain as bs where cs: "ps_hist u = (bs @ as) @ ps_hist s" "\<And>F. left_over as F \<subseteq> F" "\<And>F. left_over bs F \<subseteq> F - {f}"
    by (auto simp: tidy_def closes_def)
  then show ?thesis unfolding closes_def by (intro exI [of _ "bs @ as"]) (auto dest!: subsetD)
qed

lemma deferred_state: "snd (deferred m d s) = snd (d (snd (m s)))"
  by (auto simp: deferred_def split: prod.splits outcome.splits)

lemma closes_deferred:
  "steps tidy m \<Longrightarrow> steps (closes f) d \<Longrightarrow> steps (closes f) (deferred m d)"
  "steps (closes f) m \<Longrightarrow> steps tidy d \<Longrightarrow> steps (closes f) (deferred m d)"
  by (auto simp: steps_def deferred_state intro: tidy_closes closes_tidy)

definition opens_nothing :: "pcall \<Rightarrow> bool" where
  "opens_nothing c \<longleftrightarrow> (\<forall>f. c \<noteq> TempFile f)"

lemma track_opens_nothing: "opens_nothing c \<Longrightarrow> track c F \<subseteq> F"
  by (cases c) (auto simp: opens_nothing_def)

lemma tidy_pask: "opens_nothing c \<Longrightarrow> steps tidy (pask f c)"
  by (rule stepsI, rule tidyI [of _ "[c]"]) (simp_all add: run_pask track_opens_nothing)

lemma tidy_pdo: "opens_nothing c \<Longrightarrow> steps tidy (pdo c)"
  by (rule stepsI, rule tidyI [of _ "[c]"]) (simp_all add: run_pask track_opens_nothing)

lemma tidy_exec: "steps tidy (prun E prog args env)" "steps tidy (Output E prog args env)" "steps tidy (Run E prog args env)"
  by (rule stepsI, auto simp: run_prun run_Output run_Run Let_def intro!: tidyI [of _ "[Exec prog args env]"])+

lemma tidy_plift: "steps tidy (plift r)"
  by (cases r) (simp_all add: plift_def tidy.basic)

lemma tidy_arg: "steps tidy (arg args i)"
  by (simp add: arg_def tidy.basic)

lemma closes_remove: "steps (closes f) (pask g (RemoveTemp f))"
  by (rule stepsI) (auto simp: run_pask closes_def intro!: exI [of _ "[RemoveTemp f]"])

lemma tidy_createTemp:
  assumes "\<And>f. steps (closes f) (k f)"
  shows "steps tidy (bindE (wrapE pre (createTemp E pattern)) k)"
proof (rule stepsI)
  fix s
  show "tidy s (snd (bindE (wrapE pre (createTemp E pattern)) k s))"
  proof (cases "pe_text E (ps_hist s) (CreateTemp pattern)")
    case (Inl e)
    then show ?thesis
      by (auto simp: createTemp_def go_eval run_pask intro!: tidyI [of _ "[CreateTemp pattern]"])
  next
    case (Inr f)
    let ?t = "record_call (TempFile f) (record_call (CreateTemp pattern) s)"
    from assms [of f] obtain cs where cs: "ps_hist (snd (k f ?t)) = cs @ ps_hist ?t" "\<And>F. left_over cs F \<subseteq> F - {f}"
      unfolding steps_def closes_def by blast
    have "snd (bindE (wrapE pre (createTemp E pattern)) k s) = snd (k f ?t)"
      using Inr by (simp add: createTemp_def go_eval run_pask)
    moreover have "left_over (cs @ [TempFile f, CreateTemp pattern]) F \<subseteq> F" for F
      using cs(2) [of "insert f F"] by auto
    ultimately show ?thesis using cs(1) by (intro tidyI [of _ "cs @ [TempFile f, CreateTemp pattern]"]) auto
  qed
qed

lemmas tidy_steps = tidy.structural tidy_pask tidy_pdo tidy_exec tidy_plift tidy_arg tidy_createTemp

lemma tidy_getKubernetesClient_plugin: "steps tidy (getKubernetesClient_plugin E)"
  unfolding getKubernetesClient_plugin_def by (intro tidy_steps) (simp_all add: opens_nothing_def)

end
