(* ===== verification/PluginOps.thy ===== *)
theory PluginOps
  imports Plugin
begin

text \<open>
  The commands of the kubectl plugin that request an operation on a node or a cluster: they
  write a merge patch with the operation, hand it to kubectl, and watch the operation.
\<close>

section \<open>The patch\<close>

text \<open>
  The commands below share these steps, which the code repeats in each of them: the merge
  patch as text, the arguments of kubectl, its run, and the watch if asked for.
\<close>

definition patchArgs :: "string \<Rightarrow> string \<Rightarrow> string \<Rightarrow> KV \<Rightarrow> string list" where
  "patchArgs ns resource name data =
    in_namespace ns [''patch'', resource, name, ''--type=merge'', ''--patch'', Marshal (JObj data)]"

definition runPatch :: "penv \<Rightarrow> string \<Rightarrow> string \<Rightarrow> KV \<Rightarrow> unit plug" where
  "runPatch E resource name data = bindE (gets ps_namespace) (\<lambda>ns.
    wrapE ''error running kubectl'' (Run E ''kubectl'' (patchArgs ns resource name data) []))"

definition patchAndWatch :: "penv \<Rightarrow> string \<Rightarrow> string \<Rightarrow> KV \<Rightarrow> unit plugin_loop" where
  "patchAndWatch E resource name data =
    bindL (runPatch E resource name data) (\<lambda>_.
    if pe_watch E then
      (\<lambda>s. wrapL ''error watching operation'' (watchResource E resource (ps_namespace s) name) s)
    else once (ret ()))"

section \<open>Commands that request an operation\<close>

definition unsafeOptions :: "bool \<Rightarrow> KV \<Rightarrow> KV" where
  "unsafeOptions unsafe op =
    (if unsafe then map_set op ''options'' (JObj [(''unsafe'', JBool True)]) else op)"

text \<open>\<^verbatim>\<open>cmd_apply.go\<close>\<close>

definition applyNodeCmd :: "penv \<Rightarrow> bool \<Rightarrow> string list \<Rightarrow> unit plugin_loop" where
  "applyNodeCmd E unsafe args =
    bindL (arg args 0) (\<lambda>nodeName.
    let applyOp = unsafeOptions unsafe [(''type'', JStr ''Apply'')] in
    patchAndWatch E nodesResource nodeName [(''operation'', JObj applyOp)])"

text \<open>\<^verbatim>\<open>cmd_bootstrap.go\<close>: no watch.\<close>

definition bootstrapNodeCmd :: "penv \<Rightarrow> string list \<Rightarrow> unit plugin_loop" where
  "bootstrapNodeCmd E args =
    bindL (arg args 0) (\<lambda>node. once
    (if node = [] then fail (errorf ''node must be provided'')
     else runPatch E nodesResource node [(''operation'', JObj [(''type'', JStr ''Bootstrap'')])]))"

text \<open>\<^verbatim>\<open>cmd_k8s-upgrade.go\<close>, \<^verbatim>\<open>cmd_rolling_apply.go\<close>, \<^verbatim>\<open>cmd_rolling_reboot.go\<close>\<close>

definition k8sUpgradeClusterCmd :: "penv \<Rightarrow> string list \<Rightarrow> unit plugin_loop" where
  "k8sUpgradeClusterCmd E args =
    bindL (arg args 0) (\<lambda>clusterName.
    patchAndWatch E clustersResource clusterName
      [(''operation'', JObj [(''type'', JStr ''KubernetesUpgrade'')])])"

definition rollingApplyClusterCmd :: "penv \<Rightarrow> string list \<Rightarrow> unit plugin_loop" where
  "rollingApplyClusterCmd E args =
    bindL (arg args 0) (\<lambda>clusterName.
    patchAndWatch E clustersResource clusterName
      [(''operation'', JObj [(''type'', JStr ''RollingApply'')])])"

definition rollingRebootClusterCmd :: "penv \<Rightarrow> string list \<Rightarrow> unit plugin_loop" where
  "rollingRebootClusterCmd E args =
    bindL (arg args 0) (\<lambda>clusterName.
    patchAndWatch E clustersResource clusterName
      [(''operation'', JObj [(''type'', JStr ''RollingReboot'')])])"

text \<open>\<^verbatim>\<open>cmd_power.go\<close>\<close>

definition runPowerCmd :: "penv \<Rightarrow> string \<Rightarrow> string \<Rightarrow> bool \<Rightarrow> unit plugin_loop" where
  "runPowerCmd E nodeName opType unsafe =
    (let op = unsafeOptions unsafe [(''type'', JStr opType)] in
     patchAndWatch E nodesResource nodeName [(''operation'', JObj op)])"

definition rebootNodeCmd :: "penv \<Rightarrow> bool \<Rightarrow> string list \<Rightarrow> unit plugin_loop" where
  "rebootNodeCmd E unsafe args = bindL (arg args 0) (\<lambda>nodeName. runPowerCmd E nodeName ''Reboot'' unsafe)"

definition shutdownNodeCmd :: "penv \<Rightarrow> bool \<Rightarrow> string list \<Rightarrow> unit plugin_loop" where
  "shutdownNodeCmd E unsafe args = bindL (arg args 0) (\<lambda>nodeName. runPowerCmd E nodeName ''Shutdown'' unsafe)"

text \<open>\<^verbatim>\<open>cmd_provision.go\<close>\<close>

definition provisionNodeCmd :: "penv \<Rightarrow> bool \<Rightarrow> string list \<Rightarrow> unit plugin_loop" where
  "provisionNodeCmd E skip args =
    bindL (arg args 0) (\<lambda>nodeName.
    if nodeName = [] then once (fail (errorf ''node must be provided''))
    else let address = (if 1 < length args then args ! 1 else []) in
    if \<not> skip \<and> address = [] then once (fail (errorf ''address must be provided when --skip is not set''))
    else
      let provisionOpts = [];
          provisionOpts = (if address \<noteq> [] then map_set provisionOpts ''address'' (JStr address) else provisionOpts);
          provisionOpts = (if skip then map_set provisionOpts ''skip'' (JBool True) else provisionOpts)
      in patchAndWatch E nodesResource nodeName
        [(''operation'', JObj [(''type'', JStr ''Provision''), (''provision'', JObj provisionOpts)])])"

text \<open>
  \<^verbatim>\<open>cmd_reset.go\<close>: the flags of the command, and the names of those that the command
  line sets.
\<close>

record resetFlags =
  rf_wipeMode :: string
  rf_systemLabelsToWipe :: "string list"
  rf_userDisksToWipe :: "string list"
  rf_reboot :: bool
  rf_graceful :: bool
  rf_unsafe :: bool
  rf_cloudReset :: bool
  rf_changed :: "string list"

definition resetOptions :: "resetFlags \<Rightarrow> KV" where
  "resetOptions f =
    (let systemLabelsToWipe =
           (if rf_cloudReset f then [''STATE'', ''EPHEMERAL''] else rf_systemLabelsToWipe f);
         opts = [];
         opts = (if ''wipe-mode'' \<in> set (rf_changed f) then map_set opts ''mode'' (JStr (rf_wipeMode f)) else opts);
         opts = (if 0 < length systemLabelsToWipe
                 then map_set opts ''systemLabelsToWipe'' (JArr (map JStr systemLabelsToWipe)) else opts);
         opts = (if 0 < length (rf_userDisksToWipe f)
                 then map_set opts ''userDisksToWipe'' (JArr (map JStr (rf_userDisksToWipe f))) else opts);
         opts = (if ''reboot'' \<in> set (rf_changed f) then map_set opts ''reboot'' (JBool (rf_reboot f)) else opts);
         opts = (if ''graceful'' \<in> set (rf_changed f) then map_set opts ''graceful'' (JBool (rf_graceful f)) else opts)
     in opts)"

definition resetNodeCmd :: "penv \<Rightarrow> resetFlags \<Rightarrow> string list \<Rightarrow> unit plugin_loop" where
  "resetNodeCmd E f args =
    bindL (arg args 0) (\<lambda>nodeName.
    let resetOp = unsafeOptions (rf_unsafe f) [(''type'', JStr ''Reset'')];
        resetOp = (if 0 < length (resetOptions f)
                   then map_set resetOp ''reset'' (JObj (resetOptions f)) else resetOp)
    in patchAndWatch E nodesResource nodeName [(''operation'', JObj resetOp)])"

text \<open>
  Which command of these the command line names, with its flags, and its function, as
  \<^verbatim>\<open>rootCommand\<close> registers them.
\<close>

datatype op_cmd =
    OpApply bool
  | OpBootstrap
  | OpReboot bool
  | OpShutdown bool
  | OpProvision bool
  | OpReset resetFlags
  | OpRollingApply
  | OpRollingReboot
  | OpK8sUpgrade

fun runOp :: "penv \<Rightarrow> op_cmd \<Rightarrow> string list \<Rightarrow> unit plugin_loop" where
  "runOp E (OpProvision skip) args = provisionNodeCmd E skip args"
| "runOp E OpBootstrap args = bootstrapNodeCmd E args"
| "runOp E (OpApply unsafe) args = applyNodeCmd E unsafe args"
| "runOp E (OpReset f) args = resetNodeCmd E f args"
| "runOp E (OpReboot unsafe) args = rebootNodeCmd E unsafe args"
| "runOp E (OpShutdown unsafe) args = shutdownNodeCmd E unsafe args"
| "runOp E OpRollingApply args = rollingApplyClusterCmd E args"
| "runOp E OpRollingReboot args = rollingRebootClusterCmd E args"
| "runOp E OpK8sUpgrade args = k8sUpgradeClusterCmd E args"

section \<open>Operations from JSON\<close>

text \<open>
  How the objects of \<^verbatim>\<open>api/v1alpha1\<close> are read from JSON, by the tags of their fields: a
  missing or null field has the zero value, a value of another type is an error.
\<close>

definition jfield :: "(json \<Rightarrow> 'a option) \<Rightarrow> 'a \<Rightarrow> KV \<Rightarrow> string \<Rightarrow> 'a option" where
  "jfield dec zero m k =
    (case map_of m k of None \<Rightarrow> Some zero | Some v \<Rightarrow> if v = JNull then Some zero else dec v)"

fun dec_string :: "json \<Rightarrow> string option" where
  "dec_string (JStr s) = Some s"
| "dec_string _ = None"

fun dec_bool :: "json \<Rightarrow> bool option" where
  "dec_bool (JBool b) = Some b"
| "dec_bool _ = None"

fun dec_strings :: "json \<Rightarrow> string list option" where
  "dec_strings (JArr js) = those (map (\<lambda>j. if j = JNull then Some [] else dec_string j) js)"
| "dec_strings _ = None"

fun dec_struct :: "(KV \<Rightarrow> 'a option) \<Rightarrow> json \<Rightarrow> 'a option" where
  "dec_struct f (JObj m) = f m"
| "dec_struct f _ = None"

definition dec_NodeOperationOptions :: "KV \<Rightarrow> NodeOperationOptions option" where
  "dec_NodeOperationOptions m =
    map_option (\<lambda>unsafe. \<lparr>noo_Unsafe = unsafe\<rparr>) (jfield dec_bool False m ''unsafe'')"

definition dec_ProvisionOperationOptions :: "KV \<Rightarrow> ProvisionOperationOptions option" where
  "dec_ProvisionOperationOptions m =
    Option.bind (jfield dec_string [] m ''address'') (\<lambda>address.
    Option.bind (jfield dec_bool False m ''skip'') (\<lambda>skip.
    Some \<lparr>poo_Address = address, poo_Skip = skip\<rparr>))"

definition dec_ResetOperationOptions :: "KV \<Rightarrow> ResetOperationOptions option" where
  "dec_ResetOperationOptions m =
    Option.bind (jfield dec_string [] m ''mode'') (\<lambda>mode.
    Option.bind (jfield dec_bool False m ''reboot'') (\<lambda>reboot.
    Option.bind (jfield (map_option Some \<circ> dec_bool) None m ''graceful'') (\<lambda>graceful.
    Option.bind (jfield dec_strings [] m ''systemLabelsToWipe'') (\<lambda>labels.
    Option.bind (jfield dec_strings [] m ''userDisksToWipe'') (\<lambda>disks.
    Some \<lparr>roo_Mode = mode, roo_Reboot = reboot, roo_Graceful = graceful,
      roo_SystemLabelsToWipe = labels, roo_UserDisksToWipe = disks\<rparr>)))))"

definition dec_KubernetesComponentUpgradeOptions :: "KV \<Rightarrow> KubernetesComponentUpgradeOptions option" where
  "dec_KubernetesComponentUpgradeOptions m =
    map_option (\<lambda>name. \<lparr>kcu_ComponentName = name\<rparr>) (jfield dec_string [] m ''componentName'')"

definition dec_NodeOperation :: "KV \<Rightarrow> NodeOperation option" where
  "dec_NodeOperation m =
    Option.bind (jfield dec_string [] m ''type'') (\<lambda>type.
    Option.bind (jfield (dec_struct dec_NodeOperationOptions) NodeOperationOptions_zero m ''options'') (\<lambda>options.
    Option.bind (jfield (dec_struct dec_ProvisionOperationOptions) ProvisionOperationOptions_zero m ''provision'') (\<lambda>provision.
    Option.bind (jfield (dec_struct dec_ResetOperationOptions) ResetOperationOptions_zero m ''reset'') (\<lambda>reset.
    Option.bind (jfield (dec_struct dec_KubernetesComponentUpgradeOptions) \<lparr>kcu_ComponentName = []\<rparr> m
      ''kubernetesComponentUpgrade'') (\<lambda>upgrade.
    Some \<lparr>no_Type = type, no_Options = options, no_Provision = provision, no_Reset = reset,
      no_KubernetesComponentUpgrade = upgrade\<rparr>)))))"

definition dec_ClusterOperation :: "KV \<Rightarrow> ClusterOperation option" where
  "dec_ClusterOperation m = map_option (\<lambda>type. \<lparr>cop_Type = type\<rparr>) (jfield dec_string [] m ''type'')"

section \<open>What the commands request\<close>

text \<open>
  The resource, the name of the object and the operation that a command line asks for, and
  the command lines that are complete. The specification of these commands.
\<close>

definition node_op :: "string \<Rightarrow> bool \<Rightarrow> NodeOperation" where
  "node_op type unsafe =
    NodeOperation_zero\<lparr>no_Type := type, no_Options := \<lparr>noo_Unsafe = unsafe\<rparr>\<rparr>"

definition reset_labels :: "resetFlags \<Rightarrow> string list" where
  "reset_labels f = (if rf_cloudReset f then [''STATE'', ''EPHEMERAL''] else rf_systemLabelsToWipe f)"

definition given :: "resetFlags \<Rightarrow> string \<Rightarrow> 'a \<Rightarrow> 'a \<Rightarrow> 'a" where
  "given f flag v unset = (if flag \<in> set (rf_changed f) then v else unset)"

fun requested :: "op_cmd \<Rightarrow> string list \<Rightarrow> NodeOperation + ClusterOperation" where
  "requested (OpApply unsafe) args = Inl (node_op NodeOperationTypeApply unsafe)"
| "requested OpBootstrap args = Inl (node_op NodeOperationTypeBootstrap False)"
| "requested (OpReboot unsafe) args = Inl (node_op NodeOperationTypeReboot unsafe)"
| "requested (OpShutdown unsafe) args = Inl (node_op NodeOperationTypeShutdown unsafe)"
| "requested (OpProvision skip) args =
    Inl ((node_op NodeOperationTypeProvision False)
      \<lparr>no_Provision := \<lparr>poo_Address = concat (tl args), poo_Skip = skip\<rparr>\<rparr>)"
| "requested (OpReset f) args =
    Inl ((node_op NodeOperationTypeReset (rf_unsafe f))\<lparr>no_Reset :=
      \<lparr>roo_Mode = given f ''wipe-mode'' (rf_wipeMode f) [],
       roo_Reboot = given f ''reboot'' (rf_reboot f) False,
       roo_Graceful = given f ''graceful'' (Some (rf_graceful f)) None,
       roo_SystemLabelsToWipe = reset_labels f,
       roo_UserDisksToWipe = rf_userDisksToWipe f\<rparr>\<rparr>)"
| "requested OpRollingApply args = Inr \<lparr>cop_Type = ClusterOperationTypeRollingApply\<rparr>"
| "requested OpRollingReboot args = Inr \<lparr>cop_Type = ClusterOperationTypeRollingReboot\<rparr>"
| "requested OpK8sUpgrade args = Inr \<lparr>cop_Type = ClusterOperationTypeKubernetesUpgrade\<rparr>"

definition resource_of :: "NodeOperation + ClusterOperation \<Rightarrow> string" where
  "resource_of op = (case op of Inl _ \<Rightarrow> nodesResource | Inr _ \<Rightarrow> clustersResource)"

text \<open>The number of arguments that cobra lets through to the command.\<close>

fun arity_ok :: "op_cmd \<Rightarrow> string list \<Rightarrow> bool" where
  "arity_ok (OpProvision skip) args \<longleftrightarrow> length args \<in> {1, 2}"
| "arity_ok c args \<longleftrightarrow> length args = 1"

fun complete_args :: "op_cmd \<Rightarrow> string list \<Rightarrow> bool" where
  "complete_args (OpProvision skip) args \<longleftrightarrow> hd args \<noteq> [] \<and> (skip \<or> concat (tl args) \<noteq> [])"
| "complete_args OpBootstrap args \<longleftrightarrow> hd args \<noteq> []"
| "complete_args c args \<longleftrightarrow> True"

definition watched :: "op_cmd \<Rightarrow> bool" where
  "watched c \<longleftrightarrow> c \<noteq> OpBootstrap"

definition is_utf8 :: "string \<Rightarrow> bool" where
  "is_utf8 s \<longleftrightarrow> utf8_clean s = s"

fun texts :: "op_cmd \<Rightarrow> string list \<Rightarrow> string list" where
  "texts (OpReset f) args = args @ rf_wipeMode f # rf_systemLabelsToWipe f @ rf_userDisksToWipe f"
| "texts c args = args"

text \<open>
  How kubectl reads the arguments of such a patch: the namespace (empty for the default one),
  the resource, the name of the object and the patch; and the operation in that patch.
\<close>

definition kubectl_patch :: "string list \<Rightarrow> (string \<times> string \<times> string \<times> json) option" where
  "kubectl_patch args =
    (let flagged = (2 \<le> length args \<and> hd args = ''-n'');
         ns = (if flagged then args ! 1 else []); rest = (if flagged then drop 2 args else args)
     in case rest of
          [cmd, resource, name, type, flag, data] \<Rightarrow>
            if cmd = ''patch'' \<and> type = ''--type=merge'' \<and> flag = ''--patch''
            then map_option (\<lambda>j. (ns, resource, name, j)) (Unmarshal data) else None
        | _ \<Rightarrow> None)"

definition operation_in :: "string \<Rightarrow> json \<Rightarrow> (NodeOperation + ClusterOperation) option" where
  "operation_in resource j =
    dec_struct (\<lambda>m. case map_of m ''operation'' of
        None \<Rightarrow> None
      | Some op \<Rightarrow>
         if resource = nodesResource then map_option Inl (dec_struct dec_NodeOperation op)
         else if resource = clustersResource then map_option Inr (dec_struct dec_ClusterOperation op)
         else None) j"

section \<open>Laws of decoding\<close>

lemma utf8_clean_ascii: "list_all (\<lambda>c. of_char c < (0x80 :: nat)) s \<Longrightarrow> utf8_clean s = s"
proof (induction s)
  case Nil
  then show ?case by (simp add: utf8_clean.simps)
next
  case (Cons c s)
  then show ?case by (subst utf8_clean.simps) simp
qed

lemma set_map_set: "set (map_set m k v) \<subseteq> insert (k, v) (set m)"
  by (induction m k v rule: map_set.induct) auto

lemma wf_keys_map_set:
  "wf_keys (JObj m) \<Longrightarrow> utf8_clean k = k \<Longrightarrow> wf_keys v \<Longrightarrow> wf_keys (JObj (map_set m k v))"
  using set_map_set [of m k v] by (auto simp: distinct_map_set)

lemma canon_JNull [simp]: "canon v = JNull \<longleftrightarrow> v = JNull"
  by (cases v) auto

lemma map_of_canon:
  assumes "distinct (map fst m)"
  shows "map_of (sort_func key_before (map (\<lambda>(k, v). (k, canon v)) m)) k = map_option canon (map_of m k)"
proof -
  have "map fst (map (\<lambda>(k, v). (k, canon v)) m) = map fst m" by auto
  then have d: "distinct (map fst (map (\<lambda>(k, v). (k, canon v)) m))" using assms by (simp only:)
  show ?thesis unfolding map_of_sort_key [OF d] map_of_map by simp
qed

lemma jfield_canon:
  assumes "distinct (map fst m)"
  shows "jfield dec z (sort_func key_before (map (\<lambda>(k, v). (k, canon v)) m)) k = jfield (dec \<circ> canon) z m k"
  by (simp add: jfield_def map_of_canon [OF assms] split: option.split)

lemma jfield_map_set:
  "jfield dec z (map_set m k v) k' =
    (if k = k' then (if v = JNull then Some z else dec v) else jfield dec z m k')"
  by (simp add: jfield_def)

lemma jfield_if: "jfield dec z (if b then m else m') k = (if b then jfield dec z m k else jfield dec z m' k)"
  by simp

lemma jfield_Nil [simp]: "jfield dec z [] k = Some z"
  by (simp add: jfield_def)

lemma jfield_Cons:
  "jfield dec z ((k, v) # m) k' =
    (if k = k' then (if v = JNull then Some z else dec v) else jfield dec z m k')"
  by (simp add: jfield_def)

lemma those_map_Some: "(\<And>x. x \<in> set xs \<Longrightarrow> f x = Some (g x)) \<Longrightarrow> those (map f xs) = Some (map g xs)"
  by (induction xs) auto

lemma dec_strings_canon:
  "(\<And>s. s \<in> set ss \<Longrightarrow> utf8_clean s = s) \<Longrightarrow> dec_strings (canon (JArr (map JStr ss))) = Some ss"
  using those_map_Some [of ss "\<lambda>s. Some (utf8_clean s)" utf8_clean]
  by (auto simp: comp_def map_idI)

section \<open>The patch of each command\<close>

text \<open>The operation that a command puts into its patch.\<close>

fun op_data :: "op_cmd \<Rightarrow> string list \<Rightarrow> KV" where
  "op_data (OpApply unsafe) args = unsafeOptions unsafe [(''type'', JStr ''Apply'')]"
| "op_data OpBootstrap args = [(''type'', JStr ''Bootstrap'')]"
| "op_data (OpReboot unsafe) args = unsafeOptions unsafe [(''type'', JStr ''Reboot'')]"
| "op_data (OpShutdown unsafe) args = unsafeOptions unsafe [(''type'', JStr ''Shutdown'')]"
| "op_data (OpProvision skip) args =
    [(''type'', JStr ''Provision''),
     (''provision'', JObj ((if concat (tl args) \<noteq> [] then [(''address'', JStr (concat (tl args)))] else [])
        @ (if skip then [(''skip'', JBool True)] else [])))]"
| "op_data (OpReset f) args =
    (let op = unsafeOptions (rf_unsafe f) [(''type'', JStr ''Reset'')] in
     if resetOptions f = [] then op else map_set op ''reset'' (JObj (resetOptions f)))"
| "op_data OpRollingApply args = [(''type'', JStr ''RollingApply'')]"
| "op_data OpRollingReboot args = [(''type'', JStr ''RollingReboot'')]"
| "op_data OpK8sUpgrade args = [(''type'', JStr ''KubernetesUpgrade'')]"

definition submit :: "penv \<Rightarrow> bool \<Rightarrow> string \<Rightarrow> string \<Rightarrow> KV \<Rightarrow> unit plugin_loop" where
  "submit E watch resource name data =
    bindL (runPatch E resource name data) (\<lambda>_.
    if watch then
      (\<lambda>s. wrapL ''error watching operation'' (watchResource E resource (ps_namespace s) name) s)
    else once (ret ()))"

lemma patchAndWatch_submit: "patchAndWatch E resource name data = submit E (pe_watch E) resource name data"
  by (simp add: patchAndWatch_def submit_def)

lemma once_submit: "once (runPatch E resource name data) s = submit E False resource name data s"
  by (simp add: submit_def once_def bindL_def run_basic split: prod.split outcome.split)

lemma bindL_arg: "i < length args \<Longrightarrow> bindL (arg args i) k s = k (args ! i) s"
  by (simp add: bindL_def arg_def run_basic)

lemma arity_args: "arity_ok c args \<Longrightarrow> \<exists>name rest. args = name # rest \<and> length rest \<le> 1"
  by (cases c; cases args) auto

lemma runOp_submits:
  assumes "arity_ok c args" and "complete_args c args"
  shows "runOp E c args s =
    submit E (pe_watch E \<and> watched c) (resource_of (requested c args)) (hd args)
      [(''operation'', JObj (op_data c args))] s"
proof -
  obtain name rest where args: "args = name # rest" "length rest \<le> 1" using arity_args [OF assms(1)] by blast
  then have "concat rest = (if rest = [] then [] else rest ! 0)" by (cases rest) auto
  then show ?thesis
    using assms args
    by (cases c)
      (auto simp: bindL_arg Let_def applyNodeCmd_def bootstrapNodeCmd_def rebootNodeCmd_def shutdownNodeCmd_def
        runPowerCmd_def provisionNodeCmd_def resetNodeCmd_def rollingApplyClusterCmd_def
        rollingRebootClusterCmd_def k8sUpgradeClusterCmd_def patchAndWatch_submit once_submit
        watched_def resource_of_def)
qed

lemma wf_keys_if: "wf_keys (JObj m) \<Longrightarrow> wf_keys (JObj m') \<Longrightarrow> wf_keys (JObj (if b then m else m'))"
  by simp

lemma wf_resetOptions: "wf_keys (JObj (resetOptions f))"
  unfolding resetOptions_def Let_def
  by (intro wf_keys_if wf_keys_map_set) (simp_all add: utf8_clean_ascii)

lemma wf_unsafeOptions: "wf_keys (JObj m) \<Longrightarrow> wf_keys (JObj (unsafeOptions unsafe m))"
  unfolding unsafeOptions_def
  by (intro wf_keys_if wf_keys_map_set) (simp_all add: utf8_clean_ascii)

lemma wf_op_data: "wf_keys (JObj (op_data c args))"
proof -
  have typed: "wf_keys (JObj [(''type'', JStr t)])" for t by (simp add: utf8_clean_ascii)
  note unsafe = wf_unsafeOptions [OF typed]
  show ?thesis
  proof (cases c)
    case (OpReset f)
    then show ?thesis
      unfolding OpReset op_data.simps Let_def
      by (intro wf_keys_if wf_keys_map_set unsafe wf_resetOptions) (simp add: utf8_clean_ascii)
  next
    case (OpProvision skip)
    then show ?thesis by (simp add: utf8_clean_ascii)
  qed (simp_all only: op_data.simps typed unsafe)
qed

lemma wf_patch: "wf_keys (JObj [(''operation'', JObj (op_data c args))])"
  using wf_op_data [of c args] by (simp add: utf8_clean_ascii)

lemma kubectl_patch_args:
  "wf_keys (JObj data) \<Longrightarrow>
   kubectl_patch (patchArgs ns resource name data) = Some (ns, resource, name, canon (JObj data))"
  by (simp add: kubectl_patch_def patchArgs_def in_namespace_def Unmarshal_Marshal
      del: canon.simps Marshal.simps wf_keys.simps)

text \<open>Decoding the operation of a patch.\<close>

lemma dec_canon_unsafe:
  "dec_struct dec_NodeOperationOptions (canon (JObj [(''unsafe'', JBool True)])) = Some \<lparr>noo_Unsafe = True\<rparr>"
  by (simp add: dec_NodeOperationOptions_def jfield_Cons)

lemma dec_canon_provision:
  assumes "utf8_clean address = address"
  shows "dec_struct dec_ProvisionOperationOptions
      (canon (JObj ((if address \<noteq> [] then [(''address'', JStr address)] else [])
        @ (if skip then [(''skip'', JBool True)] else [])))) =
    Some \<lparr>poo_Address = address, poo_Skip = skip\<rparr>"
  using assms
  by (cases "address = []"; cases skip) (simp_all add: dec_ProvisionOperationOptions_def jfield_canon jfield_Cons)

lemma dec_canon_reset:
  assumes "utf8_clean (rf_wipeMode f) = rf_wipeMode f"
    and "\<forall>s\<in>set (rf_systemLabelsToWipe f). utf8_clean s = s"
    and "\<forall>s\<in>set (rf_userDisksToWipe f). utf8_clean s = s"
  shows "dec_struct dec_ResetOperationOptions (canon (JObj (resetOptions f))) =
    Some \<lparr>roo_Mode = given f ''wipe-mode'' (rf_wipeMode f) [],
      roo_Reboot = given f ''reboot'' (rf_reboot f) False,
      roo_Graceful = given f ''graceful'' (Some (rf_graceful f)) None,
      roo_SystemLabelsToWipe = reset_labels f,
      roo_UserDisksToWipe = rf_userDisksToWipe f\<rparr>"
proof -
  have d: "distinct (map fst (resetOptions f))" using wf_resetOptions [of f] by simp
  have labels: "\<And>s. s \<in> set (reset_labels f) \<Longrightarrow> utf8_clean s = s"
    using assms(2) by (auto simp: reset_labels_def utf8_clean_ascii split: if_splits)
  note field = resetOptions_def Let_def jfield_if jfield_map_set jfield_Cons reset_labels_def [symmetric]
  have "jfield (dec_string \<circ> canon) [] (resetOptions f) ''mode'' = Some (given f ''wipe-mode'' (rf_wipeMode f) [])"
    "jfield (dec_bool \<circ> canon) False (resetOptions f) ''reboot'' = Some (given f ''reboot'' (rf_reboot f) False)"
    "jfield (map_option Some \<circ> dec_bool \<circ> canon) None (resetOptions f) ''graceful'' =
      Some (given f ''graceful'' (Some (rf_graceful f)) None)"
    using assms(1) by (simp_all add: field given_def)
  moreover have "jfield (dec_strings \<circ> canon) [] (resetOptions f) ''systemLabelsToWipe'' = Some (reset_labels f)"
    using dec_strings_canon [OF labels] by (simp add: field del: canon.simps dec_strings.simps)
  moreover have "jfield (dec_strings \<circ> canon) [] (resetOptions f) ''userDisksToWipe'' = Some (rf_userDisksToWipe f)"
    using dec_strings_canon [of "rf_userDisksToWipe f"] assms(3) by (simp add: field del: canon.simps dec_strings.simps)
  ultimately show ?thesis
    by (simp add: dec_ResetOperationOptions_def jfield_canon [OF d])
qed

lemma operation_in_canon:
  "operation_in nodesResource (canon (JObj [(''operation'', JObj op)])) =
    map_option Inl (dec_struct dec_NodeOperation (canon (JObj op)))"
  "operation_in clustersResource (canon (JObj [(''operation'', JObj op)])) =
    map_option Inr (dec_struct dec_ClusterOperation (canon (JObj op)))"
  by (simp_all add: operation_in_def nodesResource_def clustersResource_def)

lemma unsafeOptions_fields:
  "jfield dec z (unsafeOptions unsafe m) k =
    (if unsafe \<and> k = ''options'' then dec (JObj [(''unsafe'', JBool True)]) else jfield dec z m k)"
  by (simp add: unsafeOptions_def jfield_map_set)

lemma dec_NodeOperation_canon:
  assumes "distinct (map fst op)"
    and "jfield (dec_string \<circ> canon) [] op ''type'' = Some type"
    and "jfield (dec_struct dec_NodeOperationOptions \<circ> canon) NodeOperationOptions_zero op ''options'' = Some options"
    and "jfield (dec_struct dec_ProvisionOperationOptions \<circ> canon) ProvisionOperationOptions_zero op ''provision'' = Some provision"
    and "jfield (dec_struct dec_ResetOperationOptions \<circ> canon) ResetOperationOptions_zero op ''reset'' = Some reset"
    and "map_of op ''kubernetesComponentUpgrade'' = None"
  shows "dec_struct dec_NodeOperation (canon (JObj op)) =
    Some (NodeOperation_zero\<lparr>no_Type := type, no_Options := options, no_Provision := provision, no_Reset := reset\<rparr>)"
proof -
  have "jfield (dec_struct dec_KubernetesComponentUpgradeOptions \<circ> canon) z op ''kubernetesComponentUpgrade'' = Some z" for z
    using assms(6) by (simp add: jfield_def)
  then show ?thesis
    using assms(2-5) by (simp add: dec_NodeOperation_def jfield_canon [OF assms(1)] NodeOperation_zero_def)
qed

lemma op_data_fields:
  assumes "\<forall>s\<in>set (texts c args). is_utf8 s" and "arity_ok c args" and "requested c args = Inl op"
  shows "jfield (dec_string \<circ> canon) [] (op_data c args) ''type'' = Some (no_Type op)"
    and "jfield (dec_struct dec_NodeOperationOptions \<circ> canon) NodeOperationOptions_zero (op_data c args) ''options'' =
      Some (no_Options op)"
    and "jfield (dec_struct dec_ProvisionOperationOptions \<circ> canon) ProvisionOperationOptions_zero (op_data c args) ''provision'' =
      Some (no_Provision op)"
    and "jfield (dec_struct dec_ResetOperationOptions \<circ> canon) ResetOperationOptions_zero (op_data c args) ''reset'' =
      Some (no_Reset op)"
    and "map_of (op_data c args) ''kubernetesComponentUpgrade'' = None"
    and "op = NodeOperation_zero\<lparr>no_Type := no_Type op, no_Options := no_Options op,
      no_Provision := no_Provision op, no_Reset := no_Reset op\<rparr>"
proof -
  obtain name rest where args: "args = name # rest" "length rest \<le> 1" using arity_args [OF assms(2)] by blast
  have address: "utf8_clean (concat (tl args)) = concat (tl args)" if "c = OpProvision skip" for skip
    using assms(1) args that by (cases rest) (auto simp: is_utf8_def utf8_clean_ascii)
  have reset: "dec_struct dec_ResetOperationOptions (canon (JObj (resetOptions f))) = Some (no_Reset op)"
    if "c = OpReset f" for f
    using assms that by (subst dec_canon_reset) (auto simp: is_utf8_def)
  have none: "ResetOperationOptions_zero = no_Reset op" if "c = OpReset f" "resetOptions f = []" for f
    using reset [OF that(1)] that(2) by (simp add: dec_ResetOperationOptions_def ResetOperationOptions_zero_def)
  note zero = NodeOperation_zero_def NodeOperationOptions_zero_def node_op_def
  note data = unsafeOptions_fields jfield_Cons jfield_map_set dec_canon_unsafe
  show "jfield (dec_string \<circ> canon) [] (op_data c args) ''type'' = Some (no_Type op)"
    using assms(3) by (cases c) (auto simp: data node_op_def const_defs utf8_clean_ascii Let_def)
  show "jfield (dec_struct dec_NodeOperationOptions \<circ> canon) NodeOperationOptions_zero (op_data c args) ''options'' =
      Some (no_Options op)"
    using assms(3) by (cases c) (auto simp: data zero Let_def simp del: canon.simps)
  show "jfield (dec_struct dec_ProvisionOperationOptions \<circ> canon) ProvisionOperationOptions_zero (op_data c args) ''provision'' =
      Some (no_Provision op)"
  proof (cases c)
    case (OpProvision skip)
    show ?thesis using assms(3) dec_canon_provision [OF address [OF OpProvision], of skip]
      by (auto simp: OpProvision data zero simp del: canon.simps split del: if_split)
  qed (use assms(3) in \<open>auto simp: data zero Let_def simp del: canon.simps\<close>)
  show "jfield (dec_struct dec_ResetOperationOptions \<circ> canon) ResetOperationOptions_zero (op_data c args) ''reset'' =
      Some (no_Reset op)"
  proof (cases c)
    case (OpReset f)
    then show ?thesis using reset [OF OpReset] none [OF OpReset]
      by (auto simp: data Let_def simp del: canon.simps)
  qed (use assms(3) in \<open>auto simp: data zero\<close>)
  show "map_of (op_data c args) ''kubernetesComponentUpgrade'' = None"
    using assms(3) by (cases c) (auto simp: Let_def unsafeOptions_def)
  show "op = NodeOperation_zero\<lparr>no_Type := no_Type op, no_Options := no_Options op,
      no_Provision := no_Provision op, no_Reset := no_Reset op\<rparr>"
    using assms(3) by (cases c) (auto simp: zero)
qed

lemma op_data_decodes:
  assumes "\<forall>s\<in>set (texts c args). is_utf8 s" and "arity_ok c args"
  shows "operation_in (resource_of (requested c args)) (canon (JObj [(''operation'', JObj (op_data c args))])) =
    Some (requested c args)"
proof (cases "requested c args")
  case (Inl op)
  have d: "distinct (map fst (op_data c args))" using wf_op_data [of c args] by simp
  note fields = op_data_fields [OF assms Inl]
  from dec_NodeOperation_canon [OF d fields(1-5)] show ?thesis
    unfolding Inl by (simp add: resource_of_def operation_in_canon fields(6) [symmetric] del: canon.simps)
next
  case (Inr op)
  then show ?thesis
    by (cases c) (auto simp: resource_of_def operation_in_def dec_ClusterOperation_def jfield_Cons const_defs
        nodesResource_def clustersResource_def utf8_clean_ascii)
qed

lemma run_submit:
  "submit E watch resource name data s =
    (let call = Exec ''kubectl'' (patchArgs (ps_namespace s) resource name data) [] in
     case exec_err (pe_exec E (ps_hist s) call) of
       Some e \<Rightarrow> Some (Err (errorf_w ''error running kubectl'' e), record_call call s)
     | None \<Rightarrow>
        if watch then
          wrapL ''error watching operation'' (watchResource E resource (ps_namespace s) name) (record_call call s)
        else Some (Ok (), record_call call s))"
  by (simp add: submit_def bindL_def runPatch_def eval_bindE eval_wrapE run_Run run_basic once_def Let_def
      split: option.split)

lemma runOp_incomplete:
  assumes "arity_ok c args" and "\<not> complete_args c args"
  shows "\<exists>e. runOp E c args s = Some (Err e, s)"
proof -
  obtain name rest where args: "args = name # rest" "length rest \<le> 1" using arity_args [OF assms(1)] by blast
  then have "concat rest = (if rest = [] then [] else rest ! 0)" by (cases rest) auto
  then show ?thesis using assms(2) args
    by (cases c) (auto simp: bindL_arg provisionNodeCmd_def bootstrapNodeCmd_def once_def run_basic Let_def)
qed

lemma runOp_patch:
  assumes "arity_ok c args" and "\<forall>s\<in>set (texts c args). is_utf8 s" and "requested c args = op"
    and "complete_args c args"
  shows "\<exists>kargs j. kubectl_patch kargs = Some (ps_namespace s, resource_of op, hd args, j) \<and>
        operation_in (resource_of op) j = Some op \<and>
        runOp E c args s =
          (case exec_err (pe_exec E (ps_hist s) (Exec ''kubectl'' kargs [])) of
             Some e \<Rightarrow> Some (Err (errorf_w ''error running kubectl'' e), record_call (Exec ''kubectl'' kargs []) s)
           | None \<Rightarrow>
              if pe_watch E \<and> watched c then
                wrapL ''error watching operation'' (watchResource E (resource_of op) (ps_namespace s) (hd args))
                  (record_call (Exec ''kubectl'' kargs []) s)
              else Some (Ok (), record_call (Exec ''kubectl'' kargs []) s))"
proof -
  let ?data = "[(''operation'', JObj (op_data c args))]"
  have "kubectl_patch (patchArgs (ps_namespace s) (resource_of op) (hd args) ?data) =
      Some (ps_namespace s, resource_of op, hd args, canon (JObj ?data))"
    by (rule kubectl_patch_args [OF wf_patch])
  moreover note op_data_decodes [OF assms(2,1)] runOp_submits [OF assms(1,4), of E s]
  ultimately show ?thesis unfolding assms(3) run_submit Let_def
    by (simp del: canon.simps) blast
qed

text \<open>
  C20. A command that requests an operation runs kubectl once, with a merge patch that reads
  back, by the field tags of the API types, as the operation that the command line asks for,
  for the object it names in the namespace of the plugin; all options that are not given are
  absent. If kubectl fails the command fails, otherwise it watches the object if asked to. A
  command line that is incomplete fails before anything is run.
\<close>

theorem runOp_requests:
  assumes "arity_ok c args" and "\<forall>s\<in>set (texts c args). is_utf8 s" and "requested c args = op"
  shows "if complete_args c args then
      \<exists>kargs j. kubectl_patch kargs = Some (ps_namespace s, resource_of op, hd args, j) \<and>
        operation_in (resource_of op) j = Some op \<and>
        runOp E c args s =
          (case exec_err (pe_exec E (ps_hist s) (Exec ''kubectl'' kargs [])) of
             Some e \<Rightarrow> Some (Err (errorf_w ''error running kubectl'' e), record_call (Exec ''kubectl'' kargs []) s)
           | None \<Rightarrow>
              if pe_watch E \<and> watched c then
                wrapL ''error watching operation'' (watchResource E (resource_of op) (ps_namespace s) (hd args))
                  (record_call (Exec ''kubectl'' kargs []) s)
              else Some (Ok (), record_call (Exec ''kubectl'' kargs []) s))
    else \<exists>e. runOp E c args s = Some (Err e, s)"
  using runOp_patch [OF assms] runOp_incomplete [OF assms(1)] by simp

text \<open>A reset of one disk, on a server that takes the patch.\<close>

definition demo_reset_flags :: resetFlags where
  "demo_reset_flags =
    \<lparr>rf_wipeMode = ''user-disks'', rf_systemLabelsToWipe = [], rf_userDisksToWipe = [''/dev/sdb''],
     rf_reboot = False, rf_graceful = True, rf_unsafe = True, rf_cloudReset = False, rf_changed = [''wipe-mode'']\<rparr>"

theorem runOp_requests_witness:
  "\<exists>kargs j. kubectl_patch kargs = Some ([], nodesResource, ''n1'', j) \<and>
     operation_in nodesResource j = Some (requested (OpReset demo_reset_flags) [''n1'']) \<and>
     runOp (demo_penv\<lparr>pe_watch := False\<rparr>) (OpReset demo_reset_flags) [''n1''] demo_pst =
       Some (Ok (), record_call (Exec ''kubectl'' kargs []) demo_pst)"
proof -
  have "\<forall>s\<in>set (texts (OpReset demo_reset_flags) [''n1'']). is_utf8 s"
    by (simp add: demo_reset_flags_def is_utf8_def utf8_clean_ascii)
  from runOp_requests [OF _ this refl, of demo_pst "demo_penv\<lparr>pe_watch := False\<rparr>"] show ?thesis
    by (simp add: demo_penv_def demo_pst_def exec_err_def resource_of_def)
qed

end
