(* ===== verification/PluginCreate.thy ===== *)
theory PluginCreate
  imports PluginOps
begin

text \<open>
  \<^verbatim>\<open>cmd_create.go\<close>: the commands of the kubectl plugin that create clusters and nodes, the
  network patch with its routes, and the application of an object through a temporary file.
  \<^verbatim>\<open>yaml.Marshal\<close> is the parameter \<open>pe_yaml\<close>.
\<close>

section \<open>The network patch\<close>

record networkFlags =
  nf_interfaceName :: string
  nf_addresses :: "string list"
  nf_routes :: "string list"
  nf_mtu :: int

definition parseRoute :: "string \<Rightarrow> go_error + KV" where
  "parseRoute route =
    (let parts = Split route CHR '':'' in
     if length parts < 2 \<or> length parts > 3 then
       Inl (errorf (''invalid route format: '' @ route @ '' (expected network:gateway or network:gateway:metric)''))
     else
       let routeKV = [(''network'', JStr (parts ! 0)), (''gateway'', JStr (parts ! 1))] in
       if length parts = 3 then
         (case Atoi (parts ! 2) of
            None \<Rightarrow> Inl (errorf (''invalid metric in route: '' @ route @ '' (must be an integer)''))
          | Some metric \<Rightarrow> Inr (map_set routeKV ''metric'' (JInt metric)))
       else Inr routeKV)"

text \<open>The loop over the routes, which stops at the first error.\<close>

fun parseRoutes :: "string list \<Rightarrow> go_error + KV list" where
  "parseRoutes [] = Inr []"
| "parseRoutes (route # routes) =
    (case parseRoute route of
       Inl e \<Rightarrow> Inl e
     | Inr routeKV \<Rightarrow>
        (case parseRoutes routes of Inl e \<Rightarrow> Inl e | Inr kvs \<Rightarrow> Inr (routeKV # kvs)))"

definition networkInterface :: "networkFlags \<Rightarrow> go_error + KV" where
  "networkInterface nf =
    (let iface = [(''interface'', JStr (nf_interfaceName nf))];
         iface = (if 0 < length (nf_addresses nf)
                  then map_set iface ''addresses'' (JArr (map JStr (nf_addresses nf))) else iface);
         routed = (if 0 < length (nf_routes nf) then
                     (case parseRoutes (nf_routes nf) of
                        Inl e \<Rightarrow> Inl e
                      | Inr routes \<Rightarrow> Inr (map_set iface ''routes'' (JArr (map JObj routes))))
                   else Inr iface)
     in case routed of
          Inl e \<Rightarrow> Inl e
        | Inr iface \<Rightarrow> Inr (if nf_mtu nf > 0 then map_set iface ''mtu'' (JInt (nf_mtu nf)) else iface))"

definition generateNetworkPatch :: "penv \<Rightarrow> networkFlags option \<Rightarrow> go_error + string" where
  "generateNetworkPatch E nfp =
    (case nfp of
       None \<Rightarrow> Inr []
     | Some nf \<Rightarrow>
        if nf_interfaceName nf = [] then Inr []
        else (case networkInterface nf of
          Inl e \<Rightarrow> Inl e
        | Inr iface \<Rightarrow>
           (case pe_yaml E (JObj [(''machine'', JObj [(''network'', JObj [(''interfaces'', JArr [JObj iface])])])]) of
              Inl e \<Rightarrow> Inl (errorf_w ''failed to marshal network patch'' e)
            | Inr patchYaml \<Rightarrow> Inr patchYaml)))"

section \<open>kubectl apply\<close>

definition kubectlApply :: "penv \<Rightarrow> KV \<Rightarrow> unit plug" where
  "kubectlApply E data =
    bindE (wrapE ''failed to create temp file'' (createTemp E ''*.yaml'')) (\<lambda>file.
    deferred
      (deferred
        (deferred
          (andThen (wrapE ''failed to encode YAML to temp file'' (pask (pe_unit E) (EncodeYaml file (JObj data))))
          (andThen (wrapE ''failed to close YAML encoder'' (pask (pe_unit E) (CloseEncoder file)))
          (andThen (wrapE ''failed to close temp file'' (pask (pe_unit E) (CloseTemp file)))
          (wrapE ''kubectl apply failed'' (Run E ''kubectl'' [''apply'', ''-f'', file] [])))))
          (pask (pe_unit E) (CloseEncoder file)))
        (pask (pe_unit E) (RemoveTemp file)))
      (pask (pe_unit E) (CloseTemp file)))"

section \<open>create cluster\<close>

record clusterFlags =
  cf_kubernetesVersion :: string
  cf_installImage :: string
  cf_installDisk :: string
  cf_network :: networkFlags

text \<open>\<^verbatim>\<open>metadata\<close> with the namespace, if there is one.\<close>

definition metadata :: "string \<Rightarrow> string \<Rightarrow> json" where
  "metadata name ns =
    JObj (if ns \<noteq> [] then map_set [(''name'', JStr name)] ''namespace'' (JStr ns) else [(''name'', JStr name)])"

definition createSecrets :: "penv \<Rightarrow> string \<Rightarrow> string \<Rightarrow> unit plug" where
  "createSecrets E ns secretName =
    bindE (prun E ''kubectl'' (in_namespace ns [''get'', ''secrets'', secretName]) []) (\<lambda>r.
    let secretsExist = (exec_err r = None) in
    if \<not> secretsExist then
      andThen (pdo (Print (''Generating cluster secrets...'' @ [CHR 0x0A])))
      (bindE (wrapE ''failed to generate secrets'' (Output E ''talosctl'' [''gen'', ''secrets'', ''-o'', ''-''] [])) (\<lambda>secretsYaml.
      let secretData =
        [(''apiVersion'', JStr ''v1''), (''kind'', JStr ''Secret''), (''metadata'', metadata secretName ns),
         (''stringData'', JObj [(''secrets.yaml'', JStr secretsYaml)])]
      in wrapE ''failed to apply secrets'' (kubectlApply E secretData)))
    else ret ())"

definition installPatch :: "penv \<Rightarrow> clusterFlags \<Rightarrow> go_error + string list" where
  "installPatch E f =
    (if cf_installImage f \<noteq> [] then
       (case pe_yaml E (JObj [(''version'', JStr ''v1alpha1''),
            (''machine'', JObj [(''install'',
              JObj [(''image'', JStr (cf_installImage f)), (''disk'', JStr (cf_installDisk f))])])]) of
          Inl e \<Rightarrow> Inl (errorf_w ''failed to marshal talos image patch'' e)
        | Inr patchYaml \<Rightarrow> Inr [patchYaml])
     else Inr [])"

definition clusterData :: "string \<Rightarrow> string \<Rightarrow> string \<Rightarrow> string \<Rightarrow> clusterFlags \<Rightarrow> string list \<Rightarrow> KV" where
  "clusterData ns clusterName domainName secretName f patches =
    (let spec = [(''secretsRef'', JStr secretName), (''domain'', JStr domainName)];
         spec = (if cf_kubernetesVersion f \<noteq> []
                 then map_set spec ''kubernetesVersion'' (JStr (cf_kubernetesVersion f)) else spec);
         spec = map_set spec ''patches'' (JArr (map JStr patches))
     in [(''apiVersion'', JStr ''talos.rtl.de/v1alpha1''), (''kind'', JStr ''Cluster''),
         (''metadata'', metadata clusterName ns), (''spec'', JObj spec)])"

definition createClusterCmd :: "penv \<Rightarrow> clusterFlags \<Rightarrow> string list \<Rightarrow> unit plug" where
  "createClusterCmd E f args =
    bindE (arg args 0) (\<lambda>clusterName.
    bindE (arg args 1) (\<lambda>domainName.
    bindE (gets ps_namespace) (\<lambda>ns.
    let secretName = clusterName @ ''-secrets'' in
    andThen (createSecrets E ns secretName)
    (bindE (plift (installPatch E f)) (\<lambda>patches.
    bindE (wrapE ''failed to generate network patch'' (plift (generateNetworkPatch E (Some (cf_network f))))) (\<lambda>networkPatch.
    let patches = (if networkPatch \<noteq> [] then patches @ [networkPatch] else patches) in
    wrapE ''failed to create cluster''
      (kubectlApply E (clusterData ns clusterName domainName secretName f patches))))))))"

section \<open>create node\<close>

record nodeFlags =
  ndf_provisioningAddress :: string
  ndf_network :: networkFlags

definition nodeData :: "string \<Rightarrow> string \<Rightarrow> string \<Rightarrow> string \<Rightarrow> nodeFlags \<Rightarrow> string list \<Rightarrow> KV" where
  "nodeData ns clusterName nodeName role f patches =
    (let spec = [(''clusterRef'', JStr clusterName), (''role'', JStr role)];
         spec = (if 0 < length patches then map_set spec ''patches'' (JArr (map JStr patches)) else spec);
         data = [(''apiVersion'', JStr ''talos.rtl.de/v1alpha1''), (''kind'', JStr ''Node''),
                 (''metadata'', metadata nodeName ns), (''spec'', JObj spec)]
     in if ndf_provisioningAddress f \<noteq> [] then
          map_set data ''operation'' (JObj [(''type'', JStr ''Provision''),
            (''provision'', JObj [(''address'', JStr (ndf_provisioningAddress f))])])
        else data)"

definition single_quoted :: "string \<Rightarrow> string" where
  "single_quoted s = CHR 0x27 # s @ [CHR 0x27]"

definition createNodeCmd :: "penv \<Rightarrow> nodeFlags \<Rightarrow> string list \<Rightarrow> unit plug" where
  "createNodeCmd E f args =
    bindE (arg args 0) (\<lambda>clusterName.
    bindE (arg args 1) (\<lambda>nodeName.
    bindE (arg args 2) (\<lambda>role.
    if role \<noteq> NodeRoleControlplane \<and> role \<noteq> NodeRoleWorker then
      fail (errorf (''invalid role: '' @ role @ '' (must be '' @ single_quoted ''controlplane'' @ '' or '' @ single_quoted ''worker'' @ '')''))
    else
      bindE (gets ps_namespace) (\<lambda>ns.
      bindE (prun E ''kubectl'' (in_namespace ns [''get'', ''clusters.talos.rtl.de'', clusterName]) []) (\<lambda>r.
      if exec_err r \<noteq> None then
        fail (errorf (''cluster '' @ clusterName @ '' does not exist:'' @ CHR 0x0A # exec_out r))
      else
        bindE (wrapE ''failed to generate network patch'' (plift (generateNetworkPatch E (Some (ndf_network f))))) (\<lambda>networkPatch.
        let patches = (if networkPatch \<noteq> [] then [networkPatch] else []) in
        wrapE ''failed to create node''
          (kubectlApply E (nodeData ns clusterName nodeName role f patches))))))))"

section \<open>The routes of the network patch\<close>

text \<open>
  The format of routes, \<^verbatim>\<open>network:gateway[:metric]\<close>, and what a route stands for; and the
  interface of the patch for some routes.
\<close>

inductive route_format :: "string \<Rightarrow> KV \<Rightarrow> bool" where
  plain_route: "\<lbrakk>CHR '':'' \<notin> set network; CHR '':'' \<notin> set gateway\<rbrakk> \<Longrightarrow>
    route_format (network @ '':'' @ gateway) [(''network'', JStr network), (''gateway'', JStr gateway)]"
| metric_route: "\<lbrakk>CHR '':'' \<notin> set network; CHR '':'' \<notin> set gateway; CHR '':'' \<notin> set m; Atoi m = Some metric\<rbrakk> \<Longrightarrow>
    route_format (network @ '':'' @ gateway @ '':'' @ m)
      [(''network'', JStr network), (''gateway'', JStr gateway), (''metric'', JInt metric)]"

definition interface_of :: "networkFlags \<Rightarrow> KV list \<Rightarrow> KV" where
  "interface_of nf routes =
    [(''interface'', JStr (nf_interfaceName nf))]
    @ (if nf_addresses nf \<noteq> [] then [(''addresses'', JArr (map JStr (nf_addresses nf)))] else [])
    @ (if routes \<noteq> [] then [(''routes'', JArr (map JObj routes))] else [])
    @ (if nf_mtu nf > 0 then [(''mtu'', JInt (nf_mtu nf))] else [])"

lemma Split_parts: "Split s sep = parts \<longleftrightarrow> parts \<noteq> [] \<and> s = join_with sep parts \<and> (\<forall>w\<in>set parts. sep \<notin> set w)"
  using join_Split [of sep s] Split_join [of parts sep] Split_no_sep by fastforce

lemma parseRoute_format: "parseRoute route = Inr kv \<longleftrightarrow> route_format route kv"
proof
  assume ok: "parseRoute route = Inr kv"
  define parts where "parts = Split route CHR '':''"
  have route: "route = join_with CHR '':'' parts" and plain: "\<forall>w\<in>set parts. CHR '':'' \<notin> set w"
    unfolding parts_def using Split_parts [of route "CHR '':''"] by auto
  from ok consider a b where "parts = [a, b]" | a b c where "parts = [a, b, c]"
    unfolding parseRoute_def parts_def [symmetric] Let_def
    by (cases parts rule: list.exhaust; cases "tl parts"; cases "tl (tl parts)"; cases "tl (tl (tl parts))")
      (auto split: if_splits)
  then show "route_format route kv"
  proof cases
    case 1
    then show ?thesis using ok route plain plain_route [of a b] unfolding parseRoute_def parts_def [symmetric] by simp
  next
    case 2
    then show ?thesis using ok route plain metric_route [of a b c]
      unfolding parseRoute_def parts_def [symmetric] by (auto split: option.splits)
  qed
next
  assume "route_format route kv"
  then show "parseRoute route = Inr kv"
  proof cases
    case (plain_route network gateway)
    then have "Split route CHR '':'' = [network, gateway]" by (auto simp: Split_parts)
    with plain_route show ?thesis by (simp add: parseRoute_def)
  next
    case (metric_route network gateway m metric)
    then have "Split route CHR '':'' = [network, gateway, m]" by (auto simp: Split_parts)
    with metric_route show ?thesis by (simp add: parseRoute_def)
  qed
qed

lemma parseRoutes_format: "parseRoutes routes = Inr kvs \<longleftrightarrow> list_all2 route_format routes kvs"
proof (induction routes arbitrary: kvs)
  case (Cons route routes)
  show ?case
    by (auto simp: parseRoute_format [of route, symmetric] Cons.IH [symmetric] list_all2_Cons1 split: sum.splits)
qed auto


section \<open>What is applied\<close>

text \<open>
  \<open>applied E data s s'\<close>: between \<open>s\<close> and \<open>s'\<close> the object was encoded to a temporary
  file, kubectl applied the file with success, and the file was removed; nothing else happened.
\<close>

definition applied :: "penv \<Rightarrow> KV \<Rightarrow> pst \<Rightarrow> pst \<Rightarrow> bool" where
  "applied E data s s' \<longleftrightarrow>
    (\<exists>file h. h = [CloseTemp file, CloseEncoder file, EncodeYaml file (JObj data), TempFile file, CreateTemp ''*.yaml'']
        @ ps_hist s \<and>
      exec_err (pe_exec E h (Exec ''kubectl'' [''apply'', ''-f'', file] [])) = None \<and>
      ps_hist s' = [CloseTemp file, RemoveTemp file, CloseEncoder file, Exec ''kubectl'' [''apply'', ''-f'', file] []] @ h)"

lemma ok_pask: "pask f c s = (Ok x, s') \<longleftrightarrow> f (ps_hist s) c = Inr x \<and> s' = record_call c s"
  by (auto simp: run_pask split: sum.splits)

lemma ok_pdo: "pdo c s = (Ok x, s') \<longleftrightarrow> s' = record_call c s"
  by (auto simp: run_pask)

lemma ok_prun:
  "prun E prog args env s = (Ok r, s') \<longleftrightarrow>
    r = pe_exec E (ps_hist s) (Exec prog args env) \<and> s' = record_call (Exec prog args env) s"
  by (auto simp: run_prun)

lemma ok_Output:
  "Output E prog args env s = (Ok x, s') \<longleftrightarrow>
    exec_err (pe_exec E (ps_hist s) (Exec prog args env)) = None \<and>
    x = exec_out (pe_exec E (ps_hist s) (Exec prog args env)) \<and> s' = record_call (Exec prog args env) s"
  by (auto simp: run_Output Let_def split: option.splits)

lemma ok_Run:
  "Run E prog args env s = (Ok x, s') \<longleftrightarrow>
    exec_err (pe_exec E (ps_hist s) (Exec prog args env)) = None \<and> s' = record_call (Exec prog args env) s"
  by (auto simp: run_Run split: option.splits)

lemma ok_plift: "plift r s = (Ok x, s') \<longleftrightarrow> r = Inr x \<and> s' = s"
  by (auto simp: plift_def run_basic split: sum.splits)

lemma ok_deferred_pask:
  "deferred m (pask f c) s = (Ok x, s') \<longleftrightarrow> (\<exists>t. m s = (Ok x, t) \<and> s' = record_call c t)"
  by (auto simp: eval_deferred run_pask split: prod.splits outcome.splits sum.splits)

lemma ok_createTemp:
  "createTemp E p s = (Ok f, s') \<longleftrightarrow>
    pe_text E (ps_hist s) (CreateTemp p) = Inr f \<and> s' = record_call (TempFile f) (record_call (CreateTemp p) s)"
  by (auto simp: createTemp_def ok_bindE ok_andThen ok_pask ok_pdo ok_basic)

lemma ok_arg: "arg args i s = (Ok x, s') \<longleftrightarrow> i < length args \<and> x = args ! i \<and> s' = s"
  by (auto simp: arg_def ok_basic)

lemmas ok_plugin = ok_pask ok_pdo ok_prun ok_Output ok_Run ok_plift ok_deferred_pask ok_createTemp ok_arg

lemma kubectlApply_applied: "kubectlApply E data s = (Ok x, s') \<Longrightarrow> applied E data s s'"
  unfolding kubectlApply_def by (auto simp: go_ok ok_plugin applied_def)

text \<open>What the object of a new node says, read by the tags of the API types.\<close>

definition spec_field :: "string \<Rightarrow> KV \<Rightarrow> json option" where
  "spec_field k data =
    (case map_of data ''spec'' of Some (JObj spec) \<Rightarrow> map_of spec k | _ \<Rightarrow> None)"


text \<open>A node that is created, and provisioned right away.\<close>

definition demo_node_flags :: nodeFlags where
  "demo_node_flags =
    \<lparr>ndf_provisioningAddress = ''10.0.0.7'',
     ndf_network = \<lparr>nf_interfaceName = ''eth0'', nf_addresses = [], nf_routes = [''0.0.0.0/0:10.0.0.1''], nf_mtu = 0\<rparr>\<rparr>"

lemma demo_createNodeCmd_ok:
  "fst (createNodeCmd demo_penv demo_node_flags [''c1'', ''n1'', NodeRoleWorker] demo_pst) = Ok ()"
proof -
  have "networkInterface (ndf_network demo_node_flags) =
      Inr (interface_of (ndf_network demo_node_flags) [[(''network'', JStr ''0.0.0.0/0''), (''gateway'', JStr ''10.0.0.1'')]])"
    by (simp add: networkInterface_def interface_of_def demo_node_flags_def parseRoute_def Let_def)
  then show ?thesis
    by (simp add: createNodeCmd_def arg_def go_eval run_prun demo_penv_def exec_err_def plift_def generateNetworkPatch_def
        kubectlApply_def createTemp_def run_pask run_Run Let_def del: Marshal.simps)
qed



definition demo_cluster_flags :: clusterFlags where
  "demo_cluster_flags =
    \<lparr>cf_kubernetesVersion = ''1.33.1'', cf_installImage = [], cf_installDisk = ''/dev/sda'',
     cf_network = \<lparr>nf_interfaceName = [], nf_addresses = [], nf_routes = [], nf_mtu = 0\<rparr>\<rparr>"


end
