(* ===== verification/PluginTools.thy ===== *)
theory PluginTools
  imports PluginCreate
begin

text \<open>
  The commands of the kubectl plugin that run another tool with the credentials of a cluster
  (\<^verbatim>\<open>cmd_kubectl.go\<close>, \<^verbatim>\<open>cmd_talosctl.go\<close>, \<^verbatim>\<open>cmd_talosctl_aliases.go\<close>), the
  commands of \<^verbatim>\<open>main.go\<close> as a whole, and what holds for all of them.
\<close>

section \<open>kubectl\<close>

definition potentialRoots :: "string list" where
  "potentialRoots = [''kubectl'', ''k9s'', ''helm'', ''cilium'']"

text \<open>The program to run and its arguments.\<close>

definition toolOf :: "string list \<Rightarrow> (string \<times> string list) plug" where
  "toolOf kubectlArgs =
    bindE (arg kubectlArgs 0) (\<lambda>first.
    if first \<in> set potentialRoots then ret (first, tl kubectlArgs) else ret (''kubectl'', kubectlArgs))"

definition writeKubeconfig :: "penv \<Rightarrow> string \<Rightarrow> string \<Rightarrow> unit plug" where
  "writeKubeconfig E file bytes64 =
    (case b64_decode bytes64 of (bytes, ok) \<Rightarrow>
      andThen (wrapE ''error writing kubeconfig'' (pask (pe_unit E) (WriteTemp file bytes)))
      (andThen (if ok then ret () else fail (errorf ''error writing kubeconfig: illegal base64 data''))
      (wrapE ''error closing kubeconfig file'' (pask (pe_unit E) (CloseTemp file)))))"

text \<open>An exit status other than 0 of the tool is not an error of the command.\<close>

definition runTool :: "penv \<Rightarrow> string list \<Rightarrow> string \<Rightarrow> unit plug" where
  "runTool E kubectlArgs file =
    bindE (toolOf kubectlArgs) (\<lambda>(kubectlCommand, kubectlArgs).
    bindE (prun E kubectlCommand kubectlArgs [''KUBECONFIG='' @ file]) (\<lambda>r.
    case r of StartError e _ \<Rightarrow> fail (errorf_w ''error running kubectl'' e) | _ \<Rightarrow> ret ()))"

definition kubectlCmd :: "penv \<Rightarrow> string list \<Rightarrow> unit plug" where
  "kubectlCmd E args =
    bindE (arg args 0) (\<lambda>cluster.
    let kubectlArgs = drop 1 args in
    bindE (gets ps_namespace) (\<lambda>ns.
    bindE (prun E ''kubectl''
      (in_namespace ns [''get'', ''secret'', cluster @ ''-kubeconfig'', ''-o'', ''jsonpath={.data.kubeconfig}'']) []) (\<lambda>r.
    case exec_err r of
      Some e \<Rightarrow> fail (Error (ekind e) (''error fetching kubeconfig: '' @ emsg e @ CHR 0x0A # exec_out r))
    | None \<Rightarrow>
       bindE (wrapE ''error creating temp file'' (createTemp E ''kubeconfig'')) (\<lambda>kubeconfigFile.
       deferred
         (andThen (writeKubeconfig E kubeconfigFile (exec_out r)) (runTool E kubectlArgs kubeconfigFile))
         (pask (pe_unit E) (RemoveTemp kubeconfigFile))))))"

section \<open>talosctl\<close>

definition runTalosctl :: "penv \<Rightarrow> string \<Rightarrow> string list \<Rightarrow> string \<Rightarrow> string \<Rightarrow> unit plug" where
  "runTalosctl E talosconfig args host file =
    andThen (wrapE ''error writing to talosconfig temp file'' (pask (pe_unit E) (WriteTemp file talosconfig)))
    (andThen (wrapE ''error closing talosconfig temp file'' (pask (pe_unit E) (CloseTemp file)))
    (wrapE ''error executing talosctl command''
      (Run E ''talosctl'' ([''-n'', host] @ args) [''TALOSCONFIG='' @ file])))"

text \<open>The namespace of the plugin is set to the default one if it is empty, and stays so.\<close>

definition talosctlNode :: "penv \<Rightarrow> string \<Rightarrow> string list \<Rightarrow> unit plug" where
  "talosctlNode E nodeName args =
    bindE (wrapE ''failed to get Kubernetes client'' (getKubernetesClient_plugin E)) (\<lambda>defaultNamespace.
    andThen (modify (\<lambda>s. if ps_namespace s = [] then s\<lparr>ps_namespace := defaultNamespace\<rparr> else s))
    (bindE (gets ps_namespace) (\<lambda>ns.
    bindE (wrapE ''failed to get node resource'' (pask (pe_node E) (PGetNode ns nodeName))) (\<lambda>node.
    bindE (wrapE ''failed to get cluster resource''
      (pask (pe_cluster E) (PGetCluster ns (ns_ClusterRef (n_Spec node))))) (\<lambda>cluster.
    bindE (wrapE ''failed to get talosconfig secret''
      (pask (pe_secret E) (PGetSecret ns (c_Name cluster @ ''-talosconfig'')))) (\<lambda>secretData.
    let talosconfig = (case map_of secretData ''talosconfig'' of Some d \<Rightarrow> d | None \<Rightarrow> []) in
    bindE (wrapE ''error creating temp file'' (createTemp E ''talosconfig'')) (\<lambda>talosconfigFile.
    deferred (runTalosctl E talosconfig args (GetFQDN node cluster) talosconfigFile)
      (pask (pe_unit E) (RemoveTemp talosconfigFile)))))))))"

definition talosctlCmd :: "penv \<Rightarrow> string list \<Rightarrow> unit plug" where
  "talosctlCmd E args = bindE (arg args 0) (\<lambda>node. talosctlNode E node (drop 1 args))"

definition dashboardCmd :: "penv \<Rightarrow> string list \<Rightarrow> unit plug" where
  "dashboardCmd E args = bindE (arg args 0) (\<lambda>node. talosctlNode E node [''dashboard''])"

definition extensionsCmd :: "penv \<Rightarrow> string list \<Rightarrow> unit plug" where
  "extensionsCmd E args = bindE (arg args 0) (\<lambda>node. talosctlNode E node [''get'', ''extensions''])"

section \<open>The commands of the plugin\<close>

text \<open>
  The command that a command line names, with its flags; its function, as
  \<^verbatim>\<open>rootCommand\<close> and \<^verbatim>\<open>createCmdGroup\<close> register it; and the numbers of arguments
  that its declaration admits.
\<close>

datatype command =
    CmdOp op_cmd
  | CmdKubectl
  | CmdTalosctl
  | CmdCreateCluster clusterFlags
  | CmdCreateNode nodeFlags
  | CmdDashboard
  | CmdExtensions

fun rootCommand :: "penv \<Rightarrow> command \<Rightarrow> string list \<Rightarrow> unit plugin_loop" where
  "rootCommand E (CmdOp c) args = runOp E c args"
| "rootCommand E CmdKubectl args = once (kubectlCmd E args)"
| "rootCommand E CmdTalosctl args = once (talosctlCmd E args)"
| "rootCommand E (CmdCreateCluster f) args = once (createClusterCmd E f args)"
| "rootCommand E (CmdCreateNode f) args = once (createNodeCmd E f args)"
| "rootCommand E CmdDashboard args = once (dashboardCmd E args)"
| "rootCommand E CmdExtensions args = once (extensionsCmd E args)"

fun declared_args :: "command \<Rightarrow> string list \<Rightarrow> bool" where
  "declared_args (CmdOp c) args \<longleftrightarrow> arity_ok c args"
| "declared_args CmdKubectl args \<longleftrightarrow> 2 \<le> length args"
| "declared_args CmdTalosctl args \<longleftrightarrow> 2 \<le> length args"
| "declared_args (CmdCreateCluster f) args \<longleftrightarrow> length args = 2"
| "declared_args (CmdCreateNode f) args \<longleftrightarrow> length args = 3"
| "declared_args CmdDashboard args \<longleftrightarrow> length args = 1"
| "declared_args CmdExtensions args \<longleftrightarrow> length args = 1"

section \<open>Temporary files are removed\<close>

lemma tidy_kubectlApply: "steps tidy (kubectlApply E data)"
  unfolding kubectlApply_def
  by (intro tidy_createTemp closes_deferred(2) [OF closes_deferred(1)] closes_remove tidy_steps)
    (simp_all add: opens_nothing_def)

lemma tidy_createSecrets: "steps tidy (createSecrets E ns secretName)"
  unfolding createSecrets_def
  by (intro tidy_steps tidy_kubectlApply) (simp_all add: opens_nothing_def)

lemma tidy_createClusterCmd: "steps tidy (createClusterCmd E f args)"
  unfolding createClusterCmd_def by (intro tidy_steps tidy_kubectlApply tidy_createSecrets)

lemma tidy_createNodeCmd: "steps tidy (createNodeCmd E f args)"
  unfolding createNodeCmd_def by (intro tidy_steps tidy_kubectlApply)

lemma tidy_runTool: "steps tidy (runTool E kubectlArgs file)"
  unfolding runTool_def toolOf_def
  by (intro tidy_steps) (auto intro: tidy_steps split: exec_result.split)

lemma tidy_writeKubeconfig: "steps tidy (writeKubeconfig E file bytes64)"
  unfolding writeKubeconfig_def by (intro tidy_steps) (simp_all add: opens_nothing_def)

lemma tidy_kubectlCmd: "steps tidy (kubectlCmd E args)"
  unfolding kubectlCmd_def
  by (intro tidy_steps(5-) tidy_createTemp closes_deferred(1) closes_remove tidy_writeKubeconfig tidy_runTool tidy_steps)

lemma tidy_runTalosctl: "steps tidy (runTalosctl E talosconfig args host file)"
  unfolding runTalosctl_def by (intro tidy_steps) (simp_all add: opens_nothing_def)

lemma tidy_set_namespace: "steps tidy (modify (\<lambda>s. if ps_namespace s = [] then s\<lparr>ps_namespace := ns\<rparr> else s))"
  by (rule tidy.modify) (auto intro!: tidyI [of _ "[]"])

lemma tidy_talosctlNode: "steps tidy (talosctlNode E nodeName args)"
  unfolding talosctlNode_def
  by (intro tidy_createTemp closes_deferred(1) closes_remove tidy_runTalosctl tidy_set_namespace
      tidy_getKubernetesClient_plugin tidy_steps) (simp_all add: opens_nothing_def)

lemma tidy_watchStep: "steps tidy (watchStep E rt ns name)"
proof -
  have render: "steps tidy (renderSpinnerLine text' color)" for text' color
    unfolding renderSpinnerLine_def Let_def
    by (intro tidy_steps tidy.modify) (auto simp: opens_nothing_def intro!: tidyI [of _ "[]"])
  have "steps tidy (watchOperation E op d f)" for op d f
    unfolding watchOperation_def Let_def by (intro tidy_steps render)
  then show ?thesis
    unfolding watchStep_def by (intro tidy_steps) (simp_all add: opens_nothing_def)
qed

lemma tidy_polled: "tidy s (polled E rt ns name k s)"
proof (induction k arbitrary: s)
  case (Suc k)
  have "tidy s (snd (watchStep E rt ns name s))" using tidy_watchStep by (simp add: steps_def)
  then show ?case unfolding polled_simps using Suc tidy.R_trans by blast
qed (simp add: polled_simps tidy.R_refl)

definition tidy_loop :: "unit plugin_loop \<Rightarrow> bool" where
  "tidy_loop m \<longleftrightarrow> (\<forall>s r s'. m s = Some (r, s') \<longrightarrow> tidy s s')"

lemma tidy_once: "steps tidy m \<Longrightarrow> tidy_loop (once m)"
  by (auto simp: tidy_loop_def once_def dest: stepsD)

lemma tidy_bindL:
  assumes "steps tidy m" and "\<And>x. tidy_loop (k x)"
  shows "tidy_loop (bindL m k)"
  unfolding tidy_loop_def
proof (intro allI impI)
  fix s r s'
  assume run: "bindL m k s = Some (r, s')"
  obtain q t where m: "m s = (q, t)" by (cases "m s")
  have "tidy s t" using assms(1) m by (rule stepsD)
  moreover have "tidy t s'"
    using run m assms(2) by (cases q) (auto simp: bindL_def tidy_loop_def tidy.R_refl)
  ultimately show "tidy s s'" by (rule tidy.R_trans)
qed

lemma tidy_watchLoop: "tidy_loop (watchLoop E rt ns name)"
  unfolding tidy_loop_def
proof (intro allI impI)
  fix s r s'
  assume "watchLoop E rt ns name s = Some (r, s')"
  then obtain k where "s' = polled E rt ns name (Suc k) s" using watchLoop_Some by blast
  then show "tidy s s'" by (simp add: tidy_polled)
qed

lemma tidy_patchAndWatch: "tidy_loop (patchAndWatch E resource name data)"
proof -
  have "tidy_loop (watchResource E resource ns name)" for ns
    unfolding watchResource_def
    by (intro tidy_bindL tidy_watchLoop tidy_getKubernetesClient_plugin tidy_steps)
  then have "tidy_loop (\<lambda>s. wrapL pre (watchResource E resource (ps_namespace s) name) s)" for pre
    by (fastforce simp: tidy_loop_def wrapL_def)
  then show ?thesis
    unfolding patchAndWatch_def runPatch_def
    by (intro tidy_bindL tidy_steps) (simp_all add: tidy_once tidy.basic)
qed

lemma tidy_bootstrapNodeCmd: "tidy_loop (bootstrapNodeCmd E args)"
  unfolding bootstrapNodeCmd_def runPatch_def by (intro tidy_bindL tidy_once tidy_steps)

lemma tidy_runOp: "tidy_loop (runOp E c args)"
proof (cases c)
  case (OpProvision skip)
  then show ?thesis
    unfolding OpProvision runOp.simps provisionNodeCmd_def Let_def
    by (intro tidy_bindL tidy_arg) (simp add: tidy_patchAndWatch tidy_once tidy.basic)
next
  case (OpReset f)
  then show ?thesis
    unfolding OpReset runOp.simps resetNodeCmd_def Let_def by (intro tidy_bindL tidy_arg tidy_patchAndWatch)
qed (simp_all add: tidy_bootstrapNodeCmd tidy_bindL tidy_arg tidy_patchAndWatch applyNodeCmd_def rebootNodeCmd_def
    shutdownNodeCmd_def runPowerCmd_def rollingApplyClusterCmd_def rollingRebootClusterCmd_def k8sUpgradeClusterCmd_def)

text \<open>
  C22. Whatever command is run, with whatever arguments, and however it ends, every temporary
  file it has created (with a kubeconfig, a talosconfig, the secrets of a cluster) has been
  removed when it returns.
\<close>

theorem rootCommand_removes_files:
  assumes "rootCommand E c args s = Some (r, s')"
  shows "\<exists>cs. ps_hist s' = cs @ ps_hist s \<and> left_over cs {} = {}"
proof -
  have "tidy_loop (rootCommand E c args)"
    by (cases c)
      (simp_all add: tidy_runOp tidy_once tidy_kubectlCmd tidy_createClusterCmd tidy_createNodeCmd talosctlCmd_def
        dashboardCmd_def extensionsCmd_def tidy_talosctlNode tidy.bindE tidy_arg)
  with assms show ?thesis by (fastforce simp: tidy_loop_def tidy_def)
qed

text \<open>A cluster whose secret is served in base64.\<close>

definition demo_tools_env :: penv where
  "demo_tools_env = demo_penv\<lparr>pe_exec := \<lambda>h c. ExitOk (b64_encode ''cfg''), pe_text := \<lambda>h c. Inr ''/tmp/x''\<rparr>"

lemma demo_kubectlCmd_ok:
  "kubectlCmd demo_tools_env [''c1'', ''helm'', ''list''] demo_pst =
    (Ok (), snd (kubectlCmd demo_tools_env [''c1'', ''helm'', ''list''] demo_pst))"
  by (simp add: prod_eq_iff kubectlCmd_def writeKubeconfig_def runTool_def toolOf_def potentialRoots_def createTemp_def
      arg_def go_eval run_prun run_pask demo_tools_env_def demo_penv_def exec_err_def b64_decode_encode Let_def
      del: b64_encode.simps)

theorem rootCommand_removes_files_witness:
  "\<exists>s' cs. rootCommand demo_tools_env CmdKubectl [''c1'', ''helm'', ''list''] demo_pst = Some (Ok (), s') \<and>
     ps_hist s' = cs @ ps_hist demo_pst \<and> left_over cs {} = {}"
proof -
  have "rootCommand demo_tools_env CmdKubectl [''c1'', ''helm'', ''list''] demo_pst =
      Some (Ok (), snd (kubectlCmd demo_tools_env [''c1'', ''helm'', ''list''] demo_pst))"
    by (simp add: once_def demo_kubectlCmd_ok [symmetric])
  with rootCommand_removes_files [OF this] show ?thesis by blast
qed

section \<open>What the kubectl command runs\<close>

text \<open>
  When the command succeeds it has fetched the kubeconfig secret of the cluster, written
  the kubeconfig to a temporary file exactly as it is in the secret, run the tool that the
  arguments name (or kubectl) with the other arguments and that file, and removed the file;
  and nothing else. If the secret cannot be fetched, nothing else is run.
\<close>

theorem kubectlCmd_runs_tool:
  assumes "kubectlCmd E (cluster # first # rest) s = (r, s')"
    and "get = Exec ''kubectl'' (in_namespace (ps_namespace s)
      [''get'', ''secret'', cluster @ ''-kubeconfig'', ''-o'', ''jsonpath={.data.kubeconfig}'']) []"
    and "(tool, toolArgs) = (if first \<in> set potentialRoots then (first, rest) else (''kubectl'', first # rest))"
  shows "(pe_exec E (ps_hist s) get = ExitOk (b64_encode kubeconfig) \<and> r = Ok () \<longrightarrow>
      (\<exists>f. ps_hist s' =
        [RemoveTemp f, Exec tool toolArgs [''KUBECONFIG='' @ f], CloseTemp f, WriteTemp f kubeconfig,
         TempFile f, CreateTemp ''kubeconfig'', get] @ ps_hist s)) \<and>
    (exec_err (pe_exec E (ps_hist s) get) \<noteq> None \<longrightarrow> (\<exists>e. r = Err e) \<and> s' = record_call get s)"
proof -
  have tool: "toolOf (first # rest) t = (Ok (tool, toolArgs), t)" for t
    using assms(3) by (auto simp: toolOf_def arg_def go_eval split: if_splits)
  have run: "t' = record_call (Exec tool toolArgs [''KUBECONFIG='' @ f]) t"
    if "runTool E (first # rest) f t = (Ok (), t')" for f t t'
    using that by (auto simp: runTool_def ok_bindE tool ok_prun go_ok split: exec_result.splits)
  have "\<exists>f. ps_hist s' =
        [RemoveTemp f, Exec tool toolArgs [''KUBECONFIG='' @ f], CloseTemp f, WriteTemp f kubeconfig,
         TempFile f, CreateTemp ''kubeconfig'', get] @ ps_hist s"
    if "pe_exec E (ps_hist s) get = ExitOk (b64_encode kubeconfig)" "r = Ok ()"
    using assms(1) that unfolding kubectlCmd_def writeKubeconfig_def assms(2)
    by (auto simp: go_ok ok_plugin exec_err_def b64_decode_encode Let_def split: if_splits dest!: run)
  moreover have "(\<exists>e. r = Err e) \<and> s' = record_call get s" if "exec_err (pe_exec E (ps_hist s) get) \<noteq> None"
    using assms(1) that unfolding kubectlCmd_def assms(2)
    by (auto simp: go_eval arg_def run_prun Let_def split: if_splits)
  ultimately show ?thesis by blast
qed

theorem kubectlCmd_runs_tool_witness:
  "\<exists>s' f. kubectlCmd demo_tools_env [''c1'', ''helm'', ''list''] demo_pst = (Ok (), s') \<and>
     hd (ps_hist s') = RemoveTemp f \<and> Exec ''helm'' [''list''] [''KUBECONFIG='' @ f] \<in> set (ps_hist s') \<and>
     WriteTemp f ''cfg'' \<in> set (ps_hist s')"
proof -
  have "(''helm'', [''list'']) =
      (if ''helm'' \<in> set potentialRoots then (''helm'', [''list'']) else (''kubectl'', [''helm'', ''list'']))"
    by (simp add: potentialRoots_def)
  from kubectlCmd_runs_tool [OF demo_kubectlCmd_ok refl this, of "''cfg''"] demo_kubectlCmd_ok show ?thesis
    by (fastforce simp: demo_tools_env_def)
qed

section \<open>No index is out of range\<close>

text \<open>\<open>calm m\<close>: the program does not panic; \<open>calm_loop\<close>: nor does the loop.\<close>

definition calm :: "'a plug \<Rightarrow> bool" where
  "calm m \<longleftrightarrow> (\<forall>s p. fst (m s) \<noteq> Panic p)"

definition calm_loop :: "'a plugin_loop \<Rightarrow> bool" where
  "calm_loop m \<longleftrightarrow> (\<forall>s p s'. m s \<noteq> Some (Panic p, s'))"

lemma calm_basic:
  "calm (ret x)" "calm (fail e)" "calm (gets f)" "calm (modify g)" "calm (pdo c)" "calm (pask h c)"
  "calm (prun E prog args env)" "calm (Output E prog args env)" "calm (Run E prog args env)" "calm (plift r)"
  by (auto simp: calm_def run_basic run_pask run_prun run_Output run_Run plift_def Let_def split: sum.split option.split)

lemma calm_bindE:
  assumes "calm m" and "\<And>x. calm (k x)"
  shows "calm (bindE m k)"
  unfolding calm_def
proof (intro allI)
  fix s p
  show "fst (bindE m k s) \<noteq> Panic p"
    using assms by (cases "m s"; cases "fst (m s)") (auto simp: calm_def eval_bindE, metis fst_conv)
qed

lemma calm_andThen: "calm m \<Longrightarrow> calm k \<Longrightarrow> calm (andThen m k)"
  by (simp add: andThen_def calm_bindE)

lemma calm_wrapE: "calm m \<Longrightarrow> calm (wrapE pre m)"
  by (auto simp: calm_def eval_wrapE split: prod.split outcome.split) (metis fst_conv)

lemma calm_deferred: "calm m \<Longrightarrow> calm d \<Longrightarrow> calm (deferred m d)"
  by (auto simp: calm_def eval_deferred split: prod.split outcome.split) (metis fst_conv)+

lemma calm_arg: "i < length args \<Longrightarrow> calm (arg args i)"
  by (simp add: arg_def calm_basic)

lemma calm_cases:
  "(b \<Longrightarrow> calm m) \<Longrightarrow> (\<not> b \<Longrightarrow> calm n) \<Longrightarrow> calm (if b then m else n)"
  "(o' = None \<Longrightarrow> calm m) \<Longrightarrow> (\<And>x. o' = Some x \<Longrightarrow> calm (f x)) \<Longrightarrow> calm (case o' of None \<Rightarrow> m | Some x \<Rightarrow> f x)"
  "(\<And>a b. q = (a, b) \<Longrightarrow> calm (g a b)) \<Longrightarrow> calm (case q of (a, b) \<Rightarrow> g a b)"
  by (simp, simp split: option.split, simp split: prod.split)

lemma calm_createTemp: "calm (createTemp E pattern)"
  unfolding createTemp_def by (intro calm_bindE calm_andThen calm_basic)

lemmas calm_steps = calm_basic calm_bindE calm_andThen calm_wrapE calm_deferred calm_createTemp calm_cases

lemma calm_commands:
  "2 \<le> length args \<Longrightarrow> calm (kubectlCmd E args)"
  "calm (talosctlNode E node as)"
  "length args = 2 \<Longrightarrow> calm (createClusterCmd E cf args)"
  "length args = 3 \<Longrightarrow> calm (createNodeCmd E nf args)"
proof -
  have result: "calm (case r of StartError e x \<Rightarrow> fail (err e) | _ \<Rightarrow> ret ())" for r err
    by (cases r) (simp_all add: calm_basic)
  show "2 \<le> length args \<Longrightarrow> calm (kubectlCmd E args)"
    unfolding kubectlCmd_def writeKubeconfig_def runTool_def toolOf_def Let_def
    by (intro calm_steps calm_arg result) (auto simp: length_drop)
  show "calm (talosctlNode E node as)"
    unfolding talosctlNode_def runTalosctl_def getKubernetesClient_plugin_def Let_def by (intro calm_steps)
  have kapply: "calm (kubectlApply E data)" for data
    unfolding kubectlApply_def by (intro calm_steps)
  show "length args = 2 \<Longrightarrow> calm (createClusterCmd E cf args)"
    unfolding createClusterCmd_def createSecrets_def Let_def by (intro calm_steps calm_arg kapply) simp_all
  show "length args = 3 \<Longrightarrow> calm (createNodeCmd E nf args)"
    unfolding createNodeCmd_def Let_def by (intro calm_steps calm_arg kapply) simp_all
qed

lemma calm_once: "calm m \<Longrightarrow> calm_loop (once m)"
  by (auto simp: calm_def calm_loop_def once_def) (metis fst_conv)

lemma calm_watchResource: "calm_loop (watchResource E rt ns name)"
proof -
  have "verdict_at E rt ns' name k s \<noteq> Some (Panic p)" for ns' k s p
    by (auto simp: verdict_at_def reading_def op_verdict_def split: sum.splits option.splits)
  then have loop: "calm_loop (watchLoop E rt ns' name)" for ns'
    unfolding calm_loop_def using watchLoop_Some by blast
  have "calm (wrapE pre (getKubernetesClient_plugin E))" for pre
    unfolding getKubernetesClient_plugin_def by (intro calm_steps)
  then show ?thesis
    using loop by (auto simp: calm_loop_def watchResource_def bindL_def calm_def split: prod.splits outcome.splits)
      (metis fst_conv)
qed

text \<open>With the numbers of arguments that are declared for it no command indexes its arguments out of range.\<close>

theorem rootCommand_calm:
  assumes "declared_args c args"
  shows "rootCommand E c args s \<noteq> Some (Panic p, s')"
proof -
  have runOp: "calm_loop (runOp E c args)" if "arity_ok c args" for c
  proof (cases "complete_args c args")
    case True
    have "wrapL pre (watchResource E rt ns name) t \<noteq> Some (Panic p, s')" for pre rt ns name t p s'
      using calm_watchResource [of E rt ns name]
      by (auto simp: calm_loop_def wrapL_def split: outcome.splits)
    then show ?thesis
      by (auto simp: calm_loop_def runOp_submits [OF that True] run_submit Let_def split: option.splits if_splits)
  next
    case False
    then show ?thesis using runOp_incomplete [OF that False] unfolding calm_loop_def by (metis Pair_inject option.inject outcome.distinct(5))
  qed
  have "calm_loop (rootCommand E c args)"
  proof (cases c)
    case (CmdOp o')
    then show ?thesis using assms runOp by simp
  qed (use assms in \<open>auto intro!: calm_once calm_commands calm_bindE calm_arg simp: talosctlCmd_def dashboardCmd_def extensionsCmd_def\<close>)
  then show ?thesis by (simp add: calm_loop_def)
qed

end
