(* ===== verification/Manager.thy ===== *)
theory Manager
  imports Api_Types
begin

text \<open>
  \<^verbatim>\<open>cmd/manager/main.go\<close>: the options of the operator's process with their defaults, the
  metrics server that they configure, the indexes of the cache, and \<^verbatim>\<open>runManager\<close>, which
  wires the two controllers to one manager. What controller-runtime does with all that is not
  modelled; its calls are recorded and answered by the environment.
\<close>

record FeatureFlags =
  ff_EnableRTLNodeLabel :: bool
  ff_EnableCrossNamespacePatchRefs :: bool

record managerOptions =
  mo_metricsAddr :: string
  mo_metricsCertPath :: string
  mo_metricsCertName :: string
  mo_metricsCertKey :: string
  mo_enableLeaderElection :: bool
  mo_probeAddr :: string
  mo_secureMetrics :: bool
  mo_enableHTTP2 :: bool
  mo_enablePProf :: bool
  mo_featureFlags :: FeatureFlags

text \<open>The values of the flags that a command line does not set.\<close>

definition defaultOptions :: managerOptions where
  "defaultOptions =
    \<lparr>mo_metricsAddr = ''0'', mo_metricsCertPath = [], mo_metricsCertName = ''tls.crt'',
     mo_metricsCertKey = ''tls.key'', mo_enableLeaderElection = False, mo_probeAddr = '':8081'',
     mo_secureMetrics = True, mo_enableHTTP2 = False, mo_enablePProf = False,
     mo_featureFlags = \<lparr>ff_EnableRTLNodeLabel = True, ff_EnableCrossNamespacePatchRefs = True\<rparr>\<rparr>"

text \<open>
  The options of the metrics server: the protocols its TLS configuration is restricted to, if
  it is, and whether requests are authenticated and authorized.
\<close>

record metricsOptions =
  ms_BindAddress :: string
  ms_SecureServing :: bool
  ms_NextProtos :: "string list option"
  ms_WithAuthenticationAndAuthorization :: bool
  ms_CertDir :: string
  ms_CertName :: string
  ms_KeyName :: string

definition metricsServerOptions :: "managerOptions \<Rightarrow> metricsOptions" where
  "metricsServerOptions options =
    (let tlsOpts = (if \<not> mo_enableHTTP2 options then Some [''http/1.1''] else None);
         o0 = \<lparr>ms_BindAddress = mo_metricsAddr options, ms_SecureServing = mo_secureMetrics options,
           ms_NextProtos = tlsOpts, ms_WithAuthenticationAndAuthorization = False,
           ms_CertDir = [], ms_CertName = [], ms_KeyName = []\<rparr>;
         o1 = (if mo_secureMetrics options then o0\<lparr>ms_WithAuthenticationAndAuthorization := True\<rparr> else o0)
     in if 0 < length (mo_metricsCertPath options) then
          o1\<lparr>ms_CertDir := mo_metricsCertPath options, ms_CertName := mo_metricsCertName options,
            ms_KeyName := mo_metricsCertKey options\<rparr>
        else o1)"

definition nodeClusterRefIndexer :: "Node \<Rightarrow> string list" where
  "nodeClusterRefIndexer node = [ns_ClusterRef (n_Spec node)]"

definition nodeRoleIndexer :: "Node \<Rightarrow> string list" where
  "nodeRoleIndexer node = [ns_Role (n_Spec node)]"

text \<open>
  The calls. A mutex map is known by its address; an index by its field and its function.
\<close>

datatype mcall =
    ServePProf string
  | NewManager metricsOptions string bool string bool
  | IndexField string "Node \<Rightarrow> string list"
  | NewEventClientset
  | StartRecording
  | StartEventLogging
  | NewMutexes nat
  | SetupCluster nat FeatureFlags
  | SetupNode nat FeatureFlags
  | AddHealthzCheck string
  | AddReadyzCheck string
  | StartManager
  | ShutdownBroadcaster

record mst =
  mst_hist :: "mcall list"
  mst_next :: nat

type_synonym 'a mgr = "(mst, 'a) go"

text \<open>A call, and its answer by the environment: an error or nothing.\<close>

definition mdo :: "(mcall list \<Rightarrow> mcall \<Rightarrow> go_error option) \<Rightarrow> mcall \<Rightarrow> unit mgr" where
  "mdo E c = (\<lambda>s.
    (case E (mst_hist s) c of None \<Rightarrow> Ok () | Some e \<Rightarrow> Err e, s\<lparr>mst_hist := c # mst_hist s\<rparr>))"

definition NewMutexMap_at :: "nat mgr" where
  "NewMutexMap_at = (\<lambda>s.
    (Ok (mst_next s), s\<lparr>mst_hist := NewMutexes (mst_next s) # mst_hist s, mst_next := Suc (mst_next s)\<rparr>))"

definition mlog :: "mcall \<Rightarrow> unit mgr" where
  "mlog c = modify (\<lambda>s. s\<lparr>mst_hist := c # mst_hist s\<rparr>)"

definition setupControllers :: "(mcall list \<Rightarrow> mcall \<Rightarrow> go_error option) \<Rightarrow> managerOptions \<Rightarrow> unit mgr" where
  "setupControllers E options =
    bindE NewMutexMap_at (\<lambda>mutexMap.
    andThen (wrapE ''unable to create controller Cluster'' (mdo E (SetupCluster mutexMap (mo_featureFlags options))))
    (wrapE ''unable to create controller Node'' (mdo E (SetupNode mutexMap (mo_featureFlags options)))))"

definition startManager :: "(mcall list \<Rightarrow> mcall \<Rightarrow> go_error option) \<Rightarrow> unit mgr" where
  "startManager E =
    andThen (wrapE ''unable to set up health check'' (mdo E (AddHealthzCheck ''healthz'')))
    (andThen (wrapE ''unable to set up ready check'' (mdo E (AddReadyzCheck ''readyz'')))
    (wrapE ''problem running manager'' (mdo E StartManager)))"

text \<open>The server of the profiler runs beside the manager; its failure is only logged.\<close>

definition runManager :: "(mcall list \<Rightarrow> mcall \<Rightarrow> go_error option) \<Rightarrow> managerOptions \<Rightarrow> unit mgr" where
  "runManager E options =
    andThen (if mo_enablePProf options then mlog (ServePProf ''0.0.0.0:6060'') else ret ())
    (andThen (wrapE ''unable to start manager''
      (mdo E (NewManager (metricsServerOptions options) (mo_probeAddr options)
        (mo_enableLeaderElection options) ''talos-operator.ac.rtl.de'' True)))
    (andThen (wrapE ''unable to create index for field spec.clusterRef''
      (mdo E (IndexField ''spec.clusterRef'' nodeClusterRefIndexer)))
    (andThen (wrapE ''unable to create index for field spec.role''
      (mdo E (IndexField ''spec.role'' nodeRoleIndexer)))
    (andThen (wrapE ''unable to create clientset for event broadcaster'' (mdo E NewEventClientset))
    (andThen (wrapE ''unable to start event broadcaster'' (mdo E StartRecording))
    (deferred
      (andThen (wrapE ''unable to start event logging'' (mdo E StartEventLogging))
      (andThen (setupControllers E options) (startManager E)))
      (mlog ShutdownBroadcaster)))))))"

section \<open>What a manager runs with\<close>

lemma run_mdo: "mdo E c s = (case E (mst_hist s) c of None \<Rightarrow> Ok () | Some e \<Rightarrow> Err e, s\<lparr>mst_hist := c # mst_hist s\<rparr>)"
  by (simp add: mdo_def)

lemma ok_mdo: "mdo E c s = (Ok x, s') \<longleftrightarrow> E (mst_hist s) c = None \<and> s' = s\<lparr>mst_hist := c # mst_hist s\<rparr>"
  by (auto simp: mdo_def split: option.splits)

lemma ok_mlog: "mlog c s = (Ok x, s') \<longleftrightarrow> s' = s\<lparr>mst_hist := c # mst_hist s\<rparr>"
  by (auto simp: mlog_def run_basic)

lemma mlog_deferred:
  "deferred m (mlog c) s = (r, s') \<longleftrightarrow> (\<exists>t. m s = (r, t) \<and> s' = t\<lparr>mst_hist := c # mst_hist t\<rparr>)"
  by (auto simp: deferred_def mlog_def run_basic split: prod.splits)

text \<open>
  When the manager has run and ended without error, it was started after the two indexes were
  there that the controllers list nodes by, and after both controllers were set up, with the
  same features and one and the same mutex map, made for this manager.
\<close>

theorem runManager_wires:
  assumes "runManager E options s = (Ok (), s')"
  shows "\<exists>h. mst_hist s' =
    [ShutdownBroadcaster, StartManager, AddReadyzCheck ''readyz'', AddHealthzCheck ''healthz'',
     SetupNode (mst_next s) (mo_featureFlags options), SetupCluster (mst_next s) (mo_featureFlags options),
     NewMutexes (mst_next s), StartEventLogging, StartRecording, NewEventClientset,
     IndexField ''spec.role'' nodeRoleIndexer, IndexField ''spec.clusterRef'' nodeClusterRefIndexer,
     NewManager (metricsServerOptions options) (mo_probeAddr options) (mo_enableLeaderElection options)
       ''talos-operator.ac.rtl.de'' True] @ h @ mst_hist s \<and>
    h = (if mo_enablePProf options then [ServePProf ''0.0.0.0:6060''] else [])"
  using assms
  by (auto simp: runManager_def setupControllers_def startManager_def NewMutexMap_at_def go_ok ok_mdo ok_mlog
      mlog_deferred split: if_splits)

text \<open>The metrics are served over TLS only to those who are authorized, or without TLS to all.\<close>

lemma metricsServerOptions_authorized:
  "ms_WithAuthenticationAndAuthorization (metricsServerOptions options) \<longleftrightarrow>
   ms_SecureServing (metricsServerOptions options)"
  "ms_NextProtos (metricsServerOptions options) = (if mo_enableHTTP2 options then None else Some [''http/1.1''])"
  by (simp_all add: metricsServerOptions_def Let_def)

end
