(* ===== verification/Logging.thy ===== *)
theory Logging
  imports Api_Types
begin

text \<open>
  \<^verbatim>\<open>internal/logz\<close>: the fields that a logger gets from the context of a reconciliation,
  and the sink that hands the messages of controller-runtime on. A logger is the level and
  the fields of a \<^verbatim>\<open>zerolog.Logger\<close>; its levels are int8 numbers, Debug 0, Info 1,
  Warn 2, Error 3, Trace -1. What zerolog does with an event is not modelled.
\<close>

record Logger =
  lg_level :: int
  lg_fields :: "(string \<times> string) list"

definition TraceLevel :: int where "TraceLevel = -1"
definition DebugLevel :: int where "DebugLevel = 0"
definition InfoLevel :: int where "InfoLevel = 1"
definition ErrorLevel :: int where "ErrorLevel = 3"

definition int8 :: "int \<Rightarrow> int" where
  "int8 i = (i + 128) mod 256 - 128"

section \<open>Loggers\<close>

definition LoggerNameKey :: string where "LoggerNameKey = ''logger''"

definition saneDefaultLogger :: Logger where
  "saneDefaultLogger = \<lparr>lg_level = TraceLevel, lg_fields = []\<rparr>"

definition withStr :: "string \<Rightarrow> string \<Rightarrow> Logger \<Rightarrow> Logger" where
  "withStr k v l = l\<lparr>lg_fields := lg_fields l @ [(k, v)]\<rparr>"

text \<open>
  The values of the context: a node, a cluster and the namespaced name of the request, where
  they are there and not nil.
\<close>

record log_ctx =
  lc_node :: "Node option"
  lc_cluster :: "Cluster option"
  lc_request :: "(string \<times> string) option"

definition New_logger :: "log_ctx \<Rightarrow> string \<Rightarrow> Logger" where
  "New_logger ctx name =
    (let logger = withStr LoggerNameKey name saneDefaultLogger;
         (logger, haveMeta) = (case lc_node ctx of
             Some node \<Rightarrow> (withStr ''node.name'' (n_Name node) (withStr ''node.namespace'' (n_Namespace node) logger), True)
           | None \<Rightarrow> (logger, False));
         (logger, haveMeta) = (case lc_cluster ctx of
             Some cluster \<Rightarrow>
               (withStr ''cluster.name'' (c_Name cluster) (withStr ''cluster.namespace'' (c_Namespace cluster) logger), True)
           | None \<Rightarrow> (logger, haveMeta))
     in if \<not> haveMeta then
          (case lc_request ctx of
             Some (ns, n) \<Rightarrow> withStr ''request.name'' n (withStr ''request.namespace'' ns logger)
           | None \<Rightarrow> logger)
        else logger)"

section \<open>The sink of controller-runtime\<close>

text \<open>An event: its level, the fields of the logger and of the call, the error and the message.\<close>

record log_event =
  le_level :: int
  le_fields :: "(string \<times> string) list"
  le_err :: "go_error option"
  le_msg :: string

definition LogrSink_Enabled :: "Logger \<Rightarrow> int \<Rightarrow> bool" where
  "LogrSink_Enabled l level \<longleftrightarrow>
    (let zlEquivalentLevel = int8 (lg_level l - InfoLevel) in level \<ge> zlEquivalentLevel)"

definition LogrSink_Info :: "Logger \<Rightarrow> int \<Rightarrow> string \<Rightarrow> (string \<times> string) list \<Rightarrow> log_event" where
  "LogrSink_Info l level msg keysAndValues =
    \<lparr>le_level = int8 (InfoLevel - int8 level), le_fields = lg_fields l @ keysAndValues, le_err = None, le_msg = msg\<rparr>"

definition LogrSink_Error :: "Logger \<Rightarrow> go_error \<Rightarrow> string \<Rightarrow> (string \<times> string) list \<Rightarrow> log_event" where
  "LogrSink_Error l err msg keysAndValues =
    \<lparr>le_level = ErrorLevel, le_fields = lg_fields l @ keysAndValues, le_err = Some err, le_msg = msg\<rparr>"

definition LogrSink_WithValues :: "Logger \<Rightarrow> (string \<times> string) list \<Rightarrow> Logger" where
  "LogrSink_WithValues l keysAndValues = l\<lparr>lg_fields := lg_fields l @ keysAndValues\<rparr>"

definition LogrSink_WithName :: "Logger \<Rightarrow> string \<Rightarrow> Logger" where
  "LogrSink_WithName l name = withStr LoggerNameKey name l"

section \<open>Their behaviour\<close>

text \<open>A message of a reconciliation names its object: the request is attached exactly if there is nothing else.\<close>

lemma New_logger_fields:
  "lg_fields (New_logger ctx name) =
    (LoggerNameKey, name)
    # (case lc_node ctx of Some n \<Rightarrow> [(''node.namespace'', n_Namespace n), (''node.name'', n_Name n)] | None \<Rightarrow> [])
    @ (case lc_cluster ctx of Some c \<Rightarrow> [(''cluster.namespace'', c_Namespace c), (''cluster.name'', c_Name c)] | None \<Rightarrow> [])
    @ (if lc_node ctx = None \<and> lc_cluster ctx = None
       then (case lc_request ctx of Some (ns, n) \<Rightarrow> [(''request.namespace'', ns), (''request.name'', n)] | None \<Rightarrow> [])
       else [])"
  by (simp add: New_logger_def withStr_def saneDefaultLogger_def split: option.splits prod.splits)

lemma int8_id: "-128 \<le> i \<Longrightarrow> i < 128 \<Longrightarrow> int8 i = i"
  by (simp add: int8_def)

text \<open>
  A message of verbosity \<open>level\<close> is sent at or above the level of the logger up to some
  verbosity, and enabled from some verbosity on: the test of \<^verbatim>\<open>Enabled\<close> is the wrong way
  round. At the Info level of a logger all messages are enabled, also those sent at Debug.
\<close>

theorem LogrSink_Enabled_inverted:
  assumes "0 \<le> level" and "level \<le> 100" and "-1 \<le> lg_level l" and "lg_level l \<le> 5"
  shows "LogrSink_Enabled l level \<longleftrightarrow> lg_level l - 1 \<le> level"
    and "lg_level l \<le> le_level (LogrSink_Info l level msg kvs) \<longleftrightarrow> level \<le> 1 - lg_level l"
  using assms
  by (auto simp: LogrSink_Enabled_def LogrSink_Info_def InfoLevel_def int8_id Let_def)

end
