(* ===== verification/Spec2Isabelle.thy ===== *)
theory Spec2Isabelle
  imports Watches ClusterReconcile PluginTools Manager Logging
begin

text \<open>
  A model of the Talos operator (\<^verbatim>\<open>RTLDeutschland/talos-operator\<close>), a Kubernetes operator
  written in Go that manages the machines of Talos Linux clusters. A Cluster object
  describes a Talos cluster, a Node object one of its machines. An operation (Reboot,
  Apply, Upgrade, Reset, ...) is requested on an object, copied to its status by the
  controller of the object, and carried out over many reconciliations, in phases recorded
  in the status.

  \<^bold>\<open>Parts and their interaction.\<close> The node controller carries out operations on machines:
  it calls the Talos API of the machine and, for drains and uncordons, the Kubernetes API
  of the managed cluster. The cluster controller carries out operations on clusters: it
  makes a plan of node operations, starts one after the other by writing the status of the
  node, and waits for the node controller to finish it. Both keep conditions up to date;
  the cluster controller also starts operations on its own (bootstrap, maintenance
  windows) and derives secrets. Handlers that take machines down exclude each other by a
  mutex per cluster and a look at the other nodes. The manager process wires the two
  controllers to one mutex map. The kubectl plugin requests operations by patching objects
  through kubectl, watches them, creates objects, and runs other tools with the credentials
  of a cluster.

  \<^bold>\<open>The theories\<close>, each of which opens with what it holds:

  \<^item> \<open>Prelude\<close>: Go errors and panics as outcomes, the state monad of the controllers with
    its rules, the locale of preorders along which programs step, list lemmas.
  \<^item> \<open>Constants\<close>: the constants of \<^verbatim>\<open>api/v1alpha1/constants\<close>, by their names.
  \<^item> \<open>GoStd\<close>: what is used of the standard library (strings, \<^verbatim>\<open>strings.Cut\<close>,
    \<^verbatim>\<open>path.Base\<close>, maps, sorting, int64 durations and \<^verbatim>\<open>time.ParseDuration\<close>).
  \<^item> \<open>Api_Types\<close>: \<^verbatim>\<open>api/v1alpha1\<close>, Node and Cluster as records, with their methods.
  \<^item> \<open>KeyedMutex\<close>: \<^verbatim>\<open>internal/keyedmutex\<close>, the locale of keyed locks and its client lemmas.
  \<^item> \<open>Effects\<close>: the calls that leave the process, the third-party functions, the
    environment that answers, the state of a controller; \<open>Guards\<close>: what has to have
    happened before a call; \<open>Triples\<close>: pre- and postconditions; \<open>Demo\<close>: a concrete
    environment for examples.
  \<^item> \<open>TalosUtils\<close>: \<^verbatim>\<open>internal/utils/talos.go\<close> and \<^verbatim>\<open>helpers_talos.go\<close>; \<open>MachineConfig\<close>:
    \<^verbatim>\<open>helpers_talos_config.go\<close>; \<open>NodeHelpers\<close>: \<^verbatim>\<open>helpers_node_controller.go\<close>, the guard of
    the handlers and the locale of their contract; \<open>K8sHelpers\<close>: \<^verbatim>\<open>helpers_k8s.go\<close>.
  \<^item> \<open>NodePower\<close>, \<open>NodeReset\<close>, \<open>NodeUpgrade\<close>, \<open>NodeApply\<close>, \<open>NodeK8sUpgrade\<close>,
    \<open>NodeBootstrap\<close>, \<open>NodeProvision\<close>, \<open>NodeStatus\<close>: the files
    \<^verbatim>\<open>node_controller_*.go\<close>; \<open>NodeReconcile\<close> and \<open>Watches\<close>: \<^verbatim>\<open>node_controller.go\<close>.
  \<^item> \<open>ClusterHelpers\<close>: \<^verbatim>\<open>helpers_cluster_controller.go\<close>; \<open>ClusterSubop\<close>, \<open>ClusterOps\<close>,
    \<open>ClusterStatus\<close>, \<open>ClusterSecrets\<close>: the files \<^verbatim>\<open>cluster_controller_*.go\<close>;
    \<open>ClusterReconcile\<close>: \<^verbatim>\<open>cluster_controller.go\<close>.
  \<^item> \<open>Json\<close> and \<open>Codecs\<close>: \<^verbatim>\<open>encoding/json\<close>, UTF-8, base64 and \<^verbatim>\<open>strconv.Atoi\<close>,
    with their round trips. \<open>Plugin\<close>: \<^verbatim>\<open>cmd/kubectl-talos/helpers.go\<close>, the watch loop and
    temporary files; \<open>PluginOps\<close>: the commands that request operations, and the reading of
    operations from JSON by the tags of the API types; \<open>PluginCreate\<close>:
    \<^verbatim>\<open>cmd_create.go\<close>; \<open>PluginTools\<close>: \<^verbatim>\<open>cmd_kubectl.go\<close>, \<^verbatim>\<open>cmd_talosctl*.go\<close> and
    the commands of \<^verbatim>\<open>main.go\<close>.
  \<^item> \<open>Manager\<close>: \<^verbatim>\<open>cmd/manager/main.go\<close>; \<open>Logging\<close>: \<^verbatim>\<open>internal/logz\<close>.

  All Go files named without a directory are under \<^verbatim>\<open>src/internal/controller\<close>. A definition
  has the name of the function it models; a part of a long function has a name of its own
  and, where it does not follow from the text, the lines in a comment. Methods that both
  reconcilers have carry the suffix \<open>_cluster\<close> for the cluster.

  \<^bold>\<open>How programs are modelled.\<close> A function that acts is a state transformer with an outcome:
  a value, an error, or a panic (a nil pointer that is dereferenced, an index out of
  range). Its state holds the calls made so far, the Node and the Cluster its context
  points to (which a refresh replaces, as in the code), the mutexes and the client caches.
  Every call is recorded, and answered by an arbitrary function of the calls before, so
  that a theorem holds for every behaviour of the API server, the machines, the managed
  cluster, the clock and the network, other writers, conflicts and failures included.
  Third-party functions that compute are arbitrary too; what is assumed of them is stated
  by name: \<open>echoes\<close> and \<open>named\<close> (the API server answers a status write with the status
  written, and a read with the object asked for), \<open>cron_later\<close> (the next activation of a
  schedule is later than the time given). A requeue is its delay in nanoseconds, the empty
  result \<open>None\<close>. Durations wrap at int64 where the code adds them; times are unbounded
  and the zero time is 0.

  \<^bold>\<open>What is shown.\<close> For every node operation that has phases, that it moves along them only
  and does to machine and workloads only what belongs to its phase (locale
  \<open>guarded_operation\<close>, interpreted for power, reset, apply and component upgrade); the
  safety of the steps that cannot be undone (finalizers, reboots, drains, configuration
  writes), as statements on what was answered before a call; that handlers exclude each
  other and always release the mutex; the order of patches and the namespaces they may
  come from; the parsers. For cluster operations, under which conditions and with which
  plan they start (locale \<open>planned_operation\<close>, interpreted for the four of them), that
  working on a plan refines the step relation \<open>subop_step\<close>, that plans stay in order
  across reconciliations, that the cluster controller acts on machines only through node
  operations, and when it starts operations or writes secrets of its own accord (locale
  \<open>secret_mutator\<close>, interpreted for the three secrets). The mutex map is a set of locked
  keys (locale \<open>keyed_locks\<close>). For the plugin, that what a command sends reads back as the
  operation asked for and is one that the controllers handle, when the watch returns, that
  temporary files are removed (an interpretation of the locale of preorders), which routes
  are understood and what is created, and that no command indexes its arguments out of
  range; for the manager, that both controllers share one mutex map. Theorems also pin down behaviour that looks unintended:
  the unsafe Apply that never gets to reboot, the inferred reset mode that is lost, the
  control plane machine that blocks its cluster.

  \<^bold>\<open>Bounds and fuel.\<close> The loop of \<^verbatim>\<open>ParseDuration\<close> runs on fuel, the length of its input,
  which is enough since every element consumes a character (\<open>duration_loop_fuel\<close>). The
  retries on conflicts and with backoff are bounded by \<open>e_retries\<close> and
  \<open>e_backoff_retries\<close>, any numbers. The reader of JSON runs on fuel, the length of the text,
  which is enough for every text that \<^verbatim>\<open>json.Marshal\<close> writes (\<open>Marshal_comes_back\<close>). The
  watch loop of the plugin may run forever and is an option; when it returns is a theorem. A stream is the finite list of its messages and the
  error that ends it.

  \<^bold>\<open>What is simplified.\<close> Evictions, which the code starts concurrently and joins, are made
  one after the other. The fraction of a duration is computed exactly where Go uses
  float64. \<^verbatim>\<open>slices.SortFunc\<close> is insertion sort; names are unique, so that its instability
  does not matter. Of ObjectMeta, events, pods and Kubernetes nodes the records keep what
  the program reads or writes. Numbers in JSON are whole numbers. A command of the plugin gets
  its flags and arguments as cobra has parsed them. The exit of the manager process when
  there is no configuration is an error of the call that makes the manager. Quoting with \<^verbatim>\<open>%q\<close> does not escape.

  \<^bold>\<open>Not modelled.\<close> What is logged by the controllers, closing of clients, context timeouts,
  the texts of events, the locks of the client caches, the registration
  of watches by \<^verbatim>\<open>SetupWithManager\<close> (its map functions are), the declaration of the flags of the plugin (cobra), and the generated
  deep copies.
\<close>

section \<open>Node operations exclude each other\<close>


text \<open>The mutex of the cluster is taken, and a reboot waits.\<close>

definition demo_locked :: st where
  "demo_locked = demo_st\<lparr>st_mutex := snd (TryLock NewMutexMap (mutexKey demo_cluster)),
    st_node := (demo_node ''n1'' NodeRoleWorker)\<lparr>n_Status := demo_status\<lparr>nst_Operation :=
      Some (demo_op NodeOperationTypeReboot NodeOperationPhasePending)\<rparr>\<rparr>\<rparr>"


section \<open>What the cluster controller asks of the node controller\<close>

text \<open>A node operation that the node controller has a handler for.\<close>

definition handled :: "NodeOperation \<Rightarrow> bool" where
  "handled op \<longleftrightarrow>
    no_Type op \<in> set knownTypes \<and>
    (no_Type op = NodeOperationTypeKubernetesComponentUpgrade \<longrightarrow>
      known_component (kcu_ComponentName (no_KubernetesComponentUpgrade op)))"



section \<open>What the plugin asks of the controllers\<close>



end
